(* ===== verification/Prelude.thy ===== *)
theory Prelude
  imports Main "HOL-Library.Word"
begin

unbundle bit_operations_syntax

text \<open>
  Shared material of the development: the machine types, Rust's \<open>Result\<close> as a sum with the
  \<open>?\<close> operator as a bind, effectful functions as functions on an explicit state, and the
  collections of rewrite rules the component proofs use.

  \<^item> \<open>'e + 'a\<close> is \<open>Result<'a, 'e>\<close>; \<open>Ok\<close> and \<open>Err\<close> abbreviate the injections.
  \<^item> \<open>bind_res m (\<lambda>x. k)\<close> is \<open>let x = m?; k\<close>.
  \<^item> \<open>('s, 'e, 'a) fx\<close> is a fallible function with effects on a state \<open>'s\<close>;
    \<open>bind_fx\<close> is \<open>?\<close> there, and the state reached before an error is kept.
\<close>

named_theorems res_simps \<open>rewriting of the error-passing combinators\<close>
named_theorems fx_simps \<open>rewriting of the effectful combinators\<close>

type_synonym u8 = "8 word"
type_synonym u16 = "16 word"
type_synonym u32 = "32 word"
type_synonym u64 = "64 word"
type_synonym bytes = "u8 list"

text \<open>A Rust string: its UTF-8 bytes, one \<open>char\<close> (8 bits) per byte.\<close>

type_synonym str = string

subsection \<open>Results\<close>

abbreviation Ok :: "'a \<Rightarrow> 'e + 'a" where "Ok \<equiv> Inr"
abbreviation Err :: "'e \<Rightarrow> 'e + 'a" where "Err \<equiv> Inl"

definition bind_res :: "'e + 'a \<Rightarrow> ('a \<Rightarrow> 'e + 'b) \<Rightarrow> 'e + 'b" where
  "bind_res m k = (case m of Inl e \<Rightarrow> Inl e | Inr x \<Rightarrow> k x)"

definition map_err :: "('e \<Rightarrow> 'f) \<Rightarrow> 'e + 'a \<Rightarrow> 'f + 'a" where
  "map_err f m = (case m of Inl e \<Rightarrow> Inl (f e) | Inr x \<Rightarrow> Inr x)"

definition ensure :: "bool \<Rightarrow> 'e \<Rightarrow> 'e + unit" where
  "ensure b e = (if b then Inr () else Inl e)"

definition ok_or :: "'a option \<Rightarrow> 'e \<Rightarrow> 'e + 'a" where
  "ok_or x e = (case x of None \<Rightarrow> Inl e | Some a \<Rightarrow> Inr a)"

definition is_ok :: "'e + 'a \<Rightarrow> bool" where
  "is_ok m = (case m of Inl e \<Rightarrow> False | Inr x \<Rightarrow> True)"

lemma bind_res_simps [simp, res_simps]:
  "bind_res (Ok x) k = k x"
  "bind_res (Err e) k = Err e"
  by (simp_all add: bind_res_def)

lemma bind_res_eq_Ok [res_simps]:
  "bind_res m k = Ok y \<longleftrightarrow> (\<exists>x. m = Ok x \<and> k x = Ok y)"
  by (cases m) auto

lemma bind_res_eq_Err [res_simps]:
  "bind_res m k = Err e \<longleftrightarrow> m = Err e \<or> (\<exists>x. m = Ok x \<and> k x = Err e)"
  by (cases m) auto

lemma map_err_simps [simp, res_simps]:
  "map_err f (Ok x) = Ok x"
  "map_err f (Err e) = Err (f e)"
  by (simp_all add: map_err_def)

lemma map_err_eq_Ok [simp, res_simps]: "map_err f m = Ok x \<longleftrightarrow> m = Ok x"
  by (cases m) auto

lemma map_err_eq_Err [res_simps]: "map_err f m = Err e \<longleftrightarrow> (\<exists>e'. m = Err e' \<and> e = f e')"
  by (cases m) auto

lemma ensure_eq_Ok [simp, res_simps]: "ensure b e = Ok u \<longleftrightarrow> b"
  by (simp add: ensure_def)

lemma ensure_eq_Err [simp, res_simps]: "ensure b e = Err e' \<longleftrightarrow> \<not> b \<and> e' = e"
  by (auto simp: ensure_def)

lemma ensure_simps [simp]:
  "ensure True e = Ok ()"
  "ensure False e = Err e"
  by (simp_all add: ensure_def)

lemma ok_or_simps [simp, res_simps]:
  "ok_or (Some x) e = Ok x"
  "ok_or None e = Err e"
  by (simp_all add: ok_or_def)

lemma ok_or_eq_Ok [simp, res_simps]: "ok_or m e = Ok x \<longleftrightarrow> m = Some x"
  by (cases m) auto

lemma ok_or_eq_Err [simp, res_simps]: "ok_or m e = Err e' \<longleftrightarrow> m = None \<and> e' = e"
  by (cases m) auto

lemma is_ok_simps [simp]: "is_ok (Ok x)" "\<not> is_ok (Err e)"
  by (simp_all add: is_ok_def)

lemma is_ok_iff: "is_ok m \<longleftrightarrow> (\<exists>x. m = Ok x)"
  by (cases m) auto

lemma not_is_ok_iff: "\<not> is_ok m \<longleftrightarrow> (\<exists>e. m = Err e)"
  by (cases m) auto

text \<open>Collecting an iterator of results: the first error wins.\<close>

fun collect_res :: "('e + 'a) list \<Rightarrow> 'e + 'a list" where
  "collect_res [] = Ok []"
| "collect_res (r # rs) = bind_res r (\<lambda>x. bind_res (collect_res rs) (\<lambda>xs. Ok (x # xs)))"

lemma collect_res_Ok: "collect_res rs = Ok xs \<longleftrightarrow> rs = map Ok xs"
proof (induction rs arbitrary: xs)
  case Nil
  then show ?case by auto
next
  case (Cons r rs)
  then show ?case by (cases r; cases xs) (auto simp: bind_res_eq_Ok)
qed

lemma collect_res_Err_mem: "collect_res rs = Err e \<Longrightarrow> Err e \<in> set rs"
  by (induction rs) (auto simp: bind_res_eq_Err)

subsection \<open>Effects on an explicit state\<close>

type_synonym ('s, 'e, 'a) fx = "'s \<Rightarrow> ('e + 'a) \<times> 's"

definition ret_fx :: "'a \<Rightarrow> ('s, 'e, 'a) fx" where
  "ret_fx x = (\<lambda>s. (Ok x, s))"

definition fail_fx :: "'e \<Rightarrow> ('s, 'e, 'a) fx" where
  "fail_fx e = (\<lambda>s. (Err e, s))"

definition lift_fx :: "'e + 'a \<Rightarrow> ('s, 'e, 'a) fx" where
  "lift_fx m = (\<lambda>s. (m, s))"

definition bind_fx :: "('s, 'e, 'a) fx \<Rightarrow> ('a \<Rightarrow> ('s, 'e, 'b) fx) \<Rightarrow> ('s, 'e, 'b) fx" where
  "bind_fx m k = (\<lambda>s. case m s of (Inl e, s') \<Rightarrow> (Inl e, s') | (Inr x, s') \<Rightarrow> k x s')"

definition map_err_fx :: "('e \<Rightarrow> 'f) \<Rightarrow> ('s, 'e, 'a) fx \<Rightarrow> ('s, 'f, 'a) fx" where
  "map_err_fx f m = (\<lambda>s. case m s of (r, s') \<Rightarrow> (map_err f r, s'))"

text \<open>\<open>match m { Ok(x) => k x, Err(e) => h e }\<close>.\<close>

definition match_fx ::
  "('s, 'e, 'a) fx \<Rightarrow> ('e \<Rightarrow> ('s, 'f, 'b) fx) \<Rightarrow> ('a \<Rightarrow> ('s, 'f, 'b) fx) \<Rightarrow> ('s, 'f, 'b) fx" where
  "match_fx m h k = (\<lambda>s. case m s of (Inl e, s') \<Rightarrow> h e s' | (Inr x, s') \<Rightarrow> k x s')"

lemma fx_run [simp, fx_simps]:
  "ret_fx x s = (Ok x, s)"
  "fail_fx e s = (Err e, s)"
  "lift_fx m s = (m, s)"
  by (simp_all add: ret_fx_def fail_fx_def lift_fx_def)

lemma bind_fx_run [fx_simps]:
  "m s = (Err e, s') \<Longrightarrow> bind_fx m k s = (Err e, s')"
  "m s = (Ok x, s') \<Longrightarrow> bind_fx m k s = k x s'"
  by (simp_all add: bind_fx_def)

lemma bind_fx_pure [simp, fx_simps]:
  "bind_fx (ret_fx x) k s = k x s"
  "bind_fx (fail_fx e) k s = (Err e, s)"
  "bind_fx (lift_fx (Ok x)) k s = k x s"
  "bind_fx (lift_fx (Err e)) k s = (Err e, s)"
  by (simp_all add: bind_fx_def)

lemma bind_fx_lift:
  "bind_fx (lift_fx m) k s = (case m of Inl e \<Rightarrow> (Inl e, s) | Inr x \<Rightarrow> k x s)"
  by (cases m) simp_all

lemma bind_fx_eq_Ok [fx_simps]:
  "bind_fx m k s = (Ok y, t) \<longleftrightarrow> (\<exists>x u. m s = (Ok x, u) \<and> k x u = (Ok y, t))"
  by (auto simp: bind_fx_def split: prod.splits sum.splits)

lemma bind_fx_eq_Err [fx_simps]:
  "bind_fx m k s = (Err e, t) \<longleftrightarrow>
     m s = (Err e, t) \<or> (\<exists>x u. m s = (Ok x, u) \<and> k x u = (Err e, t))"
  by (auto simp: bind_fx_def split: prod.splits sum.splits)

lemma map_err_fx_eq_Ok [simp, fx_simps]: "map_err_fx f m s = (Ok x, t) \<longleftrightarrow> m s = (Ok x, t)"
  by (auto simp: map_err_fx_def split: prod.splits)

lemma map_err_fx_eq_Err [fx_simps]:
  "map_err_fx f m s = (Err e, t) \<longleftrightarrow> (\<exists>e'. m s = (Err e', t) \<and> e = f e')"
  by (auto simp: map_err_fx_def map_err_eq_Err split: prod.splits)

text \<open>
  A state predicate every effect keeps: used for "this code never does X" properties. Closed
  under the combinators, so a handler keeps it when each of its primitive operations does.
\<close>

definition keeps :: "('s \<Rightarrow> 's \<Rightarrow> bool) \<Rightarrow> ('s, 'e, 'a) fx \<Rightarrow> bool" where
  "keeps R m \<longleftrightarrow> (\<forall>s. R s (snd (m s)))"

lemma keepsI: "(\<And>s r t. m s = (r, t) \<Longrightarrow> R s t) \<Longrightarrow> keeps R m"
  by (metis keeps_def prod.collapse)

lemma keepsD: "keeps R m \<Longrightarrow> m s = (r, t) \<Longrightarrow> R s t"
  unfolding keeps_def by (metis snd_conv)

lemma keeps_pure [intro]:
  assumes "reflp R"
  shows "keeps R (ret_fx x)" "keeps R (fail_fx e)" "keeps R (lift_fx m)"
  using assms by (simp_all add: keeps_def reflp_def)

lemma keeps_bind [intro]:
  assumes "transp R" and "keeps R m" and "\<And>x. keeps R (k x)"
  shows "keeps R (bind_fx m k)"
proof (rule keepsI)
  fix s r t assume run: "bind_fx m k s = (r, t)"
  obtain r' u where m: "m s = (r', u)" by fastforce
  have su: "R s u" using assms(2) m by (rule keepsD)
  show "R s t"
  proof (cases r')
    case (Inl e)
    with run m su show ?thesis by (simp add: bind_fx_def)
  next
    case (Inr x)
    with run m have "k x u = (r, t)" by (simp add: bind_fx_def)
    with assms(3) have "R u t" by (rule keepsD)
    with su assms(1) show ?thesis by (blast dest: transpD)
  qed
qed

lemma keeps_match [intro]:
  assumes "transp R" and "keeps R m" and "\<And>e. keeps R (h e)" and "\<And>x. keeps R (k x)"
  shows "keeps R (match_fx m h k)"
proof (rule keepsI)
  fix s r t assume run: "match_fx m h k s = (r, t)"
  obtain r' u where m: "m s = (r', u)" by fastforce
  have su: "R s u" using assms(2) m by (rule keepsD)
  have "R u t"
    using run m by (cases r') (auto simp: match_fx_def dest: keepsD [OF assms(3)] keepsD [OF assms(4)])
  with su assms(1) show "R s t" by (blast dest: transpD)
qed

lemma keeps_map_err [intro]: "keeps R m \<Longrightarrow> keeps R (map_err_fx f m)"
  by (simp add: keeps_def map_err_fx_def split: prod.splits) (metis snd_conv)

subsection \<open>Lists\<close>

lemma take_append_exact [simp]: "take (length xs) (xs @ ys) = xs" "drop (length xs) (xs @ ys) = ys"
  by simp_all

lemma list_all_take_drop: "list_all P xs \<Longrightarrow> list_all P (take n xs) \<and> list_all P (drop n xs)"
  by (metis append_take_drop_id list_all_append)

text \<open>\<open>Vec::swap_remove\<close>: \<open>None\<close> is the panic on an index out of bounds.\<close>

definition swap_remove :: "nat \<Rightarrow> 'a list \<Rightarrow> ('a \<times> 'a list) option" where
  "swap_remove i xs =
     (if i < length xs then Some (xs ! i, butlast (xs[i := last xs])) else None)"

end
