(* ===== verification/Bytes.thy ===== *)
theory Bytes
  imports Prelude
begin

text \<open>
  Little-endian encodings (\<open>to_le_bytes\<close>, \<open>from_le_bytes\<close> of Rust's integers) and the
  interface of a prefix code: an encoder and a decoder that takes a value off the front of a
  byte string. The facts every format of the repository needs (injectivity, prefix-freeness,
  rejection of truncated and extended input) are proved once in the locale.
\<close>

subsection \<open>Integers as little-endian bytes\<close>

fun le_encode :: "nat \<Rightarrow> 'a::len word \<Rightarrow> bytes" where
  "le_encode 0 w = []"
| "le_encode (Suc n) w = ucast w # le_encode n (drop_bit 8 w)"

fun le_decode :: "bytes \<Rightarrow> 'a::len word" where
  "le_decode [] = 0"
| "le_decode (b # bs) = ucast b OR push_bit 8 (le_decode bs)"

lemma length_le_encode [simp]: "length (le_encode n w) = n"
  by (induction n arbitrary: w) auto

lemma le_decode_encode_take: "le_decode (le_encode n w) = take_bit (8 * n) w"
proof (induction n arbitrary: w)
  case 0
  then show ?case by simp
next
  case (Suc n)
  show ?case
    by (rule bit_word_eqI)
      (auto simp: Suc.IH bit_or_iff bit_push_bit_iff bit_take_bit_iff bit_drop_bit_eq
        bit_unsigned_iff not_le add.commute)
qed

lemma le_decode_encode:
  "LENGTH('a) \<le> 8 * n \<Longrightarrow> le_decode (le_encode n (w :: 'a::len word)) = w"
  by (simp add: le_decode_encode_take take_bit_word_eq_self)

lemma bit_le_decode_high:
  "bit (le_decode bs :: 'a::len word) i \<Longrightarrow> i < 8 * length bs"
proof (induction bs arbitrary: i)
  case Nil
  then show ?case by simp
next
  case (Cons b bs)
  then show ?case
    by (cases "i < 8")
      (auto simp: bit_or_iff bit_push_bit_iff bit_unsigned_iff dest: bit_imp_le_length Cons.IH)
qed

lemma le_encode_decode:
  "8 * length bs \<le> LENGTH('a) \<Longrightarrow> le_encode (length bs) (le_decode bs :: 'a::len word) = bs"
proof (induction bs)
  case Nil
  then show ?case by simp
next
  case (Cons b bs)
  let ?x = "le_decode bs :: 'a word"
  have len: "8 \<le> LENGTH('a)" "8 * length bs + 8 \<le> LENGTH('a)" using Cons.prems by auto
  have "ucast (ucast b OR push_bit 8 ?x :: 'a word) = b"
    by (rule bit_word_eqI)
      (use len in \<open>auto simp: bit_or_iff bit_push_bit_iff bit_unsigned_iff\<close>)
  moreover have "drop_bit 8 (ucast b OR push_bit 8 ?x :: 'a word) = ?x"
  proof (rule bit_word_eqI)
    fix i assume "i < LENGTH('a)"
    have "\<not> bit b (8 + i)" by (auto dest: bit_imp_le_length)
    then show "bit (drop_bit 8 (ucast b OR push_bit 8 ?x :: 'a word)) i = bit ?x i"
      using len bit_le_decode_high [of bs i, where 'a = 'a]
      by (auto simp: bit_drop_bit_eq bit_or_iff bit_push_bit_iff bit_unsigned_iff)
  qed
  ultimately show ?case using Cons by simp
qed

subsection \<open>Taking bytes off the front\<close>

text \<open>The cursor of a strict parser: \<open>take(rest, len)\<close> of \<open>parse_cache_blob\<close>.\<close>

definition take_bytes :: "'e \<Rightarrow> nat \<Rightarrow> bytes \<Rightarrow> 'e + (bytes \<times> bytes)" where
  "take_bytes e n rest = (if n \<le> length rest then Ok (take n rest, drop n rest) else Err e)"

lemma take_bytes_append [simp]: "length xs = n \<Longrightarrow> take_bytes e n (xs @ ys) = Ok (xs, ys)"
  by (auto simp: take_bytes_def)

lemma take_bytes_Ok:
  "take_bytes e n bs = Ok (xs, ys) \<longleftrightarrow> bs = xs @ ys \<and> length xs = n"
  by (auto simp: take_bytes_def)

lemma take_bytes_Err: "take_bytes e n bs = Err e' \<longleftrightarrow> length bs < n \<and> e' = e"
  by (auto simp: take_bytes_def)

subsection \<open>Prefix codes\<close>

locale prefix_code =
  fixes enc :: "'v \<Rightarrow> bytes"
    and dec :: "bytes \<Rightarrow> 'e + ('v \<times> bytes)"
    and valid :: "'v \<Rightarrow> bool"
  assumes dec_enc: "valid v \<Longrightarrow> dec (enc v @ rest) = Ok (v, rest)"
    and enc_dec: "dec bs = Ok (v, rest) \<Longrightarrow> valid v \<and> bs = enc v @ rest"

context prefix_code
begin

lemma enc_inject:
  assumes "valid v" "valid w" "enc v @ r = enc w @ s"
  shows "v = w \<and> r = s"
proof -
  have "Ok (v, r) = dec (enc v @ r)" by (rule dec_enc [OF assms(1), symmetric])
  also have "\<dots> = dec (enc w @ s)" by (rule arg_cong [OF assms(3)])
  also have "\<dots> = Ok (w, s)" by (rule dec_enc [OF assms(2)])
  finally show ?thesis by blast
qed

lemma dec_iff: "dec bs = Ok (v, rest) \<longleftrightarrow> valid v \<and> bs = enc v @ rest"
  by (metis dec_enc enc_dec)

lemma dec_unique_rest:
  assumes "dec bs = Ok (v, [])" "dec (bs @ more) = Ok (w, [])"
  shows "more = []"
proof -
  have v: "valid v" "bs = enc v @ []" using enc_dec [OF assms(1)] by auto
  have w: "valid w" "bs @ more = enc w @ []" using enc_dec [OF assms(2)] by auto
  from v w have "enc v @ more = enc w @ []" by simp
  with v(1) w(1) show ?thesis using enc_inject by blast
qed

text \<open>A code word cut short is not a code word: no strict prefix decodes completely.\<close>

lemma truncated_rejected:
  assumes "dec bs = Ok (v, [])" "k < length bs"
  shows "dec (take k bs) \<noteq> Ok (w, [])"
proof
  assume "dec (take k bs) = Ok (w, [])"
  moreover have "dec (take k bs @ drop k bs) = Ok (v, [])" using assms(1) by simp
  ultimately have "drop k bs = []" by (rule dec_unique_rest)
  with assms(2) show False by simp
qed

end

text \<open>The integers.\<close>

definition dec_le :: "'e \<Rightarrow> nat \<Rightarrow> bytes \<Rightarrow> 'e + ('a::len word \<times> bytes)" where
  "dec_le e n bs = bind_res (take_bytes e n bs) (\<lambda>(h, t). Ok (le_decode h, t))"

lemma prefix_code_le:
  assumes "LENGTH('a) = 8 * n"
  shows "prefix_code (le_encode n :: 'a::len word \<Rightarrow> bytes) (dec_le e n) (\<lambda>_. True)"
proof
  fix v :: "'a word" and rest
  show "dec_le e n (le_encode n v @ rest) = Ok (v, rest)"
    using assms by (simp add: dec_le_def le_decode_encode)
next
  fix bs :: bytes and v :: "'a word" and rest
  assume "dec_le e n bs = Ok (v, rest)"
  then obtain h where "bs = h @ rest" "length h = n" "v = le_decode h"
    by (auto simp: dec_le_def bind_res_eq_Ok take_bytes_Ok)
  then show "True \<and> bs = le_encode n v @ rest"
    using assms le_encode_decode [of h, where 'a = 'a] by simp
qed

interpretation le16: prefix_code "le_encode 2 :: u16 \<Rightarrow> bytes" "dec_le e 2" "\<lambda>_. True"
  by (rule prefix_code_le) simp

interpretation le32: prefix_code "le_encode 4 :: u32 \<Rightarrow> bytes" "dec_le e 4" "\<lambda>_. True"
  by (rule prefix_code_le) simp

interpretation le64: prefix_code "le_encode 8 :: u64 \<Rightarrow> bytes" "dec_le e 8" "\<lambda>_. True"
  by (rule prefix_code_le) simp

subsection \<open>Sequencing two prefix codes\<close>

definition dec_seq ::
  "(bytes \<Rightarrow> 'e + ('a \<times> bytes)) \<Rightarrow> (bytes \<Rightarrow> 'e + ('b \<times> bytes)) \<Rightarrow> bytes \<Rightarrow> 'e + (('a \<times> 'b) \<times> bytes)" where
  "dec_seq d1 d2 bs =
     bind_res (d1 bs) (\<lambda>(a, r). bind_res (d2 r) (\<lambda>(b, r'). Ok ((a, b), r')))"

locale prefix_code_pair =
  one: prefix_code enc1 dec1 valid1 + two: prefix_code enc2 dec2 valid2
  for enc1 :: "'v \<Rightarrow> bytes" and dec1 :: "bytes \<Rightarrow> 'e + ('v \<times> bytes)" and valid1
    and enc2 :: "'w \<Rightarrow> bytes" and dec2 :: "bytes \<Rightarrow> 'e + ('w \<times> bytes)" and valid2

sublocale prefix_code_pair \<subseteq> seq: prefix_code
  "\<lambda>(a, b). enc1 a @ enc2 b" "dec_seq dec1 dec2" "\<lambda>(a, b). valid1 a \<and> valid2 b"
proof
  fix v rest
  assume "case v of (a, b) \<Rightarrow> valid1 a \<and> valid2 b"
  then show "dec_seq dec1 dec2 ((case v of (a, b) \<Rightarrow> enc1 a @ enc2 b) @ rest) = Ok (v, rest)"
    by (auto simp: dec_seq_def one.dec_enc two.dec_enc split: prod.splits)
next
  fix bs v rest
  assume "dec_seq dec1 dec2 bs = Ok (v, rest)"
  then show "(case v of (a, b) \<Rightarrow> valid1 a \<and> valid2 b) \<and>
      bs = (case v of (a, b) \<Rightarrow> enc1 a @ enc2 b) @ rest"
    by (auto simp: dec_seq_def bind_res_eq_Ok dest!: one.enc_dec two.enc_dec)
qed

end
