(* ===== verification/RustStr.thy ===== *)
theory RustStr
  imports Bytes
begin

text \<open>
  The parts of Rust's string library the program uses, on strings represented by their UTF-8
  bytes: \<open>as_bytes\<close>, \<open>from_utf8\<close>, \<open>trim\<close>, \<open>split_once\<close>, \<open>parse::<u64>\<close>,
  \<open>u8::from_str_radix\<close>, the formats \<open>{}\<close> of an integer and \<open>{:02x}\<close> of a byte,
  \<open>is_ascii_hexdigit\<close> and \<open>eq_ignore_ascii_case\<close>.
\<close>

named_theorems str_simps \<open>evaluation of the string library\<close>

subsection \<open>Bytes and characters\<close>

definition byte_of :: "char \<Rightarrow> u8" where
  "byte_of c = of_char c"

definition char_of_byte :: "u8 \<Rightarrow> char" where
  "char_of_byte b = char_of (unat b)"

definition as_bytes :: "str \<Rightarrow> bytes" where
  "as_bytes s = map byte_of s"

definition of_bytes :: "bytes \<Rightarrow> str" where
  "of_bytes bs = map char_of_byte bs"

lemma unat_byte_of [simp]: "unat (byte_of c) = of_char c"
proof -
  have "byte_of c = word_of_nat (of_char c)" by (simp only: byte_of_def of_nat_of_char)
  moreover have "(of_char c :: nat) < 256"
    by (metis of_char_mod_256 mod_less_divisor zero_less_numeral)
  ultimately show ?thesis by (simp add: unat_of_nat)
qed

lemma char_of_byte_of [simp]: "char_of_byte (byte_of c) = c"
  by (simp add: char_of_byte_def)

lemma byte_of_char_of [simp]: "byte_of (char_of_byte b) = b"
proof (rule word_unat_eq_iff [THEN iffD2])
  have "unat b < 256" using unsigned_less [of b] by simp
  then show "unat (byte_of (char_of_byte b)) = unat b" by (simp add: char_of_byte_def)
qed

lemma byte_of_inject [simp]: "byte_of c = byte_of d \<longleftrightarrow> c = d"
  by (metis char_of_byte_of)

lemma of_bytes_as_bytes [simp]: "of_bytes (as_bytes s) = s"
  by (induction s) (simp_all add: of_bytes_def as_bytes_def)

lemma as_bytes_of_bytes [simp]: "as_bytes (of_bytes bs) = bs"
  by (induction bs) (simp_all add: of_bytes_def as_bytes_def)

lemma length_as_bytes [simp]: "length (as_bytes s) = length s"
  by (simp add: as_bytes_def)

lemma length_of_bytes [simp]: "length (of_bytes s) = length s"
  by (simp add: of_bytes_def)

lemma as_bytes_inject [simp]: "as_bytes s = as_bytes t \<longleftrightarrow> s = t"
  by (metis of_bytes_as_bytes)

lemma as_bytes_append [simp]: "as_bytes (s @ t) = as_bytes s @ as_bytes t"
  by (simp add: as_bytes_def)

lemma as_bytes_Cons: "as_bytes [] = []" "as_bytes (c # s) = byte_of c # as_bytes s"
  by (simp_all add: as_bytes_def)

lemma as_bytes_Nil_iff [simp]: "as_bytes s = [] \<longleftrightarrow> s = []"
  by (simp add: as_bytes_def)

subsection \<open>UTF-8\<close>

definition byte_in :: "nat \<Rightarrow> nat \<Rightarrow> bytes \<Rightarrow> nat \<Rightarrow> bool" where
  "byte_in lo hi bs i \<longleftrightarrow> i < length bs \<and> lo \<le> unat (bs ! i) \<and> unat (bs ! i) \<le> hi"

text \<open>Number of bytes of the first well-formed character, 0 when there is none.\<close>

definition utf8_width :: "bytes \<Rightarrow> nat" where
  "utf8_width bs =
     (let cont = byte_in 0x80 0xBF bs in
      if byte_in 0 0x7F bs 0 then 1
      else if byte_in 0xC2 0xDF bs 0 \<and> cont 1 then 2
      else if byte_in 0xE0 0xE0 bs 0 \<and> byte_in 0xA0 0xBF bs 1 \<and> cont 2 then 3
      else if byte_in 0xE1 0xEC bs 0 \<and> cont 1 \<and> cont 2 then 3
      else if byte_in 0xED 0xED bs 0 \<and> byte_in 0x80 0x9F bs 1 \<and> cont 2 then 3
      else if byte_in 0xEE 0xEF bs 0 \<and> cont 1 \<and> cont 2 then 3
      else if byte_in 0xF0 0xF0 bs 0 \<and> byte_in 0x90 0xBF bs 1 \<and> cont 2 \<and> cont 3 then 4
      else if byte_in 0xF1 0xF3 bs 0 \<and> cont 1 \<and> cont 2 \<and> cont 3 then 4
      else if byte_in 0xF4 0xF4 bs 0 \<and> byte_in 0x80 0x8F bs 1 \<and> cont 2 \<and> cont 3 then 4
      else 0)"

function utf8_valid :: "bytes \<Rightarrow> bool" where
  "utf8_valid bs =
     (if bs = [] then True
      else if utf8_width bs = 0 then False
      else utf8_valid (drop (utf8_width bs) bs))"
  by pat_completeness auto
termination
  by (relation "measure length") auto

declare utf8_valid.simps [simp del]

definition from_utf8 :: "'e \<Rightarrow> bytes \<Rightarrow> 'e + str" where
  "from_utf8 e bs = (if utf8_valid bs then Ok (of_bytes bs) else Err e)"

text \<open>The invariant of Rust's \<open>str\<close>.\<close>

definition str_ok :: "str \<Rightarrow> bool" where
  "str_ok s \<longleftrightarrow> utf8_valid (as_bytes s)"

lemma from_utf8_Ok [simp]: "from_utf8 e bs = Ok s \<longleftrightarrow> utf8_valid bs \<and> bs = as_bytes s"
  by (auto simp: from_utf8_def)

lemma from_utf8_Err [simp]: "from_utf8 e bs = Err e' \<longleftrightarrow> \<not> utf8_valid bs \<and> e' = e"
  by (auto simp: from_utf8_def)

lemma from_utf8_as_bytes: "str_ok s \<Longrightarrow> from_utf8 e (as_bytes s) = Ok s"
  by (simp add: str_ok_def)

lemma utf8_valid_Nil [simp]: "utf8_valid []"
  by (subst utf8_valid.simps) simp

lemma utf8_valid_ascii_Cons [simp]:
  "unat b < 0x80 \<Longrightarrow> utf8_valid (b # bs) \<longleftrightarrow> utf8_valid bs"
  by (subst utf8_valid.simps) (simp add: utf8_width_def byte_in_def)

lemma utf8_valid_ascii: "list_all (\<lambda>b. unat b < 0x80) bs \<Longrightarrow> utf8_valid bs"
  by (induction bs) simp_all

lemma str_ok_ascii: "list_all (\<lambda>c. (of_char c :: nat) < 0x80) s \<Longrightarrow> str_ok s"
  unfolding str_ok_def by (rule utf8_valid_ascii) (simp add: as_bytes_def list_all_iff)

subsection \<open>Hexadecimal digits\<close>

definition is_ascii_hexdigit :: "u8 \<Rightarrow> bool" where
  "is_ascii_hexdigit b \<longleftrightarrow>
     (let n = unat b in 48 \<le> n \<and> n \<le> 57 \<or> 65 \<le> n \<and> n \<le> 70 \<or> 97 \<le> n \<and> n \<le> 102)"

definition is_ascii_alphanumeric :: "u8 \<Rightarrow> bool" where
  "is_ascii_alphanumeric b \<longleftrightarrow>
     (let n = unat b in 48 \<le> n \<and> n \<le> 57 \<or> 65 \<le> n \<and> n \<le> 90 \<or> 97 \<le> n \<and> n \<le> 122)"

text \<open>\<open>char::to_digit(16)\<close> on an ASCII byte.\<close>

definition hex_value :: "u8 \<Rightarrow> nat option" where
  "hex_value b =
     (let n = unat b in
      if 48 \<le> n \<and> n \<le> 57 then Some (n - 48)
      else if 65 \<le> n \<and> n \<le> 70 then Some (n - 55)
      else if 97 \<le> n \<and> n \<le> 102 then Some (n - 87)
      else None)"

lemma hex_value_None_iff: "hex_value b = None \<longleftrightarrow> \<not> is_ascii_hexdigit b"
  by (auto simp: hex_value_def is_ascii_hexdigit_def Let_def)

lemma hex_value_less: "hex_value b = Some n \<Longrightarrow> n < 16"
  by (auto simp: hex_value_def Let_def split: if_splits)

text \<open>The format \<open>{:02x}\<close> of one byte.\<close>

definition hex_digit :: "nat \<Rightarrow> u8" where
  "hex_digit n = word_of_nat (if n < 10 then 48 + n else 87 + n)"

definition hex_byte :: "u8 \<Rightarrow> str" where
  "hex_byte b = of_bytes [hex_digit (unat b div 16), hex_digit (unat b mod 16)]"

definition hex_string :: "bytes \<Rightarrow> str" where
  "hex_string bs = concat (map hex_byte bs)"

lemma unat_hex_digit: "n < 16 \<Longrightarrow> unat (hex_digit n) = (if n < 10 then 48 + n else 87 + n)"
  by (auto simp: hex_digit_def unat_of_nat)

lemma hex_value_hex_digit [simp]: "n < 16 \<Longrightarrow> hex_value (hex_digit n) = Some n"
  by (auto simp: hex_value_def unat_hex_digit Let_def)

lemma is_ascii_hexdigit_hex_digit [simp]: "n < 16 \<Longrightarrow> is_ascii_hexdigit (hex_digit n)"
  by (auto simp: is_ascii_hexdigit_def unat_hex_digit Let_def)

lemma unat_u8_less [simp]: "unat (b :: u8) < 256"
  using unsigned_less [of b] by simp

lemma unat_u8_div_16 [simp]: "unat (b :: u8) div 16 < 16"
  using unat_u8_less [of b] by (simp add: less_mult_imp_div_less)

lemma length_hex_byte [simp]: "length (hex_byte b) = 2"
  by (simp add: hex_byte_def)

lemma hex_byte_nonempty [simp]: "hex_byte b \<noteq> []"
  by (simp add: hex_byte_def of_bytes_def)

lemma hex_string_simps [simp]:
  "hex_string [] = []"
  "hex_string (b # bs) = hex_byte b @ hex_string bs"
  by (simp_all add: hex_string_def)

lemma length_hex_string [simp]: "length (hex_string bs) = 2 * length bs"
  by (induction bs) simp_all

text \<open>All bytes of a string are hexadecimal digits.\<close>

definition all_hex :: "str \<Rightarrow> bool" where
  "all_hex s \<longleftrightarrow> list_all is_ascii_hexdigit (as_bytes s)"

lemma all_hex_simps [simp]:
  "all_hex []"
  "all_hex (c # s) \<longleftrightarrow> is_ascii_hexdigit (byte_of c) \<and> all_hex s"
  "all_hex (s @ t) \<longleftrightarrow> all_hex s \<and> all_hex t"
  by (simp_all add: all_hex_def as_bytes_def)

lemma all_hex_hex_byte [simp]: "all_hex (hex_byte b)"
  by (simp add: all_hex_def hex_byte_def)

lemma all_hex_hex_string [simp]: "all_hex (hex_string bs)"
  by (induction bs) simp_all

lemmas hex_eval = is_ascii_hexdigit_def Let_def

lemma hexdigit_ascii: "is_ascii_hexdigit b \<Longrightarrow> unat b < 0x80"
  by (auto simp: is_ascii_hexdigit_def Let_def)

lemma all_hex_str_ok: "all_hex s \<Longrightarrow> str_ok s"
  unfolding all_hex_def str_ok_def
  by (rule utf8_valid_ascii) (auto simp: list_all_iff dest: hexdigit_ascii)

text \<open>\<open>u8::from_str_radix(s, 16)\<close>: an optional \<open>+\<close> sign, at least one digit, no overflow.\<close>

fun digits_value :: "nat \<Rightarrow> (u8 \<Rightarrow> nat option) \<Rightarrow> nat \<Rightarrow> bytes \<Rightarrow> nat option" where
  "digits_value r dig acc [] = Some acc"
| "digits_value r dig acc (b # bs) =
     (case dig b of None \<Rightarrow> None | Some d \<Rightarrow> digits_value r dig (r * acc + d) bs)"

definition strip_plus :: "bytes \<Rightarrow> bytes" where
  "strip_plus bs = (case bs of b # c # cs \<Rightarrow> if b = 43 then c # cs else bs | _ \<Rightarrow> bs)"

definition from_str_radix ::
  "nat \<Rightarrow> (u8 \<Rightarrow> nat option) \<Rightarrow> nat \<Rightarrow> bytes \<Rightarrow> nat option" where
  "from_str_radix r dig limit bs =
     (if bs = [] then None
      else case digits_value r dig 0 (strip_plus bs) of
        None \<Rightarrow> None
      | Some n \<Rightarrow> if n < limit then Some n else None)"

definition u8_from_hex :: "bytes \<Rightarrow> u8 option" where
  "u8_from_hex bs = map_option word_of_nat (from_str_radix 16 hex_value 256 bs)"

lemma u8_from_hex_pair:
  assumes "hex_value a = Some x" "hex_value b = Some y"
  shows "u8_from_hex [a, b] = Some (word_of_nat (16 * x + y))"
proof -
  have "a \<noteq> 43" using assms(1) by (auto simp: hex_value_def)
  moreover have "16 * x + y < 256"
    using assms by (auto dest!: hex_value_less)
  ultimately show ?thesis
    using assms by (simp add: u8_from_hex_def from_str_radix_def strip_plus_def)
qed

subsection \<open>Decimal numbers\<close>

definition dec_value :: "u8 \<Rightarrow> nat option" where
  "dec_value b = (let n = unat b in if 48 \<le> n \<and> n \<le> 57 then Some (n - 48) else None)"

text \<open>\<open>str::parse::<u64>\<close>.\<close>

definition parse_u64 :: "str \<Rightarrow> u64 option" where
  "parse_u64 s = map_option word_of_nat (from_str_radix 10 dec_value (2 ^ 64) (as_bytes s))"

text \<open>The format \<open>{}\<close> of an unsigned integer.\<close>

fun dec_bytes :: "nat \<Rightarrow> bytes" where
  "dec_bytes n = (if n < 10 then [hex_digit n] else dec_bytes (n div 10) @ [hex_digit (n mod 10)])"

declare dec_bytes.simps [simp del]

definition dec_string :: "nat \<Rightarrow> str" where
  "dec_string n = of_bytes (dec_bytes n)"

lemma digits_value_append:
  "digits_value r dig acc (xs @ ys) =
     (case digits_value r dig acc xs of None \<Rightarrow> None | Some v \<Rightarrow> digits_value r dig v ys)"
  by (induction xs arbitrary: acc) (auto split: option.splits)

lemma dec_value_digit [simp]: "n < 10 \<Longrightarrow> dec_value (hex_digit n) = Some n"
  by (simp add: dec_value_def unat_hex_digit Let_def)

lemma digits_value_dec_bytes: "digits_value 10 dec_value 0 (dec_bytes n) = Some n"
proof (induction n rule: dec_bytes.induct)
  case (1 n)
  then show ?case
    by (cases "n < 10")
      (simp_all add: dec_bytes.simps [of n] digits_value_append)
qed

lemma dec_bytes_digits: "list_all (\<lambda>b. dec_value b \<noteq> None) (dec_bytes n)"
proof (induction n rule: dec_bytes.induct)
  case (1 n)
  then show ?case by (cases "n < 10") (simp_all add: dec_bytes.simps [of n])
qed

lemma dec_bytes_nonempty [simp]: "dec_bytes n \<noteq> []"
  by (subst dec_bytes.simps) simp

lemma strip_plus_digits:
  "list_all (\<lambda>b. dec_value b \<noteq> None) bs \<Longrightarrow> strip_plus bs = bs"
  by (auto simp: strip_plus_def dec_value_def split: list.splits)

lemma parse_u64_dec_string:
  "n < 2 ^ 64 \<Longrightarrow> parse_u64 (dec_string n) = Some (word_of_nat n)"
  by (simp add: parse_u64_def dec_string_def from_str_radix_def
      strip_plus_digits [OF dec_bytes_digits] digits_value_dec_bytes)

subsection \<open>Trimming and splitting\<close>

text \<open>
  The UTF-8 encodings of the characters with the Unicode property White\_Space. UTF-8 is
  self-synchronising, so on a well-formed string a prefix (a suffix) among these encodings is
  the first (the last) character.
\<close>

definition white_space :: "bytes list" where
  "white_space =
     [[0x09], [0x0A], [0x0B], [0x0C], [0x0D], [0x20], [0xC2, 0x85], [0xC2, 0xA0],
      [0xE1, 0x9A, 0x80], [0xE2, 0x80, 0x80], [0xE2, 0x80, 0x81], [0xE2, 0x80, 0x82],
      [0xE2, 0x80, 0x83], [0xE2, 0x80, 0x84], [0xE2, 0x80, 0x85], [0xE2, 0x80, 0x86],
      [0xE2, 0x80, 0x87], [0xE2, 0x80, 0x88], [0xE2, 0x80, 0x89], [0xE2, 0x80, 0x8A],
      [0xE2, 0x80, 0xA8], [0xE2, 0x80, 0xA9], [0xE2, 0x80, 0xAF], [0xE2, 0x81, 0x9F],
      [0xE3, 0x80, 0x80]]"

definition leading_width :: "bytes list \<Rightarrow> bytes \<Rightarrow> nat" where
  "leading_width ws bs =
     (case find (\<lambda>w. take (length w) bs = w) ws of None \<Rightarrow> 0 | Some w \<Rightarrow> length w)"

function trim_front :: "bytes list \<Rightarrow> bytes \<Rightarrow> bytes" where
  "trim_front ws bs =
     (if bs = [] \<or> leading_width ws bs = 0 then bs
      else trim_front ws (drop (leading_width ws bs) bs))"
  by pat_completeness auto
termination
  by (relation "measure (\<lambda>(ws, bs). length bs)") auto

declare trim_front.simps [simp del]

definition trim_bytes :: "bytes \<Rightarrow> bytes" where
  "trim_bytes bs = rev (trim_front (map rev white_space) (rev (trim_front white_space bs)))"

definition trim :: "str \<Rightarrow> str" where
  "trim s = of_bytes (trim_bytes (as_bytes s))"

lemma leading_width_none:
  assumes "bs \<noteq> []" "\<And>w. w \<in> set ws \<Longrightarrow> w \<noteq> [] \<and> hd w \<noteq> hd bs"
  shows "leading_width ws bs = 0"
proof -
  have "find (\<lambda>w. take (length w) bs = w) ws = None"
  proof (unfold find_None_iff, safe)
    fix w assume w: "w \<in> set ws" "take (length w) bs = w"
    from w(1) assms(2) have "w \<noteq> []" "hd w \<noteq> hd bs" by auto
    moreover have "hd (take (length w) bs) = hd bs" using \<open>w \<noteq> []\<close> by simp
    ultimately show False using w(2) by metis
  qed
  then show ?thesis by (simp add: leading_width_def)
qed

lemma trim_front_id:
  assumes "bs \<noteq> [] \<Longrightarrow> (\<forall>w \<in> set ws. w \<noteq> [] \<and> hd w \<noteq> hd bs)"
  shows "trim_front ws bs = bs"
  using assms leading_width_none [of bs ws] by (subst trim_front.simps) auto

definition ascii_graphic :: "u8 \<Rightarrow> bool" where
  "ascii_graphic b \<longleftrightarrow> 0x21 \<le> unat b \<and> unat b \<le> 0x7E"

lemma white_space_graphic:
  "ascii_graphic b \<Longrightarrow> w \<in> set white_space \<Longrightarrow> w \<noteq> [] \<and> hd w \<noteq> b \<and> last w \<noteq> b"
  by (auto simp: white_space_def ascii_graphic_def)

text \<open>A string that starts and ends with visible ASCII characters is left alone.\<close>

lemma trim_bytes_graphic:
  assumes "bs \<noteq> [] \<Longrightarrow> ascii_graphic (hd bs) \<and> ascii_graphic (last bs)"
  shows "trim_bytes bs = bs"
proof -
  have "trim_front white_space bs = bs"
    using assms white_space_graphic by (intro trim_front_id) blast
  moreover have "trim_front (map rev white_space) (rev bs) = rev bs"
  proof (rule trim_front_id)
    assume "rev bs \<noteq> []"
    then show "\<forall>w \<in> set (map rev white_space). w \<noteq> [] \<and> hd w \<noteq> hd (rev bs)"
      using assms white_space_graphic by (auto simp: hd_rev)
  qed
  ultimately show ?thesis by (simp add: trim_bytes_def)
qed

lemma hexdigit_graphic: "is_ascii_hexdigit b \<Longrightarrow> ascii_graphic b"
  by (auto simp: is_ascii_hexdigit_def ascii_graphic_def Let_def)

lemma trim_all_hex: "all_hex s \<Longrightarrow> trim s = s"
  unfolding trim_def all_hex_def
  by (subst trim_bytes_graphic) (auto simp: list_all_iff intro: hexdigit_graphic)

lemma trim_dec_string [simp]: "trim (dec_string n) = dec_string n"
proof -
  have "list_all ascii_graphic (dec_bytes n)"
    using dec_bytes_digits [of n]
    by (auto simp: list_all_iff dec_value_def ascii_graphic_def Let_def split: if_splits)
  then show ?thesis
    unfolding trim_def dec_string_def
    by (subst trim_bytes_graphic) (auto simp: list_all_iff)
qed

text \<open>\<open>str::split_once(c)\<close>: the parts before and after the first occurrence.\<close>

definition split_once :: "char \<Rightarrow> str \<Rightarrow> (str \<times> str) option" where
  "split_once c s =
     (if c \<in> set s then Some (takeWhile (\<lambda>x. x \<noteq> c) s, tl (dropWhile (\<lambda>x. x \<noteq> c) s))
      else None)"

lemma split_once_Some:
  "split_once c s = Some (a, b) \<longleftrightarrow> s = a @ c # b \<and> c \<notin> set a"
proof (induction s arbitrary: a)
  case Nil
  then show ?case by (simp add: split_once_def)
next
  case (Cons x s)
  show ?case
  proof (cases "x = c")
    case True
    then show ?thesis by (cases a) (auto simp: split_once_def)
  next
    case False
    have "split_once c (x # s) = Some (a, b) \<longleftrightarrow>
        (\<exists>a'. a = x # a' \<and> split_once c s = Some (a', b))"
      using False by (auto simp: split_once_def)
    with Cons.IH False show ?thesis by (cases a) auto
  qed
qed

lemma split_once_None: "split_once c s = None \<longleftrightarrow> c \<notin> set s"
  by (simp add: split_once_def)

subsection \<open>ASCII case\<close>

definition to_ascii_lower :: "u8 \<Rightarrow> u8" where
  "to_ascii_lower b = (if 65 \<le> unat b \<and> unat b \<le> 90 then b + 32 else b)"

definition eq_ignore_ascii_case :: "str \<Rightarrow> str \<Rightarrow> bool" where
  "eq_ignore_ascii_case s t \<longleftrightarrow>
     map to_ascii_lower (as_bytes s) = map to_ascii_lower (as_bytes t)"

end
