(* ===== verification/Errors.thy ===== *)
theory Errors
  imports RustStr
begin

text \<open>
  Error values. \<open>anyhow::Error\<close> of \<open>pck-cert-tool\<close> becomes the datatype \<open>error\<close>:
  a message (with the number or string it interpolates), one of the two typed PCS errors of
  \<open>pcs_client.rs\<close>, an error of the Kubernetes client, a Rust panic, or an error under a \<open>context\<close>.
  \<open>downcast_ref\<close> looks through contexts, as anyhow's does. A \<open>Duration\<close> and an
  \<open>Instant\<close> are numbers of nanoseconds.
\<close>

type_synonym duration = nat
type_synonym instant = nat

definition from_secs :: "nat \<Rightarrow> duration" where
  "from_secs s = s * 1000000000"

definition as_secs :: "duration \<Rightarrow> nat" where
  "as_secs d = d div 1000000000"

lemma as_secs_from_secs [simp]: "as_secs (from_secs s) = s"
  by (simp add: as_secs_def from_secs_def)

lemma from_secs_mono [simp]:
  "from_secs a \<le> from_secs b \<longleftrightarrow> a \<le> b"
  "from_secs a < from_secs b \<longleftrightarrow> a < b"
  "from_secs a = from_secs b \<longleftrightarrow> a = b"
  by (auto simp: from_secs_def)

text \<open>The error of the Kubernetes client: an API status, or anything else (transport, serde).\<close>

datatype kube_error =
  KubeApi (code: nat) (reason: str) (message: str)
| KubeOther str

text \<open>\<open>kube::runtime::controller::Action\<close>: what a reconciliation asks of its controller.\<close>

datatype action = AwaitChange | Requeue duration

record pcs_rate_limited =
  retry_after :: duration

record pcs_api_error =
  status :: nat
  error_code :: str
  error_message :: str

datatype error =
  Msg str
| MsgNat str nat
| MsgStr str str
| RateLimited pcs_rate_limited
| ApiError pcs_api_error
| Kube kube_error
| Panic str
| Context str error

definition with_context :: "str \<Rightarrow> error + 'a \<Rightarrow> error + 'a" where
  "with_context msg r = map_err (Context msg) r"

lemma with_context_eq_Ok [simp]: "with_context msg r = Ok x \<longleftrightarrow> r = Ok x"
  by (simp add: with_context_def)

lemma with_context_simps [simp]: "with_context msg (Ok x) = Ok x" "with_context msg (Err e) = Err (Context msg e)"
  by (simp_all add: with_context_def)

fun downcast_rate_limited :: "error \<Rightarrow> pcs_rate_limited option" where
  "downcast_rate_limited (RateLimited r) = Some r"
| "downcast_rate_limited (Context _ e) = downcast_rate_limited e"
| "downcast_rate_limited _ = None"

fun downcast_api_error :: "error \<Rightarrow> pcs_api_error option" where
  "downcast_api_error (ApiError r) = Some r"
| "downcast_api_error (Context _ e) = downcast_api_error e"
| "downcast_api_error _ = None"

text \<open>HTTP status classes (\<open>StatusCode::is_success\<close>, \<open>is_client_error\<close>).\<close>

definition is_success :: "nat \<Rightarrow> bool" where
  "is_success s \<longleftrightarrow> 200 \<le> s \<and> s < 300"

definition status_is_client_error :: "nat \<Rightarrow> bool" where
  "status_is_client_error s \<longleftrightarrow> 400 \<le> s \<and> s < 500"

text \<open>\<open>PcsApiError::is_client_error\<close>.\<close>

definition is_client_error :: "pcs_api_error \<Rightarrow> bool" where
  "is_client_error e = status_is_client_error (status e)"

end
