(* ===== verification/PlatformData.thy ===== *)
theory PlatformData
  imports Errors
begin

text \<open>
  \<open>bin/pck-cert-tool/src/platform_data.rs\<close> and \<open>PckCertsRequest\<close> of
  \<open>pcs_client.rs\<close>: validation of the untrusted platform-data secrets and the fingerprint of
  the registration inputs. A secret's data is a map from keys to byte strings. SHA-256 (the
  crate ring) is an argument.
\<close>

definition QE_ID_HEX_LEN :: nat where "QE_ID_HEX_LEN = 32"

definition CPU_SVN_HEX_LEN :: nat where "CPU_SVN_HEX_LEN = 32"

definition PCE_ID_HEX_LEN :: nat where "PCE_ID_HEX_LEN = 4"

definition PLATFORM_MANIFEST_MAX_HEX_LEN :: nat where
  "PLATFORM_MANIFEST_MAX_HEX_LEN = unat (- 1 :: u16) * 2"

lemmas platform_lens = QE_ID_HEX_LEN_def CPU_SVN_HEX_LEN_def PCE_ID_HEX_LEN_def

lemma PLATFORM_MANIFEST_MAX_HEX_LEN_eq: "PLATFORM_MANIFEST_MAX_HEX_LEN = 131070"
  by (simp add: PLATFORM_MANIFEST_MAX_HEX_LEN_def unsigned_minus_1_eq_mask mask_eq_exp_minus_1)

definition is_fixed_len_hex :: "nat \<Rightarrow> str \<Rightarrow> bool" where
  "is_fixed_len_hex N val \<longleftrightarrow> length val = N \<and> list_all is_ascii_hexdigit (as_bytes val)"

lemma is_fixed_len_hex_iff: "is_fixed_len_hex N s \<longleftrightarrow> length s = N \<and> all_hex s"
  by (simp add: is_fixed_len_hex_def all_hex_def)

type_synonym secret_data = "str \<rightharpoonup> bytes"

record pck_certs_request =
  platform_manifest :: str
  pce_id :: str
  cpu_svn :: str

text \<open>\<open>PckCertsRequest::from_secret_data\<close>: all three keys are looked up before any is decoded.\<close>

definition from_secret_data :: "secret_data \<Rightarrow> error + pck_certs_request" where
  "from_secret_data data =
     bind_res (ok_or (data ''platform_manifest'') (Msg ''Missing platform_manifest field'')) (\<lambda>pm.
     bind_res (ok_or (data ''pce_id'') (Msg ''Missing pce_id field'')) (\<lambda>pi.
     bind_res (ok_or (data ''cpu_svn'') (Msg ''Missing cpu_svn field'')) (\<lambda>cs.
     bind_res (from_utf8 (Msg ''Invalid UTF-8 in platform_manifest'') pm) (\<lambda>pm.
     bind_res (from_utf8 (Msg ''Invalid UTF-8 in pce_id'') pi) (\<lambda>pi.
     bind_res (from_utf8 (Msg ''Invalid UTF-8 in cpu_svn'') cs) (\<lambda>cs.
     Ok \<lparr>platform_manifest = pm, pce_id = pi, cpu_svn = cs\<rparr>))))))"

definition prepare_registration :: "str \<Rightarrow> secret_data \<Rightarrow> error + pck_certs_request" where
  "prepare_registration secret_name data =
     bind_res (ensure (is_fixed_len_hex QE_ID_HEX_LEN secret_name)
       (Msg ''Invalid platform-data secret name: expected a 32-character hex QE ID'')) (\<lambda>_.
     bind_res (from_secret_data data) (\<lambda>request.
     bind_res (ensure (is_fixed_len_hex CPU_SVN_HEX_LEN (cpu_svn request))
       (MsgNat ''Invalid cpu_svn: expected a 32-character hex string, got '' (length (cpu_svn request)))) (\<lambda>_.
     bind_res (ensure (is_fixed_len_hex PCE_ID_HEX_LEN (pce_id request))
       (MsgNat ''Invalid pce_id: expected a 4-character hex string, got '' (length (pce_id request)))) (\<lambda>_.
     let manifest = platform_manifest request in
     bind_res (ensure (manifest \<noteq> []
           \<and> length manifest \<le> PLATFORM_MANIFEST_MAX_HEX_LEN
           \<and> length manifest mod 2 = 0
           \<and> list_all is_ascii_hexdigit (as_bytes manifest))
       (MsgNat ''Invalid platform_manifest: expected a non-empty, even-length hex string, got ''
          (length manifest))) (\<lambda>_.
     Ok request)))))"

subsection \<open>What registration data must look like\<close>

definition request_ok :: "pck_certs_request \<Rightarrow> bool" where
  "request_ok r \<longleftrightarrow> is_fixed_len_hex 32 (cpu_svn r) \<and> is_fixed_len_hex 4 (pce_id r)
     \<and> all_hex (platform_manifest r) \<and> platform_manifest r \<noteq> []
     \<and> even (length (platform_manifest r)) \<and> length (platform_manifest r) \<le> 131070"

lemma from_secret_data_Ok:
  "from_secret_data data = Ok r \<longleftrightarrow>
     data ''platform_manifest'' = Some (as_bytes (platform_manifest r))
     \<and> data ''pce_id'' = Some (as_bytes (pce_id r))
     \<and> data ''cpu_svn'' = Some (as_bytes (cpu_svn r))
     \<and> str_ok (platform_manifest r) \<and> str_ok (pce_id r) \<and> str_ok (cpu_svn r)"
  by (cases r) (auto simp: from_secret_data_def bind_res_eq_Ok str_ok_def)

lemma prepare_registration_Ok:
  "prepare_registration name data = Ok r \<longleftrightarrow>
     is_fixed_len_hex 32 name \<and> from_secret_data data = Ok r \<and> request_ok r"
  by (auto simp: prepare_registration_def bind_res_eq_Ok request_ok_def platform_lens Let_def
      PLATFORM_MANIFEST_MAX_HEX_LEN_eq all_hex_def even_iff_mod_2_eq_zero)

lemma request_ok_str_ok:
  "request_ok r \<Longrightarrow> str_ok (platform_manifest r) \<and> str_ok (pce_id r) \<and> str_ok (cpu_svn r)"
  by (auto simp: request_ok_def is_fixed_len_hex_iff all_hex_str_ok)

subsection \<open>The fingerprint\<close>

definition fingerprint_input :: "pck_certs_request \<Rightarrow> bytes" where
  "fingerprint_input request =
     concat (map (\<lambda>field. le_encode 8 (word_of_nat (length field) :: u64) @ as_bytes field)
       [platform_manifest request, pce_id request, cpu_svn request])"

definition registration_fingerprint :: "(bytes \<Rightarrow> bytes) \<Rightarrow> pck_certs_request \<Rightarrow> str" where
  "registration_fingerprint sha256 request =
     ''sha256:'' @ hex_string (sha256 (fingerprint_input request))"

lemma hex_byte_inject [simp]: "hex_byte a = hex_byte b \<longleftrightarrow> a = b"
proof
  assume "hex_byte a = hex_byte b"
  then have "hex_digit (unat a div 16) = hex_digit (unat b div 16)"
    "hex_digit (unat a mod 16) = hex_digit (unat b mod 16)"
    by (auto simp: hex_byte_def of_bytes_def dest: arg_cong [where f = byte_of])
  then have "unat a div 16 = unat b div 16" "unat a mod 16 = unat b mod 16"
    by (metis hex_value_hex_digit option.inject unat_u8_div_16, metis hex_value_hex_digit
        option.inject mod_less_divisor zero_less_numeral)
  then have "unat a = unat b" by (metis div_mult_mod_eq)
  then show "a = b" by (rule word_unat_eq_iff [THEN iffD2])
qed simp

lemma hex_string_inject [simp]: "hex_string xs = hex_string ys \<longleftrightarrow> xs = ys"
proof (induction xs arbitrary: ys)
  case Nil
  then show ?case by (cases ys) simp_all
next
  case (Cons x xs)
  then show ?case by (cases ys) simp_all
qed

text \<open>
  The length-prefixed fields form a prefix code (of 64-bit lengths). The program never decodes
  this format; the decoder exists for the proof that the encoding is unambiguous.
\<close>

definition long_field :: "str \<Rightarrow> bytes" where
  "long_field s = le_encode 8 (word_of_nat (length s) :: u64) @ as_bytes s"

definition read_long_field :: "bytes \<Rightarrow> error + (str \<times> bytes)" where
  "read_long_field rest =
     bind_res (dec_le (Msg []) 8 rest) (\<lambda>(len :: u64, rest).
     bind_res (take_bytes (Msg []) (unat len) rest) (\<lambda>(b, rest). Ok (of_bytes b, rest)))"

interpretation lf: prefix_code long_field read_long_field "\<lambda>s. length s < 2 ^ 64"
proof
  fix s :: str and rest assume "length s < 2 ^ 64"
  then show "read_long_field (long_field s @ rest) = Ok (s, rest)"
    by (simp add: read_long_field_def long_field_def le64.dec_enc unat_of_nat)
next
  fix bs s rest assume "read_long_field bs = Ok (s, rest)"
  then obtain len :: u64 and r b where
    1: "dec_le (Msg []) 8 bs = Ok (len, r)" and
    2: "take_bytes (Msg []) (unat len) r = Ok (b, rest)" and 3: "s = of_bytes b"
    by (auto simp: read_long_field_def bind_res_eq_Ok)
  have "bs = le_encode 8 len @ b @ rest" "length b = unat len"
    using le64.enc_dec [OF 1] 2 by (simp_all add: take_bytes_Ok)
  moreover have "unat len < 2 ^ 64" using unsigned_less [of len] by simp
  ultimately show "length s < 2 ^ 64 \<and> bs = long_field s @ rest"
    using 3 by (simp add: long_field_def)
qed

lemma fingerprint_input_inject:
  assumes "fingerprint_input a = fingerprint_input b"
    and "list_all (\<lambda>r. length (platform_manifest r) < 2 ^ 64 \<and> length (pce_id r) < 2 ^ 64
       \<and> length (cpu_svn r) < 2 ^ 64) [a, b]"
  shows "a = b"
proof -
  let ?e = "\<lambda>r. long_field (platform_manifest r) @ long_field (pce_id r) @ long_field (cpu_svn r) @ []"
  have eq: "?e a = ?e b" using assms(1) by (simp add: fingerprint_input_def long_field_def)
  have 1: "platform_manifest a = platform_manifest b \<and>
      long_field (pce_id a) @ long_field (cpu_svn a) @ [] = long_field (pce_id b) @ long_field (cpu_svn b) @ []"
    using assms(2) by (intro lf.enc_inject [OF _ _ eq]) auto
  have 2: "pce_id a = pce_id b \<and> long_field (cpu_svn a) @ [] = long_field (cpu_svn b) @ []"
    using assms(2) by (intro lf.enc_inject [OF _ _ conjunct2 [OF 1]]) auto
  have 3: "cpu_svn a = cpu_svn b \<and> ([] :: bytes) = []"
    using assms(2) by (intro lf.enc_inject [OF _ _ conjunct2 [OF 2]]) auto
  from 1 2 3 show ?thesis by (auto intro: pck_certs_request.equality)
qed

lemma request_ok_lengths:
  "request_ok r \<Longrightarrow> length (platform_manifest r) < 2 ^ 64 \<and> length (pce_id r) < 2 ^ 64
     \<and> length (cpu_svn r) < 2 ^ 64"
  by (simp add: request_ok_def is_fixed_len_hex_iff)

subsection \<open>Properties\<close>

text \<open>Validation of a platform-data secret accepts exactly the secrets whose name is a
  32-digit hexadecimal QE ID and whose three forwarded fields are present and well formed, and
  returns those fields unchanged; everything else is an error.\<close>

theorem prepare_registration_spec:
  "prepare_registration name data = Ok r \<longleftrightarrow>
     length name = 32 \<and> all_hex name
     \<and> data ''platform_manifest'' = Some (as_bytes (platform_manifest r))
     \<and> data ''pce_id'' = Some (as_bytes (pce_id r))
     \<and> data ''cpu_svn'' = Some (as_bytes (cpu_svn r))
     \<and> length (cpu_svn r) = 32 \<and> all_hex (cpu_svn r)
     \<and> length (pce_id r) = 4 \<and> all_hex (pce_id r)
     \<and> 0 < length (platform_manifest r) \<and> length (platform_manifest r) \<le> 131070
     \<and> even (length (platform_manifest r)) \<and> all_hex (platform_manifest r)"
  by (auto simp: prepare_registration_Ok from_secret_data_Ok request_ok_def is_fixed_len_hex_iff
      intro: all_hex_str_ok)

text \<open>C34: The fingerprint is unambiguous: two validated requests with the same fingerprint are the
  same request, or their two different preimages are a SHA-256 collision.\<close>

theorem registration_fingerprint_inject:
  assumes "prepare_registration name data = Ok a" "prepare_registration name' data' = Ok b"
    and "registration_fingerprint sha256 a = registration_fingerprint sha256 b"
  shows "a = b \<or> (fingerprint_input a \<noteq> fingerprint_input b
     \<and> sha256 (fingerprint_input a) = sha256 (fingerprint_input b))"
proof -
  have ok: "request_ok a" "request_ok b"
    using assms(1,2) by (simp_all add: prepare_registration_Ok)
  have "sha256 (fingerprint_input a) = sha256 (fingerprint_input b)"
    using assms(3) by (simp add: registration_fingerprint_def)
  moreover have "fingerprint_input a = fingerprint_input b \<Longrightarrow> a = b"
    using request_ok_lengths [OF ok(1)] request_ok_lengths [OF ok(2)]
    by (intro fingerprint_input_inject) simp_all
  ultimately show ?thesis by blast
qed

text \<open>Two different requests; with a digest that ignores its input they collide, and the inputs
  of the digest still differ.\<close>

theorem registration_fingerprint_inject_witness:
  "\<exists>name data data' a b. prepare_registration name data = Ok a \<and> prepare_registration name data' = Ok b
     \<and> a \<noteq> b \<and> registration_fingerprint (\<lambda>_. []) a = registration_fingerprint (\<lambda>_. []) b
     \<and> fingerprint_input a \<noteq> fingerprint_input b"
proof -
  define r where "r m = \<lparr>platform_manifest = m, pce_id = ''0000'',
    cpu_svn = ''0102030405060708090a0b0c0d0e0f10''\<rparr>" for m
  define d where "d m = [''platform_manifest'' \<mapsto> as_bytes (platform_manifest (r m)),
    ''pce_id'' \<mapsto> as_bytes (pce_id (r m)), ''cpu_svn'' \<mapsto> as_bytes (cpu_svn (r m))]" for m
  have p: "prepare_registration ''a1b2c3d4e5f6a1b2c3d4e5f6a1b2c3d4'' (d m) = Ok (r m)"
    if "m = ''0011aabb'' \<or> m = ''0011aabbcc''" for m
  proof -
    have "request_ok (r m)"
      using that by (auto simp: request_ok_def is_fixed_len_hex_iff r_def hex_eval)
    then show ?thesis
      using request_ok_str_ok
      by (simp add: prepare_registration_Ok from_secret_data_Ok is_fixed_len_hex_iff hex_eval d_def)
  qed
  have ne: "r ''0011aabb'' \<noteq> r ''0011aabbcc''" by (simp add: r_def)
  have eq: "registration_fingerprint (\<lambda>_. []) a = registration_fingerprint (\<lambda>_. []) b" for a b
    by (simp add: registration_fingerprint_def)
  from registration_fingerprint_inject [OF p p eq, of "''0011aabb''" "''0011aabbcc''"] ne p eq
  show ?thesis by blast
qed

end
