(* ===== verification/RateLimit.thy ===== *)
theory RateLimit
  imports Errors
begin

text \<open>
  The rate-limiting part of \<open>pcs_client.rs\<close>: \<open>PcsPause\<close>, the gate that holds back all
  requests to Intel PCS, and \<open>parse_retry_after\<close>. The gate's contract is a locale, so that
  the registrar's proofs use the contract and not the representation.
\<close>

definition DEFAULT_RATE_LIMIT_RETRY_AFTER :: duration where
  "DEFAULT_RATE_LIMIT_RETRY_AFTER = from_secs 60"

definition MAX_RATE_LIMIT_RETRY_AFTER :: duration where
  "MAX_RATE_LIMIT_RETRY_AFTER = from_secs (60 * 60)"

record pcs_pause =
  until :: "instant option"

definition pause_default :: pcs_pause where
  "pause_default = \<lparr>until = None\<rparr>"

text \<open>\<open>PcsPause::pause\<close> and \<open>PcsPause::remaining\<close>.\<close>

definition pause :: "pcs_pause \<Rightarrow> instant \<Rightarrow> duration \<Rightarrow> pcs_pause" where
  "pause self now duration =
     (let t = now + duration in
      self\<lparr>until := Some (case until self of None \<Rightarrow> t | Some current \<Rightarrow> max current t)\<rparr>)"

definition remaining :: "pcs_pause \<Rightarrow> instant \<Rightarrow> duration option" where
  "remaining self now =
     (case until self of
        None \<Rightarrow> None
      | Some t \<Rightarrow> if t > now then Some (t - now) else None)"

definition parse_retry_after :: "str option \<Rightarrow> duration" where
  "parse_retry_after val =
     min (case Option.bind val (\<lambda>v. parse_u64 (trim v)) of
            None \<Rightarrow> DEFAULT_RATE_LIMIT_RETRY_AFTER
          | Some n \<Rightarrow> from_secs (unat n))
       MAX_RATE_LIMIT_RETRY_AFTER"

subsection \<open>The contract of a gate\<close>

text \<open>
  A gate is closed for at least the time it was told, a further pause never opens it earlier,
  and the delay it reports is exactly the time until it opens.
\<close>

locale pause_gate =
  fixes close :: "'g \<Rightarrow> instant \<Rightarrow> duration \<Rightarrow> 'g"
    and left :: "'g \<Rightarrow> instant \<Rightarrow> duration option"
  assumes closed_for: "t < now + d \<Longrightarrow> \<exists>r. left (close g now d) t = Some r \<and> now + d \<le> t + r"
    and never_shortened: "left g t = Some r \<Longrightarrow> \<exists>r'. left (close g now d) t = Some r' \<and> r \<le> r'"
    and no_longer: "left (close g now d) t = Some r \<Longrightarrow> t + r = now + d \<or> left g t = Some r"
    and exact: "left g t = Some r \<Longrightarrow> 0 < r \<and> left g (t + r) = None \<and> (\<forall>u. u < r \<longrightarrow> left g (t + u) = Some (r - u))"

context pause_gate
begin

definition close_all :: "'g \<Rightarrow> (instant \<times> duration) list \<Rightarrow> 'g" where
  "close_all g ps = foldl (\<lambda>g (now, d). close g now d) g ps"

lemma close_all_simps [simp]:
  "close_all g [] = g"
  "close_all g (p # ps) = close_all (close g (fst p) (snd p)) ps"
  by (simp_all add: close_all_def case_prod_unfold)

lemma still_closed:
  "left g t = Some r \<Longrightarrow> \<exists>r'. left (close_all g ps) t = Some r' \<and> r \<le> r'"
proof (induction ps arbitrary: g r)
  case Nil
  then show ?case by simp
next
  case (Cons p ps)
  obtain r' where r': "left (close g (fst p) (snd p)) t = Some r'" "r \<le> r'"
    using never_shortened [OF Cons.prems] by blast
  obtain r'' where "left (close_all (close g (fst p) (snd p)) ps) t = Some r''" "r' \<le> r''"
    using Cons.IH [OF r'(1)] by blast
  with r'(2) show ?case by (auto intro: order_trans)
qed

text \<open>Whatever pauses are requested, in whatever order, each of them is honoured to its end.\<close>

lemma every_pause_honoured:
  assumes "(now, d) \<in> set ps" "t < now + d"
  shows "\<exists>r. left (close_all g ps) t = Some r \<and> now + d \<le> t + r"
  using assms(1)
proof (induction ps arbitrary: g)
  case Nil
  then show ?case by simp
next
  case (Cons p ps)
  show ?case
  proof (cases "p = (now, d)")
    case True
    obtain r where r: "left (close g now d) t = Some r" "now + d \<le> t + r"
      using closed_for [OF assms(2)] by blast
    from still_closed [OF r(1), of ps] r(2) True show ?thesis by fastforce
  next
    case False
    with Cons show ?thesis by auto
  qed
qed

text \<open>And no pause is invented: an open gate that is closed was told so.\<close>

lemma closed_by_some_pause:
  assumes "left (close_all g ps) t = Some r"
  shows "left g t = Some r \<or> (\<exists>(now, d) \<in> set ps. t + r = now + d)"
  using assms
proof (induction ps arbitrary: g)
  case Nil
  then show ?case by simp
next
  case (Cons p ps)
  then have "left (close g (fst p) (snd p)) t = Some r \<or> (\<exists>(now, d) \<in> set ps. t + r = now + d)"
    by simp
  then show ?case
  proof
    assume "left (close g (fst p) (snd p)) t = Some r"
    then show ?thesis using no_longer [of g "fst p" "snd p" t r] by (cases p) auto
  next
    assume "\<exists>(now, d) \<in> set ps. t + r = now + d"
    then show ?thesis by auto
  qed
qed

end

lemma pause_no_longer:
  "remaining (pause g now d) t = Some r \<Longrightarrow> t + r = now + d \<or> remaining g t = Some r"
  by (auto simp: pause_def remaining_def Let_def max_def split: option.splits if_splits)

interpretation gate: pause_gate pause remaining
proof
  show "\<exists>r. remaining (pause g now d) t = Some r \<and> now + d \<le> t + r" if "t < now + d" for t now d g
    using that by (auto simp: pause_def remaining_def Let_def split: option.splits)
  show "\<exists>r'. remaining (pause g now d) t = Some r' \<and> r \<le> r'"
    if "remaining g t = Some r" for g t r now d
    using that by (auto simp: pause_def remaining_def Let_def split: option.splits if_splits)
  show "t + r = now + d \<or> remaining g t = Some r"
    if "remaining (pause g now d) t = Some r" for g t r now d
    using that by (rule pause_no_longer)
  show "0 < r \<and> remaining g (t + r) = None \<and> (\<forall>u. u < r \<longrightarrow> remaining g (t + u) = Some (r - u))"
    if "remaining g t = Some r" for g t r
    using that by (auto simp: remaining_def split: option.splits if_splits)
qed

subsection \<open>Properties\<close>

text \<open>After any sequence of rate-limit pauses the gate is closed at a time exactly when one of
  the pauses has not run out, and the delay it reports is the time to the latest end.\<close>

theorem pause_sequence_spec:
  "remaining (foldl (\<lambda>g (now, d). pause g now d) pause_default ps) t =
     (if \<exists>(now, d) \<in> set ps. t < now + d
      then Some (Max ((\<lambda>(now, d). now + d) ` set ps) - t) else None)"
proof -
  let ?g = "gate.close_all pause_default ps" and ?M = "Max ((\<lambda>(now, d). now + d) ` set ps)"
  have init: "remaining pause_default t = None"
    by (simp add: remaining_def pause_default_def)
  have "remaining ?g t = (if \<exists>(now, d) \<in> set ps. t < now + d then Some (?M - t) else None)"
  proof (cases "\<exists>(now, d) \<in> set ps. t < now + d")
    case True
    then obtain r where r: "remaining ?g t = Some r"
      using gate.every_pause_honoured by (metis (no_types, lifting) case_prodE)
    have ub: "now + d \<le> t + r" if "(now, d) \<in> set ps" for now d
    proof (cases "t < now + d")
      case True
      with that r show ?thesis
        using gate.every_pause_honoured [of now d ps t pause_default] by simp
    qed simp
    from gate.closed_by_some_pause [OF r] init
    obtain p where p: "p \<in> set ps" "t + r = fst p + snd p" by (auto simp: case_prod_unfold)
    have "?M = t + r"
      using p ub by (intro Max_eqI) (auto simp: case_prod_unfold)
    with True r show ?thesis by auto
  next
    case False
    then have "remaining ?g t = None"
      using gate.closed_by_some_pause [of pause_default ps t] gate.exact [of ?g t] init
      by (cases "remaining ?g t") fastforce+
    with False show ?thesis by simp
  qed
  then show ?thesis by (simp add: gate.close_all_def)
qed

lemma digits_value_dec_overflow:
  "2 ^ 64 \<le> n \<Longrightarrow> parse_u64 (dec_string n) = None"
  by (simp add: parse_u64_def dec_string_def from_str_radix_def
      strip_plus_digits [OF dec_bytes_digits] digits_value_dec_bytes)

text \<open>The pause taken from a \<open>Retry-After\<close> header is never longer than an hour; a number of
  seconds is honoured up to that bound, and a missing header or a number beyond 64 bits gives
  the default of one minute.\<close>

theorem parse_retry_after_spec:
  "parse_retry_after v \<le> from_secs 3600
   \<and> parse_retry_after None = from_secs 60
   \<and> parse_retry_after (Some (dec_string n)) = from_secs (if n < 2 ^ 64 then min n 3600 else 60)"
proof -
  have "parse_retry_after (Some (dec_string n)) = from_secs (if n < 2 ^ 64 then min n 3600 else 60)"
  proof (cases "n < 2 ^ 64")
    case True
    then have "unat (word_of_nat n :: u64) = n" by (simp add: unat_of_nat)
    with True show ?thesis
      by (simp add: parse_retry_after_def parse_u64_dec_string MAX_RATE_LIMIT_RETRY_AFTER_def min_def)
  next
    case False
    then show ?thesis
      by (simp add: parse_retry_after_def digits_value_dec_overflow
          DEFAULT_RATE_LIMIT_RETRY_AFTER_def MAX_RATE_LIMIT_RETRY_AFTER_def min_def)
  qed
  then show ?thesis
    by (simp add: parse_retry_after_def DEFAULT_RATE_LIMIT_RETRY_AFTER_def
        MAX_RATE_LIMIT_RETRY_AFTER_def min_def)
qed

end
