(* ===== verification/World.thy ===== *)
theory World
  imports PlatformData RateLimit
begin

text \<open>
  The outside of the program. Every call that leaves it (Kubernetes API, HTTP, clocks) is
  appended to a log of events, and its result is what an arbitrary environment answers to that
  call after that history. The environment is an argument of every definition that uses it:
  theorems hold for all environments, so for every behaviour of the Kubernetes API and of
  Intel PCS, and the log says which calls the code made and in what order.
\<close>

subsection \<open>JSON documents\<close>

text \<open>\<open>serde_json::Value\<close>, built by the \<open>json!\<close> macro; object members in the order written.\<close>

datatype json =
  JNull
| JBool bool
| JNum int
| JStr str
| JArr "json list"
| JObj "(str \<times> json) list"

fun json_get :: "str \<Rightarrow> json \<Rightarrow> json option" where
  "json_get k (JObj ms) = map_of ms k"
| "json_get k _ = None"

fun json_as_str :: "json \<Rightarrow> str option" where
  "json_as_str (JStr s) = Some s"
| "json_as_str _ = None"

text \<open>\<open>v[k] = x\<close> on an object: replaces the member or adds it.\<close>

definition json_set :: "str \<Rightarrow> json \<Rightarrow> json \<Rightarrow> json" where
  "json_set k x v =
     (case v of
        JObj ms \<Rightarrow> if k \<in> fst ` set ms then JObj (map (\<lambda>(k', y). (k', if k' = k then x else y)) ms)
                   else JObj (ms @ [(k, x)])
      | _ \<Rightarrow> v)"

text \<open>\<open>v[k1][k2] = x\<close>.\<close>

definition json_set2 :: "str \<Rightarrow> str \<Rightarrow> json \<Rightarrow> json \<Rightarrow> json" where
  "json_set2 k1 k2 x v =
     (case json_get k1 v of None \<Rightarrow> v | Some w \<Rightarrow> json_set k1 (json_set k2 x w) v)"

lemma json_get_simps [simp]:
  "json_get k (JObj ((k', v) # ms)) = (if k' = k then Some v else json_get k (JObj ms))"
  "json_get k (JObj []) = None"
  by auto

declare json_get.simps(1) [simp del]

lemma json_get_append:
  "json_get k (JObj (xs @ ys)) =
     (case json_get k (JObj xs) of None \<Rightarrow> json_get k (JObj ys) | Some v \<Rightarrow> Some v)"
  by (simp add: json_get.simps(1) map_add_def split: option.splits)

lemma json_get_map:
  "json_get k' (JObj (map (\<lambda>(k0, y). (k0, if k0 = k then x else y)) ms)) =
     (if k' = k then map_option (\<lambda>_. x) (json_get k' (JObj ms)) else json_get k' (JObj ms))"
  by (induction ms) auto

lemma json_get_set:
  "json_get k' (json_set k x (JObj ms)) = (if k' = k then Some x else json_get k' (JObj ms))"
proof (cases "k \<in> fst ` set ms")
  case True
  then have "json_get k (JObj ms) \<noteq> None"
    by (simp add: json_get.simps(1) map_of_eq_None_iff)
  with True show ?thesis by (auto simp: json_set_def json_get_map)
next
  case False
  then have "json_get k (JObj ms) = None"
    by (simp add: json_get.simps(1) map_of_eq_None_iff)
  with False show ?thesis by (auto simp: json_set_def json_get_append split: option.splits)
qed

definition json_member2 :: "str \<Rightarrow> str \<Rightarrow> json \<Rightarrow> json option" where
  "json_member2 a k doc = Option.bind (json_get a doc) (json_get k)"

subsection \<open>HTTP\<close>

datatype http_method = POST | GET

text \<open>A request; its JSON body, when it has one, is the \<open>PckCertsRequest\<close>.\<close>

record http_request =
  req_method :: http_method
  req_url :: str
  req_headers :: "(str \<times> str) list"
  req_json :: "pck_certs_request option"

text \<open>A response: \<open>resp_header\<close> is the lookup of its header map, \<open>resp_text\<close> what reading
  its body as text gives.\<close>

record http_response =
  resp_status :: nat
  resp_header :: "str \<Rightarrow> bytes option"
  resp_text :: "error + str"

text \<open>\<open>HeaderValue::to_str().ok()\<close>: visible ASCII and tab only.\<close>

definition to_str :: "bytes \<Rightarrow> str option" where
  "to_str v = (if list_all (\<lambda>b. 32 \<le> unat b \<and> unat b < 127 \<or> unat b = 9) v
     then Some (of_bytes v) else None)"

definition header_str :: "http_response \<Rightarrow> str \<Rightarrow> str option" where
  "header_str resp name = Option.bind (resp_header resp name) to_str"

subsection \<open>Kubernetes secrets\<close>

record secret =
  secret_name :: str
  annotations :: "(str \<rightharpoonup> str) option"
  secret_data :: "secret_data option"
  resource_version :: "str option"

text \<open>\<open>PatchParams::apply(manager)\<close>, optionally with \<open>.force()\<close>.\<close>

record patch_params =
  field_manager :: str
  force :: bool

definition apply_force :: "str \<Rightarrow> patch_params" where
  "apply_force manager = \<lparr>field_manager = manager, force = True\<rparr>"

text \<open>The manager \<open>pck-cert-tool\<close> applies all its secrets under.\<close>

definition FIELD_MANAGER :: str where "FIELD_MANAGER = ''pck-cert-tool''"

subsection \<open>Events, environment, world\<close>

text \<open>Operations on the local file system, and their errors.\<close>

datatype io_error = NotFound | IoOther str

datatype file_op =
  PathExists str
| CreateParent str
| CreateDirs str
| OpenFile str
| ReadFile str
| CreateFile str
| WriteAll str bytes

datatype event =
  GetSecret str
| ApplySecret str patch_params json
| HttpSend http_request
| ReadSystemTime
| ReadInstant
| FileIo file_op
| RunBinary str

text \<open>The output of a child process: success, standard output, standard error.\<close>

record process_output =
  out_success :: bool
  out_stdout :: bytes
  out_stderr :: bytes

record env =
  env_get_secret :: "event list \<Rightarrow> str \<Rightarrow> kube_error + secret"
  env_apply_secret :: "event list \<Rightarrow> str \<Rightarrow> patch_params \<Rightarrow> json \<Rightarrow> kube_error + unit"
  env_http_send :: "event list \<Rightarrow> http_request \<Rightarrow> error + http_response"
  env_system_time :: "event list \<Rightarrow> u64 option"
  env_instant :: "event list \<Rightarrow> instant"
  env_io :: "event list \<Rightarrow> file_op \<Rightarrow> io_error option"
  env_written :: "event list \<Rightarrow> file_op \<Rightarrow> nat"
  env_run :: "event list \<Rightarrow> str \<Rightarrow> io_error + process_output"

record world =
  events :: "event list"

definition log_event :: "event \<Rightarrow> 'z world_scheme \<Rightarrow> 'z world_scheme" where
  "log_event e w = w\<lparr>events := events w @ [e]\<rparr>"

definition get_secret :: "env \<Rightarrow> str \<Rightarrow> ('z world_scheme, kube_error, secret) fx" where
  "get_secret env name w = (env_get_secret env (events w) name, log_event (GetSecret name) w)"

definition apply_secret ::
  "env \<Rightarrow> str \<Rightarrow> patch_params \<Rightarrow> json \<Rightarrow> ('z world_scheme, error, unit) fx" where
  "apply_secret env name params doc w =
     (map_err Kube (env_apply_secret env (events w) name params doc),
      log_event (ApplySecret name params doc) w)"

definition http_send :: "env \<Rightarrow> http_request \<Rightarrow> ('z world_scheme, error, http_response) fx" where
  "http_send env req w = (env_http_send env (events w) req, log_event (HttpSend req) w)"

definition system_time :: "env \<Rightarrow> ('z world_scheme, 'e, u64 option) fx" where
  "system_time env w = (Ok (env_system_time env (events w)), log_event ReadSystemTime w)"

definition instant_now :: "env \<Rightarrow> ('z world_scheme, 'e, instant) fx" where
  "instant_now env w = (Ok (env_instant env (events w)), log_event ReadInstant w)"

lemma events_log [simp]: "events (log_event e w) = events w @ [e]"
  by (simp add: log_event_def)

lemma world_more_log [simp]: "world.more (log_event e w) = world.more w"
  by (simp add: log_event_def)

lemmas world_ops = get_secret_def apply_secret_def http_send_def system_time_def instant_now_def

text \<open>
  For files the environment says which operations fail (\<open>env_io\<close>) and how much of a failing
  write still reached the file (\<open>env_written\<close>); the contents are part of the state, in the
  theory \<open>Host\<close>.
\<close>

subsection \<open>What a piece of code added to the log\<close>

definition new_events :: "'z world_scheme \<Rightarrow> 'z world_scheme \<Rightarrow> event list" where
  "new_events s t = drop (length (events s)) (events t)"

text \<open>\<open>adds P\<close>: the log only grows, by events that satisfy \<open>P\<close>.\<close>

definition adds :: "(event \<Rightarrow> bool) \<Rightarrow> 'z world_scheme \<Rightarrow> 'y world_scheme \<Rightarrow> bool" where
  "adds P s t \<longleftrightarrow> (\<exists>es. events t = events s @ es \<and> list_all P es)"

lemma adds_refl [simp]: "adds P s s"
  by (auto simp: adds_def)

lemma reflp_adds [intro, simp]: "reflp (adds P)"
  by (simp add: reflp_def)

lemma adds_trans: "adds P s t \<Longrightarrow> adds P t u \<Longrightarrow> adds P s u"
proof -
  assume "adds P s t" "adds P t u"
  then obtain es fs where "events t = events s @ es" "events u = (events s @ es) @ fs"
    "list_all P (es @ fs)"
    by (auto simp: adds_def)
  then show "adds P s u" unfolding adds_def by (intro exI [of _ "es @ fs"]) simp
qed

lemma transp_adds [intro, simp]: "transp (adds P)"
  by (rule transpI) (rule adds_trans)

lemma adds_log [simp]: "adds P s (log_event e s) \<longleftrightarrow> P e"
  by (auto simp: adds_def)

lemma adds_logI: "adds P s t \<Longrightarrow> P e \<Longrightarrow> adds P s (log_event e t)"
  by (erule adds_trans) simp

lemma adds_mono: "adds P s t \<Longrightarrow> (\<And>e. P e \<Longrightarrow> Q e) \<Longrightarrow> adds Q s t"
  by (auto simp: adds_def list_all_iff)

lemma adds_new_events: "adds P s t \<Longrightarrow> list_all P (new_events s t)"
  by (auto simp: adds_def new_events_def)

definition is_write :: "event \<Rightarrow> bool" where
  "is_write e \<longleftrightarrow> (\<exists>n p d. e = ApplySecret n p d)"

text \<open>\<open>quiet P\<close>: nothing but the log changes, by events that satisfy \<open>P\<close>.\<close>

definition quiet :: "(event \<Rightarrow> bool) \<Rightarrow> 'z world_scheme \<Rightarrow> 'z world_scheme \<Rightarrow> bool" where
  "quiet P s t \<longleftrightarrow> adds P s t \<and> world.more s = world.more t"

lemma reflp_quiet [intro, simp]: "reflp (quiet P)"
  by (simp add: reflp_def quiet_def)

lemma transp_quiet [intro, simp]: "transp (quiet P)"
  by (rule transpI) (auto simp: quiet_def intro: adds_trans)

lemma keeps_quiet_adds: "keeps (quiet P) m \<Longrightarrow> keeps (adds P) m"
  by (simp add: keeps_def quiet_def)

lemma keeps_adds_mono: "keeps (adds P) m \<Longrightarrow> (\<And>e. P e \<Longrightarrow> Q e) \<Longrightarrow> keeps (adds Q) m"
  by (auto simp: keeps_def intro: adds_mono)

lemma quiet_ops:
  "keeps (quiet P) (get_secret env n) \<longleftrightarrow> P (GetSecret n)"
  "keeps (quiet P) (apply_secret env n p d) \<longleftrightarrow> P (ApplySecret n p d)"
  "keeps (quiet P) (http_send env r) \<longleftrightarrow> P (HttpSend r)"
  "keeps (quiet P) (system_time env) \<longleftrightarrow> P ReadSystemTime"
  "keeps (quiet P) (instant_now env) \<longleftrightarrow> P ReadInstant"
  by (simp_all add: keeps_def world_ops quiet_def)

lemma adds_ops:
  "keeps (adds P) (get_secret env n) \<longleftrightarrow> P (GetSecret n)"
  "keeps (adds P) (apply_secret env n p d) \<longleftrightarrow> P (ApplySecret n p d)"
  "keeps (adds P) (http_send env r) \<longleftrightarrow> P (HttpSend r)"
  "keeps (adds P) (system_time env) \<longleftrightarrow> P ReadSystemTime"
  "keeps (adds P) (instant_now env) \<longleftrightarrow> P ReadInstant"
  by (simp_all add: keeps_def world_ops)

end
