(* ===== verification/Crates.thy ===== *)
theory Crates
  imports World
begin

text \<open>
  The third-party crates \<open>pck-cert-tool\<close> relies on, as the fields of a record that is an
  argument of the definitions using them: url and urlencoding, the derived serde
  deserialisers, x509-parser, ring and base64. Nothing is assumed of them here; a theorem that needs
  documented behaviour of one states it as a hypothesis.
\<close>

record pck_cert_entry =
  entry_tcb :: json
  entry_tcbm :: str
  entry_cert :: str

record tcb_info =
  info_tcb_type :: u32
  info_fmspc :: str

record ('cert, 'spki, 'der) crates =
  url_join :: "str \<Rightarrow> str \<Rightarrow> str option"
  set_query :: "str \<Rightarrow> str \<Rightarrow> str"
  url_encode :: "str \<Rightarrow> str"
  url_decode :: "str \<Rightarrow> str option"
  de_pck_entries :: "str \<Rightarrow> pck_cert_entry list option"
  ser_pck_entries :: "pck_cert_entry list \<Rightarrow> str option"
  de_tcb_document :: "str \<Rightarrow> tcb_info option"
  de_signed_tcb_info :: "str \<Rightarrow> (str \<times> str) option"
  de_tcb_info :: "str \<Rightarrow> tcb_info option"
  pem_blocks :: "str \<Rightarrow> bytes option list"
  parse_x509_pem :: "str \<Rightarrow> bytes option"
  parse_x509_certificate :: "bytes \<Rightarrow> 'cert option"
  verify_signature :: "'cert \<Rightarrow> 'spki option \<Rightarrow> bool"
  subject_pki :: "'cert \<Rightarrow> 'spki"
  public_key_data :: "'spki \<Rightarrow> bytes"
  extension_unique :: "'cert \<Rightarrow> nat list \<Rightarrow> bytes option option"
  parse_der :: "bytes \<Rightarrow> 'der option"
  as_sequence :: "'der \<Rightarrow> 'der list option"
  as_oid_val :: "'der \<Rightarrow> nat list option"
  as_slice :: "'der \<Rightarrow> bytes option"
  ecdsa_p256_verify :: "bytes \<Rightarrow> bytes \<Rightarrow> bytes \<Rightarrow> bool"
  sha256 :: "bytes \<Rightarrow> bytes"
  base64_encode :: "bytes \<Rightarrow> str"

end
