(* ===== verification/PcsClient.thy ===== *)
theory PcsClient
  imports Crates
begin

text \<open>
  The HTTP half of \<open>bin/pck-cert-tool/src/pcs_client.rs\<close>: the two requests to Intel PCS
  and the classification of error responses. Logging is left out.
\<close>

definition INTEL_PCS_API_BASE_URL :: str where
  "INTEL_PCS_API_BASE_URL = ''https://api.trustedservices.intel.com/sgx/certification/v4/''"

definition INTEL_PCS_PCKCERTS_ENDPOINT :: str where
  "INTEL_PCS_PCKCERTS_ENDPOINT = ''pckcerts/config''"

definition INTEL_PCS_TCB_ENDPOINT :: str where
  "INTEL_PCS_TCB_ENDPOINT = ''tcb''"

definition FMSPC_HEX_LEN :: nat where "FMSPC_HEX_LEN = 12"

record pck_certs_response =
  pck_fmspc :: str
  pck_cert_chain :: str
  pck_json :: str

record tcb_info_response =
  tcb_body :: str
  tcb_header_chain :: str

text \<open>\<open>handle_pcs_api_error\<close>: 429 becomes \<open>PcsRateLimited\<close>, every other status a
  \<open>PcsApiError\<close>.\<close>

definition handle_pcs_api_error :: "http_response \<Rightarrow> error" where
  "handle_pcs_api_error response =
     (let status = resp_status response;
          rate_limited =
            (if status = 429
             then Some \<lparr>retry_after = parse_retry_after (header_str response ''Retry-After'')\<rparr>
             else None);
          error_code = (case header_str response ''Error-Code'' of None \<Rightarrow> ''N/A'' | Some v \<Rightarrow> v);
          error_message =
            (case header_str response ''Error-Message'' of None \<Rightarrow> ''N/A'' | Some v \<Rightarrow> v)
      in case rate_limited of
           Some r \<Rightarrow> RateLimited r
         | None \<Rightarrow> ApiError \<lparr>status = status, error_code = error_code,
                             error_message = error_message\<rparr>)"

definition validate_fmspc :: "str \<Rightarrow> error + unit" where
  "validate_fmspc fmspc =
     ensure (is_fixed_len_hex FMSPC_HEX_LEN fmspc)
       (MsgNat ''Invalid SGX-FMSPC: expected a 12-character hex string, got '' (length fmspc))"

definition fetch_pck_certs ::
  "('c, 's, 'd) crates \<Rightarrow> env \<Rightarrow> str option \<Rightarrow> pck_certs_request
     \<Rightarrow> ('z world_scheme, error, pck_certs_response) fx" where
  "fetch_pck_certs C env api_key request_body =
     bind_fx (lift_fx (ok_or (url_join C INTEL_PCS_API_BASE_URL INTEL_PCS_PCKCERTS_ENDPOINT)
       (Msg ''Failed to construct PCK certs URL''))) (\<lambda>url.
     let request = \<lparr>req_method = POST, req_url = url,
           req_headers = (case api_key of None \<Rightarrow> []
             | Some key \<Rightarrow> [(''Ocp-Apim-Subscription-Key'', key)]),
           req_json = Some request_body\<rparr> in
     bind_fx (map_err_fx (Context (''HTTP POST to '' @ url @ '' failed'')) (http_send env request))
       (\<lambda>response.
     if \<not> is_success (resp_status response) then fail_fx (handle_pcs_api_error response)
     else
     bind_fx (lift_fx (ok_or (header_str response ''SGX-FMSPC'')
       (Msg ''Missing SGX-FMSPC header in response''))) (\<lambda>fmspc.
     bind_fx (lift_fx (validate_fmspc fmspc)) (\<lambda>_.
     bind_fx (lift_fx (ok_or (header_str response ''SGX-PCK-Certificate-Issuer-Chain'')
       (Msg ''Missing SGX-PCK-Certificate-Issuer-Chain header''))) (\<lambda>cert_chain.
     bind_fx (lift_fx (with_context ''Failed to read PCK certs response body''
       (resp_text response))) (\<lambda>pck_certs_json.
     ret_fx \<lparr>pck_fmspc = fmspc, pck_cert_chain = cert_chain,
       pck_json = pck_certs_json\<rparr>))))))"

definition fetch_tcb_info ::
  "('c, 's, 'd) crates \<Rightarrow> env \<Rightarrow> str \<Rightarrow> ('z world_scheme, error, tcb_info_response) fx" where
  "fetch_tcb_info C env fmspc =
     bind_fx (lift_fx (validate_fmspc fmspc)) (\<lambda>_.
     bind_fx (lift_fx (ok_or (url_join C INTEL_PCS_API_BASE_URL INTEL_PCS_TCB_ENDPOINT)
       (Msg ''Failed to construct TCB URL''))) (\<lambda>tcb_url.
     let tcb_url = set_query C tcb_url (''fmspc='' @ url_encode C fmspc @ ''&update=early'');
         request = \<lparr>req_method = GET, req_url = tcb_url, req_headers = [], req_json = None\<rparr> in
     bind_fx (map_err_fx (Context (''HTTP GET to '' @ tcb_url @ '' failed'')) (http_send env request))
       (\<lambda>response.
     if \<not> is_success (resp_status response) then fail_fx (handle_pcs_api_error response)
     else
     bind_fx (lift_fx (ok_or (header_str response ''TCB-Info-Issuer-Chain'')
       (Msg ''Missing TCB-Info-Issuer-Chain header in TCB info response''))) (\<lambda>issuer_chain.
     bind_fx (lift_fx (with_context ''Failed to read TCB info response body''
       (resp_text response))) (\<lambda>body.
     ret_fx \<lparr>tcb_body = body, tcb_header_chain = issuer_chain\<rparr>)))))"

subsection \<open>What the requests log\<close>

definition is_pcs_request :: "event \<Rightarrow> bool" where
  "is_pcs_request e \<longleftrightarrow> (\<exists>r. e = HttpSend r)"

definition tcb_request :: "('c, 's, 'd) crates \<Rightarrow> str \<Rightarrow> http_request \<Rightarrow> bool" where
  "tcb_request C fmspc r \<longleftrightarrow> req_method r = GET
     \<and> (\<exists>u. req_url r = set_query C u (''fmspc='' @ url_encode C fmspc @ ''&update=early''))"

lemma quiet_fetch_pck_certs:
  assumes "\<And>r. req_json r = Some body \<Longrightarrow> req_method r = POST \<Longrightarrow> P (HttpSend r)"
  shows "keeps (quiet P) (fetch_pck_certs C env api_key body)"
  unfolding fetch_pck_certs_def Let_def
  by (intro keeps_bind keeps_pure keeps_map_err transp_quiet reflp_quiet)
    (auto simp: quiet_ops assms intro!: keeps_bind keeps_pure)

lemma quiet_fetch_tcb_info:
  assumes "\<And>r. is_fixed_len_hex 12 fm \<Longrightarrow> tcb_request C fm r \<Longrightarrow> P (HttpSend r)"
  shows "keeps (quiet P) (fetch_tcb_info C env fm)"
proof (cases "is_fixed_len_hex 12 fm")
  case True
  show ?thesis
    unfolding fetch_tcb_info_def Let_def
    by (intro keeps_bind keeps_pure keeps_map_err transp_quiet reflp_quiet)
      (auto simp: quiet_ops tcb_request_def intro!: keeps_bind keeps_pure assms True)
next
  case False
  then show ?thesis
    by (auto simp: fetch_tcb_info_def validate_fmspc_def FMSPC_HEX_LEN_def ensure_def quiet_def
        intro!: keepsI)
qed

lemma fetch_pck_certs_fmspc:
  "fetch_pck_certs C env api_key body w = (Ok resp, w') \<Longrightarrow> is_fixed_len_hex 12 (pck_fmspc resp)"
  by (auto simp: fetch_pck_certs_def bind_fx_eq_Ok Let_def validate_fmspc_def FMSPC_HEX_LEN_def
      split: if_splits)

text \<open>Header values that the code reads as text are ASCII, so they are valid UTF-8.\<close>

lemma header_str_ok: "header_str resp name = Some v \<Longrightarrow> str_ok v"
proof -
  assume "header_str resp name = Some v"
  then obtain y where y: "list_all (\<lambda>b. 32 \<le> unat b \<and> unat b < 127 \<or> unat b = 9) y" "v = of_bytes y"
    by (auto simp: header_str_def to_str_def Option.bind_eq_Some_conv split: if_splits)
  then have "list_all (\<lambda>b. unat b < 0x80) y" by (auto simp: list_all_iff)
  with y(2) show ?thesis by (simp add: str_ok_def utf8_valid_ascii)
qed

end
