(* ===== verification/PckVerify.thy ===== *)
theory PckVerify
  imports PcsClient
begin

text \<open>
  The verification half of \<open>bin/pck-cert-tool/src/pcs_client.rs\<close>: the issuer chain, the PCK
  certificates and their PIID, and the signed TCB Info. Certificate, DER and signature
  primitives are the fields of \<open>crates\<close>. Each routine has a characterisation of success
  (\<open>..._Ok\<close>), from which the properties follow.
\<close>

definition SGX_PCK_EXT_OID :: "nat list" where
  "SGX_PCK_EXT_OID = [1, 2, 840, 113741, 1, 13, 1]"

definition SGX_PIID_OID :: "nat list" where
  "SGX_PIID_OID = [1, 2, 840, 113741, 1, 13, 1, 6]"

definition ECDSA_P256_SIGNATURE_LEN :: nat where "ECDSA_P256_SIGNATURE_LEN = 64"

definition verify_certificate :: "('c, 's, 'd) crates \<Rightarrow> str \<Rightarrow> 's \<Rightarrow> error + bool" where
  "verify_certificate C cert_pem issuer_spki =
     bind_res (ok_or (parse_x509_pem C cert_pem)
       (Msg ''Failed to parse PCK certificate PEM'')) (\<lambda>pem.
     bind_res (ok_or (parse_x509_certificate C pem)
       (Msg ''Failed to parse PCK certificate'')) (\<lambda>cert.
     Ok (verify_signature C cert (Some issuer_spki))))"

text \<open>The loop of \<open>extract_piid\<close> over the items of the SGX extension.\<close>

fun piid_loop :: "('c, 's, 'd) crates \<Rightarrow> 'd list \<Rightarrow> error + str" where
  "piid_loop C [] = Err (Msg ''PIID OID (1.2.840.113741.1.13.1.6) not found in SGX PCK extension'')"
| "piid_loop C (item # items) =
     bind_res (ok_or (as_sequence C item) (Msg ''SGX sub-extension is not a SEQUENCE'')) (\<lambda>inner.
     case inner of
       oid_der # value_der # _ \<Rightarrow>
         bind_res (ok_or (as_oid_val C oid_der) (Msg ''Failed to parse sub-OID'')) (\<lambda>item_oid.
         if item_oid = SGX_PIID_OID then
           bind_res (ok_or (as_slice C value_der) (Msg ''PIID value is not an OCTET STRING'')) (\<lambda>b.
           if length b \<noteq> 16 then Err (MsgNat ''Expected 16 bytes for PIID, got '' (length b))
           else Ok (hex_string b))
         else piid_loop C items)
     | _ \<Rightarrow> piid_loop C items)"

definition extract_piid :: "('c, 's, 'd) crates \<Rightarrow> str \<Rightarrow> error + str" where
  "extract_piid C pem =
     bind_res (ok_or (parse_x509_pem C pem) (Msg ''Failed to parse PEM'')) (\<lambda>pem_obj.
     bind_res (ok_or (parse_x509_certificate C pem_obj) (Msg ''Failed to parse certificate'')) (\<lambda>cert.
     bind_res (ok_or (extension_unique C cert SGX_PCK_EXT_OID)
       (Msg ''Duplicate SGX PCK extension in certificate'')) (\<lambda>found.
     bind_res (ok_or found (Msg ''SGX PCK extension not found in certificate'')) (\<lambda>ext_value.
     bind_res (ok_or (parse_der C ext_value) (Msg ''Failed to parse SGX extension DER'')) (\<lambda>outer.
     bind_res (ok_or (as_sequence C outer) (Msg ''SGX extension is not a SEQUENCE'')) (\<lambda>items.
     piid_loop C items))))))"

subsection \<open>The issuer chain\<close>

text \<open>
  The tail of the function: \<open>swap_remove\<close> moves the last element into the hole, and panics
  out of bounds. That it never does here is part of the characterisation below.
\<close>

definition take_chain :: "nat \<Rightarrow> bytes list \<Rightarrow> error + (bytes \<times> bytes)" where
  "take_chain issuer_idx chain_der =
     bind_res (ok_or (swap_remove issuer_idx chain_der) (Panic ''swap_remove'')) (\<lambda>(issuer_der, rest).
     bind_res (ok_or (swap_remove 0 rest) (Panic ''swap_remove'')) (\<lambda>(root_der, _).
     Ok (root_der, issuer_der)))"

text \<open>The block that tells the root from the issuing CA and checks the signature between them.\<close>

definition validate_chain_pair :: "('c, 's, 'd) crates \<Rightarrow> bytes list \<Rightarrow> error + (bytes \<times> bytes)" where
  "validate_chain_pair C chain_der =
     bind_res (ok_or (parse_x509_certificate C (chain_der ! 0))
       (Msg ''Failed to parse certificate [0]'')) (\<lambda>cert0.
     bind_res (ok_or (parse_x509_certificate C (chain_der ! 1))
       (Msg ''Failed to parse certificate [1]'')) (\<lambda>cert1.
     let cert0_self_signed = verify_signature C cert0 None;
         cert1_self_signed = verify_signature C cert1 None in
     bind_res
       (if cert0_self_signed \<and> \<not> cert1_self_signed then Ok (1 :: nat, cert0, cert1)
        else if cert1_self_signed \<and> \<not> cert0_self_signed then Ok (0, cert1, cert0)
        else Err (Msg ''Certificate chain validation failed: cannot identify self-signed root certificate''))
       (\<lambda>(issuer_idx, root_cert, issuer_cert).
     bind_res (ensure (verify_signature C issuer_cert (Some (subject_pki C root_cert)))
       (Msg ''Certificate chain validation failed: issuing CA is not signed by Root CA'')) (\<lambda>_.
     take_chain issuer_idx chain_der))))"

definition decode_and_validate_issuer_chain ::
  "('c, 's, 'd) crates \<Rightarrow> str \<Rightarrow> error + (bytes \<times> bytes)" where
  "decode_and_validate_issuer_chain C chain =
     bind_res (ok_or (url_decode C chain) (Msg ''Failed to decode certificate chain'')) (\<lambda>decoded_chain.
     bind_res (collect_res (map (\<lambda>r. ok_or r (Msg ''Failed to parse PEM block in chain''))
       (pem_blocks C decoded_chain))) (\<lambda>chain_der.
     if length chain_der \<noteq> 2 then
       Err (MsgNat ''Invalid certificate chain: expected 2 certificates, got '' (length chain_der))
     else validate_chain_pair C chain_der))"

definition valid_chain :: "('c, 's, 'd) crates \<Rightarrow> bytes \<Rightarrow> bytes \<Rightarrow> bool" where
  "valid_chain C root_der issuer_der \<longleftrightarrow>
     (\<exists>root issuer. parse_x509_certificate C root_der = Some root
        \<and> parse_x509_certificate C issuer_der = Some issuer
        \<and> verify_signature C root None \<and> \<not> verify_signature C issuer None
        \<and> verify_signature C issuer (Some (subject_pki C root)))"

lemma take_chain_two [simp]:
  "take_chain 0 [a, b] = Ok (b, a)"
  "take_chain (Suc 0) [a, b] = Ok (a, b)"
  by (simp_all add: take_chain_def swap_remove_def)

lemma length_2_conv: "length xs = 2 \<longleftrightarrow> (\<exists>a b. xs = [a, b])"
  by (auto simp: numeral_2_eq_2 length_Suc_conv)

lemma collect_blocks_Ok:
  "collect_res (map (\<lambda>r. ok_or r e) rs) = Ok xs \<longleftrightarrow> rs = map Some xs"
proof (induction rs arbitrary: xs)
  case (Cons r rs)
  then show ?case by (cases r; cases xs) (auto simp: bind_res_eq_Ok)
qed auto

lemma validate_chain_pair_Ok:
  "validate_chain_pair C [d0, d1] = Ok (root_der, issuer_der) \<longleftrightarrow>
     valid_chain C root_der issuer_der
     \<and> (root_der = d0 \<and> issuer_der = d1 \<or> root_der = d1 \<and> issuer_der = d0)"
proof (cases "parse_x509_certificate C d0")
  case None
  then show ?thesis by (auto simp: validate_chain_pair_def valid_chain_def)
next
  case p0: (Some c0)
  show ?thesis
  proof (cases "parse_x509_certificate C d1")
    case None
    then show ?thesis by (auto simp: validate_chain_pair_def valid_chain_def p0)
  next
    case (Some c1)
    with p0 show ?thesis
      by (cases "verify_signature C c0 None"; cases "verify_signature C c1 None")
        (auto simp: validate_chain_pair_def valid_chain_def bind_res_eq_Ok)
  qed
qed

text \<open>The two certificates a percent-encoded PEM chain holds, in either order.\<close>

definition chain_holds :: "('c, 's, 'd) crates \<Rightarrow> str \<Rightarrow> bytes \<Rightarrow> bytes \<Rightarrow> bool" where
  "chain_holds C chain root_der issuer_der \<longleftrightarrow>
     (\<exists>decoded. url_decode C chain = Some decoded
        \<and> pem_blocks C decoded \<in> {[Some root_der, Some issuer_der], [Some issuer_der, Some root_der]})"

lemma issuer_chain_Ok:
  "decode_and_validate_issuer_chain C chain = Ok (root_der, issuer_der) \<longleftrightarrow>
     (\<exists>decoded. url_decode C chain = Some decoded
        \<and> pem_blocks C decoded \<in> {[Some root_der, Some issuer_der], [Some issuer_der, Some root_der]}
        \<and> valid_chain C root_der issuer_der)"
  (is "?l = ?r")
proof
  assume ?l
  then obtain decoded chain_der where
    1: "url_decode C chain = Some decoded" "pem_blocks C decoded = map Some chain_der"
      "length chain_der = 2" and
    2: "validate_chain_pair C chain_der = Ok (root_der, issuer_der)"
    by (auto simp: decode_and_validate_issuer_chain_def bind_res_eq_Ok collect_blocks_Ok
        split: if_splits)
  from 1(3) obtain d0 d1 where "chain_der = [d0, d1]" by (auto simp: length_2_conv)
  with 1 2 show ?r by (auto simp: validate_chain_pair_Ok)
next
  assume ?r
  then obtain decoded chain_der where
    1: "url_decode C chain = Some decoded" "pem_blocks C decoded = map Some chain_der"
      "chain_der = [root_der, issuer_der] \<or> chain_der = [issuer_der, root_der]"
      "valid_chain C root_der issuer_der"
    by (auto intro: that [of _ "[root_der, issuer_der]"] that [of _ "[issuer_der, root_der]"])
  have "validate_chain_pair C chain_der = Ok (root_der, issuer_der)"
    using 1(3,4) by (auto simp: validate_chain_pair_Ok)
  moreover have "collect_res (map (\<lambda>r. ok_or r (Msg ''Failed to parse PEM block in chain''))
      (pem_blocks C decoded)) = Ok chain_der"
    using 1(2) by (simp only: collect_blocks_Ok)
  ultimately show ?l
    using 1(1,3) by (auto simp: decode_and_validate_issuer_chain_def)
qed

lemma issuer_chain_holds:
  "decode_and_validate_issuer_chain C chain = Ok (root_der, issuer_der) \<longleftrightarrow>
     chain_holds C chain root_der issuer_der \<and> valid_chain C root_der issuer_der"
  by (auto simp: issuer_chain_Ok chain_holds_def)

subsection \<open>Hexadecimal signatures\<close>

definition decode_hex :: "nat \<Rightarrow> str \<Rightarrow> error + bytes" where
  "decode_hex N s =
     bind_res (ensure (length s = 2 * N \<and> list_all is_ascii_hexdigit (as_bytes s))
       (MsgNat ''expected a hex string of length '' (2 * N))) (\<lambda>_.
     collect_res (map (\<lambda>i. ok_or (u8_from_hex (take 2 (drop (2 * i) (as_bytes s))))
       (Msg ''invalid digit found in string'')) [0..<N]))"

subsection \<open>Filtering and verifying the PCK certificates\<close>

definition NOT_AVAILABLE :: str where "NOT_AVAILABLE = ''Not available''"

text \<open>
  The loop with its accumulators. The error message's preview of the certificate is left out.
\<close>

fun filter_loop ::
  "('c, 's, 'd) crates \<Rightarrow> 's \<Rightarrow> nat \<Rightarrow> pck_cert_entry list \<Rightarrow> nat \<Rightarrow> pck_cert_entry list
     \<Rightarrow> error + (pck_cert_entry list \<times> nat)" where
  "filter_loop C spki idx filtered_certs skipped_unavailable [] =
     Ok (filtered_certs, skipped_unavailable)"
| "filter_loop C spki idx filtered_certs skipped_unavailable (entry # entries) =
     (if entry_cert entry = NOT_AVAILABLE
      then filter_loop C spki (Suc idx) filtered_certs (Suc skipped_unavailable) entries
      else
        bind_res (ok_or (url_decode C (entry_cert entry))
          (MsgNat ''Failed to URL-decode certificate at index '' idx)) (\<lambda>decoded_cert.
        case verify_certificate C decoded_cert spki of
          Inr True \<Rightarrow>
            filter_loop C spki (Suc idx) (filtered_certs @ [entry]) skipped_unavailable entries
        | Inr False \<Rightarrow> Err (MsgNat ''Certificate failed signature verification at index '' idx)
        | Inl e \<Rightarrow> Err (MsgNat ''Certificate verification error at index '' idx)))"

definition filter_and_verify_pck_certs ::
  "('c, 's, 'd) crates \<Rightarrow> str \<Rightarrow> str \<Rightarrow> error + (str \<times> str)" where
  "filter_and_verify_pck_certs C pck_certs_json cert_chain =
     bind_res (ok_or (de_pck_entries C pck_certs_json)
       (Msg ''Failed to parse PCK certificates JSON'')) (\<lambda>pck_certs.
     bind_res (with_context ''Invalid PCK certificate issuer chain''
       (decode_and_validate_issuer_chain C cert_chain)) (\<lambda>(_, intermediate_der).
     bind_res (ok_or (parse_x509_certificate C intermediate_der)
       (Msg ''Failed to parse Intermediate CA certificate'')) (\<lambda>intermediate_cert.
     let intermediate_spki = subject_pki C intermediate_cert in
     bind_res (filter_loop C intermediate_spki 0 [] 0 pck_certs) (\<lambda>(filtered_certs, skipped).
     case filtered_certs of
       [] \<Rightarrow> Err (Msg ''No valid PCK certificates found after filtering'')
     | first # _ \<Rightarrow>
         bind_res (ok_or (ser_pck_entries C filtered_certs)
           (Msg ''Failed to serialize filtered certificates'')) (\<lambda>filtered_json.
         bind_res (ok_or (url_decode C (entry_cert first))
           (Msg ''Failed to URL-decode first PCK certificate'')) (\<lambda>first_cert_pem.
         bind_res (with_context ''Failed to extract PIID from first PCK certificate''
           (extract_piid C first_cert_pem)) (\<lambda>piid.
         Ok (filtered_json, piid))))))))"

definition available :: "pck_cert_entry \<Rightarrow> bool" where
  "available e \<longleftrightarrow> entry_cert e \<noteq> NOT_AVAILABLE"

definition entry_verified :: "('c, 's, 'd) crates \<Rightarrow> 's \<Rightarrow> pck_cert_entry \<Rightarrow> bool" where
  "entry_verified C spki e \<longleftrightarrow>
     (\<exists>pem der cert. url_decode C (entry_cert e) = Some pem \<and> parse_x509_pem C pem = Some der
        \<and> parse_x509_certificate C der = Some cert \<and> verify_signature C cert (Some spki))"

lemma verify_certificate_True:
  "verify_certificate C pem spki = Ok True \<longleftrightarrow>
     (\<exists>der cert. parse_x509_pem C pem = Some der \<and> parse_x509_certificate C der = Some cert
        \<and> verify_signature C cert (Some spki))"
  by (auto simp: verify_certificate_def bind_res_eq_Ok)

lemma filter_loop_step:
  assumes "available e"
  shows "filter_loop C spki idx acc sk (e # es) = Ok (out, sk') \<longleftrightarrow>
    entry_verified C spki e \<and> filter_loop C spki (Suc idx) (acc @ [e]) sk es = Ok (out, sk')"
proof (cases "url_decode C (entry_cert e)")
  case None
  with assms show ?thesis by (simp add: available_def entry_verified_def)
next
  case (Some pem)
  then have v: "entry_verified C spki e \<longleftrightarrow> verify_certificate C pem spki = Ok True"
    by (auto simp: entry_verified_def verify_certificate_True)
  show ?thesis
  proof (cases "verify_certificate C pem spki")
    case (Inl x)
    with assms Some v show ?thesis by (simp add: available_def)
  next
    case (Inr b)
    with assms Some v show ?thesis by (cases b) (simp_all add: available_def)
  qed
qed

lemma filter_loop_Ok:
  "filter_loop C spki idx acc sk es = Ok (out, sk') \<longleftrightarrow>
     (\<forall>e \<in> set es. available e \<longrightarrow> entry_verified C spki e)
     \<and> out = acc @ filter available es \<and> sk' = sk + length (filter (\<lambda>e. \<not> available e) es)"
proof (induction es arbitrary: idx acc sk)
  case Nil
  then show ?case by auto
next
  case (Cons e es)
  show ?case
  proof (cases "available e")
    case False
    with Cons.IH show ?thesis by (auto simp: available_def)
  next
    case True
    have "filter_loop C spki idx acc sk (e # es) = Ok (out, sk') \<longleftrightarrow>
        entry_verified C spki e \<and> filter_loop C spki (Suc idx) (acc @ [e]) sk es = Ok (out, sk')"
      using True by (rule filter_loop_step)
    with True Cons.IH show ?thesis by auto
  qed
qed

lemma filter_and_verify_Ok:
  "filter_and_verify_pck_certs C js chain = Ok (out, piid) \<longleftrightarrow>
     (\<exists>entries root_der inter_der inter first pem.
        de_pck_entries C js = Some entries
        \<and> decode_and_validate_issuer_chain C chain = Ok (root_der, inter_der)
        \<and> parse_x509_certificate C inter_der = Some inter
        \<and> (\<forall>e \<in> set entries. available e \<longrightarrow> entry_verified C (subject_pki C inter) e)
        \<and> filter available entries \<noteq> [] \<and> first = hd (filter available entries)
        \<and> ser_pck_entries C (filter available entries) = Some out
        \<and> url_decode C (entry_cert first) = Some pem \<and> extract_piid C pem = Ok piid)"
  (is "?l = ?r")
proof
  assume ?l
  then obtain entries root inter_der inter fs sk where
    e: "de_pck_entries C js = Some entries"
    and ch: "decode_and_validate_issuer_chain C chain = Ok (root, inter_der)"
    and i: "parse_x509_certificate C inter_der = Some inter"
    and fl: "filter_loop C (subject_pki C inter) 0 [] 0 entries = Ok (fs, sk)"
    and rest: "(case fs of [] \<Rightarrow> Err (Msg ''No valid PCK certificates found after filtering'')
       | first # _ \<Rightarrow>
         bind_res (ok_or (ser_pck_entries C fs) (Msg ''Failed to serialize filtered certificates'')) (\<lambda>filtered_json.
         bind_res (ok_or (url_decode C (entry_cert first))
           (Msg ''Failed to URL-decode first PCK certificate'')) (\<lambda>first_cert_pem.
         bind_res (with_context ''Failed to extract PIID from first PCK certificate''
           (extract_piid C first_cert_pem)) (\<lambda>piid. Ok (filtered_json, piid))))) = Ok (out, piid)"
    by (auto simp: filter_and_verify_pck_certs_def bind_res_eq_Ok Let_def)
  from fl have fs: "fs = filter available entries"
    "\<forall>e \<in> set entries. available e \<longrightarrow> entry_verified C (subject_pki C inter) e"
    by (auto simp: filter_loop_Ok)
  from rest obtain x xs pem where x: "fs = x # xs" "ser_pck_entries C fs = Some out"
    "url_decode C (entry_cert x) = Some pem" "extract_piid C pem = Ok piid"
    by (auto simp: bind_res_eq_Ok split: list.splits)
  have hd: "x = hd (filter available entries)" "filter available entries \<noteq> []"
    using x(1) by (simp_all flip: fs(1))
  show ?r
    by (rule exI [of _ entries], rule exI [of _ root], rule exI [of _ inter_der],
        rule exI [of _ inter], rule exI [of _ x], rule exI [of _ pem])
      (use e ch i fs x hd in simp)
next
  assume ?r
  then obtain entries root inter_der inter first pem where r:
    "de_pck_entries C js = Some entries"
    "decode_and_validate_issuer_chain C chain = Ok (root, inter_der)"
    "parse_x509_certificate C inter_der = Some inter"
    "\<forall>e \<in> set entries. available e \<longrightarrow> entry_verified C (subject_pki C inter) e"
    "filter available entries \<noteq> []" "first = hd (filter available entries)"
    "ser_pck_entries C (filter available entries) = Some out"
    "url_decode C (entry_cert first) = Some pem" "extract_piid C pem = Ok piid"
    by blast
  have fl: "filter_loop C (subject_pki C inter) 0 [] 0 entries =
      Ok (filter available entries, length (filter (\<lambda>e. \<not> available e) entries))"
    using r(4) by (simp add: filter_loop_Ok)
  have "\<exists>xs. filter available entries = first # xs"
    unfolding r(6) using r(5) by (metis list.collapse)
  then obtain xs where xs: "filter available entries = first # xs" ..
  show ?l
    using r(1-3) fl r(7-9) unfolding xs
    by (simp add: filter_and_verify_pck_certs_def)
qed

subsection \<open>TCB Info\<close>

definition validate_tcb_info :: "('c, 's, 'd) crates \<Rightarrow> str \<Rightarrow> error + unit" where
  "validate_tcb_info C tcb_info =
     bind_res (ok_or (de_tcb_document C tcb_info)
       (Msg ''Failed to parse TCB Info JSON response'')) (\<lambda>parsed.
     if info_tcb_type parsed \<noteq> 0
     then Err (MsgNat ''Invalid TCB Info: tcbType must be 0 (Standard SGX), got ''
       (unat (info_tcb_type parsed)))
     else Ok ())"

definition verify_tcb_info_signature ::
  "('c, 's, 'd) crates \<Rightarrow> str \<Rightarrow> bytes \<Rightarrow> str \<Rightarrow> error + unit" where
  "verify_tcb_info_signature C tcb_info_json signer_public_key expected_fmspc =
     bind_res (ok_or (de_signed_tcb_info C tcb_info_json)
       (Msg ''Failed to parse signed TCB Info JSON'')) (\<lambda>(raw_tcb_info, signature).
     bind_res (with_context ''Invalid TCB Info signature encoding''
       (decode_hex ECDSA_P256_SIGNATURE_LEN signature)) (\<lambda>signature.
     bind_res (ensure (ecdsa_p256_verify C signer_public_key (as_bytes raw_tcb_info) signature)
       (Msg ''TCB Info signature verification failed'')) (\<lambda>_.
     bind_res (ok_or (de_tcb_info C raw_tcb_info)
       (Msg ''Failed to parse signed tcbInfo object'')) (\<lambda>tcb_info.
     if \<not> eq_ignore_ascii_case (info_fmspc tcb_info) expected_fmspc
     then Err (MsgStr ''TCB Info FMSPC mismatch: requested '' expected_fmspc)
     else Ok ()))))"

definition verify_tcb_info ::
  "('c, 's, 'd) crates \<Rightarrow> str \<Rightarrow> str \<Rightarrow> str \<Rightarrow> str \<Rightarrow> error + unit" where
  "verify_tcb_info C tcb_info_json tcb_issuer_chain pck_issuer_chain expected_fmspc =
     bind_res (with_context ''Invalid TCB Info issuer chain''
       (decode_and_validate_issuer_chain C tcb_issuer_chain)) (\<lambda>(tcb_root_der, signer_der).
     bind_res (with_context ''Invalid PCK certificate issuer chain''
       (decode_and_validate_issuer_chain C pck_issuer_chain)) (\<lambda>(pck_root_der, _).
     bind_res (ensure (tcb_root_der = pck_root_der)
       (Msg ''TCB Info issuer chain Root CA does not match the PCK certificate issuer Root CA'')) (\<lambda>_.
     bind_res (ok_or (parse_x509_certificate C signer_der)
       (Msg ''Failed to parse TCB Signing certificate'')) (\<lambda>signer_cert.
     verify_tcb_info_signature C tcb_info_json
       (public_key_data C (subject_pki C signer_cert)) expected_fmspc))))"

lemma verify_tcb_info_signature_Ok:
  "verify_tcb_info_signature C js key fm = Ok u \<longleftrightarrow>
     (\<exists>raw sg sig info. de_signed_tcb_info C js = Some (raw, sg) \<and> decode_hex 64 sg = Ok sig
        \<and> ecdsa_p256_verify C key (as_bytes raw) sig \<and> de_tcb_info C raw = Some info
        \<and> eq_ignore_ascii_case (info_fmspc info) fm)"
  by (auto simp: verify_tcb_info_signature_def bind_res_eq_Ok ECDSA_P256_SIGNATURE_LEN_def)

lemma verify_tcb_info_Ok:
  "verify_tcb_info C js tcb_chain pck_chain fm = Ok u \<longleftrightarrow>
     (\<exists>root_der signer_der signer inter_der.
        decode_and_validate_issuer_chain C tcb_chain = Ok (root_der, signer_der)
        \<and> decode_and_validate_issuer_chain C pck_chain = Ok (root_der, inter_der)
        \<and> parse_x509_certificate C signer_der = Some signer
        \<and> verify_tcb_info_signature C js (public_key_data C (subject_pki C signer)) fm = Ok ())"
  by (auto simp: verify_tcb_info_def bind_res_eq_Ok)

subsection \<open>Lemmas about the hexadecimal decoder\<close>

lemma to_ascii_lower_hex:
  assumes "is_ascii_hexdigit a" "n < 16"
  shows "to_ascii_lower a = to_ascii_lower (hex_digit n) \<longleftrightarrow> hex_value a = Some n"
proof -
  have plus: "unat (a + 32) = unat a + 32" if "unat a \<le> 90"
    using that by (simp add: unat_word_ariths)
  have "to_ascii_lower (hex_digit n) = hex_digit n"
    using assms(2) by (simp add: to_ascii_lower_def unat_hex_digit)
  moreover have "to_ascii_lower a = hex_digit n \<longleftrightarrow> unat (to_ascii_lower a) = unat (hex_digit n)"
    by (rule word_unat_eq_iff)
  ultimately show ?thesis
    using assms plus
    by (auto simp: to_ascii_lower_def is_ascii_hexdigit_def hex_value_def Let_def unat_hex_digit)
qed

lemma nth_hex_string:
  assumes "i < length bs"
  shows "as_bytes (hex_string bs) ! (2 * i) = hex_digit (unat (bs ! i) div 16)"
    and "as_bytes (hex_string bs) ! Suc (2 * i) = hex_digit (unat (bs ! i) mod 16)"
  using assms
proof (induction bs arbitrary: i)
  case (Cons b bs)
  {
    case 1 then show ?case using Cons.IH by (cases i) (auto simp: hex_byte_def nth_append)
  next
    case 2 then show ?case using Cons.IH by (cases i) (auto simp: hex_byte_def nth_append)
  }
qed auto

lemma take_2_drop:
  "Suc i < length xs \<Longrightarrow> take 2 (drop i xs) = [xs ! i, xs ! Suc i]"
  by (simp add: numeral_2_eq_2 flip: Cons_nth_drop_Suc)

lemma decode_hex_Ok:
  "decode_hex N s = Ok bs \<longleftrightarrow>
     length s = 2 * N \<and> all_hex s \<and> length bs = N
     \<and> (\<forall>i < N. u8_from_hex [as_bytes s ! (2 * i), as_bytes s ! Suc (2 * i)] = Some (bs ! i))"
proof -
  have "map (\<lambda>i. ok_or (u8_from_hex (take 2 (drop (2 * i) (as_bytes s)))) e) [0..<N] = map Ok bs
      \<longleftrightarrow> length bs = N
        \<and> (\<forall>i < N. u8_from_hex [as_bytes s ! (2 * i), as_bytes s ! Suc (2 * i)] = Some (bs ! i))"
    if "length s = 2 * N" for e :: error
    using that by (auto simp: list_eq_iff_nth_eq take_2_drop)
  then show ?thesis
    by (auto simp: decode_hex_def bind_res_eq_Ok collect_res_Ok all_hex_def)
qed

lemma u8_from_hex_digits:
  assumes "is_ascii_hexdigit a" "is_ascii_hexdigit b"
  shows "u8_from_hex [a, b] = Some v \<longleftrightarrow>
    hex_value a = Some (unat v div 16) \<and> hex_value b = Some (unat v mod 16)"
proof -
  obtain x y where xy: "hex_value a = Some x" "hex_value b = Some y"
    using assms hex_value_None_iff by blast
  have lt: "x < 16" "y < 16" using xy by (auto dest: hex_value_less)
  have u: "unat (word_of_nat (16 * x + y) :: u8) = 16 * x + y"
    by (subst unat_of_nat) (use lt in simp)
  have "word_of_nat (16 * x + y) = v \<longleftrightarrow> 16 * x + y = unat v"
    using u by (metis word_unat_eq_iff)
  moreover have "16 * x + y = n \<longleftrightarrow> x = n div 16 \<and> y = n mod 16" for n
  proof
    assume "16 * x + y = n"
    then show "x = n div 16 \<and> y = n mod 16" using lt by (metis add.commute
        div_mult_self4 div_less add_0 mod_mult_self4 mod_less zero_neq_numeral)
  qed simp
  ultimately show ?thesis by (simp add: u8_from_hex_pair [OF xy] xy)
qed

lemma nth_pairs_eq:
  assumes "length xs = 2 * N" "length ys = 2 * N"
  shows "xs = ys \<longleftrightarrow> (\<forall>i < N. xs ! (2 * i) = ys ! (2 * i) \<and> xs ! Suc (2 * i) = ys ! Suc (2 * i))"
proof
  assume pairs: "\<forall>i < N. xs ! (2 * i) = ys ! (2 * i) \<and> xs ! Suc (2 * i) = ys ! Suc (2 * i)"
  show "xs = ys"
  proof (rule nth_equalityI)
    fix j assume "j < length xs"
    then have j: "j div 2 < N" using assms(1) by simp
    show "xs ! j = ys ! j"
    proof (cases "even j")
      case True
      then have "j = 2 * (j div 2)" by simp
      with pairs j show ?thesis by metis
    next
      case False
      then have "j = Suc (2 * (j div 2))" by simp
      with pairs j show ?thesis by metis
    qed
  qed (use assms in simp)
qed simp

lemma eq_ignore_case_hex_string:
  assumes "length s = 2 * length bs" "all_hex s"
  shows "eq_ignore_ascii_case s (hex_string bs) \<longleftrightarrow>
    (\<forall>i < length bs. u8_from_hex [as_bytes s ! (2 * i), as_bytes s ! Suc (2 * i)] = Some (bs ! i))"
proof -
  have hex: "is_ascii_hexdigit (as_bytes s ! j)" if "j < 2 * length bs" for j
    using assms that by (simp add: all_hex_def list_all_length)
  have eq: "eq_ignore_ascii_case s (hex_string bs) \<longleftrightarrow>
      (\<forall>i < length bs.
         to_ascii_lower (as_bytes s ! (2 * i)) = to_ascii_lower (hex_digit (unat (bs ! i) div 16))
         \<and> to_ascii_lower (as_bytes s ! Suc (2 * i)) = to_ascii_lower (hex_digit (unat (bs ! i) mod 16)))"
    unfolding eq_ignore_ascii_case_def
    by (subst nth_pairs_eq [where N = "length bs"]) (auto simp: assms nth_hex_string)
  show ?thesis
    unfolding eq by (auto simp: u8_from_hex_digits to_ascii_lower_hex hex)
qed

lemma decode_hex_lower:
  "decode_hex N s = Ok bs \<longleftrightarrow>
     length s = 2 * N \<and> all_hex s \<and> eq_ignore_ascii_case s (hex_string bs)"
proof -
  have "length bs = N" if "length s = 2 * N" "eq_ignore_ascii_case s (hex_string bs)"
    using arg_cong [where f = length, OF that(2) [unfolded eq_ignore_ascii_case_def]] that(1) by simp
  then show ?thesis
    by (auto simp: decode_hex_Ok eq_ignore_case_hex_string)
qed

lemma decode_hex_string: "length bs = N \<Longrightarrow> decode_hex N (hex_string bs) = Ok bs"
  by (simp add: decode_hex_lower eq_ignore_ascii_case_def)

subsection \<open>Lemmas about the PIID loop\<close>

definition skips_item :: "('c, 's, 'd) crates \<Rightarrow> 'd \<Rightarrow> bool" where
  "skips_item C item \<longleftrightarrow>
     (\<exists>inner. as_sequence C item = Some inner \<and>
        (length inner < 2 \<or> (\<exists>oid. as_oid_val C (hd inner) = Some oid \<and> oid \<noteq> SGX_PIID_OID)))"

definition holds_piid :: "('c, 's, 'd) crates \<Rightarrow> 'd \<Rightarrow> bytes \<Rightarrow> bool" where
  "holds_piid C item b \<longleftrightarrow>
     (\<exists>o_der v_der r. as_sequence C item = Some (o_der # v_der # r)
        \<and> as_oid_val C o_der = Some SGX_PIID_OID \<and> as_slice C v_der = Some b)"

lemma piid_loop_Cons:
  "piid_loop C (item # items) = Ok s \<longleftrightarrow>
     skips_item C item \<and> piid_loop C items = Ok s
     \<or> (\<exists>b. holds_piid C item b \<and> length b = 16 \<and> s = hex_string b)"
proof (cases "as_sequence C item")
  case None
  then show ?thesis by (simp add: skips_item_def holds_piid_def)
next
  case (Some inner)
  show ?thesis
  proof (cases "length inner < 2")
    case True
    then have "inner = [] \<or> (\<exists>a. inner = [a])" by (cases inner) auto
    with Some show ?thesis by (auto simp: skips_item_def holds_piid_def)
  next
    case False
    then obtain o_der v_der r where inner: "inner = o_der # v_der # r"
      by (cases inner; cases "tl inner") auto
    show ?thesis
      using Some inner
      by (cases "as_oid_val C o_der"; cases "as_slice C v_der")
        (auto simp: skips_item_def holds_piid_def bind_res_eq_Ok)
  qed
qed

lemma piid_loop_Ok:
  "piid_loop C items = Ok s \<longleftrightarrow>
     (\<exists>pre item post b. items = pre @ item # post \<and> (\<forall>x \<in> set pre. skips_item C x)
        \<and> holds_piid C item b \<and> length b = 16 \<and> s = hex_string b)"
proof (induction items)
  case Nil
  then show ?case by simp
next
  case (Cons x items)
  show ?case (is "?l \<longleftrightarrow> ?r")
  proof
    assume ?l
    then consider "skips_item C x" "piid_loop C items = Ok s"
      | b where "holds_piid C x b" "length b = 16" "s = hex_string b"
      unfolding piid_loop_Cons by blast
    then show ?r
    proof cases
      case 1
      then obtain pre item post b where "items = pre @ item # post" "\<forall>x \<in> set pre. skips_item C x"
        "holds_piid C item b" "length b = 16" "s = hex_string b"
        unfolding Cons.IH by blast
      with 1(1) show ?thesis
        by - (rule exI [of _ "x # pre"], rule exI [of _ item], rule exI [of _ post],
          rule exI [of _ b], simp)
    next
      case 2
      then show ?thesis
        by - (rule exI [of _ "[]"], rule exI [of _ x], rule exI [of _ items],
          rule exI [of _ b], simp)
    qed
  next
    assume ?r
    then obtain pre item post b where r: "x # items = pre @ item # post"
      "\<forall>x \<in> set pre. skips_item C x" "holds_piid C item b" "length b = 16" "s = hex_string b"
      by blast
    show ?l
    proof (cases pre)
      case Nil
      with r show ?thesis by (auto simp: piid_loop_Cons simp del: piid_loop.simps)
    next
      case (Cons y pre')
      with r have "piid_loop C items = Ok s" "skips_item C x" using Cons.IH by auto
      then show ?thesis by (simp add: piid_loop_Cons del: piid_loop.simps)
    qed
  qed
qed

lemma extract_piid_Ok:
  "extract_piid C pem = Ok s \<longleftrightarrow>
     (\<exists>der cert ext outer items. parse_x509_pem C pem = Some der
        \<and> parse_x509_certificate C der = Some cert
        \<and> extension_unique C cert SGX_PCK_EXT_OID = Some (Some ext)
        \<and> parse_der C ext = Some outer \<and> as_sequence C outer = Some items
        \<and> piid_loop C items = Ok s)"
  by (auto simp: extract_piid_def bind_res_eq_Ok)

lemma piid_loop_hex: "piid_loop C items = Ok s \<Longrightarrow> length s = 32 \<and> all_hex s"
  by (auto simp: piid_loop_Ok)

lemma extract_piid_hex: "extract_piid C pem = Ok s \<Longrightarrow> length s = 32 \<and> all_hex s"
  by (auto simp: extract_piid_Ok dest: piid_loop_hex)

end
