(* ===== verification/Demo.thy ===== *)
theory Demo
  imports PckVerify
begin

text \<open>
  A concrete instance of the crates record, used only by the witnesses: a certificate is the
  pair of its own key and its signer's key, a chain is one fixed pair of certificates, and the
  signature primitive accepts one key. No theorem about the program depends on it.
\<close>

definition demo_crates :: "(bytes, u8, json) crates" where
  "demo_crates = \<lparr>
     url_join = (\<lambda>base p. Some (base @ p)),
     set_query = (\<lambda>u q. u @ ''?'' @ q),
     url_encode = id,
     url_decode = Some,
     de_pck_entries = (\<lambda>s. if s = ''entries'' then
        Some [\<lparr>entry_tcb = JNull, entry_tcbm = ''00'', entry_cert = NOT_AVAILABLE\<rparr>,
              \<lparr>entry_tcb = JNull, entry_tcbm = ''01'', entry_cert = ''pck''\<rparr>] else None),
     ser_pck_entries = (\<lambda>es. let t = concat (map entry_cert es) in if str_ok t then Some t else None),
     de_tcb_document = (\<lambda>s. Some \<lparr>info_tcb_type = 0, info_fmspc = ''00906ED50000''\<rparr>),
     de_signed_tcb_info = (\<lambda>s. Some (s, hex_string (replicate 64 0))),
     de_tcb_info = (\<lambda>s. Some \<lparr>info_tcb_type = 0, info_fmspc = ''00906ED50000''\<rparr>),
     pem_blocks = (\<lambda>s. if s = ''chain'' then [Some [2, 1], Some [1, 1]]
        else if s = ''niahc'' then [Some [1, 1], Some [2, 1]] else []),
     parse_x509_pem = (\<lambda>s. if s = ''pck'' then Some [3, 2] else None),
     parse_x509_certificate = (\<lambda>b. if length b = 2 then Some b else None),
     verify_signature = (\<lambda>c k. case k of None \<Rightarrow> c ! 1 = c ! 0 | Some k \<Rightarrow> c ! 1 = k),
     subject_pki = (\<lambda>c. c ! 0),
     public_key_data = (\<lambda>k. [k]),
     extension_unique = (\<lambda>c oid. Some (Some [])),
     parse_der = (\<lambda>b. Some (JArr [JArr [JNull], JArr [JStr ''tcb'', JNum 1],
        JArr [JStr ''piid'', JNum 7]])),
     as_sequence = (\<lambda>d. case d of JArr xs \<Rightarrow> Some xs | _ \<Rightarrow> None),
     as_oid_val = (\<lambda>d. case d of JStr s \<Rightarrow> Some (if s = ''piid'' then SGX_PIID_OID else [])
        | _ \<Rightarrow> None),
     as_slice = (\<lambda>d. case d of JNum n \<Rightarrow> Some (replicate 16 (word_of_int n)) | _ \<Rightarrow> None),
     ecdsa_p256_verify = (\<lambda>k m s. k = [2] \<and> length s = 64),
     sha256 = (\<lambda>b. take 32 (b @ replicate 32 0)),
     base64_encode = hex_string\<rparr>"

text \<open>Likewise an environment: no secret exists yet, every write succeeds, and Intel PCS answers
  both requests.\<close>

definition demo_response :: "http_request \<Rightarrow> http_response" where
  "demo_response q =
     (if req_method q = POST then
        \<lparr>resp_status = 200,
         resp_header = [''SGX-FMSPC'' \<mapsto> as_bytes ''00906ED50000'',
           ''SGX-PCK-Certificate-Issuer-Chain'' \<mapsto> as_bytes ''chain''],
         resp_text = Ok ''entries''\<rparr>
      else
        \<lparr>resp_status = 200,
         resp_header = [''TCB-Info-Issuer-Chain'' \<mapsto> as_bytes ''chain''],
         resp_text = Ok ''tcb''\<rparr>)"

definition demo_env :: env where
  "demo_env = \<lparr>
     env_get_secret = (\<lambda>h n. Err (KubeApi 404 ''NotFound'' ''not found'')),
     env_apply_secret = (\<lambda>h n p d. Ok ()),
     env_http_send = (\<lambda>h q. Ok (demo_response q)),
     env_system_time = (\<lambda>h. Some 1700000000),
     env_instant = (\<lambda>h. from_secs 10),
     env_io = (\<lambda>h op. None),
     env_written = (\<lambda>h op. 0),
     env_run = (\<lambda>h b. Err NotFound)\<rparr>"

end
