(* ===== verification/VerifyProps.thy ===== *)
theory VerifyProps
  imports Demo
begin

text \<open>Properties of \<open>pcs_client.rs\<close>: requests, issuer chains, certificates, TCB Info.\<close>

lemmas demo_eval = demo_crates_def NOT_AVAILABLE_def

subsection \<open>Issuer chains\<close>

lemma issuer_chain_no_panic: "decode_and_validate_issuer_chain C chain \<noteq> Err (Panic msg)"
proof
  assume "decode_and_validate_issuer_chain C chain = Err (Panic msg)"
  then obtain chain_der where "length chain_der = 2" and
    v: "validate_chain_pair C chain_der = Err (Panic msg)"
    by (auto simp: decode_and_validate_issuer_chain_def bind_res_def ok_or_def
        split: option.splits sum.splits if_splits dest!: collect_res_Err_mem)
  then obtain a b where "chain_der = [a, b]" by (auto simp: length_2_conv)
  with v show False
    by (auto simp: validate_chain_pair_def bind_res_def ok_or_def ensure_def Let_def
        split: option.splits sum.splits if_splits)
qed

text \<open>C25: An issuer chain is accepted only when it is exactly two certificates, one a self-signed
  root and the other not self-signed but signed by that root's key; the root is returned first
  whatever the order in the header, and the positional removals never run out of bounds.\<close>

theorem issuer_chain_sound:
  assumes "decode_and_validate_issuer_chain C chain = Ok (root_der, issuer_der)"
  shows "\<exists>pem root issuer. url_decode C chain = Some pem
     \<and> (pem_blocks C pem = [Some root_der, Some issuer_der]
        \<or> pem_blocks C pem = [Some issuer_der, Some root_der])
     \<and> parse_x509_certificate C root_der = Some root
     \<and> parse_x509_certificate C issuer_der = Some issuer
     \<and> verify_signature C root None \<and> \<not> verify_signature C issuer None
     \<and> verify_signature C issuer (Some (subject_pki C root))
     \<and> (\<forall>other msg. decode_and_validate_issuer_chain C other \<noteq> Err (Panic msg))"
  using assms issuer_chain_no_panic unfolding issuer_chain_Ok valid_chain_def by blast

theorem issuer_chain_sound_witness:
  "decode_and_validate_issuer_chain demo_crates ''chain'' = Ok ([1, 1], [2, 1])
   \<and> (\<exists>pem root issuer. url_decode demo_crates ''chain'' = Some pem
     \<and> (pem_blocks demo_crates pem = [Some [1, 1], Some [2, 1]]
        \<or> pem_blocks demo_crates pem = [Some [2, 1], Some [1, 1]])
     \<and> parse_x509_certificate demo_crates [1, 1] = Some root
     \<and> parse_x509_certificate demo_crates [2, 1] = Some issuer
     \<and> verify_signature demo_crates root None \<and> \<not> verify_signature demo_crates issuer None
     \<and> verify_signature demo_crates issuer (Some (subject_pki demo_crates root))
     \<and> (\<forall>other msg. decode_and_validate_issuer_chain demo_crates other \<noteq> Err (Panic msg)))"
proof -
  have h: "decode_and_validate_issuer_chain demo_crates ''chain'' = Ok ([1, 1], [2, 1])"
    by (simp add: issuer_chain_Ok valid_chain_def demo_eval)
  show ?thesis using h issuer_chain_sound [OF h] by blast
qed

text \<open>The order of the two certificates in the header does not matter.\<close>

theorem issuer_chain_order_independent:
  assumes "url_decode C a = Some x" "url_decode C b = Some y"
    and "pem_blocks C y = rev (pem_blocks C x)"
  shows "decode_and_validate_issuer_chain C a = Ok p \<longleftrightarrow> decode_and_validate_issuer_chain C b = Ok p"
proof -
  have sym: "pem_blocks C y \<in> {[r, i], [i, r]} \<longleftrightarrow> pem_blocks C x \<in> {[r, i], [i, r]}" for r i
    using assms(3) by (metis (no_types, lifting) append.simps insert_iff rev.simps rev_rev_ident singletonD)
  show ?thesis
    by (cases p) (simp only: issuer_chain_Ok assms(1,2) sym option.inject ex_simps simp_thms)
qed

theorem issuer_chain_order_independent_witness:
  "pem_blocks demo_crates ''niahc'' = rev (pem_blocks demo_crates ''chain'')
   \<and> decode_and_validate_issuer_chain demo_crates ''niahc'' = Ok ([1, 1], [2, 1])"
proof -
  have u: "url_decode demo_crates s = Some s" for s by (simp add: demo_eval)
  have r: "pem_blocks demo_crates ''niahc'' = rev (pem_blocks demo_crates ''chain'')"
    by (simp add: demo_eval)
  have "decode_and_validate_issuer_chain demo_crates ''chain'' = Ok ([1, 1], [2, 1])"
    by (simp add: issuer_chain_Ok valid_chain_def demo_eval)
  with r issuer_chain_order_independent [OF u u r] show ?thesis by blast
qed

subsection \<open>Certificates\<close>

text \<open>C23: Filtering never lets an unverified certificate through: on success the issuer chain it is
  given is valid, the serialised list is exactly the available entries in their order, each of them a
  certificate signed by the issuing CA, and the PIID is 32 hexadecimal digits read from the
  first of them. One bad certificate fails the whole response.\<close>

theorem filter_and_verify_sound:
  assumes "filter_and_verify_pck_certs C js chain = Ok (out, piid)"
  shows "\<exists>entries root_der inter_der inter pem. de_pck_entries C js = Some entries
     \<and> chain_holds C chain root_der inter_der
     \<and> valid_chain C root_der inter_der \<and> parse_x509_certificate C inter_der = Some inter
     \<and> filter available entries \<noteq> [] \<and> ser_pck_entries C (filter available entries) = Some out
     \<and> list_all (entry_verified C (subject_pki C inter)) (filter available entries)
     \<and> url_decode C (entry_cert (hd (filter available entries))) = Some pem
     \<and> extract_piid C pem = Ok piid \<and> length piid = 32 \<and> all_hex piid"
proof -
  obtain entries root_der inter_der inter pem where r:
    "de_pck_entries C js = Some entries"
    "decode_and_validate_issuer_chain C chain = Ok (root_der, inter_der)"
    "parse_x509_certificate C inter_der = Some inter"
    "\<forall>e \<in> set entries. available e \<longrightarrow> entry_verified C (subject_pki C inter) e"
    "filter available entries \<noteq> []" "ser_pck_entries C (filter available entries) = Some out"
    "url_decode C (entry_cert (hd (filter available entries))) = Some pem"
    "extract_piid C pem = Ok piid"
    using assms unfolding filter_and_verify_Ok by metis
  have "chain_holds C chain root_der inter_der" "valid_chain C root_der inter_der"
    using r(2) by (simp_all add: issuer_chain_holds)
  moreover have "list_all (entry_verified C (subject_pki C inter)) (filter available entries)"
    using r(4) by (simp add: list_all_iff)
  ultimately show ?thesis
    using r(1,3,5-8) extract_piid_hex [OF r(8)] by blast
qed

lemma demo_chain:
  "decode_and_validate_issuer_chain demo_crates ''chain'' = Ok ([1, 1], [2, 1])"
  "decode_and_validate_issuer_chain demo_crates ''niahc'' = Ok ([1, 1], [2, 1])"
  by (simp_all add: issuer_chain_Ok valid_chain_def demo_eval)

lemma demo_filter:
  "filter_and_verify_pck_certs demo_crates ''entries'' ''chain'' =
     Ok (''pck'', hex_string (replicate 16 7))"
proof -
  have "decode_and_validate_issuer_chain demo_crates ''chain'' = Ok ([1, 1], [2, 1])"
    by (rule demo_chain)
  moreover have "str_ok ''pck''"
    by (simp add: str_ok_def as_bytes_def byte_of_def utf8_valid_ascii)
  ultimately show ?thesis
    by (simp add: filter_and_verify_pck_certs_def verify_certificate_def extract_piid_def
        SGX_PIID_OID_def demo_eval)
qed

theorem filter_and_verify_sound_witness:
  "filter_and_verify_pck_certs demo_crates ''entries'' ''chain'' =
     Ok (''pck'', hex_string (replicate 16 7))
   \<and> (\<exists>entries root_der inter_der inter pem. de_pck_entries demo_crates ''entries'' = Some entries
     \<and> chain_holds demo_crates ''chain'' root_der inter_der \<and> valid_chain demo_crates root_der inter_der
     \<and> parse_x509_certificate demo_crates inter_der = Some inter
     \<and> filter available entries \<noteq> []
     \<and> ser_pck_entries demo_crates (filter available entries) = Some ''pck''
     \<and> list_all (entry_verified demo_crates (subject_pki demo_crates inter)) (filter available entries)
     \<and> url_decode demo_crates (entry_cert (hd (filter available entries))) = Some pem
     \<and> extract_piid demo_crates pem = Ok (hex_string (replicate 16 7))
     \<and> length (hex_string (replicate 16 7)) = 32 \<and> all_hex (hex_string (replicate 16 7)))"
  using demo_filter filter_and_verify_sound [OF demo_filter] by blast

text \<open>The PIID is the 16-byte octet string of the first PIID item of the SGX extension, every
  item before it being well formed and not a PIID, printed as 32 lower-case digits.\<close>

theorem extract_piid_sound:
  assumes "extract_piid C pem = Ok s"
  shows "\<exists>der cert ext outer pre item post b. parse_x509_pem C pem = Some der
     \<and> parse_x509_certificate C der = Some cert
     \<and> extension_unique C cert SGX_PCK_EXT_OID = Some (Some ext) \<and> parse_der C ext = Some outer
     \<and> as_sequence C outer = Some (pre @ item # post) \<and> list_all (skips_item C) pre
     \<and> holds_piid C item b \<and> length b = 16 \<and> s = hex_string b"
  using assms unfolding extract_piid_Ok piid_loop_Ok list_all_iff by metis

theorem extract_piid_sound_witness:
  "extract_piid demo_crates ''pck'' = Ok (hex_string (replicate 16 7))
   \<and> (\<exists>der cert ext outer pre item post b. parse_x509_pem demo_crates ''pck'' = Some der
     \<and> parse_x509_certificate demo_crates der = Some cert
     \<and> extension_unique demo_crates cert SGX_PCK_EXT_OID = Some (Some ext)
     \<and> parse_der demo_crates ext = Some outer
     \<and> as_sequence demo_crates outer = Some (pre @ item # post) \<and> list_all (skips_item demo_crates) pre
     \<and> holds_piid demo_crates item b \<and> length b = 16
     \<and> hex_string (replicate 16 7) = hex_string b)"
proof -
  have h: "extract_piid demo_crates ''pck'' = Ok (hex_string (replicate 16 7))"
    by (simp add: extract_piid_def SGX_PIID_OID_def demo_eval)
  show ?thesis using h extract_piid_sound [OF h] by blast
qed

subsection \<open>TCB Info\<close>

text \<open>C24: TCB Info is accepted only if its issuer chain is valid and holds the same root
  certificate as the PCK chain, and the signature, 64 bytes given as 128 hexadecimal digits,
  verifies over the exact bytes of the \<open>tcbInfo\<close> object under the key of the other certificate of
  the TCB Info chain, the TCB signing certificate, and the signed FMSPC is the requested one up
  to case.\<close>

theorem verify_tcb_info_sound:
  assumes "verify_tcb_info C js tcb_chain pck_chain fm = Ok u"
  shows "\<exists>root_der signer_der inter_der signer raw sg sig info.
     chain_holds C tcb_chain root_der signer_der \<and> valid_chain C root_der signer_der
     \<and> chain_holds C pck_chain root_der inter_der \<and> valid_chain C root_der inter_der
     \<and> decode_and_validate_issuer_chain C pck_chain = Ok (root_der, inter_der)
     \<and> parse_x509_certificate C signer_der = Some signer
     \<and> de_signed_tcb_info C js = Some (raw, sg) \<and> length sg = 128 \<and> all_hex sg
     \<and> decode_hex 64 sg = Ok sig \<and> length sig = 64
     \<and> ecdsa_p256_verify C (public_key_data C (subject_pki C signer)) (as_bytes raw) sig
     \<and> de_tcb_info C raw = Some info \<and> eq_ignore_ascii_case (info_fmspc info) fm"
proof -
  obtain root_der signer_der signer inter_der where 1:
    "decode_and_validate_issuer_chain C tcb_chain = Ok (root_der, signer_der)"
    "decode_and_validate_issuer_chain C pck_chain = Ok (root_der, inter_der)"
    "parse_x509_certificate C signer_der = Some signer"
    "verify_tcb_info_signature C js (public_key_data C (subject_pki C signer)) fm = Ok ()"
    using assms unfolding verify_tcb_info_Ok by blast
  obtain raw sg sig info where 2: "de_signed_tcb_info C js = Some (raw, sg)" "decode_hex 64 sg = Ok sig"
    "ecdsa_p256_verify C (public_key_data C (subject_pki C signer)) (as_bytes raw) sig"
    "de_tcb_info C raw = Some info" "eq_ignore_ascii_case (info_fmspc info) fm"
    using 1(4) unfolding verify_tcb_info_signature_Ok by blast
  have "chain_holds C tcb_chain root_der signer_der" "valid_chain C root_der signer_der"
    "chain_holds C pck_chain root_der inter_der" "valid_chain C root_der inter_der"
    using 1(1,2) by (simp_all add: issuer_chain_holds)
  moreover have "length sg = 128" "all_hex sg" "length sig = 64"
    using 2(2) by (simp_all add: decode_hex_Ok)
  ultimately show ?thesis using 1(2,3) 2 by blast
qed

lemma decode_hex_zeros: "decode_hex 64 (hex_string (replicate 64 0)) = Ok (replicate 64 0)"
  by (rule decode_hex_string) simp

lemma demo_verify_tcb: "verify_tcb_info demo_crates ''tcb'' ''chain'' ''niahc'' ''00906ed50000'' = Ok ()"
proof -
  have "decode_and_validate_issuer_chain demo_crates ''chain'' = Ok ([1, 1], [2, 1])"
    "decode_and_validate_issuer_chain demo_crates ''niahc'' = Ok ([1, 1], [2, 1])"
    by (simp_all add: issuer_chain_Ok valid_chain_def demo_eval)
  moreover have "eq_ignore_ascii_case ''00906ED50000'' ''00906ed50000''"
    by (simp add: eq_ignore_ascii_case_def as_bytes_def byte_of_def to_ascii_lower_def)
  ultimately show ?thesis
    by (simp add: verify_tcb_info_def verify_tcb_info_signature_def ECDSA_P256_SIGNATURE_LEN_def
        demo_eval decode_hex_zeros)
qed

theorem verify_tcb_info_sound_witness:
  "\<exists>root_der signer_der inter_der signer raw sg sig info.
     chain_holds demo_crates ''chain'' root_der signer_der \<and> valid_chain demo_crates root_der signer_der
     \<and> chain_holds demo_crates ''niahc'' root_der inter_der \<and> valid_chain demo_crates root_der inter_der
     \<and> decode_and_validate_issuer_chain demo_crates ''niahc'' = Ok (root_der, inter_der)
     \<and> parse_x509_certificate demo_crates signer_der = Some signer
     \<and> de_signed_tcb_info demo_crates ''tcb'' = Some (raw, sg) \<and> length sg = 128 \<and> all_hex sg
     \<and> decode_hex 64 sg = Ok sig \<and> length sig = 64
     \<and> ecdsa_p256_verify demo_crates (public_key_data demo_crates (subject_pki demo_crates signer))
         (as_bytes raw) sig
     \<and> de_tcb_info demo_crates raw = Some info
     \<and> eq_ignore_ascii_case (info_fmspc info) ''00906ed50000''"
  by (rule verify_tcb_info_sound [OF demo_verify_tcb])

text \<open>Decoding a signature: exactly the strings of \<open>2 * N\<close> hexadecimal digits are accepted,
  in either case, and decoding undoes printing.\<close>

theorem decode_hex_spec:
  "decode_hex N s = Ok bs \<longleftrightarrow>
     length s = 2 * N \<and> all_hex s \<and> eq_ignore_ascii_case s (hex_string bs)"
  by (rule decode_hex_lower)

subsection \<open>Requests\<close>

text \<open>C37: Whatever FMSPC string Intel PCS put in its response header, the TCB Info request is sent
  at most once, only for 12 hexadecimal digits, to the pinned endpoint and without the API key,
  and its query is \<open>fmspc=<those digits>&update=early\<close>: nothing can be injected into it.\<close>

theorem fetch_tcb_info_query:
  assumes "\<And>s. all_hex s \<Longrightarrow> url_encode C s = s"
    and "fetch_tcb_info C env fm w = (r, w')"
  shows "events w' = events w \<or> length fm = 12 \<and> all_hex fm
     \<and> (\<exists>u. url_join C INTEL_PCS_API_BASE_URL INTEL_PCS_TCB_ENDPOINT = Some u
        \<and> events w' = events w @ [HttpSend \<lparr>req_method = GET,
            req_url = set_query C u (''fmspc='' @ fm @ ''&update=early''),
            req_headers = [], req_json = None\<rparr>])"
proof (cases "is_fixed_len_hex 12 fm \<and> url_join C INTEL_PCS_API_BASE_URL INTEL_PCS_TCB_ENDPOINT \<noteq> None")
  case False
  then have "w' = w"
  proof (cases "is_fixed_len_hex 12 fm")
    case True
    with False assms(2) show ?thesis
      by (simp add: fetch_tcb_info_def validate_fmspc_def FMSPC_HEX_LEN_def bind_fx_lift)
  next
    case False
    with assms(2) show ?thesis
      by (simp add: fetch_tcb_info_def validate_fmspc_def FMSPC_HEX_LEN_def bind_fx_lift)
  qed
  then show ?thesis by simp
next
  case True
  then obtain u where u: "url_join C INTEL_PCS_API_BASE_URL INTEL_PCS_TCB_ENDPOINT = Some u"
    and fm: "length fm = 12" "all_hex fm" by (auto simp: is_fixed_len_hex_iff)
  let ?q = "\<lparr>req_method = GET, req_url = set_query C u (''fmspc='' @ fm @ ''&update=early''),
      req_headers = [], req_json = None\<rparr>"
  have "validate_fmspc fm = Ok ()"
    using True by (simp add: validate_fmspc_def FMSPC_HEX_LEN_def)
  then have "events w' = events (log_event (HttpSend ?q) w)"
    using assms(2) u assms(1) [OF fm(2)]
    by (auto simp: fetch_tcb_info_def bind_fx_def map_err_fx_def http_send_def Let_def
        ret_fx_def fail_fx_def lift_fx_def ok_or_def split: sum.splits if_splits prod.splits option.splits)
  with u fm show ?thesis by auto
qed

theorem fetch_tcb_info_query_witness:
  "\<exists>r w'. fetch_tcb_info demo_crates demo_env ''00906ED50000'' \<lparr>events = []\<rparr> = (r, w' :: world)
     \<and> length (events w') = 1
     \<and> (\<exists>u. events w' = [HttpSend \<lparr>req_method = GET,
            req_url = set_query demo_crates u (''fmspc='' @ ''00906ED50000'' @ ''&update=early''),
            req_headers = [], req_json = None\<rparr>])"
proof -
  have enc: "url_encode demo_crates s = s" for s by (simp add: demo_crates_def)
  obtain r w' where run: "fetch_tcb_info demo_crates demo_env ''00906ED50000'' \<lparr>events = []\<rparr> = (r, w' :: world)"
    by fastforce
  have "validate_fmspc ''00906ED50000'' = Ok ()"
    by (simp add: validate_fmspc_def FMSPC_HEX_LEN_def is_fixed_len_hex_iff hex_eval)
  then have "length (events w') = 1"
    using run
    by (auto simp: fetch_tcb_info_def bind_fx_def map_err_fx_def http_send_def Let_def demo_crates_def
        ret_fx_def fail_fx_def lift_fx_def ok_or_def log_event_def split: sum.splits if_splits prod.splits option.splits)
  with run fetch_tcb_info_query [OF enc run] show ?thesis by auto
qed

end
