(* ===== verification/CacheBlob.thy ===== *)
theory CacheBlob
  imports Errors
begin

text \<open>
  \<open>bin/pck-cert-tool/src/cache.rs\<close>: the QPL cache file. \<open>build_cache_blob\<close> writes a
  14-byte header (version, flags, expiration, little-endian) and four length-prefixed strings;
  \<open>parse_cache_blob\<close> reads exactly that format back. The system clock is an argument:
  \<open>None\<close> is a clock set before the Unix epoch.
\<close>

definition EXPIRE_HOURS :: u64 where "EXPIRE_HOURS = 8760"

definition CACHE_VERSION :: u16 where "CACHE_VERSION = 1"

definition SGX_QPL_CACHE_MULTICERTS :: u16 where "SGX_QPL_CACHE_MULTICERTS = push_bit 2 1"

definition CACHE_HEADER_LEN :: nat where "CACHE_HEADER_LEN = 2 + 4 + 8"

text \<open>The release profile has no overflow checks: the addition wraps.\<close>

definition get_expiration_time :: "u64 option \<Rightarrow> error + u64" where
  "get_expiration_time now =
     bind_res (ok_or now (Msg ''System time error''))
       (\<lambda>secs. Ok (secs + EXPIRE_HOURS * 60 * 60))"

definition write_field :: "bytes \<Rightarrow> str \<Rightarrow> error + bytes" where
  "write_field buf data =
     (let b = as_bytes data in
      if length b < 2 ^ 32 then Ok (buf @ le_encode 4 (word_of_nat (length b) :: u32) @ b)
      else Err (Msg ''Cache field too large to encode''))"

definition build_cache_blob ::
  "u64 option \<Rightarrow> str \<Rightarrow> str \<Rightarrow> str \<Rightarrow> str \<Rightarrow> error + (bytes \<times> u64)" where
  "build_cache_blob now cpu_svn tcb_info cert_chain filtered_pck_certs_json =
     bind_res (get_expiration_time now) (\<lambda>expiration_time.
     let cache_data = le_encode 2 CACHE_VERSION
           @ le_encode 4 (ucast SGX_QPL_CACHE_MULTICERTS :: u32)
           @ le_encode 8 expiration_time in
     bind_res (write_field cache_data cpu_svn) (\<lambda>cache_data.
     bind_res (write_field cache_data tcb_info) (\<lambda>cache_data.
     bind_res (write_field cache_data cert_chain) (\<lambda>cache_data.
     bind_res (write_field cache_data filtered_pck_certs_json) (\<lambda>cache_data.
     Ok (cache_data, expiration_time))))))"

record cache_blob =
  blob_version :: u16
  blob_flags :: u32
  blob_expiration_time :: u64
  blob_cpu_svn :: str
  blob_tcb_info :: str
  blob_cert_chain :: str
  blob_pck_certs_json :: str

definition truncated :: error where
  "truncated = Msg ''Cache blob truncated''"

definition read_field :: "str \<Rightarrow> bytes \<Rightarrow> error + (str \<times> bytes)" where
  "read_field name rest =
     bind_res (dec_le truncated 4 rest) (\<lambda>(len :: u32, rest).
     bind_res (take_bytes truncated (unat len) rest) (\<lambda>(b, rest).
     bind_res (from_utf8 (MsgStr ''Invalid UTF-8 in '' name) b) (\<lambda>s.
     Ok (s, rest))))"

definition parse_cache_blob :: "bytes \<Rightarrow> error + cache_blob" where
  "parse_cache_blob data =
     bind_res (dec_le truncated 2 data) (\<lambda>(version, rest).
     bind_res (dec_le truncated 4 rest) (\<lambda>(flags, rest).
     bind_res (dec_le truncated 8 rest) (\<lambda>(expiration_time, rest).
     bind_res (ensure (version = CACHE_VERSION)
       (MsgNat ''Unsupported cache blob version '' (unat version))) (\<lambda>_.
     bind_res (ensure (flags = ucast SGX_QPL_CACHE_MULTICERTS)
       (MsgNat ''Unsupported cache blob flags '' (unat flags))) (\<lambda>_.
     bind_res (read_field ''cpu_svn'' rest) (\<lambda>(cpu_svn, rest).
     bind_res (read_field ''tcb_info'' rest) (\<lambda>(tcb_info, rest).
     bind_res (read_field ''cert_chain'' rest) (\<lambda>(cert_chain, rest).
     bind_res (read_field ''pck_certs_json'' rest) (\<lambda>(pck_certs_json, rest).
     bind_res (ensure (rest = []) (MsgNat ''Cache blob has trailing bytes: '' (length rest))) (\<lambda>_.
     Ok \<lparr>blob_version = version, blob_flags = flags, blob_expiration_time = expiration_time,
         blob_cpu_svn = cpu_svn, blob_tcb_info = tcb_info, blob_cert_chain = cert_chain,
         blob_pck_certs_json = pck_certs_json\<rparr>))))))))))"

subsection \<open>The field code\<close>

definition field_bytes :: "str \<Rightarrow> bytes" where
  "field_bytes s = le_encode 4 (word_of_nat (length s) :: u32) @ as_bytes s"

definition field_ok :: "str \<Rightarrow> bool" where
  "field_ok s \<longleftrightarrow> str_ok s \<and> length s < 2 ^ 32"

lemma write_field_Ok:
  "write_field buf s = Ok out \<longleftrightarrow> length s < 2 ^ 32 \<and> out = buf @ field_bytes s"
  by (auto simp: write_field_def field_bytes_def Let_def)

lemma unat_length_u32: "n < 2 ^ 32 \<Longrightarrow> unat (word_of_nat n :: u32) = n"
  by (simp add: unat_of_nat)

interpretation fld: prefix_code field_bytes "read_field name" field_ok
proof
  fix s rest assume "field_ok s"
  then show "read_field name (field_bytes s @ rest) = Ok (s, rest)"
    by (simp add: read_field_def field_bytes_def field_ok_def str_ok_def le32.dec_enc
        unat_length_u32 from_utf8_def)
next
  fix bs s rest assume "read_field name bs = Ok (s, rest)"
  then obtain len :: u32 and r b where
    1: "dec_le truncated 4 bs = Ok (len, r)" and
    2: "take_bytes truncated (unat len) r = Ok (b, rest)" and
    3: "utf8_valid b" "b = as_bytes s"
    by (auto simp: read_field_def bind_res_eq_Ok)
  have "bs = le_encode 4 len @ b @ rest" "length b = unat len"
    using le32.enc_dec [OF 1] 2 by (simp_all add: take_bytes_Ok)
  moreover have "unat len < 2 ^ 32" using unsigned_less [of len] by simp
  ultimately show "field_ok s \<and> bs = field_bytes s @ rest"
    using 3 by (simp add: field_ok_def field_bytes_def str_ok_def)
qed

subsection \<open>The blob code\<close>

definition blob_bytes :: "cache_blob \<Rightarrow> bytes" where
  "blob_bytes b = le_encode 2 (blob_version b) @ le_encode 4 (blob_flags b) @ le_encode 8 (blob_expiration_time b)
     @ field_bytes (blob_cpu_svn b) @ field_bytes (blob_tcb_info b) @ field_bytes (blob_cert_chain b)
     @ field_bytes (blob_pck_certs_json b)"

definition blob_ok :: "cache_blob \<Rightarrow> bool" where
  "blob_ok b \<longleftrightarrow> blob_version b = CACHE_VERSION \<and> blob_flags b = ucast SGX_QPL_CACHE_MULTICERTS
     \<and> field_ok (blob_cpu_svn b) \<and> field_ok (blob_tcb_info b) \<and> field_ok (blob_cert_chain b)
     \<and> field_ok (blob_pck_certs_json b)"

lemma parse_cache_blob_iff: "parse_cache_blob bs = Ok b \<longleftrightarrow> blob_ok b \<and> bs = blob_bytes b"
proof
  assume "parse_cache_blob bs = Ok b"
  then show "blob_ok b \<and> bs = blob_bytes b"
    by (auto simp: parse_cache_blob_def bind_res_eq_Ok blob_ok_def blob_bytes_def
        le16.dec_iff le32.dec_iff le64.dec_iff fld.dec_iff)
next
  assume b: "blob_ok b \<and> bs = blob_bytes b"
  then show "parse_cache_blob bs = Ok b"
    by (simp add: parse_cache_blob_def blob_ok_def blob_bytes_def
        le16.dec_enc le32.dec_enc le64.dec_enc fld.dec_enc
        fld.dec_enc [where rest = "[]", simplified])
qed

text \<open>
  The whole blob is one prefix code, put together from the codes of its parts by the pair
  contract; its locale facts say that no blob is a strict prefix of another.
\<close>

interpretation hdr1: prefix_code_pair
  "le_encode 4 :: u32 \<Rightarrow> bytes" "dec_le e 4" "\<lambda>_. True"
  "le_encode 8 :: u64 \<Rightarrow> bytes" "dec_le e 8" "\<lambda>_. True"
  by unfold_locales

interpretation hdr: prefix_code_pair
  "le_encode 2 :: u16 \<Rightarrow> bytes" "dec_le e 2" "\<lambda>_. True"
  "\<lambda>(f :: u32, x :: u64). le_encode 4 f @ le_encode 8 x" "dec_seq (dec_le e 4) (dec_le e 8)"
  "\<lambda>(_, _). True \<and> True"
  by unfold_locales

interpretation fld2: prefix_code_pair
  field_bytes "read_field n1" field_ok field_bytes "read_field n2" field_ok
  by unfold_locales

interpretation fld4: prefix_code_pair
  "\<lambda>(a, b). field_bytes a @ field_bytes b" "dec_seq (read_field n1) (read_field n2)"
  "\<lambda>(a, b). field_ok a \<and> field_ok b"
  "\<lambda>(a, b). field_bytes a @ field_bytes b" "dec_seq (read_field n3) (read_field n4)"
  "\<lambda>(a, b). field_ok a \<and> field_ok b"
  by unfold_locales

interpretation blob: prefix_code_pair
  "\<lambda>(v :: u16, w). le_encode 2 v @ (case w of (f :: u32, x :: u64) \<Rightarrow> le_encode 4 f @ le_encode 8 x)"
  "dec_seq (dec_le truncated 2) (dec_seq (dec_le truncated 4) (dec_le truncated 8))"
  "\<lambda>(_, w). True \<and> (case w of (_, _) \<Rightarrow> True \<and> True)"
  "\<lambda>(p, q). (case p of (a, b) \<Rightarrow> field_bytes a @ field_bytes b)
     @ (case q of (a, b) \<Rightarrow> field_bytes a @ field_bytes b)"
  "dec_seq (dec_seq (read_field ''cpu_svn'') (read_field ''tcb_info''))
     (dec_seq (read_field ''cert_chain'') (read_field ''pck_certs_json''))"
  "\<lambda>(p, q). (case p of (a, b) \<Rightarrow> field_ok a \<and> field_ok b)
     \<and> (case q of (a, b) \<Rightarrow> field_ok a \<and> field_ok b)"
  by unfold_locales

lemma blob_bytes_prefix_free:
  assumes "blob_ok b" "blob_ok c" "blob_bytes b @ extra = blob_bytes c"
  shows "extra = [] \<and> b = c"
proof -
  let ?t = "\<lambda>b. ((blob_version b, blob_flags b, blob_expiration_time b),
     ((blob_cpu_svn b, blob_tcb_info b), (blob_cert_chain b, blob_pck_certs_json b)))"
  have "?t b = ?t c \<and> extra = []"
    using assms by (intro blob.seq.enc_inject) (auto simp: blob_ok_def blob_bytes_def)
  then show ?thesis by (auto intro: cache_blob.equality)
qed

subsection \<open>Properties\<close>

text \<open>C29: A blob that \<open>build_cache_blob\<close> returns is read back by \<open>parse_cache_blob\<close> as the
  strings it was built from, the version, the flags and the expiration time it reported.\<close>

theorem build_parse_roundtrip:
  assumes "build_cache_blob now svn tcb chain certs = Ok (blob, expires)"
    and "str_ok svn" "str_ok tcb" "str_ok chain" "str_ok certs"
  shows "parse_cache_blob blob = Ok \<lparr>blob_version = CACHE_VERSION, blob_flags = ucast SGX_QPL_CACHE_MULTICERTS,
     blob_expiration_time = expires, blob_cpu_svn = svn, blob_tcb_info = tcb, blob_cert_chain = chain,
     blob_pck_certs_json = certs\<rparr>"
  using assms
  by (auto simp: parse_cache_blob_iff build_cache_blob_def bind_res_eq_Ok write_field_Ok
      blob_ok_def blob_bytes_def field_ok_def)

theorem build_parse_roundtrip_witness:
  "\<exists>blob. build_cache_blob (Some 1700000000) ''0102'' ''{}'' ''chain'' ''[]'' = Ok (blob, 1731536000)
     \<and> parse_cache_blob blob = Ok \<lparr>blob_version = CACHE_VERSION,
         blob_flags = ucast SGX_QPL_CACHE_MULTICERTS, blob_expiration_time = 1731536000, blob_cpu_svn = ''0102'',
         blob_tcb_info = ''{}'', blob_cert_chain = ''chain'', blob_pck_certs_json = ''[]''\<rparr>"
proof -
  obtain blob where b:
    "build_cache_blob (Some 1700000000) ''0102'' ''{}'' ''chain'' ''[]'' = Ok (blob, 1731536000)"
    by (simp add: build_cache_blob_def get_expiration_time_def EXPIRE_HOURS_def bind_res_eq_Ok
        write_field_Ok)
  have "str_ok ''0102''" "str_ok ''{}''" "str_ok ''chain''" "str_ok ''[]''"
    by (simp_all add: str_ok_ascii)
  with b build_parse_roundtrip [OF b] show ?thesis by blast
qed

text \<open>C30: \<open>parse_cache_blob\<close> accepts only what the builder writes: an accepted byte string is
  exactly the blob \<open>build_cache_blob\<close> makes from the fields it returns (at the time one year
  before the recorded expiration).\<close>

theorem parse_build_canonical:
  assumes "parse_cache_blob data = Ok b"
  shows "build_cache_blob (Some (blob_expiration_time b - EXPIRE_HOURS * 60 * 60))
     (blob_cpu_svn b) (blob_tcb_info b) (blob_cert_chain b) (blob_pck_certs_json b) = Ok (data, blob_expiration_time b)"
  using assms
  by (auto simp: parse_cache_blob_iff build_cache_blob_def get_expiration_time_def bind_res_eq_Ok
      write_field_Ok blob_ok_def blob_bytes_def field_ok_def)

theorem parse_build_canonical_witness:
  "\<exists>data b. parse_cache_blob data = Ok b \<and> blob_cpu_svn b = ''01''
     \<and> build_cache_blob (Some (blob_expiration_time b - EXPIRE_HOURS * 60 * 60))
         (blob_cpu_svn b) (blob_tcb_info b) (blob_cert_chain b) (blob_pck_certs_json b) = Ok (data, blob_expiration_time b)"
proof -
  define b where "b = \<lparr>blob_version = CACHE_VERSION, blob_flags = ucast SGX_QPL_CACHE_MULTICERTS,
    blob_expiration_time = 31536001, blob_cpu_svn = ''01'', blob_tcb_info = ''{}'', blob_cert_chain = ''c'',
    blob_pck_certs_json = ''[]''\<rparr>"
  have p: "parse_cache_blob (blob_bytes b) = Ok b"
    by (simp add: parse_cache_blob_iff blob_ok_def field_ok_def b_def str_ok_ascii)
  have "blob_cpu_svn b = ''01''" by (simp add: b_def)
  with p parse_build_canonical [OF p] show ?thesis by blast
qed

text \<open>A cache blob that is cut short anywhere, or followed by any further bytes, is rejected.\<close>

theorem parse_rejects_cut_or_extended:
  assumes "parse_cache_blob data = Ok b"
  shows "(\<forall>k. k < length data \<longrightarrow> \<not> is_ok (parse_cache_blob (take k data)))
    \<and> (\<forall>extra. extra \<noteq> [] \<longrightarrow> \<not> is_ok (parse_cache_blob (data @ extra)))"
proof (intro conjI allI impI notI)
  have d: "blob_ok b" "data = blob_bytes b"
    using assms by (auto simp: parse_cache_blob_iff)
  fix k assume k: "k < length data" "is_ok (parse_cache_blob (take k data))"
  then obtain c where c: "blob_ok c" "take k data = blob_bytes c"
    by (auto simp: is_ok_iff parse_cache_blob_iff)
  have "blob_bytes c @ drop k data = blob_bytes b"
    using c(2) d(2) by (metis append_take_drop_id)
  with c(1) d(1) have "drop k data = []" by (blast dest: blob_bytes_prefix_free)
  with k(1) show False by simp
next
  have d: "blob_ok b" "data = blob_bytes b"
    using assms by (auto simp: parse_cache_blob_iff)
  fix extra assume extra: "extra \<noteq> []" "is_ok (parse_cache_blob (data @ extra))"
  then obtain c where "blob_ok c" "blob_bytes b @ extra = blob_bytes c"
    using d(2) by (auto simp: is_ok_iff parse_cache_blob_iff)
  with d(1) extra(1) show False by (blast dest: blob_bytes_prefix_free)
qed

theorem parse_rejects_cut_or_extended_witness:
  "\<exists>data. is_ok (parse_cache_blob data) \<and> \<not> is_ok (parse_cache_blob (take 14 data))
     \<and> \<not> is_ok (parse_cache_blob (data @ [0]))"
proof -
  define b where "b = \<lparr>blob_version = CACHE_VERSION, blob_flags = ucast SGX_QPL_CACHE_MULTICERTS,
    blob_expiration_time = 7, blob_cpu_svn = ''01'', blob_tcb_info = ''{}'', blob_cert_chain = ''c'',
    blob_pck_certs_json = ''[]''\<rparr>"
  have p: "parse_cache_blob (blob_bytes b) = Ok b"
    by (simp add: parse_cache_blob_iff blob_ok_def field_ok_def b_def str_ok_ascii)
  have "14 < length (blob_bytes b)" by (simp add: blob_bytes_def field_bytes_def b_def)
  with p parse_rejects_cut_or_extended [OF p] show ?thesis
    by (intro exI [of _ "blob_bytes b"]) auto
qed

text \<open>Layout and lifetime: a built blob is the 14-byte header, then each field with its 4-byte
  length; it is built whenever the clock is valid and every field fits in 32 bits, and until
  the year the 64-bit clock overflows it expires 8760 hours after it was built.\<close>

theorem build_cache_blob_outcome:
  assumes "now = Some secs"
    and "list_all (\<lambda>s. length s < 2 ^ 32) [svn, tcb, chain, certs]"
    and "unat secs + 8760 * 60 * 60 < 2 ^ 64"
  shows "\<exists>blob expires. build_cache_blob now svn tcb chain certs = Ok (blob, expires)
     \<and> length blob = CACHE_HEADER_LEN + 16 + length svn + length tcb + length chain + length certs
     \<and> unat expires = unat secs + 8760 * 60 * 60"
proof -
  have "unat (secs + EXPIRE_HOURS * 60 * 60) = unat secs + 8760 * 60 * 60"
    using assms(3) by (simp add: EXPIRE_HOURS_def unat_word_ariths)
  then show ?thesis
    using assms(1,2)
    by (auto simp: build_cache_blob_def get_expiration_time_def bind_res_eq_Ok write_field_Ok
        field_bytes_def CACHE_HEADER_LEN_def)
qed

theorem build_cache_blob_outcome_witness:
  "\<exists>blob expires. build_cache_blob (Some 1700000000) ''01'' ''{}'' ''c'' ''[]'' = Ok (blob, expires)
     \<and> length blob = 37 \<and> unat expires = 1731536000"
  using build_cache_blob_outcome [of "Some 1700000000" 1700000000 "''01''" "''{}''" "''c''" "''[]''"]
  by (simp add: CACHE_HEADER_LEN_def)

end
