(* ===== verification/Registrar.thy ===== *)
theory Registrar
  imports VerifyProps CacheBlob
begin

text \<open>
  The \<open>register\<close> command of \<open>bin/pck-cert-tool/src/main.rs\<close>: the reconciler of the
  platform-data secrets. Its shared state is the \<open>PcsPause\<close> gate beside the world's log; the
  mutex around the gate is held only for single operations, so each access is one step.
\<close>

record reg_world = world +
  reg_pause :: pcs_pause

definition K8S_API_WATCH_ERROR_BACKOFF :: duration where
  "K8S_API_WATCH_ERROR_BACKOFF = from_secs 10"

definition REGISTRATION_RETRY_DELAY :: duration where
  "REGISTRATION_RETRY_DELAY = from_secs 300"

definition PIID_INDEX_SECRET_NAME :: str where "PIID_INDEX_SECRET_NAME = ''piid-index''"

definition ANNOTATION_PLATFORM_DATA_FINGERPRINT :: str where
  "ANNOTATION_PLATFORM_DATA_FINGERPRINT = ''trustedservices.intel.com/platform-data-fingerprint''"

definition ANNOTATION_EXPIRES_AT :: str where
  "ANNOTATION_EXPIRES_AT = ''trustedservices.intel.com/expires-at''"

lemma annotation_names_differ [simp]:
  "ANNOTATION_PLATFORM_DATA_FINGERPRINT \<noteq> ANNOTATION_EXPIRES_AT"
  "ANNOTATION_EXPIRES_AT \<noteq> ANNOTATION_PLATFORM_DATA_FINGERPRINT"
  by (simp_all add: ANNOTATION_PLATFORM_DATA_FINGERPRINT_def ANNOTATION_EXPIRES_AT_def)

text \<open>\<open>ReconcileError\<close>.\<close>

record reconcile_error =
  source :: error
  retry_after_delay :: "duration option"

definition permanent :: "error \<Rightarrow> reconcile_error" where
  "permanent e = \<lparr>source = e, retry_after_delay = None\<rparr>"

definition retry :: "error \<Rightarrow> duration \<Rightarrow> reconcile_error" where
  "retry e d = \<lparr>source = e, retry_after_delay = Some d\<rparr>"

definition registration_error_policy :: "reconcile_error \<Rightarrow> action" where
  "registration_error_policy err =
     (case retry_after_delay err of None \<Rightarrow> AwaitChange | Some d \<Rightarrow> Requeue d)"

definition pck_secret_name :: "str \<Rightarrow> str" where
  "pck_secret_name name = name @ ''-pck''"

subsection \<open>The PIID index\<close>

definition patch_piid_index ::
  "('c, 's, 'd) crates \<Rightarrow> env \<Rightarrow> str \<Rightarrow> str \<Rightarrow> ('z world_scheme, error, unit) fx" where
  "patch_piid_index C env qe_id piid =
     (let params = apply_force (FIELD_MANAGER @ ''/'' @ qe_id);
          patch = JObj [(''apiVersion'', JStr ''v1''), (''kind'', JStr ''Secret''),
            (''metadata'', JObj [(''name'', JStr PIID_INDEX_SECRET_NAME)]),
            (''type'', JStr ''Opaque''),
            (''data'', JObj [(qe_id, JStr (base64_encode C (as_bytes piid)))])]
      in apply_secret env PIID_INDEX_SECRET_NAME params patch)"

subsection \<open>Is the stored PCK secret still good?\<close>

definition check_expiry_and_blob :: "u64 \<Rightarrow> (str \<rightharpoonup> str) \<Rightarrow> secret \<Rightarrow> bool" where
  "check_expiry_and_blob now annots s =
     (case annots ANNOTATION_EXPIRES_AT of
        None \<Rightarrow> False
      | Some expires_at \<Rightarrow>
          (case parse_u64 expires_at of
             None \<Rightarrow> False
           | Some expires_at \<Rightarrow>
               if expires_at \<le> now then False
               else (case secret_data s of
                  None \<Rightarrow> False
                | Some data \<Rightarrow>
                    (case data ''certificate'' of
                       None \<Rightarrow> False
                     | Some certificate \<Rightarrow> is_ok (parse_cache_blob certificate)))))"

definition pck_secret_is_valid ::
  "env \<Rightarrow> str \<Rightarrow> str \<Rightarrow> ('z world_scheme, error, bool) fx" where
  "pck_secret_is_valid env name platform_data_fingerprint =
     match_fx (get_secret env name)
       (\<lambda>err. case err of
          KubeApi c _ _ \<Rightarrow> if c = 404 then ret_fx False
            else fail_fx (Context (''Failed to read existing PCK secret '' @ name) (Kube err))
        | KubeOther _ \<Rightarrow>
            fail_fx (Context (''Failed to read existing PCK secret '' @ name) (Kube err)))
       (\<lambda>s. case annotations s of
          None \<Rightarrow> ret_fx False
        | Some annots \<Rightarrow>
            (case annots ANNOTATION_PLATFORM_DATA_FINGERPRINT of
               None \<Rightarrow> ret_fx False
             | Some recorded \<Rightarrow>
                 if recorded \<noteq> platform_data_fingerprint then ret_fx False
                 else bind_fx (system_time env) (\<lambda>time.
                   bind_fx (lift_fx (ok_or time
                     (Msg ''System time error while checking PCK secret expiration''))) (\<lambda>now.
                   ret_fx (check_expiry_and_blob now annots s)))))"

subsection \<open>Registering one platform\<close>

text \<open>First half of \<open>register_platform\<close>: fetch, verify, and build the cache blob.\<close>

record pck_result =
  res_fmspc :: str
  res_piid :: str
  res_blob :: bytes
  res_expires :: u64

definition request_pck_blob ::
  "('c, 's, 'd) crates \<Rightarrow> env \<Rightarrow> str option \<Rightarrow> pck_certs_request
     \<Rightarrow> ('z world_scheme, error, pck_result) fx" where
  "request_pck_blob C env api_key request_body =
     bind_fx (fetch_pck_certs C env api_key request_body) (\<lambda>pck_response.
     let fmspc = pck_fmspc pck_response; cert_chain = pck_cert_chain pck_response in
     bind_fx (lift_fx (filter_and_verify_pck_certs C (pck_json pck_response) cert_chain))
       (\<lambda>(filtered_pck_certs_json, piid).
     bind_fx (fetch_tcb_info C env fmspc) (\<lambda>tcb_info_response.
     let tcb_info = tcb_body tcb_info_response in
     bind_fx (lift_fx (validate_tcb_info C tcb_info)) (\<lambda>_.
     bind_fx (lift_fx (verify_tcb_info C tcb_info (tcb_header_chain tcb_info_response)
       cert_chain fmspc)) (\<lambda>_.
     bind_fx (system_time env) (\<lambda>time.
     bind_fx (lift_fx (build_cache_blob time (cpu_svn request_body) tcb_info cert_chain
       filtered_pck_certs_json)) (\<lambda>(cache_data, expiration_time).
     ret_fx \<lparr>res_fmspc = fmspc, res_piid = piid, res_blob = cache_data,
             res_expires = expiration_time\<rparr>)))))))"

definition pck_secret_doc :: "('c, 's, 'd) crates \<Rightarrow> str \<Rightarrow> str \<Rightarrow> str \<Rightarrow> pck_result \<Rightarrow> json" where
  "pck_secret_doc C name namespace platform_data_fingerprint res =
     JObj [(''apiVersion'', JStr ''v1''), (''kind'', JStr ''Secret''),
       (''metadata'', JObj [(''name'', JStr name), (''namespace'', JStr namespace),
          (''labels'', JObj [(''fmspc'', JStr (res_fmspc res))]),
          (''annotations'', JObj
             [(ANNOTATION_PLATFORM_DATA_FINGERPRINT, JStr platform_data_fingerprint),
              (ANNOTATION_EXPIRES_AT, JStr (dec_string (unat (res_expires res))))])]),
       (''type'', JStr ''Opaque''),
       (''data'', JObj [(''certificate'', JStr (base64_encode C (res_blob res)))])]"

definition register_platform ::
  "('c, 's, 'd) crates \<Rightarrow> env \<Rightarrow> str option \<Rightarrow> str \<Rightarrow> str \<Rightarrow> pck_certs_request \<Rightarrow> str
     \<Rightarrow> ('z world_scheme, error, unit) fx" where
  "register_platform C env api_key name namespace request_body platform_data_fingerprint =
     bind_fx (request_pck_blob C env api_key request_body) (\<lambda>res.
     bind_fx (apply_secret env (pck_secret_name name) (apply_force FIELD_MANAGER)
       (pck_secret_doc C (pck_secret_name name) namespace platform_data_fingerprint res)) (\<lambda>_.
     patch_piid_index C env name (res_piid res)))"

subsection \<open>The reconciler\<close>

definition pause_requests :: "env \<Rightarrow> duration \<Rightarrow> (reg_world, 'e, unit) fx" where
  "pause_requests env d =
     bind_fx (instant_now env) (\<lambda>now w. (Ok (), w\<lparr>reg_pause := pause (reg_pause w) now d\<rparr>))"

definition pause_remaining :: "env \<Rightarrow> (reg_world, 'e, duration option) fx" where
  "pause_remaining env =
     bind_fx (instant_now env) (\<lambda>now w. (Ok (remaining (reg_pause w) now), w))"

text \<open>The \<open>Err\<close> arm of the match on \<open>register_platform\<close>.\<close>

definition registration_failed :: "env \<Rightarrow> error \<Rightarrow> (reg_world, reconcile_error, action) fx" where
  "registration_failed env e =
     (case downcast_rate_limited e of
        Some rate_limited \<Rightarrow>
          bind_fx (pause_requests env (retry_after rate_limited)) (\<lambda>_.
          fail_fx (retry e (retry_after rate_limited)))
      | None \<Rightarrow>
          (case downcast_api_error e of
             Some a \<Rightarrow> if is_client_error a then fail_fx (permanent e)
               else fail_fx (retry e REGISTRATION_RETRY_DELAY)
           | None \<Rightarrow> fail_fx (retry e REGISTRATION_RETRY_DELAY)))"

definition process_platform_secret ::
  "('c, 's, 'd) crates \<Rightarrow> env \<Rightarrow> str option \<Rightarrow> str \<Rightarrow> secret
     \<Rightarrow> (reg_world, reconcile_error, action) fx" where
  "process_platform_secret C env api_key namespace s =
     (let name = secret_name s in
     bind_fx (lift_fx (map_err permanent (ok_or (secret_data s) (Msg ''Secret has no data'')))) (\<lambda>data.
     bind_fx (lift_fx (map_err permanent (prepare_registration name data))) (\<lambda>request_body.
     let fingerprint = registration_fingerprint (sha256 C) request_body in
     bind_fx (map_err_fx (\<lambda>e. retry e K8S_API_WATCH_ERROR_BACKOFF)
       (pck_secret_is_valid env (pck_secret_name name) fingerprint)) (\<lambda>valid.
     if valid then ret_fx AwaitChange
     else
     bind_fx (pause_remaining env) (\<lambda>left.
     case left of
       Some r \<Rightarrow> ret_fx (Requeue r)
     | None \<Rightarrow>
         match_fx (register_platform C env api_key name namespace request_body fingerprint)
           (registration_failed env) (\<lambda>_. ret_fx AwaitChange))))))"

end
