(* ===== verification/RegistrarProps.thy ===== *)
theory RegistrarProps
  imports Registrar
begin

text \<open>
  Lemmas on the parts of the registrar's reconciler (\<open>Registrar\<close>): which calls each part can make,
  when a stored secret is valid, what a stored secret holds, when a new blob expires.
\<close>

subsection \<open>Effects of the parts\<close>

lemma quiet_pck_secret_is_valid:
  assumes "P (GetSecret name)" "P ReadSystemTime"
  shows "keeps (quiet P) (pck_secret_is_valid env name fp)"
  unfolding pck_secret_is_valid_def
  by (auto simp: quiet_ops assms split: kube_error.split option.split
      intro!: keeps_match keeps_bind keeps_pure)

lemma quiet_request_pck_blob:
  assumes "\<And>r. P (HttpSend r)" "P ReadSystemTime"
  shows "keeps (quiet P) (request_pck_blob C env api_key body)"
  unfolding request_pck_blob_def Let_def
  by (auto simp: quiet_ops assms split: prod.split
      intro!: keeps_bind keeps_pure quiet_fetch_pck_certs quiet_fetch_tcb_info)

lemma same_pause: "quiet P (s :: reg_world) t \<Longrightarrow> reg_pause t = reg_pause s"
  by (cases s; cases t) (auto simp: quiet_def)

lemma reg_pause_log [simp]: "reg_pause (log_event e w) = reg_pause w"
  by (simp add: log_event_def)

lemma pause_remaining_run [simp]:
  "pause_remaining env w =
     (Ok (remaining (reg_pause w) (env_instant env (events w))), log_event ReadInstant w)"
  by (simp add: pause_remaining_def bind_fx_def instant_now_def)

lemma pause_requests_run [simp]:
  "pause_requests env d w =
     (Ok (), (log_event ReadInstant w)
        \<lparr>reg_pause := pause (reg_pause w) (env_instant env (events w)) d\<rparr>)"
  by (simp add: pause_requests_def bind_fx_def instant_now_def)

subsection \<open>What was verified before anything is written\<close>

definition verified_result :: "('c, 's, 'd) crates \<Rightarrow> pck_certs_request \<Rightarrow> pck_result \<Rightarrow> bool" where
  "verified_result C body res \<longleftrightarrow>
     (\<exists>js chain certs tcb tchain time.
        is_fixed_len_hex 12 (res_fmspc res)
        \<and> filter_and_verify_pck_certs C js chain = Ok (certs, res_piid res)
        \<and> validate_tcb_info C tcb = Ok ()
        \<and> verify_tcb_info C tcb tchain chain (res_fmspc res) = Ok ()
        \<and> build_cache_blob time (cpu_svn body) tcb chain certs = Ok (res_blob res, res_expires res))"

lemma request_pck_blob_verified:
  assumes "request_pck_blob C env api_key body w = (Ok res, w')"
  shows "verified_result C body res"
proof -
  obtain resp w1 certs piid time and tresp :: tcb_info_response where
    1: "fetch_pck_certs C env api_key body w = (Ok resp, w1)" and
    2: "filter_and_verify_pck_certs C (pck_json resp) (pck_cert_chain resp) = Ok (certs, piid)"
      "validate_tcb_info C (tcb_body tresp) = Ok ()"
      "verify_tcb_info C (tcb_body tresp) (tcb_header_chain tresp) (pck_cert_chain resp)
         (pck_fmspc resp) = Ok ()"
      "build_cache_blob time (cpu_svn body) (tcb_body tresp) (pck_cert_chain resp) certs =
         Ok (res_blob res, res_expires res)" and
    3: "res_fmspc res = pck_fmspc resp" "res_piid res = piid"
    using assms
    by (auto simp: request_pck_blob_def bind_fx_eq_Ok Let_def split: prod.splits)
  show ?thesis
    unfolding verified_result_def 3
    by (rule exI [of _ "pck_json resp"], rule exI [of _ "pck_cert_chain resp"], rule exI [of _ certs],
        rule exI [of _ "tcb_body tresp"], rule exI [of _ "tcb_header_chain tresp"],
        rule exI [of _ time]) (use 2 fetch_pck_certs_fmspc [OF 1] in simp)
qed

definition piid_index_doc :: "('c, 's, 'd) crates \<Rightarrow> str \<Rightarrow> str \<Rightarrow> json" where
  "piid_index_doc C qe_id piid =
     JObj [(''apiVersion'', JStr ''v1''), (''kind'', JStr ''Secret''),
       (''metadata'', JObj [(''name'', JStr PIID_INDEX_SECRET_NAME)]),
       (''type'', JStr ''Opaque''),
       (''data'', JObj [(qe_id, JStr (base64_encode C (as_bytes piid)))])]"

lemma patch_piid_index_eq:
  "patch_piid_index C env qe_id piid =
     apply_secret env PIID_INDEX_SECRET_NAME (apply_force (FIELD_MANAGER @ ''/'' @ qe_id))
       (piid_index_doc C qe_id piid)"
  by (simp add: patch_piid_index_def piid_index_doc_def Let_def)

text \<open>The three ways a registration can go: it fails before any write; it fails on the write of
  the PCK secret; or it writes both secrets, the second write giving the result.\<close>

lemma register_platform_cases:
  assumes "register_platform C env api_key name ns body fp w = (r, w')"
  obtains (failed) e where "request_pck_blob C env api_key body w = (Err e, w')" "r = Err e"
  | (first_write) res w1 ke where "request_pck_blob C env api_key body w = (Ok res, w1)"
      "env_apply_secret env (events w1) (pck_secret_name name) (apply_force FIELD_MANAGER)
         (pck_secret_doc C (pck_secret_name name) ns fp res) = Err ke"
      "r = Err (Kube ke)"
      "w' = log_event (ApplySecret (pck_secret_name name) (apply_force FIELD_MANAGER)
         (pck_secret_doc C (pck_secret_name name) ns fp res)) w1"
  | (both_writes) res w1 w2 where "request_pck_blob C env api_key body w = (Ok res, w1)"
      "env_apply_secret env (events w1) (pck_secret_name name) (apply_force FIELD_MANAGER)
         (pck_secret_doc C (pck_secret_name name) ns fp res) = Ok ()"
      "w2 = log_event (ApplySecret (pck_secret_name name) (apply_force FIELD_MANAGER)
         (pck_secret_doc C (pck_secret_name name) ns fp res)) w1"
      "r = map_err Kube (env_apply_secret env (events w2) PIID_INDEX_SECRET_NAME
         (apply_force (FIELD_MANAGER @ ''/'' @ name)) (piid_index_doc C name (res_piid res)))"
      "w' = log_event (ApplySecret PIID_INDEX_SECRET_NAME (apply_force (FIELD_MANAGER @ ''/'' @ name))
         (piid_index_doc C name (res_piid res))) w2"
proof -
  obtain q w1 where req: "request_pck_blob C env api_key body w = (q, w1)" by fastforce
  show ?thesis
  proof (cases q)
    case (Inl e)
    with req assms that(1) show ?thesis by (auto simp: register_platform_def bind_fx_def)
  next
    case (Inr res)
    let ?ap = "env_apply_secret env (events w1) (pck_secret_name name) (apply_force FIELD_MANAGER)
         (pck_secret_doc C (pck_secret_name name) ns fp res)"
    show ?thesis
    proof (cases ?ap)
      case (Inl ke)
      with req \<open>q = Inr res\<close> assms that(2) show ?thesis
        by (auto simp: register_platform_def bind_fx_def apply_secret_def)
    next
      case (Inr u)
      with req \<open>q = Inr res\<close> assms that(3) show ?thesis
        by (auto simp: register_platform_def bind_fx_def apply_secret_def patch_piid_index_eq)
    qed
  qed
qed

lemma request_pck_blob_log:
  assumes "request_pck_blob C env api_key body w = (r, w')"
  shows "adds (\<lambda>e. \<not> is_write e) w w'"
proof -
  have "keeps (quiet (\<lambda>e. \<not> is_write e)) (request_pck_blob C env api_key body)"
    by (rule quiet_request_pck_blob) (simp_all add: is_write_def)
  then have "keeps (adds (\<lambda>e. \<not> is_write e)) (request_pck_blob C env api_key body)"
    by (rule keeps_quiet_adds)
  then show ?thesis using assms by (rule keepsD)
qed

definition verified_write ::
  "('c, 's, 'd) crates \<Rightarrow> str \<Rightarrow> str \<Rightarrow> pck_certs_request \<Rightarrow> str \<Rightarrow> event \<Rightarrow> bool" where
  "verified_write C name ns body fp e \<longleftrightarrow>
     (\<exists>res. verified_result C body res
        \<and> (e = ApplySecret (pck_secret_name name) (apply_force FIELD_MANAGER)
                 (pck_secret_doc C (pck_secret_name name) ns fp res)
           \<or> e = ApplySecret PIID_INDEX_SECRET_NAME (apply_force (FIELD_MANAGER @ ''/'' @ name))
                 (piid_index_doc C name (res_piid res))))"

lemma register_platform_writes:
  assumes "register_platform C env api_key name ns body fp w = (r, w')"
  shows "adds (\<lambda>e. is_write e \<longrightarrow> verified_write C name ns body fp e) w w'"
  using assms
proof (cases rule: register_platform_cases)
  case (failed e)
  show ?thesis by (rule adds_mono [OF request_pck_blob_log [OF failed(1)]]) simp
next
  case (first_write res w1 ke)
  have "adds (\<lambda>e. is_write e \<longrightarrow> verified_write C name ns body fp e) w w1"
    by (rule adds_mono [OF request_pck_blob_log [OF first_write(1)]]) simp
  moreover have "verified_result C body res" using first_write(1) by (rule request_pck_blob_verified)
  ultimately show ?thesis
    unfolding first_write(4) by (intro adds_logI) (auto simp: verified_write_def)
next
  case (both_writes res w1 w2)
  have "adds (\<lambda>e. is_write e \<longrightarrow> verified_write C name ns body fp e) w w1"
    by (rule adds_mono [OF request_pck_blob_log [OF both_writes(1)]]) simp
  moreover have "verified_result C body res" using both_writes(1) by (rule request_pck_blob_verified)
  ultimately show ?thesis
    unfolding both_writes(5,3) by (intro adds_logI) (auto simp: verified_write_def)
qed

subsection \<open>Runs of the reconciler\<close>

lemma process_run:
  assumes "secret_data s = Some data" "prepare_registration (secret_name s) data = Ok body"
    and "fp = registration_fingerprint (sha256 C) body"
    and "pck_secret_is_valid env (pck_secret_name (secret_name s)) fp w = (q, w1)"
  shows "process_platform_secret C env key ns s w =
    (case q of
       Inl e \<Rightarrow> (Err (retry e K8S_API_WATCH_ERROR_BACKOFF), w1)
     | Inr valid \<Rightarrow>
         if valid then (Ok AwaitChange, w1)
         else (case remaining (reg_pause w1) (env_instant env (events w1)) of
            Some r \<Rightarrow> (Ok (Requeue r), log_event ReadInstant w1)
          | None \<Rightarrow> match_fx (register_platform C env key (secret_name s) ns body fp)
              (registration_failed env) (\<lambda>_. ret_fx AwaitChange) (log_event ReadInstant w1)))"
  using assms
  by (auto simp: process_platform_secret_def bind_fx_def map_err_fx_def Let_def
      split: sum.splits option.splits)

lemma pck_secret_is_valid_log:
  assumes "pck_secret_is_valid env name fp w = (q, w1)"
  shows "quiet (\<lambda>e. e = GetSecret name \<or> e = ReadSystemTime) w w1"
  by (rule keepsD [OF quiet_pck_secret_is_valid assms]) simp_all

lemma pck_secret_is_valid_True:
  "pck_secret_is_valid env name fp w = (Ok True, w') \<longleftrightarrow>
     (\<exists>s annots now. env_get_secret env (events w) name = Ok s \<and> annotations s = Some annots
        \<and> annots ANNOTATION_PLATFORM_DATA_FINGERPRINT = Some fp
        \<and> env_system_time env (events w @ [GetSecret name]) = Some now
        \<and> check_expiry_and_blob now annots s
        \<and> w' = log_event ReadSystemTime (log_event (GetSecret name) w))"
  by (auto simp: pck_secret_is_valid_def match_fx_def get_secret_def system_time_def bind_fx_def
      ret_fx_def fail_fx_def lift_fx_def ok_or_def
      split: sum.splits kube_error.splits option.splits if_splits)

lemma check_expiry_and_blob_iff:
  "check_expiry_and_blob now annots s \<longleftrightarrow>
     (\<exists>txt expires data cert b. annots ANNOTATION_EXPIRES_AT = Some txt \<and> parse_u64 txt = Some expires
        \<and> now < expires \<and> secret_data s = Some data \<and> data ''certificate'' = Some cert
        \<and> parse_cache_blob cert = Ok b)"
  by (auto simp: check_expiry_and_blob_def is_ok_iff not_le split: option.splits)

subsection \<open>What Kubernetes keeps, and strings\<close>

text \<open>
  A secret that holds the annotations and data of an applied document (the API server decodes
  the base64 of \<open>data\<close>). A hypothesis \<open>stored_as\<close> about the secret read later is the
  documented behaviour of a forced server-side apply that nobody has overwritten since.
\<close>

definition stored_as :: "('c, 's, 'd) crates \<Rightarrow> json \<Rightarrow> secret \<Rightarrow> bool" where
  "stored_as C doc s \<longleftrightarrow>
     (\<exists>annots data. annotations s = Some annots \<and> secret_data s = Some data
        \<and> (\<forall>k v. Option.bind (json_member2 ''metadata'' ''annotations'' doc) (json_get k) = Some (JStr v)
             \<longrightarrow> annots k = Some v)
        \<and> (\<forall>k b. json_member2 ''data'' k doc = Some (JStr (base64_encode C b)) \<longrightarrow> data k = Some b))"

lemma stored_pck_secret:
  assumes "stored_as C (pck_secret_doc C name ns fp res) s"
  shows "\<exists>annots data. annotations s = Some annots \<and> secret_data s = Some data
     \<and> annots ANNOTATION_PLATFORM_DATA_FINGERPRINT = Some fp
     \<and> annots ANNOTATION_EXPIRES_AT = Some (dec_string (unat (res_expires res)))
     \<and> data ''certificate'' = Some (res_blob res)"
  using assms by (auto simp: stored_as_def json_member2_def pck_secret_doc_def)

text \<open>Rust's types guarantee that response bodies and serialised JSON are valid UTF-8.\<close>

definition env_strings_ok :: "env \<Rightarrow> bool" where
  "env_strings_ok env \<longleftrightarrow>
     (\<forall>h q resp t. env_http_send env h q = Ok resp \<longrightarrow> resp_text resp = Ok t \<longrightarrow> str_ok t)"

definition crates_strings_ok :: "('c, 's, 'd) crates \<Rightarrow> bool" where
  "crates_strings_ok C \<longleftrightarrow> (\<forall>es t. ser_pck_entries C es = Some t \<longrightarrow> str_ok t)"

lemma fetch_pck_certs_strings:
  "fetch_pck_certs C env key body w = (Ok resp, w') \<Longrightarrow> str_ok (pck_cert_chain resp)"
  by (auto simp: fetch_pck_certs_def bind_fx_eq_Ok Let_def split: if_splits intro: header_str_ok)

lemma fetch_tcb_info_strings:
  assumes "env_strings_ok env" "fetch_tcb_info C env fm w = (Ok resp, w')"
  shows "str_ok (tcb_body resp)"
proof -
  obtain h q resp' where "env_http_send env h q = Ok resp'" "resp_text resp' = Ok (tcb_body resp)"
    using assms(2)
    by (auto simp: fetch_tcb_info_def bind_fx_eq_Ok Let_def http_send_def split: if_splits)
  with assms(1) show ?thesis by (auto simp: env_strings_ok_def)
qed

lemma request_pck_blob_parses:
  fixes w :: "'z world_scheme"
  assumes "env_strings_ok env" "crates_strings_ok C" "str_ok (cpu_svn body)"
    and "request_pck_blob C env key body w = (Ok res, w')"
  shows "\<exists>b. parse_cache_blob (res_blob res) = Ok b \<and> blob_cpu_svn b = cpu_svn body
     \<and> blob_expiration_time b = res_expires res"
proof -
  obtain resp w1 certs piid time and w2 w3 :: "'z world_scheme" and tresp :: tcb_info_response where
    1: "fetch_pck_certs C env key body w = (Ok resp, w1)" and
    2: "filter_and_verify_pck_certs C (pck_json resp) (pck_cert_chain resp) = Ok (certs, piid)" and
    3: "fetch_tcb_info C env (pck_fmspc resp) w2 = (Ok tresp, w3)" and
    4: "build_cache_blob time (cpu_svn body) (tcb_body tresp) (pck_cert_chain resp) certs =
         Ok (res_blob res, res_expires res)"
    using assms(4)
    by (auto simp: request_pck_blob_def bind_fx_eq_Ok Let_def split: prod.splits)
  have "str_ok (pck_cert_chain resp)" using 1 by (rule fetch_pck_certs_strings)
  moreover have "str_ok (tcb_body tresp)" using assms(1) 3 by (rule fetch_tcb_info_strings)
  moreover have "str_ok certs"
    using 2 assms(2) by (auto simp: filter_and_verify_Ok crates_strings_ok_def)
  ultimately show ?thesis
    using 4 assms(3)
    by (intro exI [of _ "\<lparr>blob_version = CACHE_VERSION, blob_flags = ucast SGX_QPL_CACHE_MULTICERTS,
          blob_expiration_time = res_expires res, blob_cpu_svn = cpu_svn body,
          blob_tcb_info = tcb_body tresp, blob_cert_chain = pck_cert_chain resp,
          blob_pck_certs_json = certs\<rparr>"])
      (auto simp: parse_cache_blob_iff build_cache_blob_def bind_res_eq_Ok write_field_Ok
        blob_ok_def blob_bytes_def field_ok_def)
qed

definition clock_within_year :: "env \<Rightarrow> bool" where
  "clock_within_year env \<longleftrightarrow>
     (\<exists>lo. lo + 2 * 31536000 \<le> 2 ^ 64
        \<and> (\<forall>h. \<exists>c. env_system_time env h = Some c \<and> lo \<le> unat c \<and> unat c < lo + 31536000))"

lemma request_pck_blob_expiry:
  assumes "clock_within_year env" "request_pck_blob C env key body w = (Ok res, w')"
    and "env_system_time env h = Some now"
  shows "now < res_expires res"
proof -
  obtain lo where lo: "lo + 2 * 31536000 \<le> 2 ^ 64"
    "\<And>h. \<exists>c. env_system_time env h = Some c \<and> lo \<le> unat c \<and> unat c < lo + 31536000"
    using assms(1) by (auto simp: clock_within_year_def)
  obtain time h' svn tcb chain certs where
    "build_cache_blob time svn tcb chain certs = Ok (res_blob res, res_expires res)"
    "time = env_system_time env h'"
    using assms(2)
    by (auto simp: request_pck_blob_def bind_fx_eq_Ok Let_def system_time_def split: prod.splits)
  then obtain c where c: "env_system_time env h' = Some c"
    "res_expires res = c + EXPIRE_HOURS * 60 * 60"
    by (auto simp: build_cache_blob_def get_expiration_time_def bind_res_eq_Ok)
  have lc: "lo \<le> unat c" "unat c < lo + 31536000" using lo(2) [of h'] c(1) by auto
  have ln: "unat now < lo + 31536000" using lo(2) [of h] assms(3) by auto
  have "unat (res_expires res) = unat c + 31536000"
    using c(2) lc lo(1) by (simp add: EXPIRE_HOURS_def unat_word_ariths)
  with lc ln show ?thesis by (simp add: word_less_nat_alt)
qed

text \<open>A written and read back PCK secret is valid.\<close>

lemma read_back_valid:
  assumes "env_strings_ok env" "crates_strings_ok C" "clock_within_year env" "str_ok (cpu_svn body)"
    and "request_pck_blob C env key body w0 = (Ok res, w1)"
    and "env_get_secret env (events w) (pck_secret_name name) = Ok s"
    and "stored_as C (pck_secret_doc C (pck_secret_name name) ns fp res) s"
  shows "pck_secret_is_valid env (pck_secret_name name) fp w =
    (Ok True, log_event ReadSystemTime (log_event (GetSecret (pck_secret_name name)) w))"
proof -
  obtain annots data where st: "annotations s = Some annots" "secret_data s = Some data"
    "annots ANNOTATION_PLATFORM_DATA_FINGERPRINT = Some fp"
    "annots ANNOTATION_EXPIRES_AT = Some (dec_string (unat (res_expires res)))"
    "data ''certificate'' = Some (res_blob res)"
    using stored_pck_secret [OF assms(7)] by blast
  obtain b where b: "parse_cache_blob (res_blob res) = Ok b"
    using request_pck_blob_parses [OF assms(1,2,4,5)] by blast
  obtain now where now: "env_system_time env (events w @ [GetSecret (pck_secret_name name)]) = Some now"
    using assms(3) unfolding clock_within_year_def by blast
  have "parse_u64 (dec_string (unat (res_expires res))) = Some (res_expires res)"
    using unsigned_less [of "res_expires res"] by (subst parse_u64_dec_string) simp_all
  moreover have "now < res_expires res" using request_pck_blob_expiry [OF assms(3,5) now] .
  ultimately have "check_expiry_and_blob now annots s"
    using st b by (simp add: check_expiry_and_blob_iff)
  with assms(6) st now show ?thesis by (simp add: pck_secret_is_valid_True)
qed

end
