(* ===== verification/RegistrarSpec.thy ===== *)
theory RegistrarSpec
  imports RegistrarProps
begin

text \<open>
  The run of \<open>process_platform_secret\<close> taken apart: the calls of each part in order, the cases a
  run can end in, and what its errors say of the calls before them. The properties of
  \<open>RegistrarClaims\<close> are short case splits over these.
\<close>

subsection \<open>Calls in the order they are made\<close>

definition calls :: "event list \<Rightarrow> event list" where
  "calls es = filter (\<lambda>e. e \<noteq> ReadSystemTime \<and> e \<noteq> ReadInstant) es"

lemma calls_simps [simp]:
  "calls [] = []"
  "calls (ReadSystemTime # es) = calls es"
  "calls (ReadInstant # es) = calls es"
  "calls (GetSecret n # es) = GetSecret n # calls es"
  "calls (HttpSend q # es) = HttpSend q # calls es"
  "calls (ApplySecret n p d # es) = ApplySecret n p d # calls es"
  "calls (xs @ ys) = calls xs @ calls ys"
  by (simp_all add: calls_def)

text \<open>The requests the registrar may send: the POST with the platform's data, then the query for
  the TCB Info, which does not carry the API key.\<close>

definition pck_request :: "('c, 's, 'd) crates \<Rightarrow> str option \<Rightarrow> pck_certs_request \<Rightarrow> http_request \<Rightarrow> bool" where
  "pck_request C key body q \<longleftrightarrow> req_method q = POST
     \<and> url_join C INTEL_PCS_API_BASE_URL INTEL_PCS_PCKCERTS_ENDPOINT = Some (req_url q)
     \<and> req_headers q = (case key of None \<Rightarrow> [] | Some k \<Rightarrow> [(''Ocp-Apim-Subscription-Key'', k)])
     \<and> req_json q = Some body"

definition tcb_query :: "('c, 's, 'd) crates \<Rightarrow> http_request \<Rightarrow> bool" where
  "tcb_query C q \<longleftrightarrow> req_method q = GET \<and> req_headers q = [] \<and> req_json q = None
     \<and> (\<exists>u fm. url_join C INTEL_PCS_API_BASE_URL INTEL_PCS_TCB_ENDPOINT = Some u
        \<and> length fm = 12 \<and> all_hex fm
        \<and> req_url q = set_query C u (''fmspc='' @ url_encode C fm @ ''&update=early''))"

lemma fetch_pck_certs_trace:
  assumes "fetch_pck_certs C env key body w = (r, w')"
  shows "w' = w \<and> (\<exists>m. r = Err (Msg m)) \<or>
    (\<exists>q. pck_request C key body q \<and> w' = log_event (HttpSend q) w)"
proof (cases "url_join C INTEL_PCS_API_BASE_URL INTEL_PCS_PCKCERTS_ENDPOINT")
  case None
  with assms show ?thesis by (auto simp: fetch_pck_certs_def bind_fx_lift)
next
  case (Some url)
  let ?q = "\<lparr>req_method = POST, req_url = url,
           req_headers = (case key of None \<Rightarrow> []
             | Some key \<Rightarrow> [(''Ocp-Apim-Subscription-Key'', key)]), req_json = Some body\<rparr>"
  have "w' = log_event (HttpSend ?q) w"
    using assms Some
    by (auto simp: fetch_pck_certs_def bind_fx_def map_err_fx_def http_send_def Let_def
        ret_fx_def fail_fx_def lift_fx_def split: sum.splits if_splits prod.splits)
  with Some show ?thesis
    by - (rule disjI2, rule exI [of _ ?q], simp add: pck_request_def)
qed

lemma fetch_tcb_info_trace:
  assumes "fetch_tcb_info C env fm w = (r, w')"
  shows "w' = w \<and> \<not> is_ok r \<or> (\<exists>q. tcb_query C q \<and> w' = log_event (HttpSend q) w)"
proof (cases "is_fixed_len_hex 12 fm \<and> url_join C INTEL_PCS_API_BASE_URL INTEL_PCS_TCB_ENDPOINT \<noteq> None")
  case False
  with assms show ?thesis
    by (cases "is_fixed_len_hex 12 fm")
      (auto simp: fetch_tcb_info_def validate_fmspc_def FMSPC_HEX_LEN_def bind_fx_lift)
next
  case True
  then obtain u where u: "url_join C INTEL_PCS_API_BASE_URL INTEL_PCS_TCB_ENDPOINT = Some u"
    and fm: "length fm = 12" "all_hex fm" by (auto simp: is_fixed_len_hex_iff)
  let ?q = "\<lparr>req_method = GET,
      req_url = set_query C u (''fmspc='' @ url_encode C fm @ ''&update=early''),
      req_headers = [], req_json = None\<rparr>"
  have "validate_fmspc fm = Ok ()"
    using True by (simp add: validate_fmspc_def FMSPC_HEX_LEN_def)
  then have "w' = log_event (HttpSend ?q) w"
    using assms u
    by (auto simp: fetch_tcb_info_def bind_fx_def map_err_fx_def http_send_def Let_def
        ret_fx_def fail_fx_def lift_fx_def ok_or_def split: sum.splits if_splits prod.splits option.splits)
  with u fm show ?thesis
    by - (rule disjI2, rule exI [of _ ?q], auto simp: tcb_query_def)
qed

text \<open>The first half of a registration makes a prefix of two calls, and both if it succeeds.\<close>

definition pcs_calls :: "('c, 's, 'd) crates \<Rightarrow> str option \<Rightarrow> pck_certs_request \<Rightarrow> event list \<Rightarrow> bool" where
  "pcs_calls C key body es \<longleftrightarrow>
     es = [] \<or> (\<exists>q. pck_request C key body q \<and> es = [HttpSend q])
     \<or> (\<exists>q t. pck_request C key body q \<and> tcb_query C t \<and> es = [HttpSend q, HttpSend t])"

lemma request_pck_blob_trace:
  fixes w :: "'z world_scheme"
  assumes "request_pck_blob C env key body w = (r, w')"
  shows "\<exists>es. events w' = events w @ es \<and> pcs_calls C key body (calls es)
     \<and> (is_ok r \<longrightarrow> length (calls es) = 2) \<and> (calls es = [] \<longrightarrow> (\<exists>m. r = Err (Msg m)))"
proof -
  obtain r1 w1 where f: "fetch_pck_certs C env key body w = (r1, w1)" by fastforce
  show ?thesis
  proof (cases r1)
    case (Inl e)
    with f assms have "w' = w1" "r = Err e"
      by (auto simp: request_pck_blob_def bind_fx_def)
    with Inl fetch_pck_certs_trace [OF f] show ?thesis by (auto simp: pcs_calls_def)
  next
    case (Inr resp)
    then obtain q where q: "pck_request C key body q" "w1 = log_event (HttpSend q) w"
      using fetch_pck_certs_trace [OF f] by auto
    show ?thesis
    proof (cases "filter_and_verify_pck_certs C (pck_json resp) (pck_cert_chain resp)")
      case (Inl e)
      with f \<open>r1 = Inr resp\<close> assms have "w' = w1" "\<not> is_ok r"
        by (auto simp: request_pck_blob_def bind_fx_def Let_def lift_fx_def)
      with q show ?thesis by (auto simp: pcs_calls_def)
    next
      case (Inr cp)
      obtain r2 w2 where g: "fetch_tcb_info C env (pck_fmspc resp) w1 = (r2, w2)" by fastforce
      show ?thesis
      proof (cases r2)
        case (Inl e)
        with f g \<open>r1 = Inr resp\<close> Inr assms have "w' = w2" "\<not> is_ok r"
          by (auto simp: request_pck_blob_def bind_fx_def Let_def lift_fx_def split: prod.splits)
        with q fetch_tcb_info_trace [OF g] show ?thesis by (auto simp: pcs_calls_def)
      next
        case r2: (Inr tresp)
        then obtain t where t: "tcb_query C t" "w2 = log_event (HttpSend t) w1"
          using fetch_tcb_info_trace [OF g] by auto
        have "w' = w2 \<or> w' = log_event ReadSystemTime w2"
          using f g \<open>r1 = Inr resp\<close> Inr r2 assms
          by (auto simp: request_pck_blob_def bind_fx_def Let_def lift_fx_def ret_fx_def system_time_def
              split: prod.splits sum.splits)
        with q t show ?thesis by (auto simp: pcs_calls_def)
      qed
    qed
  qed
qed

subsection \<open>The ways a reconciliation can go\<close>

lemma process_cases:
  assumes "process_platform_secret C env key ns s w = (r, w')"
  obtains (invalid) e where "r = Err (permanent e)" "w' = w"
      "\<forall>data body. secret_data s = Some data \<longrightarrow> prepare_registration (secret_name s) data \<noteq> Ok body"
  | (unreadable) data body e where "secret_data s = Some data"
      "prepare_registration (secret_name s) data = Ok body"
      "pck_secret_is_valid env (pck_secret_name (secret_name s))
         (registration_fingerprint (sha256 C) body) w = (Err e, w')"
      "r = Err (retry e K8S_API_WATCH_ERROR_BACKOFF)"
  | (still_valid) data body where "secret_data s = Some data"
      "prepare_registration (secret_name s) data = Ok body"
      "pck_secret_is_valid env (pck_secret_name (secret_name s))
         (registration_fingerprint (sha256 C) body) w = (Ok True, w')"
      "r = Ok AwaitChange"
  | (paused) data body w1 d where "secret_data s = Some data"
      "prepare_registration (secret_name s) data = Ok body"
      "pck_secret_is_valid env (pck_secret_name (secret_name s))
         (registration_fingerprint (sha256 C) body) w = (Ok False, w1)"
      "remaining (reg_pause w1) (env_instant env (events w1)) = Some d"
      "r = Ok (Requeue d)" "w' = log_event ReadInstant w1"
  | (attempted) data body w1 r2 w2 where "secret_data s = Some data"
      "prepare_registration (secret_name s) data = Ok body"
      "pck_secret_is_valid env (pck_secret_name (secret_name s))
         (registration_fingerprint (sha256 C) body) w = (Ok False, w1)"
      "remaining (reg_pause w1) (env_instant env (events w1)) = None"
      "register_platform C env key (secret_name s) ns body
         (registration_fingerprint (sha256 C) body) (log_event ReadInstant w1) = (r2, w2)"
      "case r2 of Inl e \<Rightarrow> registration_failed env e w2 = (r, w')
         | Inr u \<Rightarrow> r = Ok AwaitChange \<and> w' = w2"
proof (cases "\<exists>data body. secret_data s = Some data \<and> prepare_registration (secret_name s) data = Ok body")
  case False
  then have "\<exists>e. r = Err (permanent e) \<and> w' = w"
    using assms
    by (cases "secret_data s"; cases "prepare_registration (secret_name s) (the (secret_data s))")
      (auto simp: process_platform_secret_def Let_def)
  with False that(1) show thesis by blast
next
  case True
  then obtain data body where d: "secret_data s = Some data"
    "prepare_registration (secret_name s) data = Ok body" by blast
  let ?fp = "registration_fingerprint (sha256 C) body"
  obtain q w1 where v: "pck_secret_is_valid env (pck_secret_name (secret_name s)) ?fp w = (q, w1)"
    by fastforce
  note run = process_run [OF d refl v, of key ns] assms
  show thesis
  proof (cases q)
    case (Inl e)
    with run v d show thesis by (intro that(2)) auto
  next
    case (Inr b)
    show thesis
    proof (cases b)
      case True
      with run v d Inr show thesis by (intro that(3)) auto
    next
      case False
      show thesis
      proof (cases "remaining (reg_pause w1) (env_instant env (events w1))")
        case (Some t)
        with run v d Inr False show thesis by (intro that(4)) auto
      next
        case None
        obtain r2 w2 where reg: "register_platform C env key (secret_name s) ns body ?fp
            (log_event ReadInstant w1) = (r2, w2)" by fastforce
        have "case r2 of Inl e \<Rightarrow> registration_failed env e w2 = (r, w')
         | Inr u \<Rightarrow> r = Ok AwaitChange \<and> w' = w2"
          using run Inr False None reg by (cases r2) (auto simp: match_fx_def)
        with v d Inr False None reg show thesis by (intro that(5)) auto
      qed
    qed
  qed
qed

lemma registration_failed_run:
  "registration_failed env e w = (r, w') \<Longrightarrow> \<exists>err. r = Err err
     \<and> (w' = w \<or> events w' = events w @ [ReadInstant])"
  by (auto simp: registration_failed_def bind_fx_def split: option.splits if_splits)

text \<open>What a registration adds to the log: requests, then, only after both requests, the PCK
  secret made of a verified result, then the index entry of the same result.\<close>

definition store_pck :: "('c, 's, 'd) crates \<Rightarrow> str \<Rightarrow> str \<Rightarrow> str \<Rightarrow> pck_result \<Rightarrow> event" where
  "store_pck C name ns fp res =
     ApplySecret (pck_secret_name name) (apply_force FIELD_MANAGER)
       (pck_secret_doc C (pck_secret_name name) ns fp res)"

definition store_index :: "('c, 's, 'd) crates \<Rightarrow> str \<Rightarrow> str \<Rightarrow> event" where
  "store_index C name piid =
     ApplySecret PIID_INDEX_SECRET_NAME (apply_force (FIELD_MANAGER @ ''/'' @ name))
       (piid_index_doc C name piid)"

lemma calls_store [simp]:
  "calls (store_pck C name ns fp res # es) = store_pck C name ns fp res # calls es"
  "calls (store_index C name piid # es) = store_index C name piid # calls es"
  by (simp_all add: store_pck_def store_index_def)

definition registration_calls ::
  "('c, 's, 'd) crates \<Rightarrow> str option \<Rightarrow> str \<Rightarrow> str \<Rightarrow> pck_certs_request \<Rightarrow> str \<Rightarrow> event list \<Rightarrow> bool" where
  "registration_calls C key name ns body fp es \<longleftrightarrow>
     pcs_calls C key body es
     \<or> (\<exists>q t res ws. es = [HttpSend q, HttpSend t] @ ws \<and> pck_request C key body q \<and> tcb_query C t
        \<and> verified_result C body res
        \<and> (ws = [store_pck C name ns fp res]
           \<or> ws = [store_pck C name ns fp res, store_index C name (res_piid res)]))"

lemma pcs_calls_two:
  "pcs_calls C key body es \<Longrightarrow> length es = 2 \<Longrightarrow>
     \<exists>q t. es = [HttpSend q, HttpSend t] \<and> pck_request C key body q \<and> tcb_query C t"
  by (auto simp: pcs_calls_def)

lemma register_platform_trace:
  assumes "register_platform C env key name ns body fp w = (r, w')"
  shows "\<exists>es. events w' = events w @ es \<and> registration_calls C key name ns body fp (calls es)
     \<and> (is_ok r \<longrightarrow> length (calls es) = 4)"
  using assms
proof (cases rule: register_platform_cases)
  case (failed e)
  with request_pck_blob_trace [OF failed(1)] show ?thesis
    by (auto simp: registration_calls_def)
next
  case (first_write res w1 ke)
  obtain es where es: "events w1 = events w @ es" "pcs_calls C key body (calls es)" "length (calls es) = 2"
    using request_pck_blob_trace [OF first_write(1)] by auto
  have "verified_result C body res" using first_write(1) by (rule request_pck_blob_verified)
  with es pcs_calls_two [OF es(2,3)] first_write show ?thesis
    by - (rule exI [of _ "es @ [store_pck C name ns fp res]"],
      auto simp: registration_calls_def store_pck_def)
next
  case (both_writes res w1 w2)
  obtain es where es: "events w1 = events w @ es" "pcs_calls C key body (calls es)" "length (calls es) = 2"
    using request_pck_blob_trace [OF both_writes(1)] by auto
  have "verified_result C body res" using both_writes(1) by (rule request_pck_blob_verified)
  with es pcs_calls_two [OF es(2,3)] both_writes show ?thesis
    by - (rule exI [of _ "es @ [store_pck C name ns fp res, store_index C name (res_piid res)]"],
      auto simp: registration_calls_def store_pck_def store_index_def)
qed

lemma pck_secret_is_valid_trace:
  assumes "pck_secret_is_valid env name fp w = (q, w1)"
  shows "\<exists>es. events w1 = events w @ es \<and> calls es = [GetSecret name]"
  using assms
  by (auto simp: pck_secret_is_valid_def match_fx_def get_secret_def system_time_def bind_fx_def
      ret_fx_def fail_fx_def lift_fx_def ok_or_def
      split: sum.splits kube_error.splits option.splits if_splits)

subsection \<open>What authentic platform data is\<close>

text \<open>
  The specification of a stored result, in terms of the signature checks and not of the code:
  there is one root certificate that signs both the CA issuing the PCK certificates and the
  TCB signer; root and CA are the two certificates of the stored chain; every stored certificate is signed by that CA; the stored TCB Info carries the
  signer's signature, is of the standard type and is for the FMSPC of the response; the blob
  holds these very strings with the platform's CPU SVN.
\<close>

definition authentic_result :: "('c, 's, 'd) crates \<Rightarrow> pck_certs_request \<Rightarrow> pck_result \<Rightarrow> bool" where
  "authentic_result C body res \<longleftrightarrow>
     (\<exists>root inter_der inter signer_der signer entries pem raw sg sig info doc b.
        chain_holds C (blob_cert_chain b) root inter_der
        \<and> valid_chain C root inter_der \<and> parse_x509_certificate C inter_der = Some inter
        \<and> valid_chain C root signer_der \<and> parse_x509_certificate C signer_der = Some signer
        \<and> entries \<noteq> [] \<and> list_all available entries
        \<and> list_all (entry_verified C (subject_pki C inter)) entries
        \<and> ser_pck_entries C entries = Some (blob_pck_certs_json b)
        \<and> url_decode C (entry_cert (hd entries)) = Some pem \<and> extract_piid C pem = Ok (res_piid res)
        \<and> de_signed_tcb_info C (blob_tcb_info b) = Some (raw, sg) \<and> decode_hex 64 sg = Ok sig
        \<and> ecdsa_p256_verify C (public_key_data C (subject_pki C signer)) (as_bytes raw) sig
        \<and> de_tcb_info C raw = Some info \<and> eq_ignore_ascii_case (info_fmspc info) (res_fmspc res)
        \<and> de_tcb_document C (blob_tcb_info b) = Some doc \<and> info_tcb_type doc = 0
        \<and> blob_version b = CACHE_VERSION \<and> blob_flags b = ucast SGX_QPL_CACHE_MULTICERTS
        \<and> blob_cpu_svn b = cpu_svn body \<and> blob_expiration_time b = res_expires res
        \<and> res_blob res = blob_bytes b)"

lemma build_cache_blob_bytes:
  assumes "build_cache_blob time svn tcb chain certs = Ok (out, expires)"
  obtains b where "out = blob_bytes b" "blob_version b = CACHE_VERSION"
    "blob_flags b = ucast SGX_QPL_CACHE_MULTICERTS" "blob_cpu_svn b = svn" "blob_tcb_info b = tcb"
    "blob_cert_chain b = chain" "blob_pck_certs_json b = certs" "blob_expiration_time b = expires"
proof (rule that [of "\<lparr>blob_version = CACHE_VERSION, blob_flags = ucast SGX_QPL_CACHE_MULTICERTS,
    blob_expiration_time = expires, blob_cpu_svn = svn, blob_tcb_info = tcb,
    blob_cert_chain = chain, blob_pck_certs_json = certs\<rparr>"])
  show "out = blob_bytes \<lparr>blob_version = CACHE_VERSION, blob_flags = ucast SGX_QPL_CACHE_MULTICERTS,
    blob_expiration_time = expires, blob_cpu_svn = svn, blob_tcb_info = tcb,
    blob_cert_chain = chain, blob_pck_certs_json = certs\<rparr>"
    using assms
    by (auto simp: build_cache_blob_def bind_res_eq_Ok write_field_Ok blob_bytes_def)
qed simp_all

lemma verified_authentic:
  assumes "verified_result C body res"
  shows "authentic_result C body res"
proof -
  obtain js chain certs tcb tchain time where v:
    "filter_and_verify_pck_certs C js chain = Ok (certs, res_piid res)"
    "validate_tcb_info C tcb = Ok ()"
    "verify_tcb_info C tcb tchain chain (res_fmspc res) = Ok ()"
    "build_cache_blob time (cpu_svn body) tcb chain certs = Ok (res_blob res, res_expires res)"
    using assms unfolding verified_result_def by blast
  obtain root signer_der signer i where t:
    "decode_and_validate_issuer_chain C tchain = Ok (root, signer_der)"
    "decode_and_validate_issuer_chain C chain = Ok (root, i)"
    "parse_x509_certificate C signer_der = Some signer"
    "verify_tcb_info_signature C tcb (public_key_data C (subject_pki C signer)) (res_fmspc res) = Ok ()"
    using v(3) unfolding verify_tcb_info_Ok by blast
  obtain entries inter pem where f:
    "parse_x509_certificate C i = Some inter"
    "\<forall>e \<in> set entries. available e \<longrightarrow> entry_verified C (subject_pki C inter) e"
    "filter available entries \<noteq> []" "ser_pck_entries C (filter available entries) = Some certs"
    "url_decode C (entry_cert (hd (filter available entries))) = Some pem"
    "extract_piid C pem = Ok (res_piid res)"
    using v(1) t(2) unfolding filter_and_verify_Ok by auto
  obtain raw sg sig info where sg: "de_signed_tcb_info C tcb = Some (raw, sg)" "decode_hex 64 sg = Ok sig"
    "ecdsa_p256_verify C (public_key_data C (subject_pki C signer)) (as_bytes raw) sig"
    "de_tcb_info C raw = Some info" "eq_ignore_ascii_case (info_fmspc info) (res_fmspc res)"
    using t(4) unfolding verify_tcb_info_signature_Ok by blast
  obtain doc where doc: "de_tcb_document C tcb = Some doc" "info_tcb_type doc = 0"
    using v(2) by (auto simp: validate_tcb_info_def bind_res_eq_Ok split: if_splits)
  have chains: "chain_holds C chain root i" "valid_chain C root i" "valid_chain C root signer_der"
    using t(1,2) by (simp_all add: issuer_chain_holds)
  have all: "list_all available (filter available entries)"
    "list_all (entry_verified C (subject_pki C inter)) (filter available entries)"
    using f(2) by (auto simp: list_all_iff)
  obtain b where b: "res_blob res = blob_bytes b" "blob_version b = CACHE_VERSION"
    "blob_flags b = ucast SGX_QPL_CACHE_MULTICERTS" "blob_cpu_svn b = cpu_svn body"
    "blob_tcb_info b = tcb" "blob_cert_chain b = chain" "blob_pck_certs_json b = certs" "blob_expiration_time b = res_expires res"
    using build_cache_blob_bytes [OF v(4)] by metis
  show ?thesis
    unfolding authentic_result_def
    by (rule exI [of _ root], rule exI [of _ i], rule exI [of _ inter], rule exI [of _ signer_der],
        rule exI [of _ signer], rule exI [of _ "filter available entries"], rule exI [of _ pem],
        rule exI [of _ raw], rule exI [of _ sg], rule exI [of _ sig], rule exI [of _ info],
        rule exI [of _ doc], rule exI [of _ b])
      (simp only: b doc sg f chains t all simp_thms)
qed

end
