(* ===== verification/RegistrarClaims.thy ===== *)
theory RegistrarClaims
  imports RegistrarSpec
begin

text \<open>Properties of the registrar, and the concrete run their witnesses use.\<close>

subsection \<open>A concrete run\<close>

definition demo_request :: pck_certs_request where
  "demo_request = \<lparr>platform_manifest = ''0011aabb'', pce_id = ''0000'',
     cpu_svn = ''0102030405060708090a0b0c0d0e0f10''\<rparr>"

definition demo_name :: str where "demo_name = ''a1b2c3d4e5f6a1b2c3d4e5f6a1b2c3d4''"

definition demo_secret :: secret where
  "demo_secret = \<lparr>secret_name = demo_name, annotations = None,
     secret_data = Some [''platform_manifest'' \<mapsto> as_bytes (platform_manifest demo_request),
       ''pce_id'' \<mapsto> as_bytes (pce_id demo_request), ''cpu_svn'' \<mapsto> as_bytes (cpu_svn demo_request)],
     resource_version = None\<rparr>"

definition demo_world :: reg_world where
  "demo_world = \<lparr>events = [], reg_pause = pause_default\<rparr>"

lemma demo_prepare:
  "\<exists>data. secret_data demo_secret = Some data
     \<and> prepare_registration (secret_name demo_secret) data = Ok demo_request"
proof -
  have "request_ok demo_request"
    by (simp add: request_ok_def is_fixed_len_hex_iff demo_request_def hex_eval)
  then show ?thesis
    using request_ok_str_ok
    by (simp add: prepare_registration_Ok from_secret_data_Ok is_fixed_len_hex_iff hex_eval
        demo_secret_def demo_name_def)
qed

lemma demo_headers:
  "header_str (demo_response q) ''SGX-FMSPC'' = (if req_method q = POST then Some ''00906ED50000'' else None)"
  "header_str (demo_response q) ''SGX-PCK-Certificate-Issuer-Chain'' = (if req_method q = POST then Some ''chain'' else None)"
  "header_str (demo_response q) ''TCB-Info-Issuer-Chain'' = (if req_method q = POST then None else Some ''chain'')"
  by (simp_all add: header_str_def demo_response_def to_str_def as_bytes_def of_bytes_def)

lemma demo_response_simps [simp]:
  "resp_status (demo_response q) = 200"
  "resp_text (demo_response q) = Ok (if req_method q = POST then ''entries'' else ''tcb'')"
  by (simp_all add: demo_response_def)

definition demo_post :: "str option \<Rightarrow> http_request" where
  "demo_post key = \<lparr>req_method = POST,
     req_url = INTEL_PCS_API_BASE_URL @ INTEL_PCS_PCKCERTS_ENDPOINT,
     req_headers = (case key of None \<Rightarrow> [] | Some k \<Rightarrow> [(''Ocp-Apim-Subscription-Key'', k)]),
     req_json = Some demo_request\<rparr>"

definition demo_get :: http_request where
  "demo_get = \<lparr>req_method = GET,
     req_url = INTEL_PCS_API_BASE_URL @ INTEL_PCS_TCB_ENDPOINT @ ''?'' @ ''fmspc=00906ED50000&update=early'',
     req_headers = [], req_json = None\<rparr>"

lemma demo_crates_urls [simp]:
  "url_join demo_crates a b = Some (a @ b)"
  "set_query demo_crates u q = u @ ''?'' @ q"
  "url_encode demo_crates = id"
  by (simp_all add: demo_crates_def)

lemma demo_fmspc [simp]: "validate_fmspc ''00906ED50000'' = Ok ()"
  by (simp add: validate_fmspc_def FMSPC_HEX_LEN_def is_fixed_len_hex_iff hex_eval)

text \<open>The requests of the run, when the service answers as in \<open>demo_response\<close>.\<close>

lemma demo_fetch_pck:
  assumes "\<And>h q. env_http_send env h q = Ok (demo_response q)"
  shows "fetch_pck_certs demo_crates env key demo_request w =
    (Ok \<lparr>pck_fmspc = ''00906ED50000'', pck_cert_chain = ''chain'', pck_json = ''entries''\<rparr>,
     log_event (HttpSend (demo_post key)) w)"
  by (simp add: fetch_pck_certs_def Let_def bind_fx_def map_err_fx_def http_send_def assms lift_fx_def
      ret_fx_def is_success_def demo_headers demo_post_def)

lemma demo_fetch_tcb:
  assumes "\<And>h q. env_http_send env h q = Ok (demo_response q)"
  shows "fetch_tcb_info demo_crates env ''00906ED50000'' w =
    (Ok \<lparr>tcb_body = ''tcb'', tcb_header_chain = ''chain''\<rparr>, log_event (HttpSend demo_get) w)"
  by (simp add: fetch_tcb_info_def Let_def bind_fx_def map_err_fx_def http_send_def assms lift_fx_def
      ret_fx_def is_success_def demo_headers demo_get_def)

lemma demo_verify: "verify_tcb_info demo_crates ''tcb'' ''chain'' ''chain'' ''00906ED50000'' = Ok ()"
proof -
  have "eq_ignore_ascii_case ''00906ED50000'' ''00906ED50000''" by (simp add: eq_ignore_ascii_case_def)
  with demo_chain show ?thesis
    by (simp add: verify_tcb_info_def verify_tcb_info_signature_def ECDSA_P256_SIGNATURE_LEN_def
        demo_eval decode_hex_zeros)
qed

definition demo_result :: pck_result where
  "demo_result = \<lparr>res_fmspc = ''00906ED50000'', res_piid = hex_string (replicate 16 7),
     res_blob = blob_bytes \<lparr>blob_version = CACHE_VERSION, blob_flags = ucast SGX_QPL_CACHE_MULTICERTS,
       blob_expiration_time = 1731536000, blob_cpu_svn = cpu_svn demo_request, blob_tcb_info = ''tcb'',
       blob_cert_chain = ''chain'', blob_pck_certs_json = ''pck''\<rparr>,
     res_expires = 1731536000\<rparr>"

lemma demo_build:
  "build_cache_blob (Some 1700000000) (cpu_svn demo_request) ''tcb'' ''chain'' ''pck'' =
     Ok (res_blob demo_result, res_expires demo_result)"
  by (simp add: build_cache_blob_def get_expiration_time_def EXPIRE_HOURS_def write_field_def Let_def
      demo_request_def demo_result_def blob_bytes_def field_bytes_def)

lemma demo_request_run:
  assumes "\<And>h q. env_http_send env h q = Ok (demo_response q)"
    and "\<And>h. env_system_time env h = Some 1700000000"
  shows "request_pck_blob demo_crates env key demo_request w =
    (Ok demo_result, log_event ReadSystemTime (log_event (HttpSend demo_get)
       (log_event (HttpSend (demo_post key)) w)))"
proof -
  have "validate_tcb_info demo_crates ''tcb'' = Ok ()"
    by (simp add: validate_tcb_info_def demo_eval)
  then have "request_pck_blob demo_crates env key demo_request w =
    (Ok \<lparr>res_fmspc = ''00906ED50000'', res_piid = hex_string (replicate 16 7),
        res_blob = res_blob demo_result, res_expires = res_expires demo_result\<rparr>,
     log_event ReadSystemTime (log_event (HttpSend demo_get) (log_event (HttpSend (demo_post key)) w)))"
    by (simp add: request_pck_blob_def bind_fx_run(2) [OF demo_fetch_pck [OF assms(1)]]
        bind_fx_run(2) [OF demo_fetch_tcb [OF assms(1)]] demo_filter demo_verify Let_def
        bind_fx_run(2) [OF system_time_def] assms(2) demo_build)
  then show ?thesis by (simp add: demo_result_def)
qed

lemma demo_env_simps [simp]:
  "env_http_send demo_env h q = Ok (demo_response q)"
  "env_system_time demo_env h = Some 1700000000"
  "env_instant demo_env h = from_secs 10"
  "env_apply_secret demo_env h n p d = Ok ()"
  "env_get_secret demo_env h n = Err (KubeApi 404 ''NotFound'' ''not found'')"
  by (simp_all add: demo_env_def)

definition demo_fp :: str where
  "demo_fp = registration_fingerprint (sha256 demo_crates) demo_request"

lemma demo_process:
  "process_platform_secret demo_crates demo_env key ns demo_secret demo_world =
    (Ok AwaitChange, demo_world\<lparr>events := [GetSecret (pck_secret_name demo_name), ReadInstant,
       HttpSend (demo_post key), HttpSend demo_get, ReadSystemTime,
       store_pck demo_crates demo_name ns demo_fp demo_result,
       store_index demo_crates demo_name (res_piid demo_result)]\<rparr>)"
proof -
  obtain data where d: "secret_data demo_secret = Some data"
    "prepare_registration (secret_name demo_secret) data = Ok demo_request"
    using demo_prepare by blast
  have n: "secret_name demo_secret = demo_name" by (simp add: demo_secret_def)
  have v: "pck_secret_is_valid demo_env (pck_secret_name (secret_name demo_secret)) demo_fp demo_world =
      (Ok False, log_event (GetSecret (pck_secret_name demo_name)) demo_world)"
    by (simp add: pck_secret_is_valid_def match_fx_def get_secret_def n)
  have req: "request_pck_blob demo_crates demo_env key demo_request w =
      (Ok demo_result, log_event ReadSystemTime (log_event (HttpSend demo_get)
        (log_event (HttpSend (demo_post key)) w)))" for w :: reg_world
    by (rule demo_request_run) simp_all
  show ?thesis
    unfolding process_run [OF d demo_fp_def v]
    by (simp add: demo_world_def remaining_def pause_default_def match_fx_def register_platform_def
        req n apply_secret_def patch_piid_index_eq bind_fx_def log_event_def
        store_pck_def store_index_def)
qed

subsection \<open>Safety: what is written, and when requests are sent\<close>

lemma process_trace:
  assumes "process_platform_secret C env key ns s w = (r, w')"
  shows "(w' = w \<and> \<not> is_ok r \<or>
    (\<exists>data body es tail. secret_data s = Some data
       \<and> prepare_registration (secret_name s) data = Ok body
       \<and> events w' = events w @ es \<and> calls es = GetSecret (pck_secret_name (secret_name s)) # tail
       \<and> registration_calls C key (secret_name s) ns body (registration_fingerprint (sha256 C) body) tail
       \<and> (is_ok r \<longrightarrow> tail = [] \<or> length tail = 4)))"
  using assms
proof (cases rule: process_cases)
  case (invalid e)
  then show ?thesis by simp
next
  case (unreadable data body e)
  with pck_secret_is_valid_trace [OF unreadable(3)] show ?thesis
    by (auto simp: registration_calls_def pcs_calls_def)
next
  case (still_valid data body)
  with pck_secret_is_valid_trace [OF still_valid(3)] show ?thesis
    by (auto simp: registration_calls_def pcs_calls_def)
next
  case (paused data body w1 d)
  with pck_secret_is_valid_trace [OF paused(3)] show ?thesis
    by (auto simp: registration_calls_def pcs_calls_def)
next
  case (attempted data body w1 r2 w2)
  obtain es1 where 1: "events w1 = events w @ es1" "calls es1 = [GetSecret (pck_secret_name (secret_name s))]"
    using pck_secret_is_valid_trace [OF attempted(3)] by blast
  obtain es2 where 2: "events w2 = events w1 @ ReadInstant # es2"
    "registration_calls C key (secret_name s) ns body (registration_fingerprint (sha256 C) body) (calls es2)"
    "is_ok r2 \<longrightarrow> length (calls es2) = 4"
    using register_platform_trace [OF attempted(5)] by auto
  obtain es3 where 3: "events w' = events w2 @ es3" "calls es3 = []" "is_ok r \<longrightarrow> is_ok r2"
  proof (cases r2)
    case (Inl e)
    with attempted(6) registration_failed_run [of env e w2 r w'] that show thesis by auto
  next
    case (Inr u)
    with attempted(6) that [of "[]"] show thesis by auto
  qed
  show ?thesis
    using attempted(1,2) 1 2 3
    by - (rule disjI2, rule exI [of _ data], rule exI [of _ body],
      rule exI [of _ "es1 @ ReadInstant # es2 @ es3"], rule exI [of _ "calls es2"], simp)
qed

text \<open>C4: Whatever Intel PCS and the Kubernetes API answer, the registrar writes only data it has
  authenticated: every secret it applies for a platform whose data passed validation is the
  PCK secret or the index entry of one result whose certificates, TCB Info and blob are
  authentic under a single root.\<close>

theorem only_authentic_data_written:
  assumes "process_platform_secret C env key ns s w = (r, w')"
    and "ApplySecret n p d \<in> set (new_events w w')"
  shows "\<exists>data body res. secret_data s = Some data
     \<and> prepare_registration (secret_name s) data = Ok body \<and> authentic_result C body res
     \<and> (ApplySecret n p d = store_pck C (secret_name s) ns (registration_fingerprint (sha256 C) body) res
       \<or> ApplySecret n p d = store_index C (secret_name s) (res_piid res))"
proof -
  obtain data body es tail where 1: "secret_data s = Some data"
    "prepare_registration (secret_name s) data = Ok body"
    "events w' = events w @ es" "calls es = GetSecret (pck_secret_name (secret_name s)) # tail"
    "registration_calls C key (secret_name s) ns body (registration_fingerprint (sha256 C) body) tail"
    using process_trace [OF assms(1)] assms(2) by (auto simp: new_events_def)
  have "ApplySecret n p d \<in> set (calls es)"
    using assms(2) 1(3) by (simp add: calls_def new_events_def)
  then have m: "ApplySecret n p d \<in> set tail" using 1(4) by simp
  then obtain res where "verified_result C body res"
    "ApplySecret n p d = store_pck C (secret_name s) ns (registration_fingerprint (sha256 C) body) res
       \<or> ApplySecret n p d = store_index C (secret_name s) (res_piid res)"
    using 1(5) by (auto simp: registration_calls_def pcs_calls_def)
  with 1(1,2) verified_authentic show ?thesis by blast
qed

theorem only_authentic_data_written_witness:
  "\<exists>n p d data body res. store_pck demo_crates demo_name ''ns'' demo_fp demo_result = ApplySecret n p d
     \<and> secret_data demo_secret = Some data
     \<and> prepare_registration (secret_name demo_secret) data = Ok body
     \<and> authentic_result demo_crates body res
     \<and> (ApplySecret n p d = store_pck demo_crates (secret_name demo_secret) ''ns''
           (registration_fingerprint (sha256 demo_crates) body) res
       \<or> ApplySecret n p d = store_index demo_crates (secret_name demo_secret) (res_piid res))"
proof -
  obtain n p d where e: "store_pck demo_crates demo_name ''ns'' demo_fp demo_result = ApplySecret n p d"
    by (simp add: store_pck_def)
  show ?thesis
    using e only_authentic_data_written [OF demo_process [of None "''ns''"], of n p d]
    by (auto simp: new_events_def demo_world_def)
qed

lemma read_only_no_request: "calls es = [GetSecret n] \<Longrightarrow> HttpSend q \<notin> set es"
proof
  assume c: "calls es = [GetSecret n]" and m: "HttpSend q \<in> set es"
  from m have "HttpSend q \<in> set (calls es)" by (simp add: calls_def)
  with c show False by simp
qed

text \<open>A request to Intel PCS is sent only after the pause gate was found open: before the
  first request of a reconciliation the clock was read, and at that reading no pause
  requested by any registration was still running.\<close>

theorem pcs_request_only_when_open:
  assumes "process_platform_secret C env key ns s w = (r, w')"
    and "HttpSend q \<in> set (new_events w w')"
  shows "\<exists>pre post. events w' = events w @ pre @ ReadInstant # post
     \<and> remaining (reg_pause w) (env_instant env (events w @ pre)) = None
     \<and> (\<forall>q'. HttpSend q' \<notin> set pre)"
  using assms(1)
proof (cases rule: process_cases)
  case (invalid e)
  with assms(2) show ?thesis by (simp add: new_events_def)
next
  case (unreadable data body e)
  obtain es where "events w' = events w @ es" "calls es = [GetSecret (pck_secret_name (secret_name s))]"
    using pck_secret_is_valid_trace [OF unreadable(3)] by blast
  with assms(2) read_only_no_request show ?thesis by (auto simp: new_events_def)
next
  case (still_valid data body)
  obtain es where "events w' = events w @ es" "calls es = [GetSecret (pck_secret_name (secret_name s))]"
    using pck_secret_is_valid_trace [OF still_valid(3)] by blast
  with assms(2) read_only_no_request show ?thesis by (auto simp: new_events_def)
next
  case (paused data body w1 d)
  obtain es where "events w1 = events w @ es" "calls es = [GetSecret (pck_secret_name (secret_name s))]"
    using pck_secret_is_valid_trace [OF paused(3)] by blast
  with assms(2) paused(6) read_only_no_request show ?thesis by (auto simp: new_events_def)
next
  case (attempted data body w1 r2 w2)
  obtain es where es: "events w1 = events w @ es" "calls es = [GetSecret (pck_secret_name (secret_name s))]"
    using pck_secret_is_valid_trace [OF attempted(3)] by blast
  have no: "\<forall>q'. HttpSend q' \<notin> set es" using read_only_no_request [OF es(2)] by blast
  obtain es2 where es2: "events w2 = events w1 @ ReadInstant # es2"
    using register_platform_trace [OF attempted(5)] by auto
  obtain es3 where "events w' = events w2 @ es3"
    using attempted(6) registration_failed_run by (cases r2) fastforce+
  moreover have "reg_pause w1 = reg_pause w"
    using pck_secret_is_valid_log [OF attempted(3)] by (rule same_pause)
  ultimately show ?thesis
    using es(1) es2 no attempted(4)
    by - (rule exI [of _ es], rule exI [of _ "es2 @ es3"], simp)
qed

theorem pcs_request_only_when_open_witness:
  "\<exists>w'. process_platform_secret demo_crates demo_env None ''ns'' demo_secret demo_world = (Ok AwaitChange, w')
     \<and> HttpSend (demo_post None) \<in> set (new_events demo_world w')
     \<and> (\<exists>pre post. events w' = events demo_world @ pre @ ReadInstant # post
       \<and> remaining (reg_pause demo_world) (env_instant demo_env (events demo_world @ pre)) = None
       \<and> (\<forall>q'. HttpSend q' \<notin> set pre))"
  using pcs_request_only_when_open [OF demo_process [of None "''ns''"], of "demo_post None"]
    demo_process [of None "''ns''"]
  by (auto simp: new_events_def demo_world_def)

lemma registration_calls_prefix:
  assumes "registration_calls C key name ns body fp es"
  shows "es = [] \<or> (\<exists>q t res k. 0 < k \<and> pck_request C key body q \<and> (1 < k \<longrightarrow> tcb_query C t)
     \<and> es = take k [HttpSend q, HttpSend t, store_pck C name ns fp res,
          store_index C name (res_piid res)])"
proof -
  consider "es = []" | q where "pck_request C key body q" "es = [HttpSend q]"
    | q t where "pck_request C key body q" "tcb_query C t" "es = [HttpSend q, HttpSend t]"
    | q t res where "pck_request C key body q" "tcb_query C t"
        "es = [HttpSend q, HttpSend t, store_pck C name ns fp res]"
    | q t res where "pck_request C key body q" "tcb_query C t"
        "es = [HttpSend q, HttpSend t, store_pck C name ns fp res, store_index C name (res_piid res)]"
    using assms unfolding registration_calls_def pcs_calls_def by fastforce
  then show ?thesis
  proof cases
    case (2 q)
    then show ?thesis by - (rule disjI2, rule exI [of _ q], rule exI, rule exI, rule exI [of _ 1], simp)
  next
    case (3 q t)
    then show ?thesis
      by - (rule disjI2, rule exI [of _ q], rule exI [of _ t], rule exI, rule exI [of _ 2], simp)
  next
    case (4 q t res)
    then show ?thesis
      by - (rule disjI2, rule exI [of _ q], rule exI [of _ t], rule exI [of _ res], rule exI [of _ 3], simp)
  next
    case (5 q t res)
    then show ?thesis
      by - (rule disjI2, rule exI [of _ q], rule exI [of _ t], rule exI [of _ res], rule exI [of _ 4], simp)
  qed simp
qed

text \<open>C5: The calls of a reconciliation come in one order: one read of the PCK secret, then the
  POST of exactly the validated data, then the TCB Info query, then the PCK secret, then the
  index entry. It stops at some point of that order; nothing is written before both responses
  are there, and success means that it stopped after the read or went to the end.\<close>

theorem reconcile_call_order:
  assumes "process_platform_secret C env key ns s w = (r, w')"
    and "secret_data s = Some data" "prepare_registration (secret_name s) data = Ok body"
  shows "\<exists>tail. calls (new_events w w') = GetSecret (pck_secret_name (secret_name s)) # tail
     \<and> (tail = [] \<or>
        (\<exists>q t res k. 0 < k \<and> pck_request C key body q \<and> (1 < k \<longrightarrow> tcb_query C t)
           \<and> tail = take k [HttpSend q, HttpSend t,
                store_pck C (secret_name s) ns (registration_fingerprint (sha256 C) body) res,
                store_index C (secret_name s) (res_piid res)]))
     \<and> (is_ok r \<longrightarrow> tail = [] \<or> length tail = 4)"
proof -
  have "w' \<noteq> w \<or> is_ok r"
    using assms(1)
  proof (cases rule: process_cases)
    case (invalid e)
    with assms(2,3) show ?thesis by blast
  next
    case (unreadable data' body' e)
    with pck_secret_is_valid_trace [OF unreadable(3)] show ?thesis by auto
  next
    case (attempted data' body' w1 r2 w2)
    obtain es where "events w1 = events w @ es" "es \<noteq> []"
      using pck_secret_is_valid_trace [OF attempted(3)] by fastforce
    moreover obtain es2 where "events w2 = events w1 @ es2"
      using register_platform_trace [OF attempted(5)] by auto
    moreover obtain es3 where "events w' = events w2 @ es3"
      using attempted(6) registration_failed_run by (cases r2) fastforce+
    ultimately show ?thesis by auto
  qed simp_all
  then obtain es tail where t: "events w' = events w @ es"
    "calls es = GetSecret (pck_secret_name (secret_name s)) # tail"
    "registration_calls C key (secret_name s) ns body (registration_fingerprint (sha256 C) body) tail"
    "is_ok r \<longrightarrow> tail = [] \<or> length tail = 4"
    using process_trace [OF assms(1)] assms(2,3) by auto
  with registration_calls_prefix [OF t(3)] show ?thesis
    by - (rule exI [of _ tail], simp add: new_events_def)
qed

theorem reconcile_call_order_witness:
  "\<exists>w' tail. process_platform_secret demo_crates demo_env None ''ns'' demo_secret demo_world = (Ok AwaitChange, w')
     \<and> calls (new_events demo_world w') = GetSecret (pck_secret_name (secret_name demo_secret)) # tail
     \<and> length tail = 4"
proof -
  obtain data where d: "secret_data demo_secret = Some data"
    "prepare_registration (secret_name demo_secret) data = Ok demo_request"
    using demo_prepare by blast
  show ?thesis
    using reconcile_call_order [OF demo_process [of None "''ns''"] d] demo_process [of None "''ns''"]
    by (auto simp: new_events_def demo_world_def store_pck_def store_index_def)
qed

subsection \<open>Outcomes\<close>

text \<open>Platform data that does not pass validation is dropped without any effect: no call is
  made and the reconciler waits for the secret to change.\<close>

theorem invalid_platform_data_is_permanent:
  assumes "\<And>data body. secret_data s = Some data \<Longrightarrow> prepare_registration (secret_name s) data \<noteq> Ok body"
  shows "\<exists>err. process_platform_secret C env key ns s w = (Err err, w)
     \<and> registration_error_policy err = AwaitChange"
proof -
  obtain r w' where run: "process_platform_secret C env key ns s w = (r, w')" by fastforce
  from run show ?thesis
  proof (cases rule: process_cases)
    case (invalid e)
    with run show ?thesis by (simp add: registration_error_policy_def permanent_def)
  qed (use assms in blast)+
qed

theorem invalid_platform_data_is_permanent_witness:
  "\<exists>err. process_platform_secret demo_crates demo_env None ''ns''
       (demo_secret\<lparr>secret_name := ''not-a-qe-id''\<rparr>) demo_world = (Err err, demo_world)
     \<and> registration_error_policy err = AwaitChange"
  by (rule invalid_platform_data_is_permanent)
    (simp add: prepare_registration_Ok is_fixed_len_hex_iff)

text \<open>While the gate is closed a platform that needs certificates is deferred, without any
  request, by exactly the time after which the gate is open.\<close>

theorem paused_registration_deferred:
  assumes "secret_data s = Some data" "prepare_registration (secret_name s) data = Ok body"
    and "pck_secret_is_valid env (pck_secret_name (secret_name s))
       (registration_fingerprint (sha256 C) body) w = (Ok False, w1)"
    and "remaining (reg_pause w) (env_instant env (events w1)) = Some d"
  shows "process_platform_secret C env key ns s w = (Ok (Requeue d), log_event ReadInstant w1)
     \<and> 0 < d \<and> remaining (reg_pause w) (env_instant env (events w1) + d) = None
     \<and> (\<forall>u < d. remaining (reg_pause w) (env_instant env (events w1) + u) \<noteq> None)"
proof -
  have "reg_pause w1 = reg_pause w"
    using pck_secret_is_valid_log [OF assms(3)] by (rule same_pause)
  with process_run [OF assms(1,2) refl assms(3)] gate.exact [OF assms(4)] assms(4) show ?thesis
    by simp
qed

theorem paused_registration_deferred_witness:
  "\<exists>w1. pck_secret_is_valid demo_env (pck_secret_name demo_name) demo_fp
       (demo_world\<lparr>reg_pause := \<lparr>until = Some (from_secs 70)\<rparr>\<rparr>) = (Ok False, w1)
     \<and> process_platform_secret demo_crates demo_env None ''ns'' demo_secret
       (demo_world\<lparr>reg_pause := \<lparr>until = Some (from_secs 70)\<rparr>\<rparr>) =
       (Ok (Requeue (from_secs 60)), log_event ReadInstant w1)"
proof -
  let ?w = "demo_world\<lparr>reg_pause := \<lparr>until = Some (from_secs 70)\<rparr>\<rparr>"
  obtain data where d: "secret_data demo_secret = Some data"
    "prepare_registration (secret_name demo_secret) data = Ok demo_request"
    using demo_prepare by blast
  have n: "secret_name demo_secret = demo_name" by (simp add: demo_secret_def)
  have v: "pck_secret_is_valid demo_env (pck_secret_name (secret_name demo_secret))
      (registration_fingerprint (sha256 demo_crates) demo_request) ?w =
      (Ok False, log_event (GetSecret (pck_secret_name demo_name)) ?w)"
    by (simp add: pck_secret_is_valid_def match_fx_def get_secret_def n)
  have "remaining (reg_pause ?w) (env_instant demo_env
      (events (log_event (GetSecret (pck_secret_name demo_name)) ?w))) = Some (from_secs 60)"
    by (simp add: remaining_def from_secs_def)
  from paused_registration_deferred [OF d v this] v show ?thesis by (simp add: n demo_fp_def)
qed

text \<open>A rejected POST.\<close>

lemma register_platform_rejected:
  assumes "url_join C INTEL_PCS_API_BASE_URL INTEL_PCS_PCKCERTS_ENDPOINT = Some url"
    and "q = \<lparr>req_method = POST, req_url = url,
           req_headers = (case key of None \<Rightarrow> [] | Some k \<Rightarrow> [(''Ocp-Apim-Subscription-Key'', k)]),
           req_json = Some body\<rparr>"
    and "env_http_send env (events w) q = Ok resp" "\<not> is_success (resp_status resp)"
  shows "register_platform C env key name ns body fp w =
    (Err (handle_pcs_api_error resp), log_event (HttpSend q) w)"
proof -
  have "fetch_pck_certs C env key body w = (Err (handle_pcs_api_error resp), log_event (HttpSend q) w)"
    using assms
    by (simp add: fetch_pck_certs_def Let_def bind_fx_def map_err_fx_def http_send_def)
  then show ?thesis
    by (simp add: register_platform_def request_pck_blob_def bind_fx_def)
qed

text \<open>C7: What a rejection by Intel PCS leads to, after exactly one request and no write: rate
  limiting closes the gate for everybody for the delay of the response, at most an hour, and
  retries this platform after it; any other client error waits for the platform data to
  change; every other status is retried in five minutes.\<close>

theorem pcs_rejection_outcome:
  assumes "secret_data s = Some data" "prepare_registration (secret_name s) data = Ok body"
    and "pck_secret_is_valid env (pck_secret_name (secret_name s))
       (registration_fingerprint (sha256 C) body) w = (Ok False, w1)"
    and "remaining (reg_pause w) (env_instant env (events w1)) = None"
    and "url_join C INTEL_PCS_API_BASE_URL INTEL_PCS_PCKCERTS_ENDPOINT = Some url"
    and "q = \<lparr>req_method = POST, req_url = url,
           req_headers = (case key of None \<Rightarrow> [] | Some k \<Rightarrow> [(''Ocp-Apim-Subscription-Key'', k)]),
           req_json = Some body\<rparr>"
    and "env_http_send env (events w1 @ [ReadInstant]) q = Ok resp"
    and "\<not> is_success (resp_status resp)"
    and "d = parse_retry_after (header_str resp ''Retry-After'')"
    and "now = env_instant env (events w1 @ [ReadInstant, HttpSend q])"
  shows "\<exists>err w'. process_platform_secret C env key ns s w = (Err err, w')
     \<and> calls (new_events w w') = [GetSecret (pck_secret_name (secret_name s)), HttpSend q]
     \<and> registration_error_policy err =
         (if resp_status resp = 429 then Requeue d
          else if 400 \<le> resp_status resp \<and> resp_status resp < 500 then AwaitChange
          else Requeue (from_secs 300))
     \<and> reg_pause w' = (if resp_status resp = 429 then pause (reg_pause w) now d else reg_pause w)
     \<and> d \<le> from_secs 3600"
proof -
  have p: "reg_pause w1 = reg_pause w"
    using pck_secret_is_valid_log [OF assms(3)] by (rule same_pause)
  have reg: "register_platform C env key (secret_name s) ns body (registration_fingerprint (sha256 C) body)
      (log_event ReadInstant w1) =
      (Err (handle_pcs_api_error resp), log_event (HttpSend q) (log_event ReadInstant w1))"
    by (rule register_platform_rejected [OF assms(5,6)]) (use assms(7,8) in simp_all)
  have run: "process_platform_secret C env key ns s w =
      registration_failed env (handle_pcs_api_error resp) (log_event (HttpSend q) (log_event ReadInstant w1))"
    using process_run [OF assms(1,2) refl assms(3)] assms(4) reg by (simp add: match_fx_def p)
  obtain es where es: "events w1 = events w @ es" "calls es = [GetSecret (pck_secret_name (secret_name s))]"
    using pck_secret_is_valid_trace [OF assms(3)] by blast
  have d: "d \<le> from_secs 3600"
    using assms(9) by (simp add: parse_retry_after_def MAX_RATE_LIMIT_RETRY_AFTER_def)
  show ?thesis
  proof (cases "resp_status resp = 429")
    case True
    then have "handle_pcs_api_error resp = RateLimited \<lparr>retry_after = d\<rparr>"
      using assms(9) by (simp add: handle_pcs_api_error_def)
    with run True es d assms(10) show ?thesis
      by (simp add: registration_failed_def bind_fx_def new_events_def p
          registration_error_policy_def retry_def)
  next
    case False
    then obtain a where a: "handle_pcs_api_error resp = ApiError a" "status a = resp_status resp"
      by (simp add: handle_pcs_api_error_def Let_def)
    with run False es d show ?thesis
      by (simp add: registration_failed_def new_events_def p is_client_error_def
          status_is_client_error_def registration_error_policy_def retry_def permanent_def
          REGISTRATION_RETRY_DELAY_def)
  qed
qed

definition limited_env :: env where
  "limited_env = demo_env\<lparr>env_http_send :=
     (\<lambda>h q. Ok \<lparr>resp_status = 429, resp_header = (\<lambda>_. None), resp_text = Ok []\<rparr>)\<rparr>"

lemma limited_valid:
  "pck_secret_is_valid limited_env name fp w = (Ok False, log_event (GetSecret name) w)"
  by (simp add: pck_secret_is_valid_def match_fx_def get_secret_def limited_env_def demo_env_def)

theorem pcs_rejection_outcome_witness:
  "\<exists>err w'. process_platform_secret demo_crates limited_env None ''ns'' demo_secret demo_world = (Err err, w')
     \<and> calls (new_events demo_world w') = [GetSecret (pck_secret_name demo_name), HttpSend (demo_post None)]
     \<and> registration_error_policy err = Requeue (from_secs 60)
     \<and> reg_pause w' = pause pause_default (from_secs 10) (from_secs 60)"
proof -
  obtain data where d: "secret_data demo_secret = Some data"
    "prepare_registration (secret_name demo_secret) data = Ok demo_request"
    using demo_prepare by blast
  let ?w1 = "log_event (GetSecret (pck_secret_name (secret_name demo_secret))) demo_world"
  have ra: "from_secs 60 = parse_retry_after (header_str
      \<lparr>resp_status = 429, resp_header = (\<lambda>_. None), resp_text = Ok []\<rparr> ''Retry-After'')"
    by (simp add: header_str_def parse_retry_after_def DEFAULT_RATE_LIMIT_RETRY_AFTER_def
        MAX_RATE_LIMIT_RETRY_AFTER_def min_def)
  have i: "env_instant limited_env h = from_secs 10" for h
    by (simp add: limited_env_def demo_env_def)
  have o: "remaining (reg_pause demo_world) (env_instant limited_env (events ?w1)) = None"
    by (simp add: demo_world_def remaining_def pause_default_def)
  have q: "demo_post None = \<lparr>req_method = POST,
      req_url = INTEL_PCS_API_BASE_URL @ INTEL_PCS_PCKCERTS_ENDPOINT,
      req_headers = (case None of None \<Rightarrow> [] | Some k \<Rightarrow> [(''Ocp-Apim-Subscription-Key'', k)]),
      req_json = Some demo_request\<rparr>"
    by (simp add: demo_post_def)
  have h: "env_http_send limited_env (events ?w1 @ [ReadInstant]) (demo_post None) =
      Ok \<lparr>resp_status = 429, resp_header = (\<lambda>_. None), resp_text = Ok []\<rparr>"
    by (simp add: limited_env_def)
  have ns: "\<not> is_success (resp_status \<lparr>resp_status = 429, resp_header = (\<lambda>_. None), resp_text = Ok []\<rparr>)"
    by (simp add: is_success_def)
  show ?thesis
    using pcs_rejection_outcome [OF d limited_valid o demo_crates_urls(1) q h ns ra refl, of "''ns''"]
    by (simp add: i demo_world_def) (simp add: demo_secret_def)
qed

text \<open>Only a rejected request is a rate-limiting error.\<close>

lemma prepare_registration_not_rate_limited:
  "prepare_registration name data = Err e \<Longrightarrow> downcast_rate_limited e = None"
  by (auto simp: prepare_registration_def from_secret_data_def from_utf8_def bind_res_eq_Err Let_def
      split: if_splits)

lemma pck_secret_is_valid_not_rate_limited:
  "pck_secret_is_valid env name fp w = (Err e, w') \<Longrightarrow> downcast_rate_limited e = None"
  by (auto simp: pck_secret_is_valid_def match_fx_def get_secret_def system_time_def bind_fx_def
      ret_fx_def fail_fx_def lift_fx_def ok_or_def
      split: sum.splits kube_error.splits option.splits if_splits)

lemma invalid_not_rate_limited:
  assumes "process_platform_secret C env key ns s w = (Err err, w')"
    and "\<forall>data body. secret_data s = Some data \<longrightarrow> prepare_registration (secret_name s) data \<noteq> Ok body"
  shows "downcast_rate_limited (source err) = None"
proof (cases "secret_data s")
  case None
  with assms(1) show ?thesis by (auto simp: process_platform_secret_def Let_def permanent_def)
next
  case (Some data)
  with assms(2) obtain e where "prepare_registration (secret_name s) data = Err e"
    by (cases "prepare_registration (secret_name s) data") auto
  with Some assms(1) prepare_registration_not_rate_limited [OF this] show ?thesis
    by (auto simp: process_platform_secret_def Let_def permanent_def)
qed

lemma rate_limited_closes:
  assumes "process_platform_secret C env key ns s w = (Err err, w')"
    and "downcast_rate_limited (source err) = Some rl"
  shows "\<exists>g. reg_pause w' = pause g (env_instant env (butlast (events w'))) (retry_after rl)"
  using assms(1)
proof (cases rule: process_cases)
  case (invalid e)
  with invalid_not_rate_limited [OF assms(1)] assms(2) show ?thesis by simp
next
  case (unreadable data body e)
  with pck_secret_is_valid_not_rate_limited [OF unreadable(3)] assms(2) show ?thesis
    by (simp add: retry_def)
next
  case (attempted data body w1 r2 w2)
  then obtain e where "registration_failed env e w2 = (Err err, w')" by (cases r2) auto
  with assms(2) show ?thesis
    by (auto simp: registration_failed_def retry_def permanent_def bind_fx_def split: option.splits if_splits)
qed simp_all

lemma read_only_no_write: "calls es = [GetSecret n] \<Longrightarrow> ApplySecret m p d \<notin> set es"
proof
  assume c: "calls es = [GetSecret n]" and m: "ApplySecret m p d \<in> set es"
  from m have "ApplySecret m p d \<in> set (calls es)" by (simp add: calls_def)
  with c show False by simp
qed

lemma read_only_sends_nothing:
  assumes "pck_secret_is_valid env nm fp w = (q, w1)" "events w' = events w1 \<or> events w' = events w1 @ [ReadInstant]"
  shows "HttpSend x \<notin> set (new_events w w') \<and> ApplySecret n p d \<notin> set (new_events w w')"
  using pck_secret_is_valid_trace [OF assms(1)] assms(2)
  by (auto simp: new_events_def dest: read_only_no_request read_only_no_write)

text \<open>C8: After a response 429 the gate holds back every run that starts at it: a reconciliation, of
  this or any other platform, that finds the gate as this run left it, or with further pauses added, and
  whose clock readings lie before the end of the delay, sends no request and writes nothing; and if it
  is put off, then to no earlier than the end of the delay. (Runs that passed the gate before it was
  closed are outside this statement: how many requests they may still send is the property on
  requests during a pause.)\<close>

theorem rate_limit_holds_later_runs:
  assumes "process_platform_secret C env key ns s w = (Err err, w')"
    and "downcast_rate_limited (source err) = Some rl"
    and "reg_pause v = foldl (\<lambda>g (now, d). pause g now d) (reg_pause w') ps"
    and "\<And>h. env_instant env2 h < env_instant env (butlast (events w')) + retry_after rl"
    and "process_platform_secret C env2 key ns s2 v = (r, v')"
  shows "HttpSend q \<notin> set (new_events v v') \<and> ApplySecret n p d \<notin> set (new_events v v')
    \<and> (\<forall>t. r = Ok (Requeue t) \<longrightarrow>
        env_instant env (butlast (events w')) + retry_after rl \<le> env_instant env2 (butlast (events v')) + t)"
proof -
  let ?until = "env_instant env (butlast (events w')) + retry_after rl"
  obtain g where g: "reg_pause w' = pause g (env_instant env (butlast (events w'))) (retry_after rl)"
    using rate_limited_closes [OF assms(1,2)] by blast
  have closed: "\<exists>d. remaining (reg_pause v) t = Some d \<and> ?until \<le> t + d" if t: "t < ?until" for t
  proof -
    obtain d where d: "remaining (reg_pause w') t = Some d" "?until \<le> t + d"
      using gate.closed_for [OF t, of g] g by auto
    from gate.still_closed [OF d(1), of ps] assms(3) d(2) show ?thesis
      by (fastforce simp: gate.close_all_def)
  qed
  show ?thesis
    using assms(5)
  proof (cases rule: process_cases)
    case (invalid e)
    then show ?thesis by (simp add: new_events_def)
  next
    case (unreadable data body e)
    with read_only_sends_nothing [OF unreadable(3)] show ?thesis by simp
  next
    case (still_valid data body)
    with read_only_sends_nothing [OF still_valid(3)] show ?thesis by simp
  next
    case (paused data body w1 d')
    have "reg_pause w1 = reg_pause v"
      using pck_secret_is_valid_log [OF paused(3)] by (rule same_pause)
    with closed [OF assms(4) [of "events w1"]] paused(4) have "?until \<le> env_instant env2 (events w1) + d'" by auto
    with read_only_sends_nothing [OF paused(3), of v'] paused(5,6) show ?thesis by simp
  next
    case (attempted data body w1 r2 w2)
    have "reg_pause w1 = reg_pause v"
      using pck_secret_is_valid_log [OF attempted(3)] by (rule same_pause)
    with attempted(4) closed [OF assms(4) [of "events w1"]] show ?thesis by simp
  qed
qed

theorem rate_limit_holds_later_runs_witness:
  "\<exists>err w' rl. process_platform_secret demo_crates limited_env None ''ns'' demo_secret demo_world = (Err err, w')
     \<and> downcast_rate_limited (source err) = Some rl
     \<and> (\<forall>q r v'. process_platform_secret demo_crates demo_env None ''ns'' demo_secret w' = (r, v')
         \<longrightarrow> HttpSend q \<notin> set (new_events w' v') \<and> (\<forall>t. r = Ok (Requeue t) \<longrightarrow> from_secs 60 \<le> t))"
proof -
  obtain data where d: "secret_data demo_secret = Some data"
    "prepare_registration (secret_name demo_secret) data = Ok demo_request"
    using demo_prepare by blast
  let ?w = "log_event ReadInstant (log_event (GetSecret (pck_secret_name (secret_name demo_secret))) demo_world)"
  have "register_platform demo_crates limited_env None (secret_name demo_secret) ''ns'' demo_request
      (registration_fingerprint (sha256 demo_crates) demo_request) ?w =
      (Err (handle_pcs_api_error \<lparr>resp_status = 429, resp_header = (\<lambda>_. None), resp_text = Ok []\<rparr>),
       log_event (HttpSend (demo_post None)) ?w)"
    by (rule register_platform_rejected [OF demo_crates_urls(1)])
      (simp_all add: demo_post_def limited_env_def is_success_def)
  then have "process_platform_secret demo_crates limited_env None ''ns'' demo_secret demo_world =
      registration_failed limited_env (RateLimited \<lparr>retry_after = from_secs 60\<rparr>)
        (log_event (HttpSend (demo_post None)) ?w)"
    unfolding process_run [OF d refl limited_valid]
    by (simp add: match_fx_def demo_world_def remaining_def pause_default_def handle_pcs_api_error_def
        header_str_def parse_retry_after_def DEFAULT_RATE_LIMIT_RETRY_AFTER_def
        MAX_RATE_LIMIT_RETRY_AFTER_def min_def)
  then obtain err w' where run:
    "process_platform_secret demo_crates limited_env None ''ns'' demo_secret demo_world = (Err err, w')"
    and rl: "downcast_rate_limited (source err) = Some \<lparr>retry_after = from_secs 60\<rparr>"
    by (simp add: registration_failed_def bind_fx_def retry_def)
  have "env_instant demo_env h < env_instant limited_env (butlast (events w'))
      + retry_after \<lparr>retry_after = from_secs 60\<rparr>" for h
    by (simp add: limited_env_def from_secs_def)
  from rate_limit_holds_later_runs [OF run rl, of w' "[]" demo_env, OF _ this]
  have "HttpSend q \<notin> set (new_events w' v') \<and> (\<forall>t. r = Ok (Requeue t) \<longrightarrow> from_secs 60 \<le> t)"
    if "process_platform_secret demo_crates demo_env None ''ns'' demo_secret w' = (r, v')" for q r v'
    using that by (fastforce simp: limited_env_def)
  with run rl show ?thesis by blast
qed

subsection \<open>Idempotence\<close>

text \<open>C16: A platform is left alone, with no request at all, exactly when its stored PCK secret
  carries the fingerprint of the present platform data, an expiration time that is still in
  the future, and a well-formed QPL cache blob.\<close>

theorem skipped_iff_secret_valid:
  assumes "secret_data s = Some data" "prepare_registration (secret_name s) data = Ok body"
  shows "(process_platform_secret C env key ns s w = (Ok AwaitChange, w')
        \<and> (\<forall>q. HttpSend q \<notin> set (new_events w w'))) \<longleftrightarrow>
     (\<exists>t annots txt expires now data' cert b.
        env_get_secret env (events w) (pck_secret_name (secret_name s)) = Ok t
        \<and> annotations t = Some annots
        \<and> annots ANNOTATION_PLATFORM_DATA_FINGERPRINT = Some (registration_fingerprint (sha256 C) body)
        \<and> env_system_time env (events w @ [GetSecret (pck_secret_name (secret_name s))]) = Some now
        \<and> annots ANNOTATION_EXPIRES_AT = Some txt \<and> parse_u64 txt = Some expires \<and> now < expires
        \<and> secret_data t = Some data' \<and> data' ''certificate'' = Some cert
        \<and> blob_ok b \<and> cert = blob_bytes b
        \<and> w' = log_event ReadSystemTime (log_event (GetSecret (pck_secret_name (secret_name s))) w))"
    (is "?l \<longleftrightarrow> ?r")
proof -
  let ?name = "pck_secret_name (secret_name s)" and ?fp = "registration_fingerprint (sha256 C) body"
  have "?l \<longleftrightarrow> pck_secret_is_valid env ?name ?fp w = (Ok True, w')"
  proof
    assume l: ?l
    then have run: "process_platform_secret C env key ns s w = (Ok AwaitChange, w')" by simp
    from run show "pck_secret_is_valid env ?name ?fp w = (Ok True, w')"
    proof (cases rule: process_cases)
      case (attempted data2 body2 w1 r2 w2)
      then obtain u where r2: "r2 = Ok u" "w' = w2"
        using registration_failed_run by (cases r2) fastforce+
      obtain es where es: "events w1 = events w @ es"
        using pck_secret_is_valid_trace [OF attempted(3)] by blast
      obtain es2 where es2: "events w2 = events w1 @ ReadInstant # es2" "length (calls es2) = 4"
        "registration_calls C key (secret_name s) ns body2
           (registration_fingerprint (sha256 C) body2) (calls es2)"
        using register_platform_trace [OF attempted(5)] r2 by auto
      then have "\<exists>q. HttpSend q \<in> set (calls es2)"
        by (fastforce simp: registration_calls_def pcs_calls_def)
      then obtain q where "HttpSend q \<in> set (calls es2)" ..
      then have "HttpSend q \<in> set (new_events w w')"
        using es es2(1) r2 by (auto simp: calls_def new_events_def)
      with l show ?thesis by blast
    qed (use assms in simp_all)
  next
    assume v: "pck_secret_is_valid env ?name ?fp w = (Ok True, w')"
    obtain es where es: "events w' = events w @ es" "calls es = [GetSecret ?name]"
      using pck_secret_is_valid_trace [OF v] by blast
    have "process_platform_secret C env key ns s w = (Ok AwaitChange, w')"
      using process_run [OF assms refl v] by simp
    with es read_only_no_request [OF es(2)] show ?l by (simp add: new_events_def)
  qed
  also have "\<dots> \<longleftrightarrow> ?r"
    unfolding pck_secret_is_valid_True check_expiry_and_blob_iff parse_cache_blob_iff by blast
  finally show ?thesis .
qed

text \<open>An environment whose Kubernetes API serves the PCK secret once it was applied.\<close>

definition demo_stored :: secret where
  "demo_stored = \<lparr>secret_name = pck_secret_name demo_name,
     annotations = Some [ANNOTATION_PLATFORM_DATA_FINGERPRINT \<mapsto> demo_fp,
       ANNOTATION_EXPIRES_AT \<mapsto> dec_string (unat (res_expires demo_result))],
     secret_data = Some [''certificate'' \<mapsto> res_blob demo_result], resource_version = None\<rparr>"

definition served_env :: env where
  "served_env = demo_env\<lparr>env_get_secret := (\<lambda>h n.
     if \<exists>e \<in> set h. is_write e then Ok demo_stored else Err (KubeApi 404 ''NotFound'' ''not found''))\<rparr>"

lemma served_env_simps [simp]:
  "env_http_send served_env h q = Ok (demo_response q)"
  "env_system_time served_env h = Some 1700000000"
  "env_instant served_env h = from_secs 10"
  "env_apply_secret served_env h n p d = Ok ()"
  "env_get_secret served_env h n = (if \<exists>e \<in> set h. is_write e then Ok demo_stored
     else Err (KubeApi 404 ''NotFound'' ''not found''))"
  by (simp_all add: served_env_def)

definition demo_blob :: cache_blob where
  "demo_blob = \<lparr>blob_version = CACHE_VERSION, blob_flags = ucast SGX_QPL_CACHE_MULTICERTS,
     blob_expiration_time = 1731536000, blob_cpu_svn = cpu_svn demo_request, blob_tcb_info = ''tcb'',
     blob_cert_chain = ''chain'', blob_pck_certs_json = ''pck''\<rparr>"

lemma demo_blob_ok: "blob_ok demo_blob" "blob_bytes demo_blob = res_blob demo_result"
proof -
  have "str_ok (cpu_svn demo_request)"
    by (rule str_ok_ascii) (simp add: demo_request_def)
  moreover have "str_ok ''tcb''" "str_ok ''chain''" "str_ok ''pck''"
    by (simp_all add: str_ok_ascii)
  ultimately show "blob_ok demo_blob"
    by (simp add: blob_ok_def demo_blob_def field_ok_def demo_request_def)
  show "blob_bytes demo_blob = res_blob demo_result"
    by (simp add: demo_blob_def demo_result_def)
qed

lemma demo_expiry: "parse_u64 (dec_string (unat (res_expires demo_result))) = Some (res_expires demo_result)"
  using unsigned_less [of "res_expires demo_result"] by (subst parse_u64_dec_string) simp_all

lemma demo_expires_later: "1700000000 < res_expires demo_result"
  by (simp add: demo_result_def)

theorem skipped_iff_secret_valid_witness:
  "\<exists>v. let w = demo_world\<lparr>events := [ApplySecret ''x'' (apply_force ''y'') JNull]\<rparr> in
     process_platform_secret demo_crates served_env None ''ns'' demo_secret w = (Ok AwaitChange, v)
     \<and> (\<forall>q. HttpSend q \<notin> set (new_events w v))"
proof -
  obtain data where d: "secret_data demo_secret = Some data"
    "prepare_registration (secret_name demo_secret) data = Ok demo_request"
    using demo_prepare by blast
  let ?w = "demo_world\<lparr>events := [ApplySecret ''x'' (apply_force ''y'') JNull]\<rparr>"
  let ?v = "log_event ReadSystemTime (log_event (GetSecret (pck_secret_name (secret_name demo_secret))) ?w)"
  have stored: "\<exists>t annots txt expires now data' cert b.
        env_get_secret served_env (events ?w) (pck_secret_name (secret_name demo_secret)) = Ok t
        \<and> annotations t = Some annots
        \<and> annots ANNOTATION_PLATFORM_DATA_FINGERPRINT = Some (registration_fingerprint (sha256 demo_crates) demo_request)
        \<and> env_system_time served_env (events ?w @ [GetSecret (pck_secret_name (secret_name demo_secret))]) = Some now
        \<and> annots ANNOTATION_EXPIRES_AT = Some txt \<and> parse_u64 txt = Some expires \<and> now < expires
        \<and> secret_data t = Some data' \<and> data' ''certificate'' = Some cert
        \<and> blob_ok b \<and> cert = blob_bytes b \<and> ?v = ?v"
    by (rule exI [of _ demo_stored], rule exI [of _ "the (annotations demo_stored)"],
        rule exI [of _ "dec_string (unat (res_expires demo_result))"],
        rule exI [of _ "res_expires demo_result"], rule exI [of _ 1700000000],
        rule exI [of _ "the (secret_data demo_stored)"], rule exI [of _ "res_blob demo_result"],
        rule exI [of _ demo_blob])
      (simp add: is_write_def demo_expiry demo_blob_ok demo_expires_later,
        simp add: demo_stored_def demo_fp_def)
  have "process_platform_secret demo_crates served_env None ''ns'' demo_secret ?w = (Ok AwaitChange, ?v)
      \<and> (\<forall>q. HttpSend q \<notin> set (new_events ?w ?v))"
    by (rule iffD2 [OF skipped_iff_secret_valid [OF d]]) (rule stored)
  then show ?thesis unfolding Let_def by (rule exI [of _ ?v])
qed

text \<open>A PCK secret in the log of a reconciliation is the result of a verified request.\<close>

lemma stored_from_request:
  assumes "process_platform_secret C env key ns s w = (r, w')"
    and "secret_data s = Some data" "prepare_registration (secret_name s) data = Ok body"
    and "store_pck C (secret_name s) ns fp res \<in> set (new_events w w')"
  shows "\<exists>res' w1 w2. request_pck_blob C env key body (w1 :: reg_world) = (Ok res', w2)
     \<and> store_pck C (secret_name s) ns fp res =
         store_pck C (secret_name s) ns (registration_fingerprint (sha256 C) body) res'"
  using assms(1)
proof (cases rule: process_cases)
  case (invalid e)
  with assms(2,3) show ?thesis by blast
next
  case (unreadable data2 body2 e)
  with pck_secret_is_valid_trace [OF unreadable(3)] assms(4) show ?thesis
    by (auto simp: new_events_def store_pck_def dest: read_only_no_write)
next
  case (still_valid data2 body2)
  with pck_secret_is_valid_trace [OF still_valid(3)] assms(4) show ?thesis
    by (auto simp: new_events_def store_pck_def dest: read_only_no_write)
next
  case (paused data2 body2 w1 d)
  with pck_secret_is_valid_trace [OF paused(3)] assms(4) show ?thesis
    by (auto simp: new_events_def store_pck_def dest: read_only_no_write)
next
  case (attempted data2 body2 w1 r2 w2)
  have same: "data2 = data" "body2 = body" using attempted(1,2) assms(2,3) by simp_all
  let ?fp = "registration_fingerprint (sha256 C) body"
  obtain es where es: "events w1 = events w @ es" "calls es = [GetSecret (pck_secret_name (secret_name s))]"
    using pck_secret_is_valid_trace [OF attempted(3)] by blast
  obtain es3 where es3: "events w' = events w2 @ es3" "calls es3 = []"
    using attempted(6) registration_failed_run by (cases r2) fastforce+
  obtain es2 where es2: "events w2 = events w1 @ ReadInstant # es2"
    using register_platform_trace [OF attempted(5)] by auto
  have mem: "store_pck C (secret_name s) ns fp res \<in> set (calls es2)"
  proof -
    have "store_pck C (secret_name s) ns fp res \<in> set (calls (new_events w w'))"
      using assms(4) by (simp add: calls_def store_pck_def)
    then show ?thesis using es es2 es3 by (simp add: new_events_def store_pck_def)
  qed
  from attempted(5) show ?thesis
  proof (cases rule: register_platform_cases)
    case (failed e)
    obtain es4 where "events w2 = events (log_event ReadInstant w1) @ es4" "pcs_calls C key body2 (calls es4)"
      using request_pck_blob_trace [OF failed(1)] by blast
    with es2 mem have "pcs_calls C key body2 (calls es2)" by simp
    with mem show ?thesis by (auto simp: pcs_calls_def store_pck_def)
  next
    case (first_write res' w3 ke)
    obtain es4 where "events w3 = events (log_event ReadInstant w1) @ es4" "pcs_calls C key body2 (calls es4)"
      using request_pck_blob_trace [OF first_write(1)] by blast
    then have "store_pck C (secret_name s) ns fp res = store_pck C (secret_name s) ns ?fp res'"
      using es2 mem first_write(4) same by (auto simp: pcs_calls_def store_pck_def)
    with first_write(1) same show ?thesis by blast
  next
    case (both_writes res' w3 w4)
    obtain es4 where "events w3 = events (log_event ReadInstant w1) @ es4" "pcs_calls C key body2 (calls es4)"
      using request_pck_blob_trace [OF both_writes(1)] by blast
    then have "store_pck C (secret_name s) ns fp res = store_pck C (secret_name s) ns ?fp res'
        \<or> store_pck C (secret_name s) ns fp res = store_index C (secret_name s) (res_piid res')"
      using es2 mem both_writes(3,5) same by (auto simp: pcs_calls_def store_pck_def store_index_def)
    moreover have "store_pck C (secret_name s) ns fp res \<noteq> store_index C (secret_name s) (res_piid res')"
      by (simp add: store_pck_def store_index_def pck_secret_doc_def piid_index_doc_def)
    ultimately show ?thesis using both_writes(1) same by blast
  qed
qed

text \<open>What the Kubernetes API keeps of the logged PCK secret is valid when read back.\<close>

definition serves :: "env \<Rightarrow> ('c, 's, 'd) crates \<Rightarrow> event list \<Rightarrow> event \<Rightarrow> bool" where
  "serves env C h e \<longleftrightarrow>
     (\<exists>n p doc t. e = ApplySecret n p doc \<and> env_get_secret env h n = Ok t \<and> stored_as C doc t)"

lemma stored_secret_skips:
  assumes "env_strings_ok env" "crates_strings_ok C" "clock_within_year env"
    and "process_platform_secret C env key ns s w = (r, w')"
    and "secret_data s = Some data" "prepare_registration (secret_name s) data = Ok body"
    and "store_pck C (secret_name s) ns fp res \<in> set (new_events w w')"
    and "serves env C (events v) (store_pck C (secret_name s) ns fp res)"
  shows "process_platform_secret C env key ns s v =
    (Ok AwaitChange, log_event ReadSystemTime (log_event (GetSecret (pck_secret_name (secret_name s))) v))"
proof -
  let ?fp = "registration_fingerprint (sha256 C) body" and ?n = "pck_secret_name (secret_name s)"
  obtain res' w1 w2 where req: "request_pck_blob C env key body (w1 :: reg_world) = (Ok res', w2)"
    and st: "store_pck C (secret_name s) ns fp res = store_pck C (secret_name s) ns ?fp res'"
    using stored_from_request [OF assms(4-7)] by blast
  obtain t where t: "env_get_secret env (events v) ?n = Ok t"
    "stored_as C (pck_secret_doc C ?n ns ?fp res') t"
    using assms(8) unfolding st by (auto simp: serves_def store_pck_def)
  have "str_ok (cpu_svn body)"
    using assms(6) request_ok_str_ok by (simp add: prepare_registration_Ok)
  from process_run [OF assms(5,6) refl read_back_valid [OF assms(1-3) this req t]]
  show ?thesis by simp
qed

text \<open>C6: Registration is idempotent: once the Kubernetes API serves the PCK secret a
  reconciliation stored, a further reconciliation of the same platform data, within the
  validity of that secret, makes no request to Intel PCS and writes nothing.\<close>

theorem registration_idempotent:
  assumes "env_strings_ok env" "crates_strings_ok C" "clock_within_year env"
    and "process_platform_secret C env key ns s w = (r, w')"
    and "secret_data s = Some data" "prepare_registration (secret_name s) data = Ok body"
    and "store_pck C (secret_name s) ns fp res \<in> set (new_events w w')"
    and "serves env C (events v) (store_pck C (secret_name s) ns fp res)"
  shows "process_platform_secret C env key ns s v =
    (Ok AwaitChange, log_event ReadSystemTime (log_event (GetSecret (pck_secret_name (secret_name s))) v))"
  using assms by (rule stored_secret_skips)

lemma demo_strings: "crates_strings_ok demo_crates"
  by (auto simp: crates_strings_ok_def demo_crates_def Let_def split: if_splits)

lemma demo_clock:
  assumes "\<And>h. env_system_time env h = Some 1700000000"
  shows "clock_within_year env"
  unfolding clock_within_year_def assms by (rule exI [of _ 1700000000]) simp

lemma demo_body_strings:
  assumes "\<And>h q. env_http_send env h q = Ok (demo_response q)"
  shows "env_strings_ok env"
  by (simp add: env_strings_ok_def assms str_ok_ascii)

lemma demo_process_served_any:
  assumes "secret_name s = demo_name" "secret_data s = Some data"
    and "prepare_registration (secret_name s) data = Ok demo_request"
  shows "process_platform_secret demo_crates served_env key ns s demo_world =
    (Ok AwaitChange, demo_world\<lparr>events := [GetSecret (pck_secret_name demo_name), ReadInstant,
       HttpSend (demo_post key), HttpSend demo_get, ReadSystemTime,
       store_pck demo_crates demo_name ns demo_fp demo_result,
       store_index demo_crates demo_name (res_piid demo_result)]\<rparr>)"
proof -
  have v: "pck_secret_is_valid served_env (pck_secret_name (secret_name s)) demo_fp demo_world =
      (Ok False, log_event (GetSecret (pck_secret_name demo_name)) demo_world)"
    by (simp add: pck_secret_is_valid_def match_fx_def get_secret_def assms(1) demo_world_def)
  have req: "request_pck_blob demo_crates served_env key demo_request w =
      (Ok demo_result, log_event ReadSystemTime (log_event (HttpSend demo_get)
        (log_event (HttpSend (demo_post key)) w)))" for w :: reg_world
    by (rule demo_request_run) simp_all
  show ?thesis
    unfolding process_run [OF assms(2,3) demo_fp_def v]
    by (simp add: demo_world_def remaining_def pause_default_def match_fx_def register_platform_def
        req assms(1) apply_secret_def patch_piid_index_eq bind_fx_def log_event_def
        store_pck_def store_index_def)
qed

lemma demo_process_served:
  "process_platform_secret demo_crates served_env key ns demo_secret demo_world =
    (Ok AwaitChange, demo_world\<lparr>events := [GetSecret (pck_secret_name demo_name), ReadInstant,
       HttpSend (demo_post key), HttpSend demo_get, ReadSystemTime,
       store_pck demo_crates demo_name ns demo_fp demo_result,
       store_index demo_crates demo_name (res_piid demo_result)]\<rparr>)"
proof -
  obtain data where "secret_data demo_secret = Some data"
    "prepare_registration (secret_name demo_secret) data = Ok demo_request"
    using demo_prepare by blast
  then show ?thesis by (rule demo_process_served_any [rotated]) (simp add: demo_secret_def)
qed

lemma demo_stored_as:
  "stored_as demo_crates (pck_secret_doc demo_crates (pck_secret_name demo_name) ''ns'' demo_fp demo_result) demo_stored"
proof -
  have "base64_encode demo_crates = hex_string" by (simp add: demo_crates_def)
  then show ?thesis
    by (auto simp: stored_as_def demo_stored_def json_member2_def pck_secret_doc_def split: if_splits)
qed

theorem registration_idempotent_witness:
  "\<exists>w'. process_platform_secret demo_crates served_env None ''ns'' demo_secret demo_world = (Ok AwaitChange, w')
     \<and> process_platform_secret demo_crates served_env None ''ns'' demo_secret w' =
        (Ok AwaitChange, log_event ReadSystemTime
          (log_event (GetSecret (pck_secret_name (secret_name demo_secret))) w'))"
proof -
  obtain data where d: "secret_data demo_secret = Some data"
    "prepare_registration (secret_name demo_secret) data = Ok demo_request"
    using demo_prepare by blast
  have n: "secret_name demo_secret = demo_name" by (simp add: demo_secret_def)
  let ?w = "demo_world\<lparr>events := [GetSecret (pck_secret_name demo_name), ReadInstant,
       HttpSend (demo_post None), HttpSend demo_get, ReadSystemTime,
       store_pck demo_crates demo_name ''ns'' demo_fp demo_result,
       store_index demo_crates demo_name (res_piid demo_result)]\<rparr>"
  have mem: "store_pck demo_crates (secret_name demo_secret) ''ns'' demo_fp demo_result
      \<in> set (new_events demo_world ?w)"
    by (simp add: new_events_def demo_world_def n)
  have srv: "serves served_env demo_crates (events ?w)
      (store_pck demo_crates (secret_name demo_secret) ''ns'' demo_fp demo_result)"
    using demo_stored_as by (simp add: serves_def store_pck_def is_write_def n)
  show ?thesis
    using demo_process_served [of None "''ns''"]
      registration_idempotent [OF demo_body_strings demo_strings demo_clock demo_process_served d mem srv]
    by simp
qed

lemma stored_then_failed_retries:
  assumes "process_platform_secret C env key ns s w = (Err err, w')"
    and "store_pck C (secret_name s) ns fp res \<in> set (new_events w w')"
  shows "registration_error_policy err = Requeue (from_secs 300)"
  using assms(1)
proof (cases rule: process_cases)
  case (invalid e)
  with assms(2) show ?thesis by (simp add: new_events_def)
next
  case (unreadable data2 body2 e)
  with pck_secret_is_valid_trace [OF unreadable(3)] assms(2) show ?thesis
    by (auto simp: new_events_def store_pck_def dest: read_only_no_write)
next
  case (attempted data2 body2 w1 r2 w2)
  then obtain e where e: "r2 = Err e" "registration_failed env e w2 = (Err err, w')"
    by (cases r2) auto
  have kube: "registration_error_policy err = Requeue (from_secs 300)" if "e = Kube ke" for ke
    using e(2) that
    by (auto simp: registration_failed_def registration_error_policy_def retry_def
        REGISTRATION_RETRY_DELAY_def)
  from attempted(5) show ?thesis
  proof (cases rule: register_platform_cases)
    case (failed e2)
    obtain es where es: "events w1 = events w @ es"
        "calls es = [GetSecret (pck_secret_name (secret_name s))]"
      using pck_secret_is_valid_trace [OF attempted(3)] by blast
    obtain es4 where es4: "events w2 = events (log_event ReadInstant w1) @ es4"
        "pcs_calls C key body2 (calls es4)"
      using request_pck_blob_trace [OF failed(1)] by blast
    obtain es3 where es3: "events w' = events w2 @ es3" "calls es3 = []"
      using registration_failed_run [OF e(2)] by fastforce
    have "store_pck C (secret_name s) ns fp res \<in> set (calls (new_events w w'))"
      using assms(2) by (simp add: calls_def store_pck_def)
    with es es4 es3 have "store_pck C (secret_name s) ns fp res \<in> set (calls es4)"
      by (simp add: new_events_def store_pck_def)
    with es4(2) show ?thesis by (auto simp: pcs_calls_def store_pck_def)
  next
    case (first_write res2 w3 ke)
    with e(1) show ?thesis by (auto intro: kube)
  next
    case (both_writes res2 w3 w4)
    with e(1) show ?thesis by (auto simp: map_err_eq_Err intro: kube)
  qed
qed simp_all

text \<open>C36: The index entry can stay missing: if a registration stored the PCK secret but then
  failed (its index entry could not be written), it is retried after five minutes, and that
  retry finds the stored secret valid and stops without writing the index entry, as does every
  later reconciliation while the Kubernetes API serves that secret.\<close>

theorem failed_index_write_not_repaired:
  assumes "env_strings_ok env" "crates_strings_ok C" "clock_within_year env"
    and "process_platform_secret C env key ns s w = (Err err, w')"
    and "secret_data s = Some data" "prepare_registration (secret_name s) data = Ok body"
    and "store_pck C (secret_name s) ns fp res \<in> set (new_events w w')"
    and "\<And>h. serves env C (events w' @ h) (store_pck C (secret_name s) ns fp res)"
    and "events v = events w' @ h"
  shows "registration_error_policy err = Requeue (from_secs 300)
    \<and> (\<exists>v'. process_platform_secret C env key ns s v = (Ok AwaitChange, v')
        \<and> list_all (\<lambda>e. \<not> is_write e) (new_events v v'))"
proof -
  have "serves env C (events v) (store_pck C (secret_name s) ns fp res)"
    using assms(8) [of h] assms(9) by simp
  from stored_secret_skips [OF assms(1-7) this] stored_then_failed_retries [OF assms(4,7)]
  show ?thesis by (simp add: new_events_def is_write_def)
qed

definition gap_env :: env where
  "gap_env = served_env\<lparr>env_apply_secret := (\<lambda>h n p d.
     if n = PIID_INDEX_SECRET_NAME then Err (KubeOther ''timeout'') else Ok ())\<rparr>"

lemma demo_process_gap:
  "\<exists>err. process_platform_secret demo_crates gap_env key ns demo_secret demo_world =
    (Err err, demo_world\<lparr>events := [GetSecret (pck_secret_name demo_name), ReadInstant,
       HttpSend (demo_post key), HttpSend demo_get, ReadSystemTime,
       store_pck demo_crates demo_name ns demo_fp demo_result,
       store_index demo_crates demo_name (res_piid demo_result)]\<rparr>)"
proof -
  obtain data where d: "secret_data demo_secret = Some data"
    "prepare_registration (secret_name demo_secret) data = Ok demo_request"
    using demo_prepare by blast
  have n: "secret_name demo_secret = demo_name" by (simp add: demo_secret_def)
  have v: "pck_secret_is_valid gap_env (pck_secret_name (secret_name demo_secret)) demo_fp demo_world =
      (Ok False, log_event (GetSecret (pck_secret_name demo_name)) demo_world)"
    by (simp add: pck_secret_is_valid_def match_fx_def get_secret_def n demo_world_def gap_env_def)
  have req: "request_pck_blob demo_crates gap_env key demo_request w =
      (Ok demo_result, log_event ReadSystemTime (log_event (HttpSend demo_get)
        (log_event (HttpSend (demo_post key)) w)))" for w :: reg_world
    by (rule demo_request_run) (simp_all add: gap_env_def)
  have i: "pck_secret_name demo_name \<noteq> PIID_INDEX_SECRET_NAME"
    by (simp add: pck_secret_name_def PIID_INDEX_SECRET_NAME_def demo_name_def)
  have a: "env_apply_secret gap_env h n p d =
      (if n = PIID_INDEX_SECRET_NAME then Err (KubeOther ''timeout'') else Ok ())" for h n p d
    by (simp add: gap_env_def)
  show ?thesis
    unfolding process_run [OF d demo_fp_def v]
    by (simp add: demo_world_def remaining_def pause_default_def match_fx_def register_platform_def
        req n apply_secret_def patch_piid_index_eq bind_fx_def log_event_def a i
        store_pck_def store_index_def registration_failed_def)
qed

theorem failed_index_write_not_repaired_witness:
  "\<exists>err w'. process_platform_secret demo_crates gap_env None ''ns'' demo_secret demo_world = (Err err, w')
     \<and> registration_error_policy err = Requeue (from_secs 300)
     \<and> (\<exists>v'. process_platform_secret demo_crates gap_env None ''ns'' demo_secret w' = (Ok AwaitChange, v')
        \<and> list_all (\<lambda>e. \<not> is_write e) (new_events w' v'))"
proof -
  obtain data where d: "secret_data demo_secret = Some data"
    "prepare_registration (secret_name demo_secret) data = Ok demo_request"
    using demo_prepare by blast
  have n: "secret_name demo_secret = demo_name" by (simp add: demo_secret_def)
  let ?w = "demo_world\<lparr>events := [GetSecret (pck_secret_name demo_name), ReadInstant,
       HttpSend (demo_post None), HttpSend demo_get, ReadSystemTime,
       store_pck demo_crates demo_name ''ns'' demo_fp demo_result,
       store_index demo_crates demo_name (res_piid demo_result)]\<rparr>"
  obtain err where run: "process_platform_secret demo_crates gap_env None ''ns'' demo_secret demo_world = (Err err, ?w)"
    using demo_process_gap by blast
  have mem: "store_pck demo_crates (secret_name demo_secret) ''ns'' demo_fp demo_result
      \<in> set (new_events demo_world ?w)"
    by (simp add: new_events_def demo_world_def n)
  have srv: "serves gap_env demo_crates (events ?w @ h)
      (store_pck demo_crates (secret_name demo_secret) ''ns'' demo_fp demo_result)" for h
    using demo_stored_as by (simp add: serves_def store_pck_def is_write_def n gap_env_def)
  have str: "env_strings_ok gap_env" by (rule demo_body_strings) (simp add: gap_env_def)
  have clk: "clock_within_year gap_env" by (rule demo_clock) (simp add: gap_env_def)
  show ?thesis
    using run failed_index_write_not_repaired [OF str demo_strings clk run d mem srv, of ?w "[]"]
    by blast
qed

end
