(* ===== verification/Concurrency.thy ===== *)
theory Concurrency
  imports RegistrarClaims
begin

text \<open>
  The registrar as a concurrent system (\<open>register_platforms\<close> in \<open>main.rs\<close>): kube's controller
  runs up to four reconciliations of different secrets at once, which share the pause gate and
  nothing else. The step relation lets them interleave at their requests and answers, the
  points where an async task gives way; \<open>process_refines_job\<close> shows that a run of
  \<open>process_platform_secret\<close> is a path of it. A reconciliation appears here once it has read the gate
  as open; those that end before that send nothing.
\<close>

definition MAX_CONCURRENT_REGISTRATIONS :: nat where
  "MAX_CONCURRENT_REGISTRATIONS = 4"

text \<open>Which answers the HTTP client resends a request on, at most three times, before the code sees
  one: \<open>HttpSend\<close> stands for the request with its resends.\<close>

definition pcs_retryable :: "bool \<Rightarrow> nat option \<Rightarrow> bool" where
  "pcs_retryable failed st \<longleftrightarrow>
     failed \<or> (case st of None \<Rightarrow> False | Some s \<Rightarrow> 500 \<le> s \<and> s < 600)"

lemma rejections_not_resent:
  "is_success s \<or> s = 429 \<or> status_is_client_error s \<Longrightarrow> \<not> pcs_retryable False (Some s)"
  by (auto simp: pcs_retryable_def is_success_def status_is_client_error_def)

subsection \<open>Jobs and steps\<close>

datatype phase = GateOpen | PostSent | CertsFetched | QuerySent

record registrar_system =
  sys_gate :: pcs_pause
  running :: "str \<rightharpoonup> phase"
  clock :: instant
  requests :: nat

definition set_job :: "str \<Rightarrow> phase option \<Rightarrow> registrar_system \<Rightarrow> registrar_system" where
  "set_job n p s = s\<lparr>running := (running s)(n := p)\<rparr>"

definition send_request :: "registrar_system \<Rightarrow> registrar_system" where
  "send_request s = s\<lparr>requests := Suc (requests s)\<rparr>"

definition rate_limited :: "str \<Rightarrow> duration \<Rightarrow> registrar_system \<Rightarrow> registrar_system" where
  "rate_limited n d s = set_job n None (s\<lparr>sys_gate := pause (sys_gate s) (clock s) d\<rparr>)"

inductive registrar_step :: "registrar_system \<Rightarrow> registrar_system \<Rightarrow> bool" where
  tick: "clock s \<le> t \<Longrightarrow> registrar_step s (s\<lparr>clock := t\<rparr>)"
| admit: "running s n = None \<Longrightarrow> card (dom (running s)) < MAX_CONCURRENT_REGISTRATIONS \<Longrightarrow>
    remaining (sys_gate s) (clock s) = None \<Longrightarrow> registrar_step s (set_job n (Some GateOpen) s)"
| post: "running s n = Some GateOpen \<Longrightarrow> registrar_step s (send_request (set_job n (Some PostSent) s))"
| certs: "running s n = Some PostSent \<Longrightarrow> registrar_step s (set_job n (Some CertsFetched) s)"
| query: "running s n = Some CertsFetched \<Longrightarrow> registrar_step s (send_request (set_job n (Some QuerySent) s))"
| limited: "running s n = Some PostSent \<or> running s n = Some QuerySent \<Longrightarrow>
    registrar_step s (rate_limited n d s)"
| finish: "running s n \<noteq> None \<Longrightarrow> registrar_step s (set_job n None s)"

inductive_cases registrar_stepE: "registrar_step s t"

abbreviation registrar_steps :: "registrar_system \<Rightarrow> registrar_system \<Rightarrow> bool" where
  "registrar_steps \<equiv> registrar_step\<^sup>*\<^sup>*"

definition system_init :: "instant \<Rightarrow> registrar_system" where
  "system_init t = \<lparr>sys_gate = pause_default, running = Map.empty, clock = t, requests = 0\<rparr>"

lemma job_simps [simp]:
  "sys_gate (set_job n p s) = sys_gate s" "running (set_job n p s) = (running s)(n := p)"
  "clock (set_job n p s) = clock s" "requests (set_job n p s) = requests s"
  "sys_gate (send_request s) = sys_gate s" "running (send_request s) = running s"
  "clock (send_request s) = clock s" "requests (send_request s) = Suc (requests s)"
  "sys_gate (rate_limited n d s) = pause (sys_gate s) (clock s) d"
  "running (rate_limited n d s) = (running s)(n := None)"
  "clock (rate_limited n d s) = clock s" "requests (rate_limited n d s) = requests s"
  by (simp_all add: set_job_def send_request_def rate_limited_def)

subsection \<open>The requests the running jobs may still send\<close>

fun budget :: "phase \<Rightarrow> nat" where
  "budget GateOpen = 2"
| "budget PostSent = 1"
| "budget CertsFetched = 1"
| "budget QuerySent = 0"

definition pending :: "(str \<rightharpoonup> phase) \<Rightarrow> nat" where
  "pending r = (\<Sum>n \<in> dom r. budget (the (r n)))"

definition within_limit :: "registrar_system \<Rightarrow> bool" where
  "within_limit s \<longleftrightarrow> finite (dom (running s)) \<and> card (dom (running s)) \<le> MAX_CONCURRENT_REGISTRATIONS"

lemma pending_update:
  assumes "finite (dom r)"
  shows "pending (r(n := p)) + (case r n of None \<Rightarrow> 0 | Some q \<Rightarrow> budget q)
    = pending r + (case p of None \<Rightarrow> 0 | Some q \<Rightarrow> budget q)"
proof -
  have out: "pending (r(n := p)) = (\<Sum>m \<in> dom r - {n}. budget (the (r m))) + (case p of None \<Rightarrow> 0 | Some q \<Rightarrow> budget q)"
  proof (cases p)
    case None
    then show ?thesis by (auto simp: pending_def intro!: sum.cong)
  next
    case (Some q)
    have "pending (r(n := p)) = (\<Sum>m \<in> insert n (dom r - {n}). budget (the ((r(n := p)) m)))"
      using Some by (auto simp: pending_def intro!: sum.cong)
    also have "\<dots> = budget q + (\<Sum>m \<in> dom r - {n}. budget (the ((r(n := p)) m)))"
      using assms Some by (subst sum.insert) auto
    also have "(\<Sum>m \<in> dom r - {n}. budget (the ((r(n := p)) m))) = (\<Sum>m \<in> dom r - {n}. budget (the (r m)))"
      by (intro sum.cong) auto
    finally show ?thesis using Some by (simp del: fun_upd_apply)
  qed
  have "pending r = (\<Sum>m \<in> dom r - {n}. budget (the (r m))) + (case r n of None \<Rightarrow> 0 | Some q \<Rightarrow> budget q)"
  proof (cases "r n")
    case None
    then have "dom r - {n} = dom r" by auto
    with None show ?thesis by (simp add: pending_def)
  next
    case (Some q)
    then show ?thesis using assms by (simp add: pending_def sum.remove [of "dom r" n] domI)
  qed
  with out show ?thesis by simp
qed

lemma pending_bound: "finite (dom r) \<Longrightarrow> pending r \<le> 2 * card (dom r)"
proof -
  have "budget p \<le> 2" for p by (cases p) simp_all
  then show "pending r \<le> 2 * card (dom r)"
    using sum_bounded_above [of "dom r" "\<lambda>n. budget (the (r n))" 2] by (simp add: pending_def mult.commute)
qed

subsection \<open>Invariants\<close>

lemma step_within_limit: "registrar_step s t \<Longrightarrow> within_limit s \<Longrightarrow> within_limit t"
proof (induction rule: registrar_step.induct)
  case (limited s n d)
  then show ?case by (auto simp: within_limit_def intro: order_trans [OF card_Diff1_le])
next
  case (finish s n)
  then show ?case by (auto simp: within_limit_def intro: order_trans [OF card_Diff1_le])
qed (auto simp: within_limit_def card_insert_if insert_absorb)

lemma steps_within_limit: "registrar_steps s t \<Longrightarrow> within_limit s \<Longrightarrow> within_limit t"
  by (induction rule: rtranclp_induct) (auto intro: step_within_limit)

lemma init_within_limit: "within_limit (system_init t)"
  by (simp add: within_limit_def system_init_def)

lemma step_clock: "registrar_step s t \<Longrightarrow> clock s \<le> clock t"
  by (auto elim: registrar_stepE)

lemma steps_clock: "registrar_steps s t \<Longrightarrow> clock s \<le> clock t"
  by (induction rule: rtranclp_induct) (auto dest: step_clock)

text \<open>The gate is closed up to a time.\<close>

definition closed_until :: "instant \<Rightarrow> registrar_system \<Rightarrow> bool" where
  "closed_until T s \<longleftrightarrow> (\<forall>t < T. remaining (sys_gate s) t \<noteq> None)"

lemma step_closed_until: "registrar_step s t \<Longrightarrow> closed_until T s \<Longrightarrow> closed_until T t"
proof (induction rule: registrar_step.induct)
  case (limited s n d)
  then show ?case
    unfolding closed_until_def job_simps
    by (metis (no_types, lifting) gate.never_shortened option.distinct(1) option.exhaust)
qed (simp_all add: closed_until_def)

text \<open>While the gate is closed, no request is sent that was not already due.\<close>

lemma step_due:
  assumes "registrar_step s t" "within_limit s" "closed_until T s" "clock s < T"
  shows "requests t + pending (running t) \<le> requests s + pending (running s)"
  using assms
proof (induction rule: registrar_step.induct)
  case (admit s n)
  then show ?case by (auto simp: closed_until_def)
next
  case (post s n)
  then show ?case using pending_update [of "running s" n "Some PostSent"] by (simp add: within_limit_def del: fun_upd_apply)
next
  case (certs s n)
  then show ?case using pending_update [of "running s" n "Some CertsFetched"] by (simp add: within_limit_def del: fun_upd_apply)
next
  case (query s n)
  then show ?case using pending_update [of "running s" n "Some QuerySent"] by (simp add: within_limit_def del: fun_upd_apply)
next
  case (limited s n d)
  then show ?case using pending_update [of "running s" n None] by (auto simp: within_limit_def simp del: fun_upd_apply)
next
  case (finish s n)
  then show ?case using pending_update [of "running s" n None] by (auto simp: within_limit_def simp del: fun_upd_apply)
qed simp

lemma steps_due:
  assumes "registrar_steps s t" "within_limit s" "closed_until T s" "clock t < T"
  shows "requests t + pending (running t) \<le> requests s + pending (running s) \<and> within_limit t \<and> closed_until T t"
  using assms
proof (induction rule: rtranclp_induct)
  case (step t u)
  then have "clock t < T" using step_clock order_le_less_trans by blast
  with step have IH: "requests t + pending (running t) \<le> requests s + pending (running s)" "within_limit t"
    "closed_until T t" by blast+
  with step_due [OF step(2) IH(2,3) \<open>clock t < T\<close>] step_within_limit step_closed_until step(2) show ?case
    by (meson order_trans)
qed simp

subsection \<open>What a rate limit still lets through\<close>

text \<open>C9: When Intel PCS answers 429 to one of up to four concurrent registrations, at most six more
  requests are sent before the delay it asked for is over: two by each of the other three
  registrations that had already passed the gate, and none by any registration that starts in
  the meantime. (A request is one call of the HTTP client, with the client's own resends.)\<close>

theorem requests_during_pause:
  assumes "registrar_steps (system_init t0) s"
    and "running s n = Some PostSent \<or> running s n = Some QuerySent"
    and "registrar_steps (rate_limited n d s) s'" "clock s' < clock s + d"
  shows "requests s' \<le> requests s + 6 \<and> card (dom (running s')) \<le> 4"
proof -
  let ?s = "rate_limited n d s"
  have lim: "within_limit s" using assms(1) init_within_limit by (rule steps_within_limit)
  then have lim': "within_limit ?s" using assms(2) by (blast intro: step_within_limit limited)
  have closed: "closed_until (clock s + d) ?s"
    unfolding closed_until_def job_simps using gate.closed_for by fastforce
  have "n \<in> dom (running s)" using assms(2) by auto
  then have "card (dom (running ?s)) < card (dom (running s))"
    using lim card_Diff1_less [of "dom (running s)" n] by (simp add: within_limit_def)
  then have "card (dom (running ?s)) \<le> 3"
    using lim by (simp add: within_limit_def MAX_CONCURRENT_REGISTRATIONS_def)
  then have "pending (running ?s) \<le> 6"
    using pending_bound [of "running ?s"] lim' by (simp add: within_limit_def)
  with steps_due [OF assms(3) lim' closed assms(4)] show ?thesis
    by (simp add: within_limit_def MAX_CONCURRENT_REGISTRATIONS_def)
qed

text \<open>The bound is attained: four admitted, one rate limited, the other three send both requests.\<close>

fun demo_schedule :: "nat \<Rightarrow> registrar_system \<Rightarrow> registrar_system" where
  "demo_schedule 0 s = s"
| "demo_schedule (Suc k) s = (let n = replicate k CHR ''n'' in
     demo_schedule k (set_job n None (send_request (set_job n (Some QuerySent)
       (set_job n (Some CertsFetched) (send_request (set_job n (Some PostSent) s)))))))"

lemma demo_schedule_steps:
  "\<forall>j < k. running s (replicate j CHR ''n'') = Some GateOpen \<Longrightarrow> registrar_steps s (demo_schedule k s)
     \<and> requests (demo_schedule k s) = requests s + 2 * k \<and> clock (demo_schedule k s) = clock s"
proof (induction k arbitrary: s)
  case (Suc k)
  let ?n = "replicate k CHR ''n''"
  let ?s1 = "send_request (set_job ?n (Some PostSent) s)"
  let ?s2 = "set_job ?n (Some CertsFetched) ?s1"
  let ?s3 = "send_request (set_job ?n (Some QuerySent) ?s2)"
  let ?s4 = "set_job ?n None ?s3"
  have "registrar_step s ?s1" using Suc.prems by (intro post) simp
  moreover have "registrar_step ?s1 ?s2" by (intro certs) simp
  moreover have "registrar_step ?s2 ?s3" by (intro query) simp
  moreover have "registrar_step ?s3 ?s4" by (intro finish) simp
  ultimately have "registrar_steps s ?s4" by (meson rtranclp.rtrancl_refl rtranclp.rtrancl_into_rtrancl)
  moreover have "\<forall>j < k. running ?s4 (replicate j CHR ''n'') = Some GateOpen"
    using Suc.prems by (auto dest: arg_cong [where f = length])
  ultimately show ?case using Suc.IH [of ?s4] by (auto simp: Let_def intro: rtranclp_trans)
qed simp

definition demo_admitted :: registrar_system where
  "demo_admitted = fold (\<lambda>k. set_job (replicate k CHR ''n'') (Some GateOpen)) [0, 1, 2, 3] (system_init 0)"

lemma demo_admitted_steps: "registrar_steps (system_init 0) demo_admitted"
proof -
  let ?n = "\<lambda>k. replicate k CHR ''n''"
  let ?a = "\<lambda>k. set_job (?n k) (Some GateOpen)"
  have free: "remaining pause_default t = None" for t by (simp add: remaining_def pause_default_def)
  have step: "registrar_step s (?a k s)"
    if "running s (?n k) = None" "card (dom (running s)) < 4" "sys_gate s = pause_default" for s k
    using that free by (intro admit) (simp_all add: MAX_CONCURRENT_REGISTRATIONS_def)
  have "registrar_step (system_init 0) (?a 0 (system_init 0))"
    by (rule step) (simp_all add: system_init_def)
  moreover have "registrar_step (?a 0 (system_init 0)) (?a 1 (?a 0 (system_init 0)))"
    by (rule step) (simp_all add: system_init_def)
  moreover have "registrar_step (?a 1 (?a 0 (system_init 0))) (?a 2 (?a 1 (?a 0 (system_init 0))))"
    by (rule step) (simp_all add: system_init_def numeral_2_eq_2)
  moreover have "registrar_step (?a 2 (?a 1 (?a 0 (system_init 0)))) (?a 3 (?a 2 (?a 1 (?a 0 (system_init 0)))))"
    by (rule step) (simp_all add: system_init_def numeral_2_eq_2 numeral_3_eq_3)
  ultimately show ?thesis
    unfolding demo_admitted_def by (simp only: fold.simps comp_apply id_apply)
qed

theorem requests_during_pause_witness:
  "\<exists>s s'. registrar_steps (system_init 0) s \<and> running s ''nnn'' = Some PostSent
    \<and> registrar_steps (rate_limited ''nnn'' 10 s) s' \<and> clock s' < clock s + 10
    \<and> requests s' = requests s + 6 \<and> card (dom (running s')) \<le> 4"
proof -
  let ?s = "send_request (set_job ''nnn'' (Some PostSent) demo_admitted)"
  let ?l = "rate_limited ''nnn'' 10 ?s" and ?s' = "demo_schedule 3 (rate_limited ''nnn'' 10
    (send_request (set_job ''nnn'' (Some PostSent) demo_admitted)))"
  have r: "running demo_admitted (replicate j CHR ''n'') = Some GateOpen" if "j < 4" for j
    using that by (auto simp: demo_admitted_def numeral_eq_Suc less_Suc_eq)
  have n3: "replicate 3 CHR ''n'' = ''nnn''" by (simp add: numeral_eq_Suc)
  have "registrar_step demo_admitted ?s" using r [of 3] n3 by (intro post) simp
  with demo_admitted_steps have s: "registrar_steps (system_init 0) ?s" by (rule rtranclp.rtrancl_into_rtrancl)
  have p: "running ?s ''nnn'' = Some PostSent \<or> running ?s ''nnn'' = Some QuerySent" by simp
  have "\<forall>j < 3. running ?l (replicate j CHR ''n'') = Some GateOpen"
    using r by (auto dest: arg_cong [where f = length])
  from demo_schedule_steps [OF this] have d: "registrar_steps ?l ?s'" "requests ?s' = requests ?s + 6"
    "clock ?s' = clock ?s" by simp_all
  with requests_during_pause [OF s p d(1)] s show ?thesis
    by (intro exI [of _ ?s] exI [of _ ?s']) simp
qed

subsection \<open>A run of the reconciler is a path of the system\<close>

definition sent :: "event list \<Rightarrow> nat" where
  "sent es = length (filter is_pcs_request es)"

lemma sent_simps [simp]:
  "sent [] = 0" "sent (xs @ ys) = sent xs + sent ys"
  by (simp_all add: sent_def)

lemma sent_calls: "sent (calls es) = sent es"
  by (induction es) (auto simp: sent_def calls_def is_pcs_request_def)

lemma sent_registration_calls: "registration_calls C key name ns body fp es \<Longrightarrow> sent es \<le> 2"
  by (auto simp: registration_calls_def pcs_calls_def sent_def is_pcs_request_def store_pck_def store_index_def)

text \<open>The error of a registration that sent nothing is not a rate limit.\<close>

lemma rate_limited_sent:
  assumes "register_platform C env key name ns body fp w = (Err e, w')"
    and "downcast_rate_limited e = Some rl"
  shows "0 < sent (new_events w w')"
  using assms(1)
proof (cases rule: register_platform_cases)
  case (failed e')
  from request_pck_blob_trace [OF failed(1)] obtain es where es: "events w' = events w @ es"
    "pcs_calls C key body (calls es)" "calls es = [] \<longrightarrow> (\<exists>m. e' = Msg m)" by auto
  have "calls es \<noteq> []" using es(3) failed(2) assms(2) by auto
  then have "0 < sent (calls es)" using es(2) by (auto simp: pcs_calls_def sent_def is_pcs_request_def)
  with es(1) show ?thesis by (simp add: new_events_def sent_calls)
next
  case (first_write res w1 ke)
  with assms(2) show ?thesis by simp
next
  case (both_writes res w1 w2)
  from both_writes(4) [symmetric] obtain k where "e = Kube k" unfolding map_err_eq_Err by blast
  with assms(2) show ?thesis by simp
qed

text \<open>A job that sends \<open>k\<close> requests and ends, with a rate limit if it sent any.\<close>

lemma job_path:
  assumes "running s n = Some GateOpen" "k \<le> 2"
  shows "\<exists>t. registrar_steps s t \<and> sys_gate t = sys_gate s \<and> running t = (running s)(n \<mapsto> case k of
      0 \<Rightarrow> GateOpen | Suc 0 \<Rightarrow> PostSent | _ \<Rightarrow> QuerySent) \<and> requests t = requests s + k \<and> clock t = clock s"
proof -
  let ?s1 = "send_request (set_job n (Some PostSent) s)"
  let ?s2 = "set_job n (Some CertsFetched) ?s1"
  let ?s3 = "send_request (set_job n (Some QuerySent) ?s2)"
  have p1: "registrar_step s ?s1" using assms(1) by (intro post) simp
  have "registrar_step ?s1 ?s2" by (intro certs) simp
  moreover have "registrar_step ?s2 ?s3" by (intro query) simp
  ultimately have p3: "registrar_steps ?s1 ?s3" by (meson r_into_rtranclp rtranclp.rtrancl_into_rtrancl)
  consider "k = 0" | "k = 1" | "k = 2" using assms(2) by linarith
  then show ?thesis
  proof cases
    case 1
    with assms(1) show ?thesis by (intro exI [of _ s]) (auto simp: fun_upd_idem)
  next
    case 2
    with p1 show ?thesis by (intro exI [of _ ?s1]) auto
  next
    case 3
    with p1 p3 show ?thesis
      by (intro exI [of _ ?s3]) (auto intro: converse_rtranclp_into_rtranclp)
  qed
qed

lemma request_pck_blob_pause:
  "request_pck_blob C env key body w = (r, w') \<Longrightarrow> reg_pause w' = reg_pause (w :: reg_world)"
  by (rule same_pause [OF keepsD [OF quiet_request_pck_blob [where P = "\<lambda>_. True"]]]) simp_all

lemma register_platform_pause:
  assumes "register_platform C env key name ns body fp w = (r, w')"
  shows "reg_pause w' = reg_pause (w :: reg_world)"
  using assms
proof (cases rule: register_platform_cases)
  case (failed e)
  from failed(1) show ?thesis by (rule request_pck_blob_pause)
next
  case (first_write res w1 ke)
  from first_write(1) have "reg_pause w1 = reg_pause w" by (rule request_pck_blob_pause)
  with first_write show ?thesis by simp
next
  case (both_writes res w1 w2)
  from both_writes(1) have "reg_pause w1 = reg_pause w" by (rule request_pck_blob_pause)
  with both_writes show ?thesis by simp
qed

text \<open>How an attempted registration ends: with what it left, or in a rate limit.\<close>

lemma attempted_end:
  assumes "case r2 of Inl e \<Rightarrow> registration_failed env e w2 = (r, w') | Inr u \<Rightarrow> r = Ok AwaitChange \<and> w' = w2"
  obtains (left) "w' = w2"
  | (limited) e rl where "r2 = Err e" "downcast_rate_limited e = Some rl"
      "reg_pause w' = pause (reg_pause w2) (env_instant env (events w2)) (retry_after rl)"
      "events w' = events w2 @ [ReadInstant]"
proof (cases r2)
  case (Inr u)
  with assms left show thesis by simp
next
  case (Inl e)
  with assms have f: "registration_failed env e w2 = (r, w')" by simp
  show thesis
  proof (cases "downcast_rate_limited e")
    case None
    with f have "w' = w2" by (simp add: registration_failed_def split: option.splits if_splits)
    with left show thesis .
  next
    case (Some rl)
    with f have "w' = (log_event ReadInstant w2)\<lparr>reg_pause :=
        pause (reg_pause w2) (env_instant env (events w2)) (retry_after rl)\<rparr>"
      by (simp add: registration_failed_def bind_fx_def)
    then show thesis by (intro limited [OF Inl Some]) simp_all
  qed
qed

text \<open>Reading the PCK secret sends nothing and leaves the gate alone.\<close>

lemma pck_secret_read_quiet:
  assumes "pck_secret_is_valid env nm fp w = (q, w1)"
  obtains es where "events w1 = events w @ es" "sent es = 0" "reg_pause w1 = reg_pause (w :: reg_world)"
proof -
  from pck_secret_is_valid_trace [OF assms] obtain es where es: "events w1 = events w @ es" "calls es = [GetSecret nm]"
    by blast
  have "sent es = 0" using es(2) sent_calls [of es] by (simp add: sent_def is_pcs_request_def)
  moreover from pck_secret_is_valid_log [OF assms] have "reg_pause w1 = reg_pause w" by (rule same_pause)
  ultimately show thesis using es(1) that by blast
qed

text \<open>The pieces of a job's path: its start at a time the gate is open with the requests it sends, and
  its end in a rate limit.\<close>

lemma admitted_path:
  assumes "running sys n = None" "card (dom (running sys)) < MAX_CONCURRENT_REGISTRATIONS"
    and "clock sys \<le> t" "remaining (sys_gate sys) t = None" "k \<le> 2"
  obtains B p where "registrar_steps sys B" "sys_gate B = sys_gate sys" "running B = (running sys)(n \<mapsto> p)"
    "requests B = requests sys + k" "clock B = t" "0 < k \<Longrightarrow> p = PostSent \<or> p = QuerySent"
proof -
  let ?A = "set_job n (Some GateOpen) (sys\<lparr>clock := t\<rparr>)"
  have "registrar_step sys (sys\<lparr>clock := t\<rparr>)" using assms(3) by (rule tick)
  moreover have "registrar_step (sys\<lparr>clock := t\<rparr>) ?A" using assms(1,2,4) by (intro admit) simp_all
  ultimately have A: "registrar_steps sys ?A" by (meson r_into_rtranclp rtranclp.rtrancl_into_rtrancl)
  have "running ?A n = Some GateOpen" by simp
  from job_path [OF this assms(5)] obtain B p where B: "registrar_steps ?A B" "sys_gate B = sys_gate sys"
    "running B = (running sys)(n \<mapsto> p)" "requests B = requests sys + k" "clock B = t"
    and p: "0 < k \<longrightarrow> p = PostSent \<or> p = QuerySent"
    by (cases k rule: nat.exhaust) (auto split: nat.splits)
  from A B(1) have "registrar_steps sys B" by (rule rtranclp_trans)
  with B p that show thesis by blast
qed

lemma limited_path:
  assumes "registrar_steps sys B" "running B n = Some p" "p = PostSent \<or> p = QuerySent" "clock B \<le> t"
  shows "registrar_steps sys (rate_limited n d (B\<lparr>clock := t\<rparr>))"
proof -
  have "registrar_step B (B\<lparr>clock := t\<rparr>)" using assms(4) by (rule tick)
  moreover have "registrar_step (B\<lparr>clock := t\<rparr>) (rate_limited n d (B\<lparr>clock := t\<rparr>))"
    using assms(2,3) by (intro registrar_step.limited) auto
  ultimately show ?thesis using assms(1) by (meson rtranclp.rtrancl_into_rtrancl)
qed

text \<open>C10: The step relation covers the code: a run of \<open>process_platform_secret\<close> for a secret that is
  not being reconciled, started with the system's gate and a free slot, is a path of the
  system that ends with the gate the code left, sends exactly the requests the code sent, and
  touches no other job.\<close>

theorem process_refines_job:
  assumes "process_platform_secret C env key ns s w = (r, w')"
    and "\<And>h es. env_instant env h \<le> env_instant env (h @ es)"
    and "running sys (secret_name s) = None" "card (dom (running sys)) < MAX_CONCURRENT_REGISTRATIONS"
    and "sys_gate sys = reg_pause w" "clock sys \<le> env_instant env (events w)"
  shows "\<exists>sys'. registrar_steps sys sys' \<and> sys_gate sys' = reg_pause w' \<and> running sys' = running sys
    \<and> requests sys' = requests sys + sent (new_events w w') \<and> clock sys' \<le> env_instant env (events w')"
proof -
  let ?n = "secret_name s"
  have idle: ?thesis if "events w' = events w @ es" "sent es = 0" "reg_pause w' = reg_pause w" for es
    using that assms(2) [of "events w" es] assms(5,6)
    by (intro exI [of _ sys]) (auto simp: new_events_def)
  from assms(1) show ?thesis
  proof (cases rule: process_cases)
    case (invalid e)
    then show ?thesis by (intro idle [of "[]"]) simp_all
  next
    case (unreadable data body e)
    with unreadable idle show ?thesis by (blast elim: pck_secret_read_quiet)
  next
    case (still_valid data body)
    with still_valid idle show ?thesis by (blast elim: pck_secret_read_quiet)
  next
    case (paused data body w1 d)
    from paused(3) obtain es where "events w1 = events w @ es" "sent es = 0" "reg_pause w1 = reg_pause w"
      by (rule pck_secret_read_quiet)
    with paused(6) show ?thesis
      by (intro idle [of "es @ [ReadInstant]"]) (simp_all add: sent_def is_pcs_request_def)
  next
    case (attempted data body w1 r2 w2)
    let ?t1 = "env_instant env (events w1)" and ?t2 = "env_instant env (events w2)"
    from attempted(3) obtain es where w1: "events w1 = events w @ es" "sent es = 0" "reg_pause w1 = reg_pause w"
      by (rule pck_secret_read_quiet)
    from register_platform_trace [OF attempted(5)] obtain es2 where w2: "events w2 = events w1 @ [ReadInstant] @ es2"
      "registration_calls C key ?n ns body (registration_fingerprint (sha256 C) body) (calls es2)" by auto
    have k: "sent es2 \<le> 2" using sent_registration_calls [OF w2(2)] by (simp add: sent_calls)
    have gate: "reg_pause w2 = reg_pause w" using register_platform_pause [OF attempted(5)] w1(3) by simp
    have t: "clock sys \<le> ?t1" "?t1 \<le> ?t2"
      using assms(2) [of "events w" es] assms(2) [of "events w1"] assms(6) w1(1) w2(1) by (auto intro: order_trans)
    have "remaining (sys_gate sys) ?t1 = None" using attempted(4) assms(5) w1(3) by simp
    from admitted_path [OF assms(3,4) t(1) this k] obtain B p where B: "registrar_steps sys B"
      "sys_gate B = reg_pause w" "running B = (running sys)(?n \<mapsto> p)" "requests B = requests sys + sent es2"
      "clock B = ?t1" and p: "0 < sent es2 \<Longrightarrow> p = PostSent \<or> p = QuerySent"
      using assms(5) by auto
    have rm: "(running sys)(?n := None) = running sys" using assms(3) by (simp add: fun_upd_idem)
    have n: "new_events w w2 = es @ [ReadInstant] @ es2" using w1(1) w2(1) by (simp add: new_events_def)
    have cnt: "requests B = requests sys + sent (new_events w w2)"
      using B(4) w1(2) by (simp add: n sent_def is_pcs_request_def)
    from attempted(6) show ?thesis
    proof (cases rule: attempted_end)
      case left
      have "registrar_step B (set_job ?n None B)" using B(3) by (intro finish) simp
      with B(1) have "registrar_steps sys (set_job ?n None B)" by (rule rtranclp.rtrancl_into_rtrancl)
      with left gate B rm cnt t show ?thesis by (intro exI [of _ "set_job ?n None B"]) simp
    next
      case (limited e rl)
      let ?L = "rate_limited ?n (retry_after rl) (B\<lparr>clock := ?t2\<rparr>)"
      have "0 < sent (new_events (log_event ReadInstant w1) w2)"
        using rate_limited_sent [of C env key ?n ns body _ _ e w2 rl] attempted(5) limited(1,2) by blast
      then have "0 < sent es2" using w2(1) by (simp add: new_events_def)
      from p [OF this] B(1,3,5) t(2)
      have "registrar_steps sys ?L" by (intro limited_path) simp_all
      moreover have "new_events w w' = new_events w w2 @ [ReadInstant]"
        using limited(4) w1(1) w2(1) by (simp add: new_events_def)
      ultimately show ?thesis
        using limited(3,4) gate B rm cnt assms(2) [of "events w2" "[ReadInstant]"]
        by (intro exI [of _ ?L]) (simp add: sent_def is_pcs_request_def)
    qed
  qed
qed

theorem process_refines_job_witness:
  "\<exists>sys'. registrar_steps (system_init 0) sys' \<and> requests sys' = 2 \<and> running sys' = Map.empty
    \<and> sys_gate sys' = pause_default"
proof -
  let ?w' = "demo_world\<lparr>events := [GetSecret (pck_secret_name demo_name), ReadInstant,
       HttpSend (demo_post None), HttpSend demo_get, ReadSystemTime,
       store_pck demo_crates demo_name ''ns'' demo_fp demo_result,
       store_index demo_crates demo_name (res_piid demo_result)]\<rparr>"
  have mono: "env_instant served_env h \<le> env_instant served_env (h @ es)" for h es by simp
  have init: "running (system_init 0) (secret_name demo_secret) = None"
    "card (dom (running (system_init 0))) < MAX_CONCURRENT_REGISTRATIONS"
    "sys_gate (system_init 0) = reg_pause demo_world"
    "clock (system_init 0) \<le> env_instant served_env (events demo_world)"
    by (simp_all add: system_init_def MAX_CONCURRENT_REGISTRATIONS_def demo_world_def)
  from process_refines_job [OF demo_process_served mono init, of None "''ns''"]
  obtain sys' where "registrar_steps (system_init 0) sys'" "sys_gate sys' = reg_pause ?w'"
    "running sys' = running (system_init 0)"
    "requests sys' = requests (system_init 0) + sent (new_events demo_world ?w')" by blast
  then show ?thesis
    by (intro exI [of _ sys']) (simp add: system_init_def demo_world_def new_events_def sent_def is_pcs_request_def
        store_pck_def store_index_def)
qed

end
