(* ===== verification/HttpClient.thy ===== *)
theory HttpClient
  imports Concurrency
begin

text \<open>
  What \<open>register_platforms\<close> sets up besides the controller (\<open>main.rs\<close>): the settings of the HTTP client,
  as data. What reqwest makes of them is not under \<open>src\<close>: the attempts it makes for a request are
  an argument, \<open>attempts\<close>, and \<open>obeys\<close> says what its documentation promises of a retry policy. An
  \<open>HttpSend\<close> of the reconciler then stands for these attempts, and the number of requests a reconciliation
  puts on the wire follows from the number of its calls.
\<close>

subsection \<open>Settings\<close>

text \<open>\<open>reqwest::retry::for_host(..)\<close> with its limit and its classifier, on whether an attempt failed and its
  status.\<close>

record retry_policy =
  retry_host :: str
  max_retries_per_request :: nat
  classify_retryable :: "bool \<Rightarrow> nat option \<Rightarrow> bool"

definition pcs_retry_policy :: retry_policy where
  "pcs_retry_policy = \<lparr>retry_host = ''api.trustedservices.intel.com'', max_retries_per_request = 3,
     classify_retryable = pcs_retryable\<rparr>"

definition PCS_CONNECT_TIMEOUT :: duration where "PCS_CONNECT_TIMEOUT = from_secs 10"
definition PCS_REQUEST_TIMEOUT :: duration where "PCS_REQUEST_TIMEOUT = from_secs 30"

record client_settings =
  retry_setting :: retry_policy
  connect_timeout :: duration
  request_timeout :: duration
  follow_redirects :: bool

definition pcs_client_settings :: client_settings where
  "pcs_client_settings = \<lparr>retry_setting = pcs_retry_policy, connect_timeout = PCS_CONNECT_TIMEOUT,
     request_timeout = PCS_REQUEST_TIMEOUT, follow_redirects = False\<rparr>"

text \<open>\<open>register_platforms\<close> as \<open>main\<close> sees it: \<open>client\<close> and \<open>build\<close> are the outcomes of creating the
  Kubernetes client and of building an HTTP client with given settings; the controller's own run, the
  steps of \<open>Concurrency\<close>, ends with the shutdown signal.\<close>

definition register_platforms :: "error + unit \<Rightarrow> (client_settings \<Rightarrow> error + unit) \<Rightarrow> error + unit" where
  "register_platforms client build =
     bind_res client (\<lambda>_. with_context ''Failed to build HTTP client'' (build pcs_client_settings))"

lemma register_platforms_fails:
  "register_platforms client build = Err e \<longleftrightarrow>
     client = Err e \<or> (client = Ok () \<and> (\<exists>c. build pcs_client_settings = Err c
       \<and> e = Context ''Failed to build HTTP client'' c))"
  by (cases client; cases "build pcs_client_settings") (auto simp: register_platforms_def)

subsection \<open>The requests on the wire\<close>

text \<open>The outcomes of the attempts made for a request, in their order: a status, or none for an error.\<close>

type_synonym wire_attempts = "event list \<Rightarrow> http_request \<Rightarrow> nat option list"

text \<open>reqwest's promise: a request is tried again only after an outcome the classifier calls retryable, and
  no more often than the limit; there is a first attempt.\<close>

definition obeys :: "retry_policy \<Rightarrow> wire_attempts \<Rightarrow> bool" where
  "obeys policy attempts \<longleftrightarrow> (\<forall>h q. attempts h q \<noteq> []
     \<and> length (attempts h q) \<le> Suc (max_retries_per_request policy)
     \<and> list_all (\<lambda>a. classify_retryable policy (a = None) a) (butlast (attempts h q)))"

fun wire_total :: "wire_attempts \<Rightarrow> event list \<Rightarrow> event list \<Rightarrow> nat" where
  "wire_total attempts h [] = 0"
| "wire_total attempts h (e # es) =
     (case e of HttpSend q \<Rightarrow> length (attempts h q) | _ \<Rightarrow> 0) + wire_total attempts (h @ [e]) es"

definition is_request :: "event \<Rightarrow> bool" where
  "is_request e \<longleftrightarrow> (\<exists>q. e = HttpSend q)"

lemma wire_total_le:
  assumes "obeys pcs_retry_policy attempts"
  shows "wire_total attempts h es \<le> 4 * length (filter is_request es)"
proof (induction es arbitrary: h)
  case (Cons e es)
  have "length (attempts h q) \<le> 4" for q
    using assms by (auto simp: obeys_def pcs_retry_policy_def numeral_eq_Suc)
  with Cons [of "h @ [e]"] show ?case
    by (cases e) (auto simp: is_request_def algebra_simps intro: add_mono order_trans le_SucI)
qed simp

lemma requests_of_calls: "length (filter is_request es) = length (filter is_request (calls es))"
  by (induction es) (auto simp: calls_def is_request_def)

lemma process_requests:
  assumes "process_platform_secret C env key ns s w = (r, w')"
  shows "length (filter is_request (new_events w w')) \<le> 2"
proof (cases "w' = w")
  case False
  then obtain data body es tail where es: "events w' = events w @ es"
    "calls es = GetSecret (pck_secret_name (secret_name s)) # tail"
    "registration_calls C key (secret_name s) ns body (registration_fingerprint (sha256 C) body) tail"
    using process_trace [OF assms] by blast
  have "length (filter is_request tail) \<le> 2"
  proof -
    consider "tail = []" | q t res k where "tail = take k [HttpSend q, HttpSend t,
        store_pck C (secret_name s) ns (registration_fingerprint (sha256 C) body) res,
        store_index C (secret_name s) (res_piid res)]"
      using registration_calls_prefix [OF es(3)] by blast
    then show ?thesis
    proof cases
      case (2 q t res k)
      have "length (filter is_request (take k xs)) \<le> length (filter is_request xs)" for xs :: "event list"
        by (metis append_take_drop_id filter_append le_add1 length_append)
      from this [of "[HttpSend q, HttpSend t,
          store_pck C (secret_name s) ns (registration_fingerprint (sha256 C) body) res,
          store_index C (secret_name s) (res_piid res)]"] 2
      show ?thesis by (simp add: is_request_def store_pck_def store_index_def)
    qed simp
  qed
  with es show ?thesis by (simp add: new_events_def requests_of_calls [of es] is_request_def)
qed (simp add: new_events_def)

text \<open>If reqwest keeps its promise, one reconciliation puts at most eight requests on the wire, and an
  attempt answered below 500, so a rate limit, a rejection or a redirect, is the last.\<close>

lemma wire_requests_bounded:
  assumes "process_platform_secret C env key ns s w = (r, w')" "obeys pcs_retry_policy attempts"
  shows "wire_total attempts (events w) (new_events w w') \<le> 8"
  using wire_total_le [OF assms(2), of "events w" "new_events w w'"] process_requests [OF assms(1)] by simp

lemma answer_is_last:
  assumes "obeys pcs_retry_policy attempts" "Some st \<in> set (butlast (attempts h q))"
  shows "500 \<le> st \<and> st < 600"
proof -
  have "classify_retryable pcs_retry_policy False (Some st)"
    using assms by (fastforce simp: obeys_def list_all_iff)
  then show ?thesis by (simp add: pcs_retry_policy_def pcs_retryable_def)
qed

text \<open>A client that tries everything it may: it is answered 503 until its last attempt.\<close>

lemma obeys_insistent: "obeys pcs_retry_policy (\<lambda>h q. [None, Some 503, Some 503, Some 503])"
  by (simp add: obeys_def pcs_retry_policy_def pcs_retryable_def)

end
