(* ===== verification/Recovery.thy ===== *)
theory Recovery
  imports RegistrarClaims
begin

text \<open>
  Liveness of the registrar (\<open>bin/pck-cert-tool/src/main.rs\<close>): a platform that was put off gets
  its certificates. The controller runtime calls \<open>process_platform_secret\<close> again when the delay
  it asked for is over; \<open>retried\<close> describes such a sequence of calls for one platform.
\<close>

text \<open>When the runtime calls again: after the delay of a requeue, or of the error policy.\<close>

definition next_delay :: "reconcile_error + action \<Rightarrow> duration option" where
  "next_delay r =
     (case (case r of Inl e \<Rightarrow> registration_error_policy e | Inr a \<Rightarrow> a) of
        AwaitChange \<Rightarrow> None
      | Requeue d \<Rightarrow> Some d)"

text \<open>Between two calls at least the delay passes; other calls may be logged, no pause is requested.\<close>

definition waited :: "env \<Rightarrow> duration \<Rightarrow> reg_world \<Rightarrow> reg_world \<Rightarrow> bool" where
  "waited env d w1 w2 \<longleftrightarrow> reg_pause w2 = reg_pause w1 \<and> (\<exists>es. events w2 = events w1 @ es)
     \<and> env_instant env (events w1) + d \<le> env_instant env (events w2)"

inductive retried ::
  "('c, 's, 'd) crates \<Rightarrow> env \<Rightarrow> str option \<Rightarrow> str \<Rightarrow> secret \<Rightarrow> reg_world
     \<Rightarrow> (reconcile_error + action) list \<Rightarrow> reg_world \<Rightarrow> bool"
  for C :: "('c, 's, 'd) crates" and env key ns s where
  once: "process_platform_secret C env key ns s w = (r, w') \<Longrightarrow> retried C env key ns s w [r] w'"
| again: "retried C env key ns s w rs w1 \<Longrightarrow> next_delay (last rs) = Some d \<Longrightarrow> waited env d w1 w2 \<Longrightarrow>
     process_platform_secret C env key ns s w2 = (r, w3) \<Longrightarrow> retried C env key ns s w (rs @ [r]) w3"

text \<open>From a history on, the API server answers reads and accepts writes, and Intel PCS answers with
  what passes the verification.\<close>

definition healthy :: "('c, 's, 'd) crates \<Rightarrow> env \<Rightarrow> str option \<Rightarrow> str \<Rightarrow> pck_certs_request \<Rightarrow> event list \<Rightarrow> bool" where
  "healthy C env key name body h \<longleftrightarrow> (\<forall>w :: reg_world. (\<exists>es. events w = h @ es) \<longrightarrow>
     is_ok (fst (request_pck_blob C env key body w))
     \<and> is_ok (fst (pck_secret_is_valid env (pck_secret_name name) (registration_fingerprint (sha256 C) body) w))
     \<and> (\<forall>n p d. env_apply_secret env (events w) n p d = Ok ()))"

text \<open>How a reconciliation that leaves the platform registered ends: the stored secret was found
  valid, or both secrets were written.\<close>

definition registered :: "('c, 's, 'd) crates \<Rightarrow> env \<Rightarrow> str \<Rightarrow> secret \<Rightarrow> pck_certs_request \<Rightarrow> reg_world \<Rightarrow> bool" where
  "registered C env ns s body w' \<longleftrightarrow>
     (\<exists>v. pck_secret_is_valid env (pck_secret_name (secret_name s))
        (registration_fingerprint (sha256 C) body) v = (Ok True, w'))
     \<or> (\<exists>pre res. authentic_result C body res \<and> events w' = pre @
          [store_pck C (secret_name s) ns (registration_fingerprint (sha256 C) body) res,
           store_index C (secret_name s) (res_piid res)])"

lemma healthyD:
  assumes "healthy C env key name body h" "events (w :: reg_world) = h @ es"
  shows "is_ok (fst (request_pck_blob C env key body w))"
    and "is_ok (fst (pck_secret_is_valid env (pck_secret_name name) (registration_fingerprint (sha256 C) body) w))"
    and "env_apply_secret env (events w) n p d = Ok ()"
  using assms unfolding healthy_def by blast+

lemma healthy_register:
  fixes w :: reg_world
  assumes "healthy C env key name body h" "events w = h @ es"
    and "register_platform C env key name ns body fp w = (r, w')"
  shows "r = Ok () \<and> (\<exists>pre res. authentic_result C body res
    \<and> events w' = pre @ [store_pck C name ns fp res, store_index C name (res_piid res)])"
  using assms(3)
proof (cases rule: register_platform_cases)
  case (failed e)
  with healthyD(1) [OF assms(1,2)] show ?thesis by simp
next
  case (first_write res w1 ke)
  obtain es1 where "events w1 = h @ es @ es1"
    using request_pck_blob_log [OF first_write(1)] assms(2) by (auto simp: adds_def)
  with healthyD(3) [OF assms(1) this] first_write(2) show ?thesis by simp
next
  case (both_writes res w1 w2)
  obtain es1 where 1: "events w1 = h @ es @ es1"
    using request_pck_blob_log [OF both_writes(1)] assms(2) by (auto simp: adds_def)
  have "events w2 = h @ (es @ es1) @ [store_pck C name ns fp res]"
    using both_writes(3) 1 by (simp add: store_pck_def)
  from healthyD(3) [OF assms(1) this] both_writes(4) have "r = Ok ()" by simp
  moreover have "authentic_result C body res"
    using request_pck_blob_verified [OF both_writes(1)] verified_authentic by blast
  moreover have "events w' = events w1 @ [store_pck C name ns fp res, store_index C name (res_piid res)]"
    using both_writes(3,5) by (simp add: store_pck_def store_index_def)
  ultimately show ?thesis by blast
qed

text \<open>One reconciliation in a healthy environment: done, or put off by the gate alone.\<close>

lemma healthy_run:
  assumes "process_platform_secret C env key ns s w = (r, w')"
    and "secret_data s = Some data" "prepare_registration (secret_name s) data = Ok body"
    and "healthy C env key (secret_name s) body (events w)"
  shows "(r = Ok AwaitChange \<and> registered C env ns s body w')
    \<or> (\<exists>d es. r = Ok (Requeue d) \<and> events w' = events w @ es @ [ReadInstant] \<and> reg_pause w' = reg_pause w
        \<and> remaining (reg_pause w) (env_instant env (events w @ es)) = Some d)"
  using assms(1)
proof (cases rule: process_cases)
  case (invalid e)
  with assms(2,3) show ?thesis by blast
next
  case (unreadable data' body' e)
  with assms(2,3) healthyD(2) [OF assms(4), of w "[]"] show ?thesis by simp
next
  case (still_valid data' body')
  with assms(2,3) show ?thesis by (auto simp: registered_def)
next
  case (paused data' body' w1 d)
  from pck_secret_is_valid_log [OF paused(3)] obtain es where "events w1 = events w @ es"
    by (auto simp: quiet_def adds_def)
  moreover have "reg_pause w1 = reg_pause w"
    using pck_secret_is_valid_log [OF paused(3)] by (rule same_pause)
  ultimately show ?thesis using paused(4-6) by auto
next
  case (attempted data' body' w1 r2 w2)
  have "body' = body" using attempted(1,2) assms(2,3) by simp
  from pck_secret_is_valid_log [OF attempted(3)] obtain es where "events w1 = events w @ es"
    by (auto simp: quiet_def adds_def)
  then have "events (log_event ReadInstant w1) = events w @ es @ [ReadInstant]" by simp
  from healthy_register [OF assms(4) this attempted(5) [unfolded \<open>body' = body\<close>]] attempted(6)
  show ?thesis by (auto simp: registered_def \<open>body' = body\<close>)
qed

lemma healthy_later: "healthy C env key name body h \<Longrightarrow> healthy C env key name body (h @ es)"
  by (simp add: healthy_def) blast

lemma remaining_None_later:
  "remaining g t = None \<Longrightarrow> t \<le> t' \<Longrightarrow> remaining g t' = None"
  by (auto simp: remaining_def split: option.splits if_splits)

lemma retried_healthy:
  assumes "retried C env key ns s w rs w'"
    and "secret_data s = Some data" "prepare_registration (secret_name s) data = Ok body"
    and "healthy C env key (secret_name s) body (events w)"
    and mono: "\<And>h es. env_instant env h \<le> env_instant env (h @ es)"
  shows "(rs = [Ok AwaitChange] \<and> registered C env ns s body w')
    \<or> (\<exists>d es. rs = [Ok (Requeue d)] \<and> events w' = events w @ es @ [ReadInstant] \<and> reg_pause w' = reg_pause w
        \<and> remaining (reg_pause w) (env_instant env (events w @ es)) = Some d)
    \<or> (\<exists>d. 0 < d \<and> rs = [Ok (Requeue d), Ok AwaitChange] \<and> registered C env ns s body w')"
  using assms(1-4)
proof (induction rule: retried.induct)
  case (once w r w')
  from healthy_run [OF once(1,2,3,4)] show ?case by auto
next
  case (again w rs w1 d w2 r w3)
  note ih = again.IH [OF again.prems]
  have "last rs \<noteq> Ok AwaitChange" using again.hyps(2) by (auto simp: next_delay_def)
  with ih obtain d' es where 1: "rs = [Ok (Requeue d')]" "events w1 = events w @ es @ [ReadInstant]"
    "reg_pause w1 = reg_pause w" "remaining (reg_pause w) (env_instant env (events w @ es)) = Some d'"
    by auto
  then have d: "d' = d" using again.hyps(2) by (simp add: next_delay_def)
  obtain es2 where 2: "reg_pause w2 = reg_pause w" "events w2 = events w @ es @ ReadInstant # es2"
    "env_instant env (events w1) + d \<le> env_instant env (events w2)"
    using again.hyps(3) 1(2,3) by (auto simp: waited_def)
  have pos: "0 < d" and open': "remaining (reg_pause w) (env_instant env (events w @ es) + d) = None"
    using gate.exact [OF 1(4)] d by auto
  have "healthy C env key (secret_name s) body (events w2)"
    using healthy_later [OF again.prems(3)] by (simp add: 2(2))
  from healthy_run [OF again.hyps(4) again.prems(1,2) this]
  show ?case
  proof
    assume "\<exists>d es. r = Ok (Requeue d) \<and> events w3 = events w2 @ es @ [ReadInstant] \<and> reg_pause w3 = reg_pause w2
        \<and> remaining (reg_pause w2) (env_instant env (events w2 @ es)) = Some d"
    then obtain d2 es3 where still: "remaining (reg_pause w) (env_instant env (events w2 @ es3)) = Some d2"
      using 2(1) by auto
    have "env_instant env (events w @ es) + d \<le> env_instant env (events w2 @ es3)"
      using mono [of "events w @ es" "[ReadInstant]"] mono [of "events w2" es3] 2(3) 1(2) by simp
    with remaining_None_later [OF open'] still show ?thesis by simp
  next
    assume "r = Ok AwaitChange \<and> registered C env ns s body w3"
    with 1(1) d pos show ?thesis by simp
  qed
qed

subsection \<open>A concrete recovery\<close>

text \<open>A clock that advances by a second with every logged call, and a gate closed for 70 seconds.\<close>

definition recovery_env :: env where
  "recovery_env = demo_env\<lparr>env_instant := (\<lambda>h. from_secs (length h))\<rparr>"

definition held_world :: reg_world where
  "held_world = demo_world\<lparr>reg_pause := \<lparr>until = Some (from_secs 70)\<rparr>\<rparr>"

lemma recovery_env_simps [simp]:
  "env_http_send recovery_env h q = Ok (demo_response q)"
  "env_system_time recovery_env h = Some 1700000000"
  "env_instant recovery_env h = from_secs (length h)"
  "env_apply_secret recovery_env h n p d = Ok ()"
  "env_get_secret recovery_env h n = Err (KubeApi 404 ''NotFound'' ''not found'')"
  by (simp_all add: recovery_env_def)

lemma recovery_valid:
  "pck_secret_is_valid recovery_env n fp w = (Ok False, log_event (GetSecret n) w)"
  by (simp add: pck_secret_is_valid_def match_fx_def get_secret_def)

lemma recovery_request:
  "request_pck_blob demo_crates recovery_env key demo_request w =
     (Ok demo_result, log_event ReadSystemTime (log_event (HttpSend demo_get) (log_event (HttpSend (demo_post key)) w)))"
  by (rule demo_request_run) simp_all

lemma recovery_healthy: "healthy demo_crates recovery_env key n demo_request h"
  by (simp add: healthy_def recovery_request recovery_valid is_ok_def)

lemma recovery_first_run:
  "process_platform_secret demo_crates recovery_env key ns demo_secret held_world =
     (Ok (Requeue (from_secs 69)), held_world\<lparr>events := [GetSecret (pck_secret_name demo_name), ReadInstant]\<rparr>)"
proof -
  obtain data where d: "secret_data demo_secret = Some data"
    "prepare_registration (secret_name demo_secret) data = Ok demo_request"
    using demo_prepare by blast
  show ?thesis
    unfolding process_run [OF d refl recovery_valid]
    by (simp add: held_world_def demo_world_def remaining_def from_secs_def log_event_def demo_secret_def)
qed

subsection \<open>Property\<close>

text \<open>C17: Recovery: from the moment the API server and Intel PCS answer as they should, a platform
  whose registration is retried as the reconciler asks needs at most two more runs, whatever was
  rate limited before. The first one leaves it registered, or is put off by the gate for
  exactly the time the gate stays closed; the run after that delay leaves it registered.\<close>

theorem registration_recovers:
  assumes "retried C env key ns s w rs w'"
    and "secret_data s = Some data" "prepare_registration (secret_name s) data = Ok body"
    and "healthy C env key (secret_name s) body (events w)"
    and "\<And>h es. env_instant env h \<le> env_instant env (h @ es)"
  shows "(rs = [Ok AwaitChange] \<and> registered C env ns s body w')
    \<or> (\<exists>d t. rs = [Ok (Requeue d)] \<and> remaining (reg_pause w) t = Some d \<and> env_instant env (events w) \<le> t)
    \<or> (\<exists>d. 0 < d \<and> rs = [Ok (Requeue d), Ok AwaitChange] \<and> registered C env ns s body w')"
  using retried_healthy [OF assms] assms(5) by blast

theorem registration_recovers_witness:
  "\<exists>w'. retried demo_crates recovery_env None ''ns'' demo_secret held_world
       [Ok (Requeue (from_secs 69)), Ok AwaitChange] w'
     \<and> registered demo_crates recovery_env ''ns'' demo_secret demo_request w'"
proof -
  obtain data where d: "secret_data demo_secret = Some data"
    "prepare_registration (secret_name demo_secret) data = Ok demo_request"
    using demo_prepare by blast
  let ?w1 = "held_world\<lparr>events := [GetSecret (pck_secret_name demo_name), ReadInstant]\<rparr>"
  let ?w2 = "?w1\<lparr>events := events ?w1 @ replicate 100 ReadInstant\<rparr>"
  obtain r w' where run: "process_platform_secret demo_crates recovery_env None ''ns'' demo_secret ?w2 = (r, w')"
    by fastforce
  have wait: "waited recovery_env (from_secs 69) ?w1 ?w2"
    by (simp add: waited_def from_secs_def)
  have "retried demo_crates recovery_env None ''ns'' demo_secret held_world [Ok (Requeue (from_secs 69))] ?w1"
    by (rule retried.once [OF recovery_first_run])
  from retried.again [OF this _ wait run]
  have two: "retried demo_crates recovery_env None ''ns'' demo_secret held_world [Ok (Requeue (from_secs 69)), r] w'"
    by (simp add: next_delay_def)
  have "env_instant recovery_env h \<le> env_instant recovery_env (h @ es)" for h es
    by (simp add: from_secs_def)
  from registration_recovers [OF two d recovery_healthy this] two show ?thesis by auto
qed

end
