(* ===== verification/Host.thy ===== *)
theory Host
  imports World
begin

text \<open>
  The local file system as the \<open>get-platforms\<close> and \<open>get-certificates\<close> commands of
  \<open>bin/pck-cert-tool/src/main.rs\<close> see it: file contents are state, failures come from the
  environment. Creating a file truncates it, and a failing write leaves a prefix of the data.
\<close>

record host = world +
  files :: "str \<rightharpoonup> bytes"

definition log_io :: "file_op \<Rightarrow> host \<Rightarrow> host" where
  "log_io op w = log_event (FileIo op) w"

lemma log_io_simps [simp]:
  "events (log_io op w) = events w @ [FileIo op]"
  "files (log_io op w) = files w"
  by (simp_all add: log_io_def log_event_def)

text \<open>An operation without an effect on file contents.\<close>

definition plain_io :: "env \<Rightarrow> file_op \<Rightarrow> (host, io_error, unit) fx" where
  "plain_io env op w =
     ((case env_io env (events w) op of Some e \<Rightarrow> Err e | None \<Rightarrow> Ok ()), log_io op w)"

definition path_exists :: "env \<Rightarrow> str \<Rightarrow> (host, 'e, bool) fx" where
  "path_exists env path w =
     (Ok (env_io env (events w) (PathExists path) = None), log_io (PathExists path) w)"

text \<open>Opening or reading a file that is not there gives \<open>NotFound\<close>.\<close>

definition open_file :: "env \<Rightarrow> str \<Rightarrow> (host, io_error, unit) fx" where
  "open_file env path w =
     ((case env_io env (events w) (OpenFile path) of
         Some e \<Rightarrow> Err e
       | None \<Rightarrow> if files w path = None then Err NotFound else Ok ()),
      log_io (OpenFile path) w)"

definition read_file :: "env \<Rightarrow> str \<Rightarrow> (host, io_error, bytes) fx" where
  "read_file env path w =
     ((case env_io env (events w) (ReadFile path) of
         Some e \<Rightarrow> Err e
       | None \<Rightarrow> ok_or (files w path) NotFound),
      log_io (ReadFile path) w)"

definition create_file :: "env \<Rightarrow> str \<Rightarrow> (host, io_error, unit) fx" where
  "create_file env path w =
     (case env_io env (events w) (CreateFile path) of
        Some e \<Rightarrow> (Err e, log_io (CreateFile path) w)
      | None \<Rightarrow> (Ok (), (log_io (CreateFile path) w)\<lparr>files := (files w)(path \<mapsto> [])\<rparr>))"

text \<open>\<open>write_all\<close> on a handle just created, so the file holds what was written so far.\<close>

definition written_so_far :: "host \<Rightarrow> str \<Rightarrow> bytes" where
  "written_so_far w path = (case files w path of None \<Rightarrow> [] | Some b \<Rightarrow> b)"

definition write_all :: "env \<Rightarrow> str \<Rightarrow> bytes \<Rightarrow> (host, io_error, unit) fx" where
  "write_all env path data w =
     (let op = WriteAll path data; old = written_so_far w path in
      case env_io env (events w) op of
        Some e \<Rightarrow> (Err e, (log_io op w)
          \<lparr>files := (files w)(path \<mapsto> old @ take (env_written env (events w) op) data)\<rparr>)
      | None \<Rightarrow> (Ok (), (log_io op w)\<lparr>files := (files w)(path \<mapsto> old @ data)\<rparr>))"

definition run_binary :: "env \<Rightarrow> str \<Rightarrow> (host, io_error, process_output) fx" where
  "run_binary env path w = (env_run env (events w) path, log_event (RunBinary path) w)"

text \<open>\<open>?\<close> on an \<open>io::Error\<close> makes it an \<open>anyhow::Error\<close>.\<close>

definition io_msg :: "io_error \<Rightarrow> error" where
  "io_msg e = (case e of NotFound \<Rightarrow> Msg ''entity not found'' | IoOther s \<Rightarrow> Msg s)"

text \<open>\<open>Path::join\<close>.\<close>

definition path_join :: "str \<Rightarrow> str \<Rightarrow> str" where
  "path_join dir file =
     (if file \<noteq> [] \<and> hd file = CHR ''/'' then file
      else if dir = [] \<or> last dir = CHR ''/'' then dir @ file
      else dir @ ''/'' @ file)"

lemmas host_ops = plain_io_def path_exists_def open_file_def read_file_def create_file_def
  write_all_def run_binary_def

text \<open>A successful creation followed by a write: the file holds exactly the data, or a prefix of
  it when the write fails.\<close>

definition replace_file :: "env \<Rightarrow> str \<Rightarrow> bytes \<Rightarrow> (host, io_error, unit) fx" where
  "replace_file env path data = bind_fx (create_file env path) (\<lambda>_. write_all env path data)"

lemma replace_file_run:
  assumes "replace_file env path data w = (r, w')"
  obtains (created_not) e where "r = Err e" "files w' = files w"
  | (partial) e n where "r = Err e" "files w' = (files w)(path \<mapsto> take n data)"
  | (replaced) "r = Ok ()" "files w' = (files w)(path \<mapsto> data)"
proof -
  from assms consider
      e where "r = Err e" "files w' = files w"
    | e n where "r = Err e" "files w' = (files w)(path \<mapsto> take n data)"
    | "r = Ok ()" "files w' = (files w)(path \<mapsto> data)"
    by (auto simp: replace_file_def bind_fx_def create_file_def write_all_def written_so_far_def Let_def
        split: option.splits)
  then show thesis using that by cases
qed

end
