(* ===== verification/IdFile.thy ===== *)
theory IdFile
  imports Host PlatformData
begin

text \<open>
  The ID handed from the \<open>get-platforms\<close> container to the \<open>get-certificates\<close> container of
  \<open>bin/pck-cert-tool/src/main.rs\<close>: \<open>write_id_file\<close>, \<open>get_id_from_file\<close> and
  \<open>resolve_id\<close>.
\<close>

definition ZERO_ID :: str where "ZERO_ID = ''00000000000000000000000000000000''"

text \<open>\<open>Path::parent\<close> is none for the empty path and for one whose only component is the root.\<close>

fun only_root :: "str \<Rightarrow> bool" where
  "only_root [] = True"
| "only_root (c # s) = (if c = CHR ''/'' then only_root s
     else c = CHR ''.'' \<and> (s = [] \<or> hd s = CHR ''/'') \<and> only_root s)"

definition has_parent :: "str \<Rightarrow> bool" where
  "has_parent path = (case path of [] \<Rightarrow> False | c # s \<Rightarrow> c \<noteq> CHR ''/'' \<or> \<not> only_root s)"

definition write_id_file :: "env \<Rightarrow> str \<Rightarrow> str \<Rightarrow> (host, error, unit) fx" where
  "write_id_file env path qid =
     bind_fx (if has_parent path
       then map_err_fx (\<lambda>e. Context (''Failed to create directory of: '' @ path) (io_msg e))
         (plain_io env (CreateParent path))
       else ret_fx ()) (\<lambda>_.
     map_err_fx (\<lambda>e. Context (''Failed to write ID file: '' @ path) (io_msg e))
       (replace_file env path (as_bytes qid)))"

text \<open>\<open>fs::read_to_string\<close>: the bytes must be valid UTF-8.\<close>

definition read_to_string :: "env \<Rightarrow> str \<Rightarrow> (host, io_error, str) fx" where
  "read_to_string env path =
     bind_fx (read_file env path) (\<lambda>b.
     lift_fx (from_utf8 (IoOther ''stream did not contain valid UTF-8'') b))"

definition get_id_from_file :: "env \<Rightarrow> str \<Rightarrow> (host, error, str) fx" where
  "get_id_from_file env path =
     bind_fx (map_err_fx (\<lambda>e. Context (''Failed to read ID file: '' @ path) (io_msg e))
       (read_to_string env path)) (\<lambda>contents.
     let qid = trim contents in
     if \<not> is_fixed_len_hex QE_ID_HEX_LEN qid
     then fail_fx (MsgStr ''ID file has invalid content: expected a 32-character hex string: '' qid)
     else ret_fx qid)"

definition resolve_id ::
  "env \<Rightarrow> str option \<Rightarrow> str option \<Rightarrow> (host, error, str \<times> str) fx" where
  "resolve_id env id_file literal_id =
     (case id_file of
        Some path \<Rightarrow> bind_fx (get_id_from_file env path) (\<lambda>qid. ret_fx (qid, qid))
      | None \<Rightarrow>
          bind_fx (lift_fx (ok_or literal_id (Msg ''one of --id-file or --id is required''))) (\<lambda>l.
          let qid = trim l in
          if qid = [] then fail_fx (Msg ''--id must not be empty'')
          else ret_fx (qid, ZERO_ID)))"

lemma write_id_file_Ok:
  assumes "write_id_file env path qid w = (Ok u, w')"
  shows "files w' = (files w)(path \<mapsto> as_bytes qid)"
proof -
  obtain w1 where "replace_file env path (as_bytes qid) w1 = (Ok u, w')" "files w1 = files w"
    using assms by (auto simp: write_id_file_def bind_fx_eq_Ok plain_io_def split: option.splits if_splits)
  then show ?thesis by (cases rule: replace_file_run) simp_all
qed

lemma write_id_file_works:
  assumes "\<And>h op. env_io env h op = None"
  shows "\<exists>w'. write_id_file env path qid w = (Ok (), w')"
  using assms
  by (cases "has_parent path")
    (simp_all add: write_id_file_def replace_file_def bind_fx_def map_err_fx_def host_ops ret_fx_def Let_def)

lemma get_id_from_file_Ok:
  "get_id_from_file env path w = (Ok qid, w') \<longleftrightarrow>
     (\<exists>s. env_io env (events w) (ReadFile path) = None \<and> files w path = Some (as_bytes s) \<and> str_ok s
        \<and> qid = trim s \<and> length qid = 32 \<and> all_hex qid \<and> w' = log_io (ReadFile path) w)"
  by (auto simp: get_id_from_file_def read_to_string_def bind_fx_eq_Ok read_file_def Let_def
      is_fixed_len_hex_iff QE_ID_HEX_LEN_def str_ok_def split: option.splits if_splits)

lemma ZERO_ID_hex: "length ZERO_ID = 32" "all_hex ZERO_ID"
  by (simp_all add: ZERO_ID_def hex_eval)

subsection \<open>Properties\<close>

text \<open>The ID file hands the QE ID over unchanged: what \<open>write_id_file\<close> stored is what
  \<open>resolve_id\<close> returns in the other container, as secret ID and as cache ID.\<close>

theorem id_file_roundtrip:
  assumes "length qid = 32" "all_hex qid"
    and "write_id_file env path qid w = (Ok u, w')"
    and "files v path = files w' path" "env_io env2 (events v) (ReadFile path) = None"
  shows "resolve_id env2 (Some path) literal v = (Ok (qid, qid), log_io (ReadFile path) v)"
proof -
  have "files v path = Some (as_bytes qid)" using write_id_file_Ok [OF assms(3)] assms(4) by simp
  then have "get_id_from_file env2 path v = (Ok qid, log_io (ReadFile path) v)"
    using assms(1,2,5) all_hex_str_ok trim_all_hex by (auto simp: get_id_from_file_Ok)
  then show ?thesis by (simp add: resolve_id_def bind_fx_def)
qed

definition quiet_env :: env where
  "quiet_env = \<lparr>
     env_get_secret = (\<lambda>h n. Err (KubeApi 404 ''NotFound'' ''not found'')),
     env_apply_secret = (\<lambda>h n p d. Ok ()),
     env_http_send = (\<lambda>h q. Err (Msg ''offline'')),
     env_system_time = (\<lambda>h. Some 1700000000),
     env_instant = (\<lambda>h. 0),
     env_io = (\<lambda>h op. None),
     env_written = (\<lambda>h op. 0),
     env_run = (\<lambda>h b. Err NotFound)\<rparr>"

theorem id_file_roundtrip_witness:
  "\<exists>w'. write_id_file quiet_env ''/shared/id'' ZERO_ID \<lparr>events = [], files = Map.empty\<rparr> = (Ok (), w')
     \<and> resolve_id quiet_env (Some ''/shared/id'') None w' =
         (Ok (ZERO_ID, ZERO_ID), log_io (ReadFile ''/shared/id'') w')"
proof -
  obtain w' where w: "write_id_file quiet_env ''/shared/id'' ZERO_ID \<lparr>events = [], files = Map.empty\<rparr> = (Ok (), w')"
    using write_id_file_works [of quiet_env] by (fastforce simp: quiet_env_def)
  have "env_io quiet_env (events w') (ReadFile ''/shared/id'') = None"
    by (simp add: quiet_env_def)
  from id_file_roundtrip [OF ZERO_ID_hex w refl this] w show ?thesis by blast
qed

text \<open>Whatever the ID source holds, the name of the cache file is safe: the cache ID is 32
  hexadecimal digits, so it is one path component of fixed length. It is the reserved all-zero
  ID for a literal, and the ID itself when it comes from a file.\<close>

theorem resolve_id_spec:
  assumes "resolve_id env id_file literal_id w = (Ok (qid, cache_id), w')"
  shows "length cache_id = 32 \<and> all_hex cache_id \<and> CHR ''/'' \<notin> set cache_id \<and> qid \<noteq> []
     \<and> (case id_file of Some _ \<Rightarrow> cache_id = qid
        | None \<Rightarrow> cache_id = ZERO_ID \<and> (\<exists>l. literal_id = Some l \<and> qid = trim l))"
proof -
  have cache: "length cache_id = 32 \<and> all_hex cache_id \<and> qid \<noteq> []
     \<and> (case id_file of Some _ \<Rightarrow> cache_id = qid
        | None \<Rightarrow> cache_id = ZERO_ID \<and> (\<exists>l. literal_id = Some l \<and> qid = trim l))"
  proof (cases id_file)
    case None
    with assms ZERO_ID_hex show ?thesis
      by (auto simp: resolve_id_def bind_fx_eq_Ok Let_def split: if_splits)
  next
    case (Some path)
    with assms obtain s where "qid = trim s" "length qid = 32" "all_hex qid" "cache_id = qid"
      by (auto simp: resolve_id_def bind_fx_eq_Ok get_id_from_file_Ok)
    with Some show ?thesis by auto
  qed
  have "CHR ''/'' \<notin> set cache_id"
  proof
    assume "CHR ''/'' \<in> set cache_id"
    then have "byte_of (CHR ''/'') \<in> set (as_bytes cache_id)" by (auto simp: as_bytes_def)
    moreover have "\<not> is_ascii_hexdigit (byte_of (CHR ''/''))" by (simp add: hex_eval)
    ultimately show False using cache by (auto simp: all_hex_def list_all_iff)
  qed
  with cache show ?thesis by blast
qed

theorem resolve_id_spec_witness:
  "\<exists>w'. resolve_id quiet_env None (Some ''node-1'') \<lparr>events = [], files = Map.empty\<rparr> = (Ok (''node-1'', ZERO_ID), w')
     \<and> length ZERO_ID = 32 \<and> all_hex ZERO_ID \<and> CHR ''/'' \<notin> set ZERO_ID"
proof -
  have "trim ''node-1'' = ''node-1''"
    unfolding trim_def by (subst trim_bytes_graphic) (simp_all add: as_bytes_def ascii_graphic_def of_bytes_def)
  then obtain w' where "resolve_id quiet_env None (Some ''node-1'') \<lparr>events = [], files = Map.empty\<rparr> = (Ok (''node-1'', ZERO_ID), w')"
    by (simp add: resolve_id_def bind_fx_def)
  with resolve_id_spec [OF this] show ?thesis by blast
qed

end
