(* ===== verification/CertWatcher.thy ===== *)
theory CertWatcher
  imports IdFile CacheBlob
begin

text \<open>
  The \<open>get-certificates\<close> command of \<open>bin/pck-cert-tool/src/main.rs\<close>: the watcher that
  copies the certificates of the secret \<open><id>-pck\<close> into the QPL cache file. What the watch
  stream and the signal handler deliver to the \<open>select!\<close> loop is a list of items in the
  order they are taken; a list that ends without a stop item is a watcher still waiting.
\<close>

datatype watch_item = Applied secret | WatchFailed | StreamEnded | Terminated

datatype watch_status = Watching | Stopped

definition cache_file :: "str \<Rightarrow> str \<Rightarrow> str" where
  "cache_file output_dir cache_id = path_join output_dir (cache_id @ ''_0000'')"

text \<open>\<open>flush\<close> on a file does nothing.\<close>

definition write_certificate_to_file ::
  "env \<Rightarrow> str \<Rightarrow> str \<Rightarrow> bytes \<Rightarrow> (host, error, unit) fx" where
  "write_certificate_to_file env cache_id output_dir cert_data =
     map_err_fx io_msg (replace_file env (cache_file output_dir cache_id) cert_data)"

definition write_certificate_from_secret ::
  "env \<Rightarrow> str \<Rightarrow> str \<Rightarrow> secret \<Rightarrow> (host, error, unit) fx" where
  "write_certificate_from_secret env cache_id output_dir s =
     (case secret_data s of
        None \<Rightarrow> ret_fx ()
      | Some data \<Rightarrow>
          (case data ''certificate'' of
             None \<Rightarrow> ret_fx ()
           | Some cert_data \<Rightarrow>
               (case parse_cache_blob cert_data of
                  Inl err \<Rightarrow> ret_fx ()
                | Inr _ \<Rightarrow> write_certificate_to_file env cache_id output_dir cert_data)))"

fun watch_loop ::
  "env \<Rightarrow> str \<Rightarrow> str \<Rightarrow> str option \<Rightarrow> watch_item list \<Rightarrow> (host, error, watch_status) fx" where
  "watch_loop env cache_id output_dir last_seen [] = ret_fx Watching"
| "watch_loop env cache_id output_dir last_seen (item # items) =
     (case item of
        Applied s \<Rightarrow>
          if resource_version s \<noteq> None \<and> resource_version s = last_seen
          then watch_loop env cache_id output_dir last_seen items
          else bind_fx (write_certificate_from_secret env cache_id output_dir s) (\<lambda>_.
            watch_loop env cache_id output_dir (resource_version s) items)
      | WatchFailed \<Rightarrow> watch_loop env cache_id output_dir last_seen items
      | StreamEnded \<Rightarrow> ret_fx Stopped
      | Terminated \<Rightarrow> ret_fx Stopped)"

text \<open>\<open>client\<close> and \<open>sigterm\<close> are the outcomes of creating the Kubernetes client and the
  signal handler.\<close>

definition watch_certificates ::
  "env \<Rightarrow> error + unit \<Rightarrow> error + unit \<Rightarrow> str \<Rightarrow> str \<Rightarrow> str \<Rightarrow> watch_item list
     \<Rightarrow> (host, error, watch_status) fx" where
  "watch_certificates env client sigterm ident cache_id output_dir items =
     (let name = ident @ ''-pck'' in
     bind_fx (path_exists env output_dir) (\<lambda>there.
     bind_fx (if there then ret_fx () else map_err_fx io_msg (plain_io env (CreateDirs output_dir))) (\<lambda>_.
     bind_fx (lift_fx client) (\<lambda>_.
     bind_fx (match_fx (get_secret env name)
       (\<lambda>e. ret_fx None)
       (\<lambda>s. bind_fx (write_certificate_from_secret env cache_id output_dir s) (\<lambda>_.
          ret_fx (resource_version s)))) (\<lambda>last_seen.
     bind_fx (lift_fx sigterm) (\<lambda>_.
     watch_loop env cache_id output_dir last_seen items))))))"

subsection \<open>Which certificate the file must hold\<close>

text \<open>The well-formed certificate of a secret, and the latest one of a series of secrets.\<close>

definition cert_of :: "secret \<Rightarrow> bytes option" where
  "cert_of s =
     (case secret_data s of
        None \<Rightarrow> None
      | Some data \<Rightarrow>
          (case data ''certificate'' of
             None \<Rightarrow> None
           | Some c \<Rightarrow> if is_ok (parse_cache_blob c) then Some c else None))"

definition newer :: "bytes option \<Rightarrow> secret \<Rightarrow> bytes option" where
  "newer old s = (case cert_of s of None \<Rightarrow> old | Some c \<Rightarrow> Some c)"

definition latest :: "bytes option \<Rightarrow> secret list \<Rightarrow> bytes option" where
  "latest old ss = foldl newer old ss"

lemma latest_simps [simp]:
  "latest old [] = old"
  "latest old (s # ss) = latest (newer old s) ss"
  by (simp_all add: latest_def)

text \<open>The secrets delivered before the loop stops.\<close>

fun delivered :: "watch_item list \<Rightarrow> secret list" where
  "delivered [] = []"
| "delivered (Applied s # items) = s # delivered items"
| "delivered (WatchFailed # items) = delivered items"
| "delivered (StreamEnded # items) = []"
| "delivered (Terminated # items) = []"

text \<open>Resource versions identify contents: the documented behaviour of the Kubernetes API.\<close>

definition versions_honest :: "secret list \<Rightarrow> bool" where
  "versions_honest ss \<longleftrightarrow>
     (\<forall>s \<in> set ss. \<forall>t \<in> set ss. resource_version s \<noteq> None
        \<longrightarrow> resource_version s = resource_version t \<longrightarrow> secret_data s = secret_data t)"

lemma versions_honestD:
  "versions_honest ss \<Longrightarrow> s \<in> set ss \<Longrightarrow> t \<in> set ss \<Longrightarrow> resource_version t \<noteq> None
     \<Longrightarrow> resource_version t = resource_version s \<Longrightarrow> secret_data s = secret_data t"
  unfolding versions_honest_def by metis

lemma cert_of_cong: "secret_data s = secret_data t \<Longrightarrow> cert_of s = cert_of t"
  by (simp add: cert_of_def)

lemma cert_of_blob: "cert_of s = Some c \<Longrightarrow> \<exists>b. blob_ok b \<and> c = blob_bytes b"
  by (auto simp: cert_of_def is_ok_iff parse_cache_blob_iff split: option.splits if_splits)

lemma write_certificate_run:
  "write_certificate_from_secret env cid dir s w =
     (case cert_of s of
        None \<Rightarrow> (Ok (), w)
      | Some c \<Rightarrow> map_err_fx io_msg (replace_file env (cache_file dir cid) c) w)"
  by (auto simp: write_certificate_from_secret_def write_certificate_to_file_def cert_of_def is_ok_iff
      split: option.splits sum.splits)

lemma write_certificate_Ok:
  assumes "write_certificate_from_secret env cid dir s w = (Ok u, w')"
  shows "files w' = (files w)(cache_file dir cid := newer (files w (cache_file dir cid)) s)"
proof (cases "cert_of s")
  case None
  with assms show ?thesis by (simp add: write_certificate_run newer_def)
next
  case (Some c)
  with assms have "replace_file env (cache_file dir cid) c w = (Ok u, w')"
    by (simp add: write_certificate_run)
  then show ?thesis by (cases rule: replace_file_run) (simp_all add: newer_def Some)
qed

lemma newer_twice: "cert_of s = cert_of t \<Longrightarrow> newer (newer old s) t = newer old s"
  by (auto simp: newer_def split: option.splits)

lemma watch_loop_files:
  assumes "watch_loop env cid dir last_seen items w = (Ok st, w')"
    and "versions_honest (delivered items)"
    and "\<And>s. s \<in> set (delivered items) \<Longrightarrow> resource_version s \<noteq> None \<Longrightarrow> resource_version s = last_seen
       \<Longrightarrow> newer (files w (cache_file dir cid)) s = files w (cache_file dir cid)"
  shows "files w' = (files w)(cache_file dir cid := latest (files w (cache_file dir cid)) (delivered items))"
  using assms
proof (induction items arbitrary: last_seen w)
  case Nil
  then show ?case by simp
next
  case (Cons item items)
  let ?p = "cache_file dir cid"
  show ?case
  proof (cases item)
    case (Applied s)
    have honest: "versions_honest (delivered items)"
      using Cons.prems(2) Applied unfolding versions_honest_def by (metis delivered.simps(2) list.set_intros(2))
    show ?thesis
    proof (cases "resource_version s \<noteq> None \<and> resource_version s = last_seen")
      case True
      have "newer (files w ?p) s = files w ?p"
        using Cons.prems(3) [of s] True Applied by auto
      moreover have "files w' = (files w)(?p := latest (files w ?p) (delivered items))"
      proof (rule Cons.IH [OF _ honest])
        show "watch_loop env cid dir last_seen items w = (Ok st, w')"
          using Cons.prems(1) True Applied by (auto split: if_splits)
        show "newer (files w ?p) t = files w ?p"
          if "t \<in> set (delivered items)" "resource_version t \<noteq> None" "resource_version t = last_seen" for t
          using Cons.prems(3) [of t] that Applied by simp
      qed
      ultimately show ?thesis using Applied by simp
    next
      case False
      then obtain u w1 where w1: "write_certificate_from_secret env cid dir s w = (Ok u, w1)"
        "watch_loop env cid dir (resource_version s) items w1 = (Ok st, w')"
        using Cons.prems(1) Applied by (auto simp: bind_fx_eq_Ok split: if_splits)
      have f1: "files w1 = (files w)(?p := newer (files w ?p) s)"
        using w1(1) by (rule write_certificate_Ok)
      have "files w' = (files w1)(?p := latest (files w1 ?p) (delivered items))"
      proof (rule Cons.IH [OF w1(2) honest])
        fix t assume t: "t \<in> set (delivered items)" "resource_version t \<noteq> None"
          "resource_version t = resource_version s"
        then have "secret_data s = secret_data t"
          using Applied by (intro versions_honestD [OF Cons.prems(2)]) simp_all
        then have "cert_of s = cert_of t" by (rule cert_of_cong)
        from newer_twice [OF this, of "files w ?p"] f1
        show "newer (files w1 ?p) t = files w1 ?p" by simp
      qed
      with f1 Applied show ?thesis by simp
    qed
  next
    case WatchFailed
    then show ?thesis using Cons.IH [of last_seen w] Cons.prems by simp
  qed (use Cons.prems in simp_all)
qed

text \<open>A run that gets past the directory: the secret as it stands is written first, then the loop runs.\<close>

lemma watch_certificates_starts:
  assumes "watch_certificates env client sigterm ident cache_id output_dir items w = (Ok st, w')"
    and "io = PathExists output_dir #
           (if env_io env (events w) (PathExists output_dir) = None then [] else [CreateDirs output_dir])"
  shows "\<exists>w1 ls w3. events w1 = events w @ map FileIo io \<and> files w1 = files w
    \<and> match_fx (get_secret env (ident @ ''-pck''))
       (\<lambda>e. ret_fx None)
       (\<lambda>s. bind_fx (write_certificate_from_secret env cache_id output_dir s) (\<lambda>_.
          ret_fx (resource_version s))) w1 = (Ok ls, w3)
    \<and> watch_loop env cache_id output_dir ls items w3 = (Ok st, w')"
proof (cases "env_io env (events w) (PathExists output_dir)")
  case None
  with assms show ?thesis
    by - (rule exI [of _ "log_io (PathExists output_dir) w"],
      auto simp: watch_certificates_def Let_def bind_fx_eq_Ok path_exists_def)
next
  case (Some e)
  with assms show ?thesis
    by - (rule exI [of _ "log_io (CreateDirs output_dir) (log_io (PathExists output_dir) w)"],
      auto simp: watch_certificates_def Let_def bind_fx_eq_Ok path_exists_def plain_io_def
        split: option.splits)
qed

lemma watch_certificates_files:
  assumes "watch_certificates env client sigterm ident cache_id output_dir items w = (Ok st, w')"
    and "initial = (case env_get_secret env (events w @ map FileIo io) (ident @ ''-pck'') of
           Inl _ \<Rightarrow> [] | Inr s \<Rightarrow> [s])"
    and "io = PathExists output_dir #
           (if env_io env (events w) (PathExists output_dir) = None then [] else [CreateDirs output_dir])"
    and "versions_honest (initial @ delivered items)"
  shows "files w' = (files w)(cache_file output_dir cache_id :=
    latest (files w (cache_file output_dir cache_id)) (initial @ delivered items))"
proof -
  let ?p = "cache_file output_dir cache_id"
  have honest: "versions_honest (delivered items)"
    using assms(4) by (auto simp: versions_honest_def)
  obtain w1 ls w3 where w1: "events w1 = events w @ map FileIo io" "files w1 = files w"
    and rest: "match_fx (get_secret env (ident @ ''-pck''))
       (\<lambda>e. ret_fx None)
       (\<lambda>s. bind_fx (write_certificate_from_secret env cache_id output_dir s) (\<lambda>_.
          ret_fx (resource_version s))) w1 = (Ok ls, w3)"
    "watch_loop env cache_id output_dir ls items w3 = (Ok st, w')"
    using watch_certificates_starts [OF assms(1,3)] by blast
  show ?thesis
  proof (cases "env_get_secret env (events w1) (ident @ ''-pck'')")
    case (Inl e)
    then have "watch_loop env cache_id output_dir None items
        (log_event (GetSecret (ident @ ''-pck'')) w1) = (Ok st, w')"
      using rest by (auto simp: match_fx_def get_secret_def)
    from watch_loop_files [OF this honest] show ?thesis
      using assms(2) Inl w1 by (simp add: log_event_def)
  next
    case (Inr s)
    then obtain u w2 where w2: "write_certificate_from_secret env cache_id output_dir s
        (log_event (GetSecret (ident @ ''-pck'')) w1) = (Ok u, w2)"
      "watch_loop env cache_id output_dir (resource_version s) items w2 = (Ok st, w')"
      using rest by (auto simp: bind_fx_eq_Ok match_fx_def get_secret_def)
    have f2: "files w2 = (files w)(?p := newer (files w ?p) s)"
      using write_certificate_Ok [OF w2(1)] w1(2) by (simp add: log_event_def)
    have init: "initial = [s]" using assms(2) Inr w1(1) by simp
    have "files w' = (files w2)(?p := latest (files w2 ?p) (delivered items))"
    proof (rule watch_loop_files [OF w2(2) honest])
      fix t assume t: "t \<in> set (delivered items)" "resource_version t \<noteq> None"
        "resource_version t = resource_version s"
      then have "secret_data s = secret_data t"
        using init by (intro versions_honestD [OF assms(4)]) simp_all
      then have "cert_of s = cert_of t" by (rule cert_of_cong)
      from newer_twice [OF this, of "files w ?p"] f2
      show "newer (files w2 ?p) t = files w2 ?p" by simp
    qed
    with f2 init show ?thesis by simp
  qed
qed

subsection \<open>Whatever happens, only the cache file changes\<close>

definition blob_prefix :: "bytes \<Rightarrow> bool" where
  "blob_prefix x \<longleftrightarrow> (\<exists>b n. blob_ok b \<and> x = take n (blob_bytes b))"

lemma blob_prefix_take: "blob_ok b \<Longrightarrow> blob_prefix (take n (blob_bytes b))"
  by (auto simp: blob_prefix_def)

lemma blob_prefix_whole: "blob_ok b \<Longrightarrow> blob_prefix (blob_bytes b)"
  using blob_prefix_take [of b "length (blob_bytes b)"] by simp

definition only_cache_file :: "str \<Rightarrow> host \<Rightarrow> host \<Rightarrow> bool" where
  "only_cache_file path s t \<longleftrightarrow>
     (\<forall>q. q \<noteq> path \<longrightarrow> files t q = files s q)
     \<and> (files t path = files s path
        \<or> (\<exists>x. files t path = Some x \<and> blob_prefix x))"

lemma only_cache_file_refl [simp]: "reflp (only_cache_file path)"
  by (simp add: reflp_def only_cache_file_def)

lemma only_cache_file_trans [simp]: "transp (only_cache_file path)"
  by (rule transpI) (auto simp: only_cache_file_def)

lemma only_cache_file_log: "files t = files s \<Longrightarrow> only_cache_file path s t"
  by (simp add: only_cache_file_def)

lemma keeps_write_certificate:
  "keeps (only_cache_file (cache_file dir cid)) (write_certificate_from_secret env cid dir s)"
proof (rule keepsI)
  fix w w' :: host and r :: "error + unit"
  assume run: "write_certificate_from_secret env cid dir s w = (r, w')"
  show "only_cache_file (cache_file dir cid) w w'"
  proof (cases "cert_of s")
    case None
    with run show ?thesis by (simp add: write_certificate_run only_cache_file_def)
  next
    case (Some c)
    then obtain b where b: "blob_ok b" "c = blob_bytes b" using cert_of_blob by blast
    obtain q where "replace_file env (cache_file dir cid) c w = (q, w')"
      using run Some by (auto simp: write_certificate_run map_err_fx_def split: prod.splits)
    then show ?thesis
      by (cases rule: replace_file_run)
        (use b blob_prefix_take blob_prefix_whole in \<open>simp_all add: only_cache_file_def\<close>)
  qed
qed

lemma keeps_watch_loop:
  "keeps (only_cache_file (cache_file dir cid)) (watch_loop env cid dir last_seen items)"
proof (induction items arbitrary: last_seen)
  case Nil
  show ?case unfolding watch_loop.simps by (rule keeps_pure) simp
next
  case (Cons item items)
  have stop: "keeps (only_cache_file (cache_file dir cid)) (Pair (Ok Stopped))"
    by (simp add: keeps_def only_cache_file_def)
  show ?case
    unfolding watch_loop.simps
    by (cases item) (use Cons stop in \<open>auto intro!: keeps_bind keeps_write_certificate\<close>)
qed

lemma keeps_watch_certificates:
  "keeps (only_cache_file (cache_file dir cid)) (watch_certificates env client sigterm ident cid dir items)"
proof -
  let ?R = "only_cache_file (cache_file dir cid)"
  have 1: "keeps ?R (path_exists env dir)"
    by (rule keepsI) (simp add: path_exists_def only_cache_file_log)
  have 2: "keeps ?R (plain_io env (CreateDirs dir))"
    by (rule keepsI) (auto simp: plain_io_def only_cache_file_log)
  have 3: "keeps ?R (get_secret env name)" for name
    by (rule keepsI) (auto simp: get_secret_def log_event_def only_cache_file_log)
  have 4: "keeps ?R (if there then ret_fx () else map_err_fx io_msg (plain_io env (CreateDirs dir)))" for there
    using 2 by (auto intro: keeps_map_err keeps_pure)
  show ?thesis
    unfolding watch_certificates_def Let_def
    by (intro keeps_bind keeps_match keeps_pure 1 3 4 keeps_write_certificate keeps_watch_loop
        only_cache_file_refl only_cache_file_trans)
qed

subsection \<open>Properties\<close>

text \<open>C28: The watcher writes nothing but its cache file, and whatever happens, failures of the
  file system included, that file is left as it was or holds (a prefix of) a well-formed QPL
  cache blob; malformed or missing certificates never reach it.\<close>

theorem watcher_writes_only_blobs:
  assumes "watch_certificates env client sigterm ident cache_id output_dir items w = (r, w')"
  shows "(\<forall>q. q \<noteq> cache_file output_dir cache_id \<longrightarrow> files w' q = files w q)
    \<and> (files w' (cache_file output_dir cache_id) = files w (cache_file output_dir cache_id)
       \<or> (\<exists>b n. blob_ok b \<and> files w' (cache_file output_dir cache_id) = Some (take n (blob_bytes b))))"
  using keepsD [OF keeps_watch_certificates assms] by (auto simp: only_cache_file_def blob_prefix_def)

definition demo_wblob :: cache_blob where
  "demo_wblob = \<lparr>blob_version = CACHE_VERSION, blob_flags = ucast SGX_QPL_CACHE_MULTICERTS,
     blob_expiration_time = 5, blob_cpu_svn = ''01'', blob_tcb_info = ''{}'',
     blob_cert_chain = ''c'', blob_pck_certs_json = ''[]''\<rparr>"

definition demo_wsecret :: "str \<Rightarrow> secret" where
  "demo_wsecret version = \<lparr>secret_name = ''n-pck'', annotations = None,
     secret_data = Some [''certificate'' \<mapsto> blob_bytes demo_wblob], resource_version = Some version\<rparr>"

definition demo_host :: host where
  "demo_host = \<lparr>events = [], files = Map.empty\<rparr>"

lemma demo_wblob_ok: "blob_ok demo_wblob"
  by (simp add: demo_wblob_def blob_ok_def field_ok_def str_ok_ascii)

lemma demo_cert_of: "cert_of (demo_wsecret v) = Some (blob_bytes demo_wblob)"
proof -
  have "parse_cache_blob (blob_bytes demo_wblob) = Ok demo_wblob"
    using demo_wblob_ok by (simp add: parse_cache_blob_iff)
  then show ?thesis by (simp add: cert_of_def demo_wsecret_def)
qed

definition demo_items :: "watch_item list" where
  "demo_items = [Applied (demo_wsecret ''1''), WatchFailed, Applied (demo_wsecret ''1''),
     Applied (demo_wsecret ''2''), Terminated]"

text \<open>Without file system errors nothing stops the watcher but the end of the stream or SIGTERM.\<close>

definition stops :: "watch_item list \<Rightarrow> bool" where
  "stops items \<longleftrightarrow> list_ex (\<lambda>i. i = StreamEnded \<or> i = Terminated) items"

lemma stops_simps [simp]:
  "\<not> stops []"
  "stops (i # items) \<longleftrightarrow> i = StreamEnded \<or> i = Terminated \<or> stops items"
  by (auto simp: stops_def)

lemma write_certificate_total:
  assumes "\<And>h op. env_io env h op = None"
  shows "\<exists>w'. write_certificate_from_secret env cid dir s w = (Ok (), w')"
  by (simp add: write_certificate_run replace_file_def bind_fx_def map_err_fx_def create_file_def
      write_all_def assms Let_def split: option.split)

lemma watch_loop_total:
  assumes "\<And>h op. env_io env h op = None"
  shows "\<exists>w'. watch_loop env cid dir last_seen items w =
    (Ok (if stops items then Stopped else Watching), w')"
proof (induction items arbitrary: last_seen w)
  case Nil
  then show ?case by simp
next
  case (Cons item items)
  show ?case
  proof (cases item)
    case (Applied s)
    obtain w1 where "write_certificate_from_secret env cid dir s w = (Ok (), w1)"
      using write_certificate_total [OF assms] by blast
    with Cons.IH [of last_seen w] Cons.IH [of "resource_version s" w1] Applied show ?thesis
      by (auto simp: bind_fx_def)
  qed (use Cons.IH [of last_seen w] in auto)
qed

lemma watch_certificates_total:
  assumes "\<And>h op. env_io env h op = None"
  shows "\<exists>w'. watch_certificates env (Ok ()) (Ok ()) ident cid dir items w =
    (Ok (if stops items then Stopped else Watching), w')"
proof -
  let ?w1 = "log_event (GetSecret (ident @ ''-pck'')) (log_io (PathExists dir) w)"
  show ?thesis
  proof (cases "env_get_secret env (events (log_io (PathExists dir) w)) (ident @ ''-pck'')")
    case (Inl e)
    then show ?thesis
      using watch_loop_total [OF assms, of cid dir None items ?w1]
      by (simp add: watch_certificates_def Let_def bind_fx_def path_exists_def assms match_fx_def
          get_secret_def)
  next
    case (Inr s)
    obtain w2 where "write_certificate_from_secret env cid dir s ?w1 = (Ok (), w2)"
      using write_certificate_total [OF assms] by blast
    with Inr show ?thesis
      using watch_loop_total [OF assms, of cid dir "resource_version s" items w2]
      by (simp add: watch_certificates_def Let_def bind_fx_def path_exists_def assms match_fx_def
          get_secret_def)
  qed
qed

lemma quiet_env_io: "env_io quiet_env h op = None"
  by (simp add: quiet_env_def)

lemma demo_watch:
  "\<exists>w'. watch_certificates quiet_env (Ok ()) (Ok ()) ''n'' ZERO_ID ''/cache'' demo_items demo_host
     = (Ok Stopped, w')"
  using watch_certificates_total [OF quiet_env_io, of "''n''" ZERO_ID "''/cache''" demo_items demo_host]
  by (simp add: demo_items_def)

theorem watcher_writes_only_blobs_witness:
  "\<exists>w'. watch_certificates quiet_env (Ok ()) (Ok ()) ''n'' ZERO_ID ''/cache'' demo_items demo_host
       = (Ok Stopped, w')
    \<and> (\<forall>q. q \<noteq> cache_file ''/cache'' ZERO_ID \<longrightarrow> files w' q = files demo_host q)"
  using demo_watch watcher_writes_only_blobs by blast

text \<open>C26: A watcher that has not failed is up to date: its cache file holds the latest
  well-formed certificate among the secret read at the start and every secret delivered since.
  Skipping repeated resource versions and ignoring malformed secrets never loses an update.\<close>

theorem watcher_up_to_date:
  assumes "watch_certificates env client sigterm ident cache_id output_dir items w = (Ok st, w')"
    and "initial = (case env_get_secret env (events w @ map FileIo io) (ident @ ''-pck'') of
           Inl _ \<Rightarrow> [] | Inr s \<Rightarrow> [s])"
    and "io = PathExists output_dir #
           (if env_io env (events w) (PathExists output_dir) = None then [] else [CreateDirs output_dir])"
    and "versions_honest (initial @ delivered items)"
  shows "files w' = (files w)(cache_file output_dir cache_id :=
    latest (files w (cache_file output_dir cache_id)) (initial @ delivered items))"
  using assms by (rule watch_certificates_files)

theorem watcher_up_to_date_witness:
  "\<exists>w'. watch_certificates quiet_env (Ok ()) (Ok ()) ''n'' ZERO_ID ''/cache'' demo_items demo_host
       = (Ok Stopped, w')
     \<and> files w' (cache_file ''/cache'' ZERO_ID) = Some (blob_bytes demo_wblob)"
proof -
  obtain w' where run: "watch_certificates quiet_env (Ok ()) (Ok ()) ''n'' ZERO_ID ''/cache'' demo_items
      demo_host = (Ok Stopped, w')"
    using demo_watch by blast
  have init: "[] = (case env_get_secret quiet_env (events demo_host @ map FileIo [PathExists ''/cache''])
      (''n'' @ ''-pck'') of Inl _ \<Rightarrow> [] | Inr s \<Rightarrow> [s])"
    by (simp add: quiet_env_def)
  have io: "[PathExists ''/cache''] = PathExists ''/cache'' #
      (if env_io quiet_env (events demo_host) (PathExists ''/cache'') = None then [] else [CreateDirs ''/cache''])"
    by (simp add: quiet_env_def)
  have honest: "versions_honest ([] @ delivered demo_items)"
    by (simp add: versions_honest_def demo_items_def demo_wsecret_def)
  show ?thesis
    using run watcher_up_to_date [OF run init io honest]
    by (simp add: demo_items_def newer_def demo_cert_of)
qed

text \<open>Without file system errors the watcher cannot fail: whatever the API serves, malformed
  secrets, repeated versions and watch errors included, it keeps watching until the stream
  ends or SIGTERM arrives.\<close>

theorem watcher_keeps_watching:
  assumes "\<And>h op. env_io env h op = None"
  shows "\<exists>w'. watch_certificates env (Ok ()) (Ok ()) ident cache_id output_dir items w =
    (Ok (if list_ex (\<lambda>i. i = StreamEnded \<or> i = Terminated) items then Stopped else Watching), w')"
  using watch_certificates_total [OF assms] by (simp add: stops_def)

theorem watcher_keeps_watching_witness:
  "\<exists>w'. watch_certificates quiet_env (Ok ()) (Ok ()) ''n'' ZERO_ID ''/cache'' [WatchFailed] demo_host
     = (Ok Watching, w')"
  using watcher_keeps_watching [OF quiet_env_io, of "''n''" ZERO_ID "''/cache''" "[WatchFailed]" demo_host]
  by simp

text \<open>C38: The cache file is replaced in place: when writing a new blob fails after the file was
  created, the previous contents are gone and what is left, any strict prefix the file system
  kept, is not a blob the QPL format accepts.\<close>

theorem failed_write_loses_cache:
  assumes "blob_ok b" "n < length (blob_bytes b)"
    and "env_io env (events w) (CreateFile (cache_file output_dir cache_id)) = None"
    and "env_io env (events w @ [FileIo (CreateFile (cache_file output_dir cache_id))])
       (WriteAll (cache_file output_dir cache_id) (blob_bytes b)) = Some e"
    and "env_written env (events w @ [FileIo (CreateFile (cache_file output_dir cache_id))])
       (WriteAll (cache_file output_dir cache_id) (blob_bytes b)) = n"
  shows "\<exists>w' x. write_certificate_to_file env cache_id output_dir (blob_bytes b) w = (Err (io_msg e), w')
     \<and> files w' (cache_file output_dir cache_id) = Some x \<and> \<not> is_ok (parse_cache_blob x)"
proof -
  let ?x = "take n (blob_bytes b)"
  have "\<not> is_ok (parse_cache_blob ?x)"
  proof
    assume "is_ok (parse_cache_blob ?x)"
    then obtain c where c: "blob_ok c" "?x = blob_bytes c"
      by (auto simp: is_ok_iff parse_cache_blob_iff)
    have "blob_bytes c @ drop n (blob_bytes b) = blob_bytes b" by (simp flip: c(2))
    from blob_bytes_prefix_free [OF c(1) assms(1) this] assms(2) show False by simp
  qed
  then show ?thesis
    using assms(3-5)
    by (simp add: write_certificate_to_file_def replace_file_def bind_fx_def map_err_fx_def create_file_def
        write_all_def written_so_far_def Let_def)
qed

definition full_disk_env :: env where
  "full_disk_env = quiet_env\<lparr>
     env_io := (\<lambda>h op. case op of WriteAll p d \<Rightarrow> Some (IoOther ''No space left on device'') | _ \<Rightarrow> None)\<rparr>"

theorem failed_write_loses_cache_witness:
  "\<exists>w' x. write_certificate_to_file full_disk_env ZERO_ID ''/cache'' (blob_bytes demo_wblob) demo_host =
       (Err (io_msg (IoOther ''No space left on device'')), w')
     \<and> files w' (cache_file ''/cache'' ZERO_ID) = Some x \<and> \<not> is_ok (parse_cache_blob x)"
proof (rule failed_write_loses_cache [OF demo_wblob_ok])
  show "0 < length (blob_bytes demo_wblob)" by (simp add: blob_bytes_def)
qed (simp_all add: full_disk_env_def quiet_env_def)

end
