(* ===== verification/Platforms.thy ===== *)
theory Platforms
  imports IdFile
begin

text \<open>
  The \<open>get-platforms\<close> command of \<open>bin/pck-cert-tool/src/main.rs\<close>: platform information
  from the external binary, the platform manifest from its EFI variable, and the
  platform-data secret the registrar reads. \<open>serde_json::from_str\<close> is the argument
  \<open>from_json\<close>; the outcome of creating the Kubernetes client is the argument \<open>client\<close>.
\<close>

subsection \<open>Lossy decoding\<close>

text \<open>\<open>String::from_utf8_lossy\<close>: an ill-formed sequence, up to its longest valid prefix, becomes
  U+FFFD.\<close>

definition second_ok :: "bytes \<Rightarrow> bool" where
  "second_ok bs \<longleftrightarrow>
     byte_in 0xE0 0xE0 bs 0 \<and> byte_in 0xA0 0xBF bs 1
     \<or> byte_in 0xE1 0xEC bs 0 \<and> byte_in 0x80 0xBF bs 1
     \<or> byte_in 0xED 0xED bs 0 \<and> byte_in 0x80 0x9F bs 1
     \<or> byte_in 0xEE 0xEF bs 0 \<and> byte_in 0x80 0xBF bs 1
     \<or> byte_in 0xF0 0xF0 bs 0 \<and> byte_in 0x90 0xBF bs 1
     \<or> byte_in 0xF1 0xF3 bs 0 \<and> byte_in 0x80 0xBF bs 1
     \<or> byte_in 0xF4 0xF4 bs 0 \<and> byte_in 0x80 0x8F bs 1"

definition invalid_width :: "bytes \<Rightarrow> nat" where
  "invalid_width bs =
     (if \<not> second_ok bs then 1
      else if byte_in 0xF0 0xF4 bs 0 \<and> byte_in 0x80 0xBF bs 2 then 3 else 2)"

lemma invalid_width_pos [simp]: "0 < invalid_width bs"
  by (simp add: invalid_width_def)

function lossy_bytes :: "bytes \<Rightarrow> bytes" where
  "lossy_bytes bs =
     (if bs = [] then []
      else if utf8_width bs = 0 then [0xEF, 0xBF, 0xBD] @ lossy_bytes (drop (invalid_width bs) bs)
      else take (utf8_width bs) bs @ lossy_bytes (drop (utf8_width bs) bs))"
  by pat_completeness auto
termination
  by (relation "measure length") auto

declare lossy_bytes.simps [simp del]

definition from_utf8_lossy :: "bytes \<Rightarrow> str" where
  "from_utf8_lossy bs = of_bytes (lossy_bytes bs)"

lemma lossy_bytes_valid: "utf8_valid bs \<Longrightarrow> lossy_bytes bs = bs"
proof (induction bs rule: lossy_bytes.induct)
  case (1 bs)
  show ?case
  proof (cases "bs = []")
    case True
    then show ?thesis by (subst lossy_bytes.simps) simp
  next
    case False
    with 1(3) have "utf8_width bs \<noteq> 0" "utf8_valid (drop (utf8_width bs) bs)"
      using utf8_valid.simps [of bs] by (auto split: if_splits)
    with 1(2) False show ?thesis by (subst lossy_bytes.simps) simp
  qed
qed

lemma from_utf8_lossy_as_bytes: "str_ok s \<Longrightarrow> from_utf8_lossy (as_bytes s) = s"
  by (simp add: from_utf8_lossy_def str_ok_def lossy_bytes_valid)

subsection \<open>Platform information\<close>

definition copy_fixed_hex_field :: "nat \<Rightarrow> str \<Rightarrow> str \<Rightarrow> error + bytes" where
  "copy_fixed_hex_field N val field =
     (if \<not> is_fixed_len_hex N val
      then Err (MsgStr (field @ '' is invalid: expected a hex string of fixed length, got '') val)
      else Ok (as_bytes val))"

definition json_str_field :: "json \<Rightarrow> str \<Rightarrow> error + str" where
  "json_str_field js field =
     ok_or (Option.bind (json_get field js) json_as_str)
       (MsgStr ''Missing or invalid field in JSON output: '' field)"

definition platform_fields :: "json \<Rightarrow> error + (bytes \<times> bytes \<times> bytes \<times> bytes)" where
  "platform_fields js =
     bind_res (json_str_field js ''cpu_svn'') (\<lambda>cpu_svn_str.
     bind_res (json_str_field js ''pce_id'') (\<lambda>pce_id_str.
     bind_res (json_str_field js ''pce_svn'') (\<lambda>pce_svn_str.
     bind_res (json_str_field js ''qe_id'') (\<lambda>qe_id_str.
     bind_res (copy_fixed_hex_field 32 cpu_svn_str ''cpu_svn'') (\<lambda>cpu_svn.
     bind_res (copy_fixed_hex_field 4 pce_id_str ''pce_id'') (\<lambda>pce_id.
     bind_res (copy_fixed_hex_field 4 pce_svn_str ''pce_svn'') (\<lambda>pce_svn.
     bind_res (copy_fixed_hex_field 32 qe_id_str ''qe_id'') (\<lambda>qe_id.
     Ok (cpu_svn, pce_id, pce_svn, qe_id)))))))))"

definition get_platform_info ::
  "env \<Rightarrow> (str \<Rightarrow> json option) \<Rightarrow> str \<Rightarrow> (host, error, bytes \<times> bytes \<times> bytes \<times> bytes) fx" where
  "get_platform_info env from_json binary_path =
     bind_fx (map_err_fx (\<lambda>e. Context ''Failed to execute platform info binary'' (io_msg e))
       (run_binary env binary_path)) (\<lambda>output.
     if \<not> out_success output
     then fail_fx (MsgStr ''Platform info binary failed: '' (from_utf8_lossy (out_stderr output)))
     else
     let json_output = trim (from_utf8_lossy (out_stdout output)) in
     if json_output = [] then fail_fx (Msg ''Platform info binary returned empty output'')
     else
     bind_fx (lift_fx (ok_or (from_json json_output)
       (Msg ''Failed to parse platform info JSON output''))) (\<lambda>js.
     lift_fx (platform_fields js)))"

subsection \<open>The platform manifest\<close>

definition SGX_PLATFORM_MANIFEST_EFI_VAR :: str where
  "SGX_PLATFORM_MANIFEST_EFI_VAR =
     ''SgxRegistrationServerRequest-304e0796-d515-4698-ac6e-e76cb1a71c28''"

text \<open>The two reads, of the header and of the rest, see the same file contents.\<close>

definition get_platform_manifest :: "env \<Rightarrow> str \<Rightarrow> (host, error, str option) fx" where
  "get_platform_manifest env efivars_dir =
     (let path = path_join efivars_dir SGX_PLATFORM_MANIFEST_EFI_VAR in
     match_fx (open_file env path)
       (\<lambda>e. if e = NotFound then ret_fx None
            else fail_fx (Context (''Failed to open EFI variable '' @ path) (io_msg e)))
       (\<lambda>_.
     bind_fx (map_err_fx (\<lambda>e. Context ''EFI variable file too short to contain header'' (io_msg e))
       (read_file env path)) (\<lambda>contents.
     if length contents < 8
     then fail_fx (Context ''EFI variable file too short to contain header''
       (Msg ''failed to fill whole buffer''))
     else
     let declared_size = unat (le_decode [contents ! 6, contents ! 7] :: u16) in
     bind_fx (map_err_fx (\<lambda>e. Context ''Failed to read EFI variable structure data'' (io_msg e))
       (read_file env path)) (\<lambda>contents.
     let structure_data = drop 8 contents in
     if length structure_data \<noteq> declared_size
     then fail_fx (MsgNat ''Platform manifest size mismatch: file has '' (length structure_data))
     else ret_fx (Some (hex_string structure_data))))))"

subsection \<open>The platform-data secret\<close>

definition LABEL_NODE :: str where "LABEL_NODE = ''trustedservices.intel.com/node''"

definition validate_label_value :: "str \<Rightarrow> error + unit" where
  "validate_label_value val =
     (let b = as_bytes val;
          valid_chars = list_all (\<lambda>c. is_ascii_alphanumeric c \<or> c \<in> {45, 95, 46}) b;
          alnum_ends = b \<noteq> [] \<and> is_ascii_alphanumeric (hd b) \<and> is_ascii_alphanumeric (last b)
      in if 63 < length val \<or> \<not> valid_chars \<or> \<not> alnum_ends
         then Err (MsgStr ''not a valid label value: '' val)
         else Ok ())"

text \<open>\<open>v[k1][k2][k3] = x\<close>.\<close>

definition json_set3 :: "str \<Rightarrow> str \<Rightarrow> str \<Rightarrow> json \<Rightarrow> json \<Rightarrow> json" where
  "json_set3 k1 k2 k3 x v =
     (case json_get k1 v of None \<Rightarrow> v | Some u \<Rightarrow> json_set k1 (json_set2 k2 k3 x u) v)"

definition platform_doc ::
  "str \<Rightarrow> str \<Rightarrow> str \<Rightarrow> str \<Rightarrow> str \<Rightarrow> str option \<Rightarrow> str option \<Rightarrow> json" where
  "platform_doc namespace qe_id_str pce_id_str cpu_svn_str pce_svn_str manifest node_name =
     (let doc = JObj [(''apiVersion'', JStr ''v1''), (''kind'', JStr ''Secret''),
            (''metadata'', JObj [(''name'', JStr qe_id_str), (''namespace'', JStr namespace),
               (''labels'', JObj [(''type'', JStr ''platform-data'')])]),
            (''type'', JStr ''Opaque''),
            (''stringData'', JObj [(''enc_ppid'', JStr []), (''pce_id'', JStr pce_id_str),
               (''cpu_svn'', JStr cpu_svn_str), (''pce_svn'', JStr pce_svn_str), (''qe_id'', JStr qe_id_str)])];
          doc = (case manifest of None \<Rightarrow> doc
            | Some m \<Rightarrow> json_set2 ''stringData'' ''platform_manifest'' (JStr m) doc)
      in case node_name of None \<Rightarrow> doc
         | Some node \<Rightarrow> json_set3 ''metadata'' ''labels'' LABEL_NODE (JStr node) doc)"

definition create_secret ::
  "env \<Rightarrow> (str \<Rightarrow> json option) \<Rightarrow> error + unit \<Rightarrow> str \<Rightarrow> str option \<Rightarrow> str \<Rightarrow> str \<Rightarrow> str option
     \<Rightarrow> (host, error, unit) fx" where
  "create_secret env from_json client platform_info_binary id_file namespace efivars_dir node_name =
     bind_fx (lift_fx (case node_name of None \<Rightarrow> Ok ()
       | Some node \<Rightarrow> with_context ''Invalid node name'' (validate_label_value node))) (\<lambda>_.
     bind_fx (get_platform_info env from_json platform_info_binary) (\<lambda>(cpu_svn, pce_id, pce_svn, qe_id).
     bind_fx (lift_fx (from_utf8 (Msg ''Invalid UTF-8 in qe_id'') qe_id)) (\<lambda>qe_id_str.
     bind_fx (case id_file of None \<Rightarrow> ret_fx () | Some path \<Rightarrow> write_id_file env path qe_id_str) (\<lambda>_.
     bind_fx (lift_fx (from_utf8 (Msg ''Invalid UTF-8 in pce_id'') pce_id)) (\<lambda>pce_id_str.
     bind_fx (lift_fx (from_utf8 (Msg ''Invalid UTF-8 in cpu_svn'') cpu_svn)) (\<lambda>cpu_svn_str.
     bind_fx (lift_fx (from_utf8 (Msg ''Invalid UTF-8 in pce_svn'') pce_svn)) (\<lambda>pce_svn_str.
     bind_fx (get_platform_manifest env efivars_dir) (\<lambda>platform_manifest.
     bind_fx (lift_fx client) (\<lambda>_.
     apply_secret env qe_id_str (apply_force FIELD_MANAGER)
       (platform_doc namespace qe_id_str pce_id_str cpu_svn_str pce_svn_str
         platform_manifest node_name))))))))))"

subsection \<open>Lemmas\<close>

lemma copy_fixed_hex_field_Ok:
  "copy_fixed_hex_field N val field = Ok b \<longleftrightarrow> length val = N \<and> all_hex val \<and> b = as_bytes val"
  by (auto simp: copy_fixed_hex_field_def is_fixed_len_hex_iff)

lemma platform_fields_Ok:
  "platform_fields js = Ok (a, b, c, d) \<longleftrightarrow>
     (\<exists>cs pi ps qi. json_get ''cpu_svn'' js = Some (JStr cs) \<and> json_get ''pce_id'' js = Some (JStr pi)
        \<and> json_get ''pce_svn'' js = Some (JStr ps) \<and> json_get ''qe_id'' js = Some (JStr qi)
        \<and> length cs = 32 \<and> all_hex cs \<and> length pi = 4 \<and> all_hex pi
        \<and> length ps = 4 \<and> all_hex ps \<and> length qi = 32 \<and> all_hex qi
        \<and> a = as_bytes cs \<and> b = as_bytes pi \<and> c = as_bytes ps \<and> d = as_bytes qi)"
proof -
  have str: "json_str_field js f = Ok s \<longleftrightarrow> json_get f js = Some (JStr s)" for f s
  proof -
    have "json_as_str v = Some s \<longleftrightarrow> v = JStr s" for v by (cases v) auto
    then show ?thesis by (auto simp: json_str_field_def Option.bind_eq_Some_conv)
  qed
  show ?thesis
    by (auto simp: platform_fields_def bind_res_eq_Ok str copy_fixed_hex_field_Ok)
qed

lemma get_platform_info_Ok:
  assumes "get_platform_info env from_json binary w = (Ok (a, b, c, d), w')"
  shows "w' = log_event (RunBinary binary) w
    \<and> (\<exists>output js. env_run env (events w) binary = Ok output \<and> out_success output
       \<and> from_json (trim (from_utf8_lossy (out_stdout output))) = Some js
       \<and> platform_fields js = Ok (a, b, c, d))"
  using assms
  by (auto simp: get_platform_info_def bind_fx_eq_Ok run_binary_def Let_def split: if_splits)

lemma le_decode_pair: "le_decode [x, y] = (s :: u16) \<longleftrightarrow> le_encode 2 s = [x, y]"
proof
  assume "le_decode [x, y] = s"
  then show "le_encode 2 s = [x, y]"
    using le_encode_decode [of "[x, y]", where 'a = 16] by (simp add: numeral_2_eq_2)
next
  assume e: "le_encode 2 s = [x, y]"
  have "le_decode (le_encode 2 s) = s" by (simp add: le_decode_encode del: le_encode.simps)
  then show "le_decode [x, y] = s" by (simp only: e)
qed

lemma split_header:
  assumes "8 \<le> length contents"
  obtains attrs x y rest where "contents = attrs @ x # y # rest" "length attrs = 6"
proof -
  have "2 \<le> length (drop 6 contents)" using assms by simp
  then obtain x y rest where "drop 6 contents = x # y # rest"
    by (cases "drop 6 contents"; cases "tl (drop 6 contents)") auto
  then have "contents = take 6 contents @ x # y # rest" by (metis append_take_drop_id)
  with that [of "take 6 contents"] assms show thesis by simp
qed

lemma efi_layout:
  "length rest = unat (le_decode [x, y] :: u16) \<longleftrightarrow>
     length rest < 2 ^ 16 \<and> [x, y] = le_encode 2 (word_of_nat (length rest) :: u16)"
proof
  assume l: "length rest = unat (le_decode [x, y] :: u16)"
  have "unat (le_decode [x, y] :: u16) < 2 ^ 16" using unsigned_less [of "le_decode [x, y] :: u16"] by simp
  moreover have "word_of_nat (length rest) = (le_decode [x, y] :: u16)" unfolding l by simp
  then have "le_encode 2 (word_of_nat (length rest) :: u16) = [x, y]"
    using le_decode_pair [of x y "word_of_nat (length rest)"] by simp
  ultimately show "length rest < 2 ^ 16 \<and> [x, y] = le_encode 2 (word_of_nat (length rest) :: u16)"
    using l by simp
next
  assume r: "length rest < 2 ^ 16 \<and> [x, y] = le_encode 2 (word_of_nat (length rest) :: u16)"
  then have "le_decode [x, y] = (word_of_nat (length rest) :: u16)"
    unfolding le_decode_pair by (elim conjE) (rule sym)
  with r show "length rest = unat (le_decode [x, y] :: u16)" by (simp only: unat_of_nat) simp
qed

subsection \<open>Properties\<close>

text \<open>C40: The platform manifest is read exactly from well-formed EFI variables: six bytes of
  attributes and version, the little-endian 16-bit size, and data of exactly that size; the
  manifest is its lower-case hexadecimal form.\<close>

theorem platform_manifest_spec:
  assumes "\<And>h op. env_io env h op = None"
    and "path = path_join efivars_dir SGX_PLATFORM_MANIFEST_EFI_VAR"
  shows "(\<exists>w'. get_platform_manifest env efivars_dir w = (Ok (Some m), w')) \<longleftrightarrow>
     (\<exists>attrs data. files w path = Some (attrs @ le_encode 2 (word_of_nat (length data) :: u16) @ data)
        \<and> length attrs = 6 \<and> length data < 2 ^ 16 \<and> m = hex_string data)"
    (is "?l \<longleftrightarrow> ?r")
proof (cases "files w path")
  case None
  then show ?thesis
    using assms by (auto simp: get_platform_manifest_def match_fx_def open_file_def Let_def)
next
  case (Some contents)
  have l: "?l \<longleftrightarrow> 8 \<le> length contents
     \<and> length (drop 8 contents) = unat (le_decode [contents ! 6, contents ! 7] :: u16)
     \<and> m = hex_string (drop 8 contents)"
    using assms Some
    by (auto simp: get_platform_manifest_def match_fx_def open_file_def Let_def bind_fx_def
        map_err_fx_def read_file_def simp del: le_decode.simps)
  show ?thesis
  proof (cases "8 \<le> length contents")
    case True
    then obtain attrs x y rest where c: "contents = attrs @ x # y # rest" "length attrs = 6"
      by (rule split_header)
    have n: "contents ! 6 = x" "contents ! 7 = y" "drop 8 contents = rest"
      using c by (simp_all add: nth_append)
    have "?l \<longleftrightarrow> length rest < 2 ^ 16 \<and> [x, y] = le_encode 2 (word_of_nat (length rest) :: u16)
        \<and> m = hex_string rest"
      using l True unfolding n efi_layout by simp
    also have "\<dots> \<longleftrightarrow> ?r"
    proof
      assume a: "length rest < 2 ^ 16 \<and> [x, y] = le_encode 2 (word_of_nat (length rest) :: u16)
        \<and> m = hex_string rest"
      then have "contents = attrs @ le_encode 2 (word_of_nat (length rest) :: u16) @ rest"
        using c(1) by (metis append_Cons append_Nil)
      with a c(2) Some show ?r by blast
    next
      assume ?r
      then obtain attrs' data where d: "contents = attrs' @ le_encode 2 (word_of_nat (length data) :: u16) @ data"
        "length attrs' = 6" "length data < 2 ^ 16" "m = hex_string data"
        using Some by auto
      have "attrs' = attrs \<and> le_encode 2 (word_of_nat (length data) :: u16) @ data = [x, y] @ rest"
        using c d(1,2) by (simp del: le_encode.simps)
      moreover from this have "le_encode 2 (word_of_nat (length data) :: u16) = [x, y] \<and> data = rest"
        using length_le_encode [of 2 "word_of_nat (length data) :: u16"]
        by (intro append_eq_append_conv [THEN iffD1]) simp_all
      ultimately show "length rest < 2 ^ 16 \<and> [x, y] = le_encode 2 (word_of_nat (length rest) :: u16)
        \<and> m = hex_string rest"
        using d by (metis (no_types))
    qed
    finally show ?thesis .
  next
    case False
    moreover have "\<not> ?r" using False Some length_le_encode by fastforce
    ultimately show ?thesis using l by simp
  qed
qed

theorem platform_manifest_spec_witness:
  "\<exists>w w'. get_platform_manifest quiet_env ''/efi'' w = (Ok (Some (hex_string [0xab, 0xff])), w')
     \<and> w = \<lparr>events = [], files = [path_join ''/efi'' SGX_PLATFORM_MANIFEST_EFI_VAR \<mapsto>
         [7, 0, 0, 0, 1, 0] @ le_encode 2 (2 :: u16) @ [0xab, 0xff]]\<rparr>"
proof -
  let ?w = "\<lparr>events = [], files = [path_join ''/efi'' SGX_PLATFORM_MANIFEST_EFI_VAR \<mapsto>
      [7, 0, 0, 0, 1, 0] @ le_encode 2 (2 :: u16) @ [0xab, 0xff]]\<rparr>"
  have io: "env_io quiet_env h op = None" for h op by (simp add: quiet_env_def)
  have "\<exists>attrs data. files ?w (path_join ''/efi'' SGX_PLATFORM_MANIFEST_EFI_VAR) =
      Some (attrs @ le_encode 2 (word_of_nat (length data) :: u16) @ data)
        \<and> length attrs = 6 \<and> length data < 2 ^ 16 \<and> hex_string [0xab, 0xff] = hex_string data"
    by (rule exI [of _ "[7, 0, 0, 0, 1, 0]"], rule exI [of _ "[0xab, 0xff]"]) simp
  from platform_manifest_spec [OF io refl, THEN iffD2, OF this] show ?thesis by blast
qed

lemma quiet_write_id_file:
  "write_id_file env path qid w = (r, w') \<Longrightarrow> adds (\<lambda>e. \<not> is_write e) w w'"
  by (auto simp: write_id_file_def replace_file_def bind_fx_def map_err_fx_def host_ops adds_def is_write_def
      Let_def ret_fx_def split: option.splits prod.splits if_splits)

lemma quiet_get_platform_manifest:
  "get_platform_manifest env dir w = (r, w') \<Longrightarrow> adds (\<lambda>e. \<not> is_write e) w w'"
  by (auto simp: get_platform_manifest_def match_fx_def bind_fx_def map_err_fx_def host_ops adds_def
      is_write_def Let_def fail_fx_def ret_fx_def simp del: le_decode.simps
      split: option.splits prod.splits sum.splits if_splits)

lemma quiet_get_platform_info:
  "get_platform_info env from_json binary w = (r, w') \<Longrightarrow> adds (\<lambda>e. \<not> is_write e) w w'"
  by (auto simp: get_platform_info_def bind_fx_def map_err_fx_def run_binary_def adds_def
      is_write_def Let_def fail_fx_def lift_fx_def
      split: option.splits prod.splits sum.splits if_splits)

text \<open>The part of \<open>create_secret\<close> before the write, with its result.\<close>

definition prepare_doc ::
  "env \<Rightarrow> (str \<Rightarrow> json option) \<Rightarrow> error + unit \<Rightarrow> str \<Rightarrow> str option \<Rightarrow> str \<Rightarrow> str \<Rightarrow> str option
     \<Rightarrow> (host, error, str \<times> json) fx" where
  "prepare_doc env from_json client platform_info_binary id_file namespace efivars_dir node_name =
     bind_fx (lift_fx (case node_name of None \<Rightarrow> Ok ()
       | Some node \<Rightarrow> with_context ''Invalid node name'' (validate_label_value node))) (\<lambda>_.
     bind_fx (get_platform_info env from_json platform_info_binary) (\<lambda>(cpu_svn, pce_id, pce_svn, qe_id).
     bind_fx (lift_fx (from_utf8 (Msg ''Invalid UTF-8 in qe_id'') qe_id)) (\<lambda>qe_id_str.
     bind_fx (case id_file of None \<Rightarrow> ret_fx () | Some path \<Rightarrow> write_id_file env path qe_id_str) (\<lambda>_.
     bind_fx (lift_fx (from_utf8 (Msg ''Invalid UTF-8 in pce_id'') pce_id)) (\<lambda>pce_id_str.
     bind_fx (lift_fx (from_utf8 (Msg ''Invalid UTF-8 in cpu_svn'') cpu_svn)) (\<lambda>cpu_svn_str.
     bind_fx (lift_fx (from_utf8 (Msg ''Invalid UTF-8 in pce_svn'') pce_svn)) (\<lambda>pce_svn_str.
     bind_fx (get_platform_manifest env efivars_dir) (\<lambda>platform_manifest.
     bind_fx (lift_fx client) (\<lambda>_.
     ret_fx (qe_id_str, platform_doc namespace qe_id_str pce_id_str cpu_svn_str pce_svn_str
         platform_manifest node_name))))))))))"

lemma bind_fx_assoc: "bind_fx (bind_fx m k) l = bind_fx m (\<lambda>x. bind_fx (k x) l)"
  by (auto simp: bind_fx_def fun_eq_iff split: prod.splits sum.splits)

lemma bind_fx_ret: "bind_fx (ret_fx x) k = k x"
  by (simp add: bind_fx_def fun_eq_iff)

lemma create_secret_split:
  "create_secret env from_json client binary id_file ns dir node =
     bind_fx (prepare_doc env from_json client binary id_file ns dir node)
       (\<lambda>(qid, doc). apply_secret env qid (apply_force FIELD_MANAGER) doc)"
  unfolding create_secret_def prepare_doc_def
  by (simp add: bind_fx_assoc bind_fx_ret case_prod_unfold del: fx_run)

lemma quiet_prepare_doc:
  "keeps (adds (\<lambda>e. \<not> is_write e)) (prepare_doc env from_json client binary id_file ns dir node)"
proof -
  let ?R = "adds (\<lambda>e. \<not> is_write e)"
  have w: "keeps ?R (case id_file of None \<Rightarrow> ret_fx () | Some path \<Rightarrow> write_id_file env path qid)" for qid
  proof (cases id_file)
    case None
    then show ?thesis by (simp add: keeps_def)
  next
    case (Some path)
    have "keeps ?R (write_id_file env path qid)" by (rule keepsI) (rule quiet_write_id_file)
    with Some show ?thesis by simp
  qed
  have m: "keeps ?R (get_platform_manifest env dir)"
    by (rule keepsI) (rule quiet_get_platform_manifest)
  have i: "keeps ?R (get_platform_info env from_json binary)"
    by (rule keepsI) (rule quiet_get_platform_info)
  show ?thesis
    unfolding prepare_doc_def case_prod_unfold
    by (intro keeps_bind keeps_pure w m i) simp_all
qed

text \<open>What the written document is made of.\<close>

definition platform_doc_ok :: "str \<Rightarrow> str option \<Rightarrow> str \<Rightarrow> json \<Rightarrow> bool" where
  "platform_doc_ok namespace node_name name doc \<longleftrightarrow>
     (\<exists>pi cs ps manifest. doc = platform_doc namespace name pi cs ps manifest node_name
        \<and> length name = 32 \<and> all_hex name \<and> length pi = 4 \<and> all_hex pi
        \<and> length cs = 32 \<and> all_hex cs \<and> length ps = 4 \<and> all_hex ps
        \<and> (\<forall>m. manifest = Some m \<longrightarrow> (\<exists>data. m = hex_string data \<and> length data < 2 ^ 16))
        \<and> (\<forall>node. node_name = Some node \<longrightarrow> validate_label_value node = Ok ()))"

lemma get_platform_manifest_hex:
  assumes "get_platform_manifest env dir w = (Ok (Some m), w')"
  shows "\<exists>data. m = hex_string data \<and> length data < 2 ^ 16"
proof -
  obtain contents where "m = hex_string (drop 8 contents)"
    "length (drop 8 contents) = unat (le_decode [contents ! 6, contents ! 7] :: u16)"
    using assms
    by (auto simp: get_platform_manifest_def match_fx_def bind_fx_def map_err_fx_def host_ops
        Let_def fail_fx_def ret_fx_def ok_or_def simp del: le_decode.simps
        split: option.splits prod.splits sum.splits if_splits)
  moreover have "unat (le_decode [contents ! 6, contents ! 7] :: u16) < 2 ^ 16"
    using unsigned_less [of "le_decode [contents ! 6, contents ! 7] :: u16"] by (simp del: le_decode.simps)
  ultimately show ?thesis by (metis (no_types))
qed

lemma prepare_doc_Ok:
  assumes "prepare_doc env from_json client binary id_file ns dir node w = (Ok (name, doc), w')"
  shows "platform_doc_ok ns node name doc"
proof -
  obtain a b c d w1 w2 pi cs ps manifest w3 w4 where 1:
    "(case node of None \<Rightarrow> Ok () | Some n \<Rightarrow> with_context ''Invalid node name'' (validate_label_value n)) = Ok ()"
    "get_platform_info env from_json binary w1 = (Ok (a, b, c, d), w2)"
    "d = as_bytes name" "b = as_bytes pi" "a = as_bytes cs" "c = as_bytes ps"
    "get_platform_manifest env dir w3 = (Ok manifest, w4)"
    "doc = platform_doc ns name pi cs ps manifest node"
    using assms by (auto simp: prepare_doc_def bind_fx_eq_Ok split: prod.splits)
  obtain js where "platform_fields js = Ok (a, b, c, d)"
    using get_platform_info_Ok [OF 1(2)] by blast
  with 1 get_platform_manifest_hex show ?thesis
    unfolding platform_doc_ok_def
    by - (rule exI [of _ pi], rule exI [of _ cs], rule exI [of _ ps], rule exI [of _ manifest],
      auto simp: platform_fields_Ok split: option.splits)
qed

text \<open>\<open>get-platforms\<close> writes at most one secret, as its last call, and only when the node
  name, the platform information and the manifest were all well formed: it is named by the
  32-digit QE ID, carries the fields the binary reported and the manifest as hexadecimal, and
  is applied with force. Every error before leaves the cluster untouched.\<close>

theorem create_secret_writes:
  assumes "create_secret env from_json client binary id_file ns efivars_dir node w = (r, w')"
  shows "(\<not> is_ok r \<and> list_all (\<lambda>e. \<not> is_write e) (new_events w w'))
     \<or> (\<exists>pre name doc. new_events w w' = pre @ [ApplySecret name (apply_force FIELD_MANAGER) doc]
        \<and> list_all (\<lambda>e. \<not> is_write e) pre \<and> platform_doc_ok ns node name doc
        \<and> r = map_err Kube (env_apply_secret env (events w @ pre) name (apply_force FIELD_MANAGER) doc))"
proof -
  obtain q w1 where p: "prepare_doc env from_json client binary id_file ns efivars_dir node w = (q, w1)"
    by fastforce
  obtain es where es: "events w1 = events w @ es" "list_all (\<lambda>e. \<not> is_write e) es"
    using keepsD [OF quiet_prepare_doc p] by (auto simp: adds_def)
  show ?thesis
  proof (cases q)
    case (Inl e)
    with assms p have "r = Err e" "w' = w1" by (auto simp: create_secret_split bind_fx_def)
    with es show ?thesis by (simp add: new_events_def)
  next
    case (Inr nd)
    obtain name doc where nd: "nd = (name, doc)" by fastforce
    have ok: "platform_doc_ok ns node name doc" using p Inr nd prepare_doc_Ok by simp
    have "r = map_err Kube (env_apply_secret env (events w1) name (apply_force FIELD_MANAGER) doc)"
      "events w' = events w1 @ [ApplySecret name (apply_force FIELD_MANAGER) doc]"
      using assms p Inr nd by (auto simp: create_secret_split bind_fx_def apply_secret_def)
    with es ok show ?thesis
      by - (rule disjI2, rule exI [of _ es], rule exI [of _ name], rule exI [of _ doc],
        simp add: new_events_def)
  qed
qed

definition demo_info :: json where
  "demo_info = JObj [(''cpu_svn'', JStr ''0102030405060708090a0b0c0d0e0f10''),
     (''enc_ppid'', JStr ''ab''), (''pce_id'', JStr ''0000''), (''pce_svn'', JStr ''0b00''),
     (''qe_id'', JStr ''a1b2c3d4e5f6a1b2c3d4e5f6a1b2c3d4'')]"

definition node_env :: env where
  "node_env = quiet_env\<lparr>env_run := (\<lambda>h b. Ok \<lparr>out_success = True,
     out_stdout = as_bytes ''info'', out_stderr = []\<rparr>)\<rparr>"

definition node_host :: host where
  "node_host = \<lparr>events = [], files = [path_join ''/efi'' SGX_PLATFORM_MANIFEST_EFI_VAR \<mapsto>
     [7, 0, 0, 0, 1, 0, 2, 0, 0xab, 0xff]]\<rparr>"

lemma node_info_any:
  "get_platform_info node_env (\<lambda>s. if s = ''info'' then Some demo_info else None) binary w =
     (Ok (as_bytes ''0102030405060708090a0b0c0d0e0f10'', as_bytes ''0000'', as_bytes ''0b00'',
        as_bytes ''a1b2c3d4e5f6a1b2c3d4e5f6a1b2c3d4''), log_event (RunBinary binary) w)"
proof -
  have "str_ok ''info''" by (simp add: str_ok_ascii)
  then have "from_utf8_lossy (as_bytes ''info'') = ''info''" by (rule from_utf8_lossy_as_bytes)
  moreover have "trim ''info'' = ''info''"
    unfolding trim_def by (subst trim_bytes_graphic) (simp_all add: as_bytes_def ascii_graphic_def of_bytes_def)
  moreover have "platform_fields demo_info =
     Ok (as_bytes ''0102030405060708090a0b0c0d0e0f10'', as_bytes ''0000'', as_bytes ''0b00'',
        as_bytes ''a1b2c3d4e5f6a1b2c3d4e5f6a1b2c3d4'')"
    by (simp add: platform_fields_Ok demo_info_def hex_eval)
  ultimately show ?thesis
    by (simp add: get_platform_info_def bind_fx_def map_err_fx_def run_binary_def node_env_def)
qed

lemma node_info:
  "get_platform_info node_env (\<lambda>s. if s = ''info'' then Some demo_info else None) ''bin'' w =
     (Ok (as_bytes ''0102030405060708090a0b0c0d0e0f10'', as_bytes ''0000'', as_bytes ''0b00'',
        as_bytes ''a1b2c3d4e5f6a1b2c3d4e5f6a1b2c3d4''), log_event (RunBinary ''bin'') w)"
  by (rule node_info_any)

lemma node_manifest:
  "\<exists>w'. get_platform_manifest node_env ''/efi'' (log_event (RunBinary ''bin'') node_host) =
     (Ok (Some (hex_string [0xab, 0xff])), w')"
  by (simp add: get_platform_manifest_def match_fx_def bind_fx_def map_err_fx_def host_ops node_env_def
      quiet_env_def node_host_def Let_def log_event_def)

definition demo_json :: "str \<Rightarrow> json option" where
  "demo_json s = (if s = ''info'' then Some demo_info else None)"

lemma node_create_secret:
  "\<exists>w'. create_secret node_env demo_json (Ok ()) ''bin'' None ''ns'' ''/efi'' None node_host = (Ok (), w')"
proof -
  obtain w' where m: "get_platform_manifest node_env ''/efi'' (log_event (RunBinary ''bin'') node_host) =
     (Ok (Some (hex_string [0xab, 0xff])), w')"
    using node_manifest by blast
  have i: "get_platform_info node_env demo_json ''bin'' node_host =
     (Ok (as_bytes ''0102030405060708090a0b0c0d0e0f10'', as_bytes ''0000'', as_bytes ''0b00'',
        as_bytes ''a1b2c3d4e5f6a1b2c3d4e5f6a1b2c3d4''), log_event (RunBinary ''bin'') node_host)"
    using node_info [of node_host] by (simp add: demo_json_def [abs_def])
  have u: "from_utf8 e (as_bytes s) = Ok s" if "list_all (\<lambda>c. (of_char c :: nat) < 0x80) s" for s and e :: error
    using that by (simp add: from_utf8_as_bytes str_ok_ascii)
  show ?thesis
    unfolding create_secret_def
    using i m by (simp add: bind_fx_def u apply_secret_def) (simp add: node_env_def quiet_env_def)
qed

theorem create_secret_writes_witness:
  "\<exists>w' pre name doc. create_secret node_env demo_json (Ok ()) ''bin'' None ''ns'' ''/efi'' None node_host = (Ok (), w')
     \<and> new_events node_host w' = pre @ [ApplySecret name (apply_force FIELD_MANAGER) doc]
     \<and> platform_doc_ok ''ns'' None name doc"
proof -
  obtain w' where run: "create_secret node_env demo_json (Ok ()) ''bin'' None ''ns'' ''/efi'' None node_host = (Ok (), w')"
    using node_create_secret by blast
  from create_secret_writes [OF run] run show ?thesis by auto
qed

subsection \<open>From the node to the registrar\<close>

text \<open>The data of the stored secret: the API server merges \<open>stringData\<close> into \<open>data\<close>.\<close>

definition string_data_stored :: "json \<Rightarrow> secret_data \<Rightarrow> bool" where
  "string_data_stored doc data \<longleftrightarrow>
     (\<forall>k v. json_member2 ''stringData'' k doc = Some (JStr v) \<longrightarrow> data k = Some (as_bytes v))"

lemma platform_doc_string_data:
  "json_member2 ''stringData'' ''pce_id'' (platform_doc ns q pi cs ps manifest node) = Some (JStr pi)"
  "json_member2 ''stringData'' ''cpu_svn'' (platform_doc ns q pi cs ps manifest node) = Some (JStr cs)"
  "json_member2 ''stringData'' ''platform_manifest'' (platform_doc ns q pi cs ps manifest node) =
     map_option JStr manifest"
  by (cases manifest; cases node;
      simp add: platform_doc_def json_member2_def Let_def json_set2_def json_set3_def json_set_def)+

lemma written_data_accepted:
  assumes "create_secret env from_json client binary id_file ns efivars_dir node w = (r, w')"
    and "ApplySecret name params doc \<in> set (new_events w w')"
    and "string_data_stored doc data"
    and "json_member2 ''stringData'' ''platform_manifest'' doc = Some (JStr m)"
  shows "if m = [] then \<forall>body. prepare_registration name data \<noteq> Ok body
    else \<exists>body. prepare_registration name data = Ok body \<and> platform_manifest body = m
      \<and> json_member2 ''stringData'' ''pce_id'' doc = Some (JStr (pce_id body))
      \<and> json_member2 ''stringData'' ''cpu_svn'' doc = Some (JStr (cpu_svn body))"
proof -
  have "platform_doc_ok ns node name doc"
  proof -
    obtain q w1 where p: "prepare_doc env from_json client binary id_file ns efivars_dir node w = (q, w1)"
      by fastforce
    obtain es where es: "events w1 = events w @ es" "list_all (\<lambda>e. \<not> is_write e) es"
      using keepsD [OF quiet_prepare_doc p] by (auto simp: adds_def)
    have no: "ApplySecret name params doc \<notin> set es" using es(2) by (auto simp: list_all_iff is_write_def)
    show ?thesis
    proof (cases q)
      case (Inl e)
      with assms(1) p have "w' = w1" by (auto simp: create_secret_split bind_fx_def)
      with es no assms(2) show ?thesis by (simp add: new_events_def)
    next
      case (Inr nd)
      with assms(1) p es no assms(2) have "nd = (name, doc)"
        by (cases nd) (auto simp: create_secret_split bind_fx_def apply_secret_def new_events_def)
      with p Inr prepare_doc_Ok show ?thesis by simp
    qed
  qed
  then obtain pi cs ps manifest where d: "doc = platform_doc ns name pi cs ps manifest node"
    "length name = 32" "all_hex name" "length pi = 4" "all_hex pi" "length cs = 32" "all_hex cs"
    "\<forall>m. manifest = Some m \<longrightarrow> (\<exists>data. m = hex_string data \<and> length data < 2 ^ 16)"
    unfolding platform_doc_ok_def by blast
  have m: "manifest = Some m" using assms(4) d(1) by (auto simp: platform_doc_string_data)
  then obtain bs where bs: "m = hex_string bs" "length bs < 2 ^ 16" using d(8) by blast
  have st: "data ''pce_id'' = Some (as_bytes pi)" "data ''cpu_svn'' = Some (as_bytes cs)"
    "data ''platform_manifest'' = Some (as_bytes m)"
    using assms(3) d(1) m by (auto simp: string_data_stored_def platform_doc_string_data)
  have mem: "json_member2 ''stringData'' ''pce_id'' doc = Some (JStr pi)"
    "json_member2 ''stringData'' ''cpu_svn'' doc = Some (JStr cs)"
    using d(1) by (simp_all add: platform_doc_string_data)
  show ?thesis
  proof (cases "m = []")
    case True
    with st show ?thesis by (auto simp: prepare_registration_Ok from_secret_data_Ok request_ok_def)
  next
    case False
    let ?body = "\<lparr>platform_manifest = m, pce_id = pi, cpu_svn = cs\<rparr>"
    have "prepare_registration name data = Ok ?body"
      using st d(2-7) bs False
      by (auto simp: prepare_registration_Ok from_secret_data_Ok request_ok_def is_fixed_len_hex_iff
          intro: all_hex_str_ok)
    with False mem show ?thesis by auto
  qed
qed

text \<open>C32: The registrar accepts what \<open>get-platforms\<close> wrote on the node, as soon as the secret
  holds a non-empty manifest; the request sent to Intel PCS has exactly the manifest, PCE ID
  and CPU SVN of the node. An EFI variable that declares no data gives an empty manifest,
  which is written and then rejected.\<close>

theorem platform_data_accepted:
  assumes "create_secret env from_json client binary id_file ns efivars_dir node w = (r, w')"
    and "ApplySecret name params doc \<in> set (new_events w w')"
    and "string_data_stored doc data"
    and "json_member2 ''stringData'' ''platform_manifest'' doc = Some (JStr m)"
  shows "if m = [] then \<forall>body. prepare_registration name data \<noteq> Ok body
    else \<exists>body. prepare_registration name data = Ok body \<and> platform_manifest body = m
      \<and> json_member2 ''stringData'' ''pce_id'' doc = Some (JStr (pce_id body))
      \<and> json_member2 ''stringData'' ''cpu_svn'' doc = Some (JStr (cpu_svn body))"
  using assms by (rule written_data_accepted)

theorem platform_data_accepted_witness:
  "\<exists>w' name doc data body.
     create_secret node_env demo_json (Ok ()) ''bin'' None ''ns'' ''/efi'' None node_host = (Ok (), w')
     \<and> ApplySecret name (apply_force FIELD_MANAGER) doc \<in> set (new_events node_host w')
     \<and> string_data_stored doc data \<and> prepare_registration name data = Ok body
     \<and> platform_manifest body = hex_string [0xab, 0xff]"
proof -
  define doc where "doc = platform_doc ''ns'' ''a1b2c3d4e5f6a1b2c3d4e5f6a1b2c3d4'' ''0000''
      ''0102030405060708090a0b0c0d0e0f10'' ''0b00'' (Some (hex_string [0xab, 0xff])) None"
  define data where "data = (\<lambda>k. case json_member2 ''stringData'' k doc of
      Some (JStr v) \<Rightarrow> Some (as_bytes v) | _ \<Rightarrow> None)"
  have st: "string_data_stored doc data" by (simp add: string_data_stored_def data_def)
  obtain w2 where m: "get_platform_manifest node_env ''/efi'' (log_event (RunBinary ''bin'') node_host) =
     (Ok (Some (hex_string [0xab, 0xff])), w2)"
    using node_manifest by blast
  have i: "get_platform_info node_env demo_json ''bin'' node_host =
     (Ok (as_bytes ''0102030405060708090a0b0c0d0e0f10'', as_bytes ''0000'', as_bytes ''0b00'',
        as_bytes ''a1b2c3d4e5f6a1b2c3d4e5f6a1b2c3d4''), log_event (RunBinary ''bin'') node_host)"
    using node_info [of node_host] by (simp add: demo_json_def [abs_def])
  have u: "from_utf8 e (as_bytes s) = Ok s" if "list_all (\<lambda>c. (of_char c :: nat) < 0x80) s" for s and e :: error
    using that by (simp add: from_utf8_as_bytes str_ok_ascii)
  let ?e = "ApplySecret ''a1b2c3d4e5f6a1b2c3d4e5f6a1b2c3d4'' (apply_force FIELD_MANAGER) doc"
  have "\<exists>r. create_secret node_env demo_json (Ok ()) ''bin'' None ''ns'' ''/efi'' None node_host =
      (r, log_event ?e w2)"
    using i m unfolding create_secret_def doc_def by (simp add: bind_fx_def u apply_secret_def)
  moreover obtain w' where ok: "create_secret node_env demo_json (Ok ()) ''bin'' None ''ns'' ''/efi'' None node_host = (Ok (), w')"
    using node_create_secret by blast
  ultimately have w': "w' = log_event ?e w2" by simp
  obtain es where "events w2 = events (log_event (RunBinary ''bin'') node_host) @ es"
    using quiet_get_platform_manifest [OF m] by (auto simp: adds_def)
  then have mem: "?e \<in> set (new_events node_host w')" unfolding w' by (simp add: new_events_def)
  have md: "json_member2 ''stringData'' ''platform_manifest'' doc = Some (JStr (hex_string [0xab, 0xff]))"
    by (simp add: doc_def platform_doc_string_data)
  show ?thesis
    using platform_data_accepted [OF ok mem st md] ok mem st by auto
qed

text \<open>The check on label values accepts exactly Kubernetes' label values other than the empty
  one: at most 63 characters of the label alphabet, alphanumeric at both ends.\<close>

theorem validate_label_value_spec:
  "validate_label_value s = Ok u \<longleftrightarrow>
     (\<exists>a. s = [a] \<and> is_ascii_alphanumeric (byte_of a))
     \<or> (\<exists>a mid z. s = a # mid @ [z] \<and> length mid \<le> 61
        \<and> is_ascii_alphanumeric (byte_of a) \<and> is_ascii_alphanumeric (byte_of z)
        \<and> (\<forall>c \<in> set mid. is_ascii_alphanumeric (byte_of c) \<or> c \<in> set ''-_.''))"
proof -
  have chars: "byte_of c = 45 \<longleftrightarrow> c = CHR ''-''" "byte_of c = 95 \<longleftrightarrow> c = CHR ''_''"
    "byte_of c = 46 \<longleftrightarrow> c = CHR ''.''" for c
    using byte_of_inject [of c "CHR ''-''"] byte_of_inject [of c "CHR ''_''"]
      byte_of_inject [of c "CHR ''.''"] by (simp_all add: byte_of_def)
  consider "s = []" | a where "s = [a]" | a mid z where "s = a # mid @ [z]"
    by (metis append_butlast_last_id list.exhaust)
  then show ?thesis
  proof cases
    case 3
    then show ?thesis
      by (auto simp: validate_label_value_def Let_def as_bytes_def list_all_iff chars)
  qed (auto simp: validate_label_value_def Let_def as_bytes_def)
qed

end
