(* ===== verification/Cli.thy ===== *)
theory Cli
  imports CertWatcher Platforms
begin

text \<open>
  The command line of \<open>bin/pck-cert-tool/src/main.rs\<close>: the arguments \<open>clap\<close> delivers
  and the dispatch in \<open>main\<close>. \<open>clap\<close> itself is not modelled. What a run needs from
  outside is the record \<open>outside\<close>: the JSON parser, the Kubernetes client, the watch items,
  the \<open>register\<close> controller, directory listings and Unix sockets.
\<close>

record get_platforms_args =
  gp_platform_info_binary :: str
  gp_id_file :: "str option"
  gp_namespace :: str
  gp_efivars_dir :: str
  gp_node_name :: "str option"

record get_certificates_args =
  gc_id_file :: "str option"
  gc_id :: "str option"
  gc_output_dir :: str
  gc_namespace :: str

record register_args =
  ra_api_key :: "str option"
  ra_namespace :: str

datatype probe_command = CacheReady str | CheckSocket str

datatype command =
  GetPlatforms get_platforms_args
| GetCertificates get_certificates_args
| Register register_args
| Probe probe_command

record outside =
  out_from_json :: "str \<Rightarrow> json option"
  out_client :: "error + unit"
  out_sigterm :: "error + unit"
  out_items :: "watch_item list"
  out_register :: "str option \<Rightarrow> str \<Rightarrow> error + unit"
  out_env_var :: "str \<Rightarrow> str option"
  out_read_dir :: "str \<Rightarrow> nat option"
  out_connect :: "str \<Rightarrow> bool"

text \<open>\<open>api_key.or_else(|| env::var(..).ok().filter(|s| !s.is_empty()))\<close>.\<close>

definition resolve_api_key :: "(str \<Rightarrow> str option) \<Rightarrow> str option \<Rightarrow> str option" where
  "resolve_api_key var arg =
     (case arg of
        Some key \<Rightarrow> Some key
      | None \<Rightarrow>
          (case var ''INTEL_PCS_API_KEY'' of
             None \<Rightarrow> None
           | Some s \<Rightarrow> if s = [] then None else Some s))"

text \<open>A probe ends the process with this exit code; \<open>out_read_dir\<close> is the number of entries of
  a directory that can be listed.\<close>

definition probe_exit :: "outside \<Rightarrow> probe_command \<Rightarrow> nat" where
  "probe_exit out p =
     (case p of
        CacheReady path \<Rightarrow>
          (case out_read_dir out path of None \<Rightarrow> 1 | Some n \<Rightarrow> if n = 0 then 1 else 0)
      | CheckSocket path \<Rightarrow> if out_connect out path then 0 else 1)"

definition run_command :: "outside \<Rightarrow> env \<Rightarrow> command \<Rightarrow> (host, error, nat) fx" where
  "run_command out env command =
     (case command of
        GetPlatforms a \<Rightarrow>
          bind_fx (path_exists env (gp_platform_info_binary a)) (\<lambda>there.
          if \<not> there
          then fail_fx (MsgStr ''Platform info binary does not exist: '' (gp_platform_info_binary a))
          else
          bind_fx (create_secret env (out_from_json out) (out_client out) (gp_platform_info_binary a)
            (gp_id_file a) (gp_namespace a) (gp_efivars_dir a) (gp_node_name a)) (\<lambda>_.
          ret_fx 0))
      | GetCertificates a \<Rightarrow>
          bind_fx (resolve_id env (gc_id_file a) (gc_id a)) (\<lambda>(ident, cache_id).
          bind_fx (watch_certificates env (out_client out) (out_sigterm out) ident cache_id
            (gc_output_dir a) (out_items out)) (\<lambda>_.
          ret_fx 0))
      | Register a \<Rightarrow>
          bind_fx (lift_fx (out_register out (resolve_api_key (out_env_var out) (ra_api_key a))
            (ra_namespace a))) (\<lambda>_. ret_fx 0)
      | Probe p \<Rightarrow> ret_fx (probe_exit out p))"

text \<open>The exit code of the process: an \<open>Err\<close> of \<open>main\<close> is 1.\<close>

definition exit_code :: "error + nat \<Rightarrow> nat" where
  "exit_code r = (case r of Inl e \<Rightarrow> 1 | Inr n \<Rightarrow> n)"

subsection \<open>Lemmas\<close>

lemma get_platform_manifest_files:
  "get_platform_manifest env dir w = (r, w') \<Longrightarrow> files w' = files w"
  by (auto simp: get_platform_manifest_def match_fx_def bind_fx_def map_err_fx_def host_ops
      Let_def fail_fx_def ret_fx_def simp del: le_decode.simps
      split: option.splits prod.splits sum.splits if_splits)

lemma prepare_doc_id_file:
  assumes "prepare_doc env from_json client binary (Some path) ns dir node w = (Ok (name, doc), w')"
  shows "files w' path = Some (as_bytes name)"
proof -
  obtain w1 w2 u manifest w3 where "write_id_file env path name w1 = (Ok u, w2)"
    "get_platform_manifest env dir w2 = (Ok manifest, w3)" "w' = w3"
    using assms by (auto simp: prepare_doc_def bind_fx_eq_Ok split: prod.splits)
  with write_id_file_Ok get_platform_manifest_files show ?thesis by fastforce
qed

lemma create_secret_doc:
  assumes "create_secret env from_json client binary id_file ns dir node w = (r, w')"
    and "ApplySecret name params doc \<in> set (new_events w w')"
  obtains w1 where "prepare_doc env from_json client binary id_file ns dir node w = (Ok (name, doc), w1)"
    "w' = log_event (ApplySecret name params doc) w1" "params = apply_force FIELD_MANAGER"
proof -
  obtain q w1 where p: "prepare_doc env from_json client binary id_file ns dir node w = (q, w1)"
    by fastforce
  obtain es where es: "events w1 = events w @ es" "list_all (\<lambda>e. \<not> is_write e) es"
    using keepsD [OF quiet_prepare_doc p] by (auto simp: adds_def)
  have no: "ApplySecret name params doc \<notin> set es" using es(2) by (auto simp: list_all_iff is_write_def)
  show thesis
  proof (cases q)
    case (Inl e)
    with assms(1) p have "w' = w1" by (auto simp: create_secret_split bind_fx_def)
    with es no assms(2) show ?thesis by (simp add: new_events_def)
  next
    case (Inr nd)
    with assms p es no have "nd = (name, doc)" "w' = log_event (ApplySecret name params doc) w1"
      "params = apply_force FIELD_MANAGER"
      by (cases nd; auto simp: create_secret_split bind_fx_def apply_secret_def new_events_def)+
    with p Inr that show ?thesis by blast
  qed
qed

lemma create_secret_grows:
  "create_secret env from_json client binary id_file ns dir node w = (r, w')
     \<Longrightarrow> \<exists>es. events w' = events w @ es"
proof -
  assume run: "create_secret env from_json client binary id_file ns dir node w = (r, w')"
  obtain q w1 where p: "prepare_doc env from_json client binary id_file ns dir node w = (q, w1)"
    by fastforce
  have "\<exists>es. events w1 = events w @ es"
    using keepsD [OF quiet_prepare_doc p] by (auto simp: adds_def)
  with run p show ?thesis
    by (cases q) (auto simp: create_secret_split bind_fx_def apply_secret_def split: prod.splits)
qed

lemma grows_write_certificate:
  "keeps (adds (\<lambda>_. True)) (write_certificate_from_secret env cid dir s)"
proof (rule keepsI)
  fix w w' :: host and r :: "error + unit"
  assume "write_certificate_from_secret env cid dir s w = (r, w')"
  then show "adds (\<lambda>_. True) w w'"
    by (auto simp: write_certificate_run replace_file_def bind_fx_def map_err_fx_def create_file_def
        write_all_def adds_def Let_def split: option.splits prod.splits)
qed

lemma grows_watch_loop: "keeps (adds (\<lambda>_. True)) (watch_loop env cid dir last_seen items)"
proof (induction items arbitrary: last_seen)
  case Nil
  show ?case unfolding watch_loop.simps by (rule keeps_pure) simp
next
  case (Cons item items)
  have stop: "keeps (adds (\<lambda>_. True)) (Pair (Ok Stopped) :: host \<Rightarrow> (error + watch_status) \<times> host)"
    by (simp add: keeps_def)
  show ?case
    unfolding watch_loop.simps
    by (cases item) (use Cons stop in \<open>auto intro!: keeps_bind grows_write_certificate\<close>)
qed

lemma watch_certificates_reads:
  assumes "watch_certificates env (Ok ()) (Ok ()) ident cid dir items w = (r, w')"
    and "env_io env (events w) (PathExists dir) = None"
  shows "\<exists>es. events w' = events w @ [FileIo (PathExists dir), GetSecret (ident @ ''-pck'')] @ es"
proof -
  let ?w1 = "log_event (GetSecret (ident @ ''-pck'')) (log_io (PathExists dir) w)"
  have loop: "adds (\<lambda>_. True) v w'" if "watch_loop env cid dir l items v = (r, w')" for l v
    using grows_watch_loop that by (rule keepsD)
  have wr: "adds (\<lambda>_. True) ?w1 v"
    if "write_certificate_from_secret env cid dir s ?w1 = (q, v)" for q s v
    using grows_write_certificate that by (rule keepsD)
  have "adds (\<lambda>_. True) ?w1 w'"
  proof (cases "env_get_secret env (events (log_io (PathExists dir) w)) (ident @ ''-pck'')")
    case (Inl e)
    with assms loop show ?thesis
      by (auto simp: watch_certificates_def Let_def bind_fx_def path_exists_def match_fx_def get_secret_def)
  next
    case (Inr s)
    obtain q v where v: "write_certificate_from_secret env cid dir s ?w1 = (q, v)" by fastforce
    show ?thesis
    proof (cases q)
      case (Inl e)
      with assms Inr v wr show ?thesis
        by (auto simp: watch_certificates_def Let_def bind_fx_def path_exists_def match_fx_def get_secret_def)
    next
      case inner: (Inr u)
      have "watch_loop env cid dir (resource_version s) items v = (r, w')"
        using assms Inr v inner
        by (simp add: watch_certificates_def Let_def bind_fx_def path_exists_def match_fx_def get_secret_def)
      from adds_trans [OF wr [OF v] loop [OF this]] show ?thesis .
    qed
  qed
  then show ?thesis by (auto simp: adds_def)
qed

lemma files_log_event [simp]: "files (log_event e w) = files w"
  by (simp add: log_event_def)

subsection \<open>Properties\<close>

text \<open>The containers of a pod agree on the platform's ID: when \<open>get-platforms\<close> has written
  the platform-data secret and \<open>get-certificates\<close> runs on the shared ID file, the latter
  first reads the very secret the registrar writes for that platform, and names its cache file
  after the QE ID.\<close>

text \<open>A secret written by \<open>get-platforms\<close> was written by \<open>create_secret\<close>.\<close>

lemma get_platforms_creates:
  assumes "run_command out env (GetPlatforms a) w = (r, w')"
    and "ApplySecret name params doc \<in> set (new_events w w')"
  shows "ApplySecret name params doc \<in> set (new_events (log_io (PathExists (gp_platform_info_binary a)) w) w')
    \<and> (\<exists>q. create_secret env (out_from_json out) (out_client out) (gp_platform_info_binary a)
        (gp_id_file a) (gp_namespace a) (gp_efivars_dir a) (gp_node_name a)
        (log_io (PathExists (gp_platform_info_binary a)) w) = (q, w'))"
proof -
  let ?w1 = "log_io (PathExists (gp_platform_info_binary a)) w"
  show ?thesis
  proof (cases "env_io env (events w) (PathExists (gp_platform_info_binary a))")
    case None
    obtain q w2 where c: "create_secret env (out_from_json out) (out_client out) (gp_platform_info_binary a)
        (gp_id_file a) (gp_namespace a) (gp_efivars_dir a) (gp_node_name a) ?w1 = (q, w2)" by fastforce
    with assms(1) None have "w2 = w'"
      by (cases q) (simp_all add: run_command_def bind_fx_def path_exists_def)
    moreover obtain es where "events w2 = events ?w1 @ es"
      using create_secret_grows [OF c] by blast
    ultimately show ?thesis using assms(2) c by (auto simp: new_events_def)
  next
    case (Some e)
    with assms(1,2) show ?thesis
      by (auto simp: run_command_def bind_fx_def path_exists_def new_events_def)
  qed
qed

theorem commands_agree_on_id:
  assumes "run_command out env (GetPlatforms a) w = (r, w')" "gp_id_file a = Some path"
    and "ApplySecret name params doc \<in> set (new_events w w')"
    and "files v path = files w' path" "\<And>h op. env_io env2 h op = None"
    and "gc_id_file g = Some path" "out_client out = Ok ()" "out_sigterm out = Ok ()"
  shows "length name = 32 \<and> all_hex name \<and> (\<exists>v' es st. run_command out env2 (GetCertificates g) v = (Ok 0, v')
    \<and> watch_certificates env2 (Ok ()) (Ok ()) name name (gc_output_dir g) (out_items out)
        (log_io (ReadFile path) v) = (Ok st, v')
    \<and> events v' = events v @ [FileIo (ReadFile path), FileIo (PathExists (gc_output_dir g)),
        GetSecret (name @ ''-pck'')] @ es
    \<and> (\<forall>q. q \<noteq> path_join (gc_output_dir g) (name @ ''_0000'') \<longrightarrow> files v' q = files v q))"
proof -
  let ?w1 = "log_io (PathExists (gp_platform_info_binary a)) w"
  note mem = get_platforms_creates [OF assms(1,3)]
  obtain q where c: "create_secret env (out_from_json out) (out_client out)
      (gp_platform_info_binary a) (Some path) (gp_namespace a) (gp_efivars_dir a) (gp_node_name a) ?w1 = (q, w')"
    using mem assms(2) by auto
  obtain w2 where p: "prepare_doc env (out_from_json out) (out_client out) (gp_platform_info_binary a)
      (Some path) (gp_namespace a) (gp_efivars_dir a) (gp_node_name a) ?w1 = (Ok (name, doc), w2)"
    "w' = log_event (ApplySecret name params doc) w2"
    using create_secret_doc [OF c conjunct1 [OF mem]] by blast
  have f: "files v path = Some (as_bytes name)"
    using prepare_doc_id_file [OF p(1)] p(2) assms(4) by simp
  have hex: "length name = 32" "all_hex name"
    using prepare_doc_Ok [OF p(1)] by (auto simp: platform_doc_ok_def)
  have "get_id_from_file env2 path v = (Ok name, log_io (ReadFile path) v)"
    using f hex assms(5) all_hex_str_ok trim_all_hex by (auto simp: get_id_from_file_Ok)
  then have id: "resolve_id env2 (gc_id_file g) (gc_id g) v = (Ok (name, name), log_io (ReadFile path) v)"
    using assms(6) by (simp add: resolve_id_def bind_fx_def)
  obtain st v' where run: "watch_certificates env2 (Ok ()) (Ok ()) name name (gc_output_dir g)
      (out_items out) (log_io (ReadFile path) v) = (Ok st, v')"
    using watch_certificates_total [OF assms(5)] by blast
  obtain es where "events v' = events (log_io (ReadFile path) v)
      @ [FileIo (PathExists (gc_output_dir g)), GetSecret (name @ ''-pck'')] @ es"
    using watch_certificates_reads [OF run assms(5)] by blast
  moreover have "\<forall>q. q \<noteq> path_join (gc_output_dir g) (name @ ''_0000'') \<longrightarrow> files v' q = files v q"
    using keepsD [OF keeps_watch_certificates run] by (simp add: only_cache_file_def cache_file_def)
  moreover have "run_command out env2 (GetCertificates g) v = (Ok 0, v')"
    using id run assms(7,8) by (simp add: run_command_def bind_fx_def)
  ultimately show ?thesis using hex run by auto
qed

definition demo_out :: outside where
  "demo_out = \<lparr>out_from_json = demo_json, out_client = Ok (), out_sigterm = Ok (), out_items = [],
     out_register = (\<lambda>k ns. Ok ()), out_env_var = (\<lambda>_. None), out_read_dir = (\<lambda>_. None),
     out_connect = (\<lambda>_. False)\<rparr>"

definition demo_gp :: get_platforms_args where
  "demo_gp = \<lparr>gp_platform_info_binary = ''bin'', gp_id_file = Some ''/id'', gp_namespace = ''ns'',
     gp_efivars_dir = ''/efi'', gp_node_name = None\<rparr>"

definition demo_gc :: get_certificates_args where
  "demo_gc = \<lparr>gc_id_file = Some ''/id'', gc_id = None, gc_output_dir = ''/cache'', gc_namespace = ''ns''\<rparr>"

lemma node_env_io: "env_io node_env h op = None"
  by (simp add: node_env_def quiet_env_def)

lemma demo_get_platforms_in:
  "\<exists>w' doc. run_command demo_out node_env (GetPlatforms (demo_gp\<lparr>gp_namespace := ns\<rparr>)) node_host = (Ok 0, w')
     \<and> ApplySecret ''a1b2c3d4e5f6a1b2c3d4e5f6a1b2c3d4'' (apply_force FIELD_MANAGER) doc
         \<in> set (new_events node_host w')"
proof -
  let ?q = "''a1b2c3d4e5f6a1b2c3d4e5f6a1b2c3d4''"
  let ?w1 = "log_io (PathExists ''bin'') node_host"
  let ?w2 = "log_event (RunBinary ''bin'') ?w1"
  have i: "get_platform_info node_env demo_json ''bin'' ?w1 =
     (Ok (as_bytes ''0102030405060708090a0b0c0d0e0f10'', as_bytes ''0000'', as_bytes ''0b00'',
        as_bytes ?q), ?w2)"
    using node_info [of ?w1] by (simp add: demo_json_def [abs_def])
  obtain w3 where wf: "write_id_file node_env ''/id'' ?q ?w2 = (Ok (), w3)"
    using write_id_file_works [OF node_env_io] by blast
  have "files w3 = (files ?w2)(''/id'' \<mapsto> as_bytes ?q)" using wf by (rule write_id_file_Ok)
  then have efi: "files w3 (path_join ''/efi'' SGX_PLATFORM_MANIFEST_EFI_VAR) =
      Some [7, 0, 0, 0, 1, 0, 2, 0, 0xab, 0xff]"
    by (simp add: node_host_def path_join_def SGX_PLATFORM_MANIFEST_EFI_VAR_def)
  have "\<exists>w4. get_platform_manifest node_env ''/efi'' w3 = (Ok (Some (hex_string [0xab, 0xff])), w4)"
    by (simp add: get_platform_manifest_def match_fx_def bind_fx_def map_err_fx_def host_ops node_env_io
        Let_def efi)
  then obtain w4 where m: "get_platform_manifest node_env ''/efi'' w3 = (Ok (Some (hex_string [0xab, 0xff])), w4)" ..
  have u: "from_utf8 e (as_bytes s) = Ok s" if "list_all (\<lambda>c. (of_char c :: nat) < 0x80) s" for s and e :: error
    using that by (simp add: from_utf8_as_bytes str_ok_ascii)
  define doc where "doc = platform_doc ns ?q ''0000'' ''0102030405060708090a0b0c0d0e0f10'' ''0b00''
      (Some (hex_string [0xab, 0xff])) None"
  have c: "create_secret node_env demo_json (Ok ()) ''bin'' (Some ''/id'') ns ''/efi'' None ?w1 =
      (Ok (), log_event (ApplySecret ?q (apply_force FIELD_MANAGER) doc) w4)"
    using i wf m unfolding create_secret_def doc_def
    by (simp add: bind_fx_def u apply_secret_def) (simp add: node_env_def quiet_env_def)
  obtain es where "events w4 = events w3 @ es"
    using quiet_get_platform_manifest [OF m] by (auto simp: adds_def)
  moreover obtain es2 where "events w3 = events ?w2 @ es2"
    using quiet_write_id_file [OF wf] by (auto simp: adds_def)
  ultimately show ?thesis
    using c by (simp add: run_command_def demo_gp_def demo_out_def bind_fx_def path_exists_def node_env_io new_events_def)
      blast
qed

lemma demo_get_platforms:
  "\<exists>w' doc. run_command demo_out node_env (GetPlatforms demo_gp) node_host = (Ok 0, w')
     \<and> ApplySecret ''a1b2c3d4e5f6a1b2c3d4e5f6a1b2c3d4'' (apply_force FIELD_MANAGER) doc
         \<in> set (new_events node_host w')"
proof -
  have "demo_gp\<lparr>gp_namespace := ''ns''\<rparr> = demo_gp" by (simp add: demo_gp_def)
  with demo_get_platforms_in [of "''ns''"] show ?thesis by simp
qed

theorem commands_agree_on_id_witness:
  "\<exists>w' v'. run_command demo_out node_env (GetPlatforms demo_gp) node_host = (Ok 0, w')
     \<and> run_command demo_out quiet_env (GetCertificates demo_gc) w' = (Ok 0, v')
     \<and> (\<exists>es. events v' = events w' @ [FileIo (ReadFile ''/id''), FileIo (PathExists ''/cache''),
          GetSecret (''a1b2c3d4e5f6a1b2c3d4e5f6a1b2c3d4'' @ ''-pck'')] @ es)"
proof -
  obtain w' doc where run: "run_command demo_out node_env (GetPlatforms demo_gp) node_host = (Ok 0, w')"
    and mem: "ApplySecret ''a1b2c3d4e5f6a1b2c3d4e5f6a1b2c3d4'' (apply_force FIELD_MANAGER) doc
      \<in> set (new_events node_host w')"
    using demo_get_platforms by blast
  have a: "gp_id_file demo_gp = Some ''/id''" by (simp add: demo_gp_def)
  have g: "gc_id_file demo_gc = Some ''/id''" by (simp add: demo_gc_def)
  have o: "out_client demo_out = Ok ()" "out_sigterm demo_out = Ok ()" by (simp_all add: demo_out_def)
  have d: "gc_output_dir demo_gc = ''/cache''" by (simp add: demo_gc_def)
  show ?thesis
    using run commands_agree_on_id [OF run a mem refl quiet_env_io g o] unfolding d by blast
qed

end
