(* ===== verification/Triggers.thy ===== *)
theory Triggers
  imports Cli RegistrarClaims
begin

text \<open>
  What makes the registrar run: its controller (\<open>register_platforms\<close> in
  \<open>bin/pck-cert-tool/src/main.rs\<close>) watches the secrets with the label \<open>type=platform-data\<close>. The
  labels of the stored secrets are followed through the writes of both commands: a server-side
  apply sets the labels of the applied document and keeps the others.
\<close>

type_synonym labels = "str \<Rightarrow> str \<rightharpoonup> str"

definition doc_label :: "json \<Rightarrow> str \<rightharpoonup> str" where
  "doc_label doc k =
     Option.bind (Option.bind (json_member2 ''metadata'' ''labels'' doc) (json_get k)) json_as_str"

fun store_labels :: "labels \<Rightarrow> event \<Rightarrow> labels" where
  "store_labels L (ApplySecret n p doc) = L(n := L n ++ doc_label doc)"
| "store_labels L _ = L"

definition stored :: "labels \<Rightarrow> event list \<Rightarrow> labels" where
  "stored L es = foldl store_labels L es"

text \<open>The selector of the controller's watch.\<close>

definition watched :: "labels \<Rightarrow> str \<Rightarrow> bool" where
  "watched L n \<longleftrightarrow> L n ''type'' = Some ''platform-data''"

lemma stored_unselected:
  assumes "\<forall>n p doc. ApplySecret n p doc \<in> set es \<longrightarrow> doc_label doc ''type'' = None"
  shows "watched (stored L es) n \<longleftrightarrow> watched L n"
proof -
  have "foldl store_labels L es n ''type'' = L n ''type''"
    using assms
  proof (induction es arbitrary: L)
    case (Cons e es)
    have "store_labels L e n ''type'' = L n ''type''"
      using Cons.prems by (cases e) (auto simp: map_add_def split: option.split)
    with Cons show ?case by simp
  qed simp
  then show ?thesis by (simp add: watched_def stored_def)
qed

lemma stored_selected:
  assumes "list_all (\<lambda>e. \<not> is_write e) pre" "doc_label doc ''type'' = Some ''platform-data''"
  shows "watched (stored L (pre @ [ApplySecret m p doc])) n \<longleftrightarrow> watched L n \<or> n = m"
proof -
  have "foldl store_labels L pre = L"
    using assms(1)
  proof (induction pre arbitrary: L)
    case (Cons e pre)
    then show ?case by (cases e) (auto simp: is_write_def)
  qed simp
  with assms(2) show ?thesis by (simp add: watched_def stored_def map_add_def)
qed

lemma platform_doc_type: "doc_label (platform_doc ns q pi cs ps manifest node) ''type'' = Some ''platform-data''"
  by (cases manifest; cases node;
      simp add: doc_label_def platform_doc_def json_member2_def Let_def json_set2_def json_set3_def json_set_def
        LABEL_NODE_def json_get.simps)

lemma registrar_doc_type:
  "doc_label (pck_secret_doc C n ns fp res) ''type'' = None"
  "doc_label (piid_index_doc C q piid) ''type'' = None"
  by (simp_all add: doc_label_def pck_secret_doc_def piid_index_doc_def json_member2_def json_get.simps)

subsection \<open>What the two commands write\<close>

lemma registrar_writes:
  assumes "process_platform_secret C env key ns s w = (r, w')"
    and "ApplySecret n p doc \<in> set (new_events w w')"
  shows "doc_label doc ''type'' = None \<and> length n \<noteq> QE_ID_HEX_LEN"
proof -
  obtain data body es tail where 1: "secret_data s = Some data"
    "prepare_registration (secret_name s) data = Ok body"
    "events w' = events w @ es" "calls es = GetSecret (pck_secret_name (secret_name s)) # tail"
    "registration_calls C key (secret_name s) ns body (registration_fingerprint (sha256 C) body) tail"
    using process_trace [OF assms(1)] assms(2) by (auto simp: new_events_def)
  have "ApplySecret n p doc \<in> set (calls es)"
    using assms(2) 1(3) by (simp add: calls_def new_events_def)
  then have "ApplySecret n p doc \<in> set tail" using 1(4) by simp
  then obtain res where "verified_result C body res" "ApplySecret n p doc
        = store_pck C (secret_name s) ns (registration_fingerprint (sha256 C) body) res
      \<or> ApplySecret n p doc = store_index C (secret_name s) (res_piid res)"
    using 1(5) by (auto simp: registration_calls_def pcs_calls_def)
  moreover have "length (secret_name s) = QE_ID_HEX_LEN"
    using 1(2) by (simp add: prepare_registration_Ok is_fixed_len_hex_iff QE_ID_HEX_LEN_def)
  ultimately show ?thesis
    by (auto simp: store_pck_def store_index_def registrar_doc_type pck_secret_name_def
        PIID_INDEX_SECRET_NAME_def QE_ID_HEX_LEN_def)
qed

lemma get_platforms_watched:
  assumes "run_command out env (GetPlatforms a) w = (r, w')"
  shows "watched (stored L (new_events w w')) n \<longleftrightarrow>
    watched L n \<or> (\<exists>p doc. ApplySecret n p doc \<in> set (new_events w w'))"
proof (cases "\<exists>m p doc. ApplySecret m p doc \<in> set (new_events w w')")
  case False
  then show ?thesis using stored_unselected [of "new_events w w'" L n] by auto
next
  case True
  then obtain m p doc where m: "ApplySecret m p doc \<in> set (new_events w w')" by blast
  let ?w1 = "log_io (PathExists (gp_platform_info_binary a)) w"
  obtain q where c: "create_secret env (out_from_json out) (out_client out) (gp_platform_info_binary a)
        (gp_id_file a) (gp_namespace a) (gp_efivars_dir a) (gp_node_name a) ?w1 = (q, w')"
    and m1: "ApplySecret m p doc \<in> set (new_events ?w1 w')"
    using get_platforms_creates [OF assms m] by blast
  obtain w2 where d: "prepare_doc env (out_from_json out) (out_client out) (gp_platform_info_binary a)
        (gp_id_file a) (gp_namespace a) (gp_efivars_dir a) (gp_node_name a) ?w1 = (Ok (m, doc), w2)"
    "w' = log_event (ApplySecret m p doc) w2"
    using create_secret_doc [OF c m1] by blast
  obtain es where es: "events w2 = events ?w1 @ es" "list_all (\<lambda>e. \<not> is_write e) es"
    using keepsD [OF quiet_prepare_doc d(1)] by (auto simp: adds_def)
  let ?pre = "FileIo (PathExists (gp_platform_info_binary a)) # es"
  have new: "new_events w w' = ?pre @ [ApplySecret m p doc]"
    using d(2) es(1) by (simp add: new_events_def)
  have pre: "list_all (\<lambda>e. \<not> is_write e) ?pre" using es(2) by (simp add: is_write_def)
  then have only: "ApplySecret n' p' doc' \<notin> set ?pre" for n' p' doc'
    by (auto simp: list_all_iff is_write_def)
  obtain pi cs ps manifest where "doc = platform_doc (gp_namespace a) m pi cs ps manifest (gp_node_name a)"
    using prepare_doc_Ok [OF d(1)] by (auto simp: platform_doc_ok_def)
  then have "doc_label doc ''type'' = Some ''platform-data''" by (simp add: platform_doc_type)
  from stored_selected [OF pre this, of L m p n] only show ?thesis
    unfolding new by auto
qed

subsection \<open>Property\<close>

text \<open>C18: The registrar is triggered by the nodes and not by itself: of the secrets either command
  writes, exactly those of \<open>get-platforms\<close> come under the registrar's watch, and when the
  watched secrets are named by QE IDs, a reconciliation changes neither which secrets are
  watched nor any secret that is.\<close>

theorem registrar_not_self_triggered:
  assumes "run_command out env1 (GetPlatforms a) u = (q, u')"
    and "process_platform_secret C env2 key ns s w = (r, w')"
    and "\<forall>n. watched L n \<longrightarrow> length n = QE_ID_HEX_LEN"
  shows "(watched (stored L (new_events u u')) n \<longleftrightarrow>
      watched L n \<or> (\<exists>p doc. ApplySecret n p doc \<in> set (new_events u u')))
    \<and> (watched (stored L (new_events w w')) n \<longleftrightarrow> watched L n)
    \<and> (watched L n \<longrightarrow> (\<forall>p doc. ApplySecret n p doc \<notin> set (new_events w w')))"
  using get_platforms_watched [OF assms(1)] stored_unselected [of "new_events w w'" L n]
    registrar_writes [OF assms(2)] assms(3) by blast

theorem registrar_not_self_triggered_witness:
  "\<exists>u' w'. run_command demo_out node_env (GetPlatforms demo_gp) node_host = (Ok 0, u')
     \<and> process_platform_secret demo_crates demo_env None ''ns'' demo_secret demo_world = (Ok AwaitChange, w')
     \<and> watched (stored (\<lambda>_. Map.empty) (new_events node_host u')) demo_name
     \<and> \<not> watched (stored (\<lambda>_. Map.empty) (new_events demo_world w')) (pck_secret_name demo_name)"
proof -
  let ?L = "\<lambda>_. Map.empty"
  have none: "\<forall>n. watched ?L n \<longrightarrow> length n = QE_ID_HEX_LEN" by (simp add: watched_def)
  obtain u' doc where u': "run_command demo_out node_env (GetPlatforms demo_gp) node_host = (Ok 0, u')"
    "ApplySecret demo_name (apply_force FIELD_MANAGER) doc \<in> set (new_events node_host u')"
    using demo_get_platforms unfolding demo_name_def by blast
  note run = demo_process [of None "''ns''"]
  note t = registrar_not_self_triggered [OF u'(1) run none]
  have "watched (stored ?L (new_events node_host u')) demo_name" using t u'(2) by blast
  moreover have "\<not> watched ?L (pck_secret_name demo_name)" by (simp add: watched_def)
  ultimately show ?thesis using t u'(1) run by blast
qed

end
