(* ===== verification/Commands.thy ===== *)
theory Commands
  imports Cli
begin

text \<open>
  The options declared by the \<open>clap\<close> attributes in \<open>bin/pck-cert-tool/src/main.rs\<close>, as tables,
  and the reading of a plain command line against them: a sub-command followed by pairs of
  an option and a value. \<open>clap\<close> itself, which also knows \<open>--option=value\<close>, clusters of short
  options and help texts, is not modelled: where a theorem needs it, it is an argument that agrees
  with this reader on the command lines the reader accepts (\<open>clap_reads\<close>).
\<close>

text \<open>An option: its spellings, the long one last.\<close>

type_synonym opt = "str list"

definition get_platforms_options :: "opt list" where
  "get_platforms_options =
     [[''-p'', ''--platform-info-binary''], [''-i'', ''--id-file''], [''-n'', ''--namespace''],
      [''-e'', ''--efivars-dir''], [''--node-name'']]"

definition get_certificates_options :: "opt list" where
  "get_certificates_options =
     [[''-i'', ''--id-file''], [''--id''], [''-o'', ''--output-dir''], [''-n'', ''--namespace'']]"

definition register_options :: "opt list" where
  "register_options = [[''-a'', ''--api-key''], [''-n'', ''--namespace'']]"

text \<open>A value that cannot be taken for an option and that a path may have.\<close>

definition plain_value :: "str \<Rightarrow> bool" where
  "plain_value v = (case v of [] \<Rightarrow> False | c # cs \<Rightarrow> c \<noteq> CHR ''-'')"

text \<open>The values given, by the long name of their option; an option may be given once.\<close>

fun read_options :: "opt list \<Rightarrow> (str \<rightharpoonup> str) \<Rightarrow> str list \<Rightarrow> (str \<rightharpoonup> str) option" where
  "read_options table m [] = Some m"
| "read_options table m [flag] = None"
| "read_options table m (flag # v # rest) =
     (case find (\<lambda>names. flag \<in> set names) table of
        None \<Rightarrow> None
      | Some names \<Rightarrow>
          if m (last names) = None \<and> plain_value v then read_options table (m(last names \<mapsto> v)) rest
          else None)"

definition value_or :: "str \<Rightarrow> str option \<Rightarrow> str" where
  "value_or fallback x = (case x of None \<Rightarrow> fallback | Some v \<Rightarrow> v)"

definition read_get_platforms :: "(str \<rightharpoonup> str) \<Rightarrow> command option" where
  "read_get_platforms m =
     (case m ''--platform-info-binary'' of
        None \<Rightarrow> None
      | Some binary \<Rightarrow> Some (GetPlatforms
          \<lparr>gp_platform_info_binary = binary, gp_id_file = m ''--id-file'',
           gp_namespace = value_or ''default'' (m ''--namespace''),
           gp_efivars_dir = value_or ''/sys/firmware/efi/efivars'' (m ''--efivars-dir''),
           gp_node_name = m ''--node-name''\<rparr>))"

text \<open>The group \<open>id_source\<close> is required and holds one argument.\<close>

definition read_get_certificates :: "(str \<rightharpoonup> str) \<Rightarrow> command option" where
  "read_get_certificates m =
     (case m ''--output-dir'' of
        None \<Rightarrow> None
      | Some dir \<Rightarrow>
          if (m ''--id-file'' = None) = (m ''--id'' = None) then None
          else Some (GetCertificates
            \<lparr>gc_id_file = m ''--id-file'', gc_id = m ''--id'', gc_output_dir = dir,
             gc_namespace = value_or ''default'' (m ''--namespace'')\<rparr>))"

definition read_register :: "(str \<rightharpoonup> str) \<Rightarrow> command option" where
  "read_register m = Some (Register
     \<lparr>ra_api_key = m ''--api-key'', ra_namespace = value_or ''default'' (m ''--namespace'')\<rparr>)"

definition read_probe :: "str list \<Rightarrow> command option" where
  "read_probe args =
     (case args of
        [which, path] \<Rightarrow>
          if \<not> plain_value path then None
          else if which = ''cache-ready'' then Some (Probe (CacheReady path))
          else if which = ''check-socket'' then Some (Probe (CheckSocket path))
          else None
      | _ \<Rightarrow> None)"

definition given :: "opt list \<Rightarrow> str list \<Rightarrow> ((str \<rightharpoonup> str) \<Rightarrow> command option) \<Rightarrow> command option" where
  "given table args build =
     (case read_options table Map.empty args of None \<Rightarrow> None | Some m \<Rightarrow> build m)"

text \<open>The arguments after the program's name.\<close>

definition read_command :: "str list \<Rightarrow> command option" where
  "read_command args =
     (case args of
        [] \<Rightarrow> None
      | sub # rest \<Rightarrow>
          if sub = ''get-platforms'' then given get_platforms_options rest read_get_platforms
          else if sub = ''get-certificates'' then given get_certificates_options rest read_get_certificates
          else if sub = ''register'' then given register_options rest read_register
          else if sub = ''probe'' then read_probe rest
          else None)"

definition clap_reads :: "(str list \<Rightarrow> command option) \<Rightarrow> bool" where
  "clap_reads clap \<longleftrightarrow> (\<forall>args c. read_command args = Some c \<longrightarrow> clap args = Some c)"

lemmas read_command_defs = read_command_def given_def read_get_platforms_def read_get_certificates_def
  read_register_def read_probe_def get_platforms_options_def get_certificates_options_def
  register_options_def value_or_def

lemma clap_readsD: "clap_reads clap \<Longrightarrow> read_command args = Some c \<Longrightarrow> clap args = Some c"
  by (simp add: clap_reads_def)

lemma plain_value_Cons [simp]: "plain_value (c # cs) \<longleftrightarrow> c \<noteq> CHR ''-''"
  by (simp add: plain_value_def)

lemma not_plain_Nil [simp]: "\<not> plain_value []"
  by (simp add: plain_value_def)

subsection \<open>What an accepted command line holds\<close>

text \<open>The id of \<open>get-certificates\<close> has one source.\<close>

lemma read_command_one_id:
  "read_command args = Some (GetCertificates a) \<Longrightarrow> (gc_id_file a = None) \<noteq> (gc_id a = None)"
  by (auto simp: read_command_def given_def read_get_platforms_def read_get_certificates_def
      read_register_def read_probe_def split: list.splits if_splits option.splits)

text \<open>Hence \<open>resolve_id\<close> never reports that a source is missing.\<close>

lemma read_command_resolves:
  assumes "read_command args = Some (GetCertificates a)"
  shows "fst (resolve_id env (gc_id_file a) (gc_id a) w) \<noteq> Err (Msg ''one of --id-file or --id is required'')"
proof (cases "gc_id_file a")
  case None
  with read_command_one_id [OF assms] show ?thesis
    by (auto simp: resolve_id_def bind_fx_def Let_def ret_fx_def fail_fx_def split: if_splits)
next
  case (Some path)
  then show ?thesis
    by (auto simp: resolve_id_def get_id_from_file_def bind_fx_def map_err_fx_def lift_fx_def ret_fx_def
        fail_fx_def Let_def io_msg_def map_err_eq_Err split: prod.splits sum.splits if_splits io_error.splits)
      (metis io_error.exhaust)
qed

end
