(* ===== verification/OpStatus.thy ===== *)
theory OpStatus
  imports Errors
begin

text \<open>
  \<open>bin/operator/src/tdx_quote_generation_service/status.rs\<close> and the status type of
  \<open>types.rs\<close>: conditions, their builders, and the trait \<open>ConditionManager\<close>. The trait's
  two required methods are the accessor \<open>conds\<close> and the update \<open>upd\<close> its provided methods
  take as arguments; its contract is a locale, interpreted on the status type.
\<close>

datatype condition_status = CondTrue | CondFalse | CondUnknown

type_synonym timestamp = nat

record condition =
  condition_type :: str
  cond_status :: condition_status
  cond_reason :: "str option"
  cond_message :: "str option"
  last_transition_time :: "timestamp option"
  cond_generation :: "int option"

record service_status =
  daemonset_name :: "str option"
  desired_number_scheduled :: int
  current_number_scheduled :: int
  number_ready :: int
  registration_deployment_name :: "str option"
  registration_deployment_ready :: "bool option"
  conditions :: "condition list"
  observed_generation :: "int option"

definition status_string :: "condition_status \<Rightarrow> str" where
  "status_string s = (case s of CondTrue \<Rightarrow> ''True'' | CondFalse \<Rightarrow> ''False'' | CondUnknown \<Rightarrow> ''Unknown'')"

subsection \<open>Building conditions\<close>

definition new_condition :: "timestamp \<Rightarrow> str \<Rightarrow> condition_status \<Rightarrow> condition" where
  "new_condition now ty st = \<lparr>condition_type = ty, cond_status = st, cond_reason = None,
     cond_message = None, last_transition_time = Some now, cond_generation = None\<rparr>"

definition with_reason :: "str \<Rightarrow> condition \<Rightarrow> condition" where
  "with_reason r c = c\<lparr>cond_reason := Some r\<rparr>"

definition with_message :: "str \<Rightarrow> condition \<Rightarrow> condition" where
  "with_message m c = c\<lparr>cond_message := Some m\<rparr>"

definition with_observed_generation :: "int \<Rightarrow> condition \<Rightarrow> condition" where
  "with_observed_generation g c = c\<lparr>cond_generation := Some g\<rparr>"

definition ready :: "timestamp \<Rightarrow> condition" where
  "ready now = with_message ''Resource is ready'' (with_reason ''ReconcileSucceeded''
     (new_condition now ''Ready'' CondTrue))"

definition not_ready :: "timestamp \<Rightarrow> str \<Rightarrow> str \<Rightarrow> condition" where
  "not_ready now r m = with_message m (with_reason r (new_condition now ''Ready'' CondFalse))"

definition progressing :: "timestamp \<Rightarrow> str \<Rightarrow> condition" where
  "progressing now m = with_message m (with_reason ''Reconciling''
     (new_condition now ''Progressing'' CondTrue))"

definition degraded :: "timestamp \<Rightarrow> str \<Rightarrow> str \<Rightarrow> condition" where
  "degraded now r m = with_message m (with_reason r (new_condition now ''Degraded'' CondTrue))"

subsection \<open>The provided methods of \<open>ConditionManager\<close>\<close>

definition get_condition :: "('s \<Rightarrow> condition list) \<Rightarrow> 's \<Rightarrow> str \<Rightarrow> condition option" where
  "get_condition conds s ty = find (\<lambda>c. condition_type c = ty) (conds s)"

definition is_condition_true :: "('s \<Rightarrow> condition list) \<Rightarrow> 's \<Rightarrow> str \<Rightarrow> bool" where
  "is_condition_true conds s ty =
     (case get_condition conds s ty of None \<Rightarrow> False | Some c \<Rightarrow> cond_status c = CondTrue)"

text \<open>The update of the first condition of the type, in place.\<close>

fun replace_condition :: "condition \<Rightarrow> condition list \<Rightarrow> condition list option" where
  "replace_condition new [] = None"
| "replace_condition new (existing # cs) =
     (if condition_type existing = condition_type new
      then Some ((if cond_status existing = cond_status new
                  then new\<lparr>last_transition_time := last_transition_time existing\<rparr> else new) # cs)
      else map_option (\<lambda>cs. existing # cs) (replace_condition new cs))"

definition set_condition ::
  "('s \<Rightarrow> condition list) \<Rightarrow> ((condition list \<Rightarrow> condition list) \<Rightarrow> 's \<Rightarrow> 's) \<Rightarrow> condition \<Rightarrow> 's \<Rightarrow> 's" where
  "set_condition conds upd c s =
     (case replace_condition c (conds s) of
        Some cs \<Rightarrow> upd (\<lambda>_. cs) s
      | None \<Rightarrow> upd (\<lambda>cs. cs @ [c]) s)"

definition remove_condition ::
  "((condition list \<Rightarrow> condition list) \<Rightarrow> 's \<Rightarrow> 's) \<Rightarrow> str \<Rightarrow> 's \<Rightarrow> 's" where
  "remove_condition upd ty s = upd (filter (\<lambda>c. condition_type c \<noteq> ty)) s"

definition is_ready :: "('s \<Rightarrow> condition list) \<Rightarrow> 's \<Rightarrow> bool" where
  "is_ready conds s = is_condition_true conds s ''Ready''"

lemma replace_condition_None:
  "replace_condition c cs = None \<longleftrightarrow> find (\<lambda>d. condition_type d = condition_type c) cs = None"
  by (induction cs) auto

lemma replace_condition_find:
  "replace_condition c cs = Some ds \<Longrightarrow> find (\<lambda>d. condition_type d = ty) ds =
     (if ty = condition_type c
      then map_option (\<lambda>old. if cond_status old = cond_status c
        then c\<lparr>last_transition_time := last_transition_time old\<rparr> else c)
        (find (\<lambda>d. condition_type d = condition_type c) cs)
      else find (\<lambda>d. condition_type d = ty) cs)"
  by (induction cs arbitrary: ds) (auto split: if_splits)

lemma replace_condition_types:
  "replace_condition c cs = Some ds \<Longrightarrow> map condition_type ds = map condition_type cs"
  by (induction cs arbitrary: ds) (auto split: if_splits)

lemma find_append: "find P (xs @ ys) = (case find P xs of None \<Rightarrow> find P ys | Some x \<Rightarrow> Some x)"
  by (induction xs) auto

lemma find_filter_type:
  "find (\<lambda>c. condition_type c = ty) (filter (\<lambda>c. condition_type c \<noteq> ty') cs) =
     (if ty = ty' then None else find (\<lambda>c. condition_type c = ty) cs)"
  by (induction cs) auto

subsection \<open>The contract of a status type\<close>

text \<open>What an implementation of the two required methods must satisfy.\<close>

locale condition_store =
  fixes conds :: "'s \<Rightarrow> condition list"
    and upd :: "(condition list \<Rightarrow> condition list) \<Rightarrow> 's \<Rightarrow> 's"
  assumes conds_upd: "conds (upd f s) = f (conds s)"
    and upd_same: "f (conds s) = conds s \<Longrightarrow> upd f s = s"
    and upd_cong: "f (conds s) = g (conds s) \<Longrightarrow> upd f s = upd g s"
begin

text \<open>At most one condition per type: the invariant Kubernetes asks for.\<close>

definition one_per_type :: "'s \<Rightarrow> bool" where
  "one_per_type s \<longleftrightarrow> distinct (map condition_type (conds s))"

lemma get_after_set:
  "get_condition conds (set_condition conds upd c s) ty =
     (if ty = condition_type c
      then Some (case get_condition conds s ty of
        None \<Rightarrow> c
      | Some old \<Rightarrow> if cond_status old = cond_status c
          then c\<lparr>last_transition_time := last_transition_time old\<rparr> else c)
      else get_condition conds s ty)"
proof (cases "replace_condition c (conds s)")
  case None
  then have "find (\<lambda>d. condition_type d = condition_type c) (conds s) = None"
    by (simp add: replace_condition_None)
  with None show ?thesis
    by (auto simp: get_condition_def set_condition_def conds_upd find_append split: option.splits)
next
  case (Some ds)
  then have "find (\<lambda>d. condition_type d = condition_type c) (conds s) \<noteq> None"
    by (metis option.distinct(1) replace_condition_None)
  with Some show ?thesis
    by (auto simp: get_condition_def set_condition_def conds_upd replace_condition_find split: option.splits)
qed

lemma one_per_type_set: "one_per_type s \<Longrightarrow> one_per_type (set_condition conds upd c s)"
proof (cases "replace_condition c (conds s)")
  case None
  assume "one_per_type s"
  moreover have "condition_type c \<notin> set (map condition_type (conds s))"
    using None by (auto simp: replace_condition_None find_None_iff)
  ultimately show ?thesis
    using None by (simp add: one_per_type_def set_condition_def conds_upd)
next
  case (Some ds)
  assume "one_per_type s"
  with Some replace_condition_types show ?thesis
    by (simp add: one_per_type_def set_condition_def conds_upd)
qed

lemma get_after_remove:
  "get_condition conds (remove_condition upd ty s) ty' =
     (if ty' = ty then None else get_condition conds s ty')"
  by (simp add: get_condition_def remove_condition_def conds_upd find_filter_type)

lemma one_per_type_remove: "one_per_type s \<Longrightarrow> one_per_type (remove_condition upd ty s)"
  by (simp add: one_per_type_def remove_condition_def conds_upd distinct_map_filter)

lemma set_twice:
  "get_condition conds (set_condition conds upd c (set_condition conds upd c s)) ty =
     get_condition conds (set_condition conds upd c s) ty"
  by (auto simp: get_after_set split: option.splits)

end

interpretation svc: condition_store conditions conditions_update
  by unfold_locales auto

subsection \<open>Properties\<close>

text \<open>Setting a condition on the service status: it is then the condition found for its type,
  with the transition time of the previous one exactly when the status did not change; no
  other type is affected, no field outside the conditions changes, and there is still at most
  one condition per type.\<close>

theorem set_condition_spec:
  assumes "distinct (map condition_type (conditions s))"
  shows "get_condition conditions (set_condition conditions conditions_update c s) ty =
      (if ty = condition_type c
       then Some (case get_condition conditions s ty of
         None \<Rightarrow> c
       | Some old \<Rightarrow> if cond_status old = cond_status c
           then c\<lparr>last_transition_time := last_transition_time old\<rparr> else c)
       else get_condition conditions s ty)
    \<and> distinct (map condition_type (conditions (set_condition conditions conditions_update c s)))
    \<and> (set_condition conditions conditions_update c s)\<lparr>conditions := []\<rparr> = s\<lparr>conditions := []\<rparr>"
proof -
  have "(set_condition conditions conditions_update c s)\<lparr>conditions := []\<rparr> = s\<lparr>conditions := []\<rparr>"
    by (simp add: set_condition_def split: option.split)
  moreover have "distinct (map condition_type (conditions (set_condition conditions conditions_update c s)))"
    using svc.one_per_type_set [of s c] assms by (simp add: svc.one_per_type_def)
  ultimately show ?thesis
    using svc.get_after_set [of c s ty] by blast
qed

theorem set_condition_spec_witness:
  "let s = \<lparr>daemonset_name = None, desired_number_scheduled = 0, current_number_scheduled = 0,
       number_ready = 0, registration_deployment_name = None, registration_deployment_ready = None,
       conditions = [not_ready 1 ''a'' ''b''], observed_generation = None\<rparr> in
   get_condition conditions (set_condition conditions conditions_update (not_ready 2 ''c'' ''d'') s) ''Ready''
     = Some ((not_ready 2 ''c'' ''d'')\<lparr>last_transition_time := Some 1\<rparr>)"
proof -
  let ?s = "\<lparr>daemonset_name = None, desired_number_scheduled = 0, current_number_scheduled = 0,
       number_ready = 0, registration_deployment_name = None, registration_deployment_ready = None,
       conditions = [not_ready 1 ''a'' ''b''], observed_generation = None\<rparr>"
  have "distinct (map condition_type (conditions ?s))" by simp
  from set_condition_spec [OF this, of "not_ready 2 ''c'' ''d''" "''Ready''"] show ?thesis
    by (simp add: Let_def get_condition_def not_ready_def new_condition_def with_message_def with_reason_def)
qed

end
