(* ===== verification/OpTypes.thy ===== *)
theory OpTypes
  imports OpStatus
begin

text \<open>
  The custom resource of \<open>bin/operator/src/tdx_quote_generation_service/types.rs\<close>, the
  operator's error type (\<open>bin/operator/src/error.rs\<close>), the finalizer predicates of
  \<open>finalizer.rs\<close> and the parser of node selectors in \<open>controller.rs\<close>. The generated part of
  the resource (its Kubernetes metadata) is the record \<open>tqgs\<close>: the fields the operator reads.
\<close>

subsection \<open>Errors\<close>

text \<open>A boxed error of kube's finalizer helper is its text. A Rust panic is a value too.\<close>

datatype op_error =
  OpKube kube_error
| Serialization str
| Finalizer str
| Generic str
| OpPanic str

text \<open>\<open>to_string()\<close> of the operator's error; the text of a \<open>kube::Error\<close> is an argument.\<close>

definition op_error_display :: "(kube_error \<Rightarrow> str) \<Rightarrow> op_error \<Rightarrow> str" where
  "op_error_display kube_display e =
     (case e of
        OpKube k \<Rightarrow> ''Kubernetes API error: '' @ kube_display k
      | Serialization s \<Rightarrow> ''Serialization error: '' @ s
      | Finalizer s \<Rightarrow> ''Finalizer error: '' @ s
      | Generic s \<Rightarrow> s
      | OpPanic s \<Rightarrow> s)"

subsection \<open>The resource\<close>

record online_config =
  api_key_secret_name :: "str option"

datatype platform_registration = Online online_config | Offline | External

definition default_platform_registration :: platform_registration where
  "default_platform_registration = Offline"

record tqgs_spec =
  registration :: platform_registration
  node_selector :: "str list option"

text \<open>\<open>res_name\<close> is what \<open>name_any()\<close> gives; \<open>None\<close> sorts before every creation time.\<close>

record tqgs =
  res_name :: str
  uid :: "str option"
  generation :: "int option"
  creation_timestamp :: "timestamp option"
  deletion_timestamp :: "timestamp option"
  finalizers :: "str list option"
  spec :: tqgs_spec
  res_status :: "service_status option"

definition default_status :: service_status where
  "default_status = \<lparr>daemonset_name = None, desired_number_scheduled = 0,
     current_number_scheduled = 0, number_ready = 0, registration_deployment_name = None,
     registration_deployment_ready = None, conditions = [], observed_generation = None\<rparr>"

definition FINALIZER :: str where
  "FINALIZER = ''trustedservices.intel.com/tdx_quote_generation_service-finalizer''"

definition has_finalizer :: "tqgs \<Rightarrow> bool" where
  "has_finalizer r = (case finalizers r of None \<Rightarrow> False | Some fs \<Rightarrow> FINALIZER \<in> set fs)"

definition is_deleting :: "tqgs \<Rightarrow> bool" where
  "is_deleting r \<longleftrightarrow> deletion_timestamp r \<noteq> None"

subsection \<open>Node selectors\<close>

definition quoted :: "str \<Rightarrow> str" where
  "quoted s = CHR 0x27 # s @ [CHR 0x27]"

text \<open>The loop of \<open>parse_node_selectors\<close>, with the map built so far.\<close>

fun parse_selectors :: "(str \<rightharpoonup> str) \<Rightarrow> str list \<Rightarrow> op_error + (str \<rightharpoonup> str)" where
  "parse_selectors m [] = Ok m"
| "parse_selectors m (selector # rest) =
     bind_res (ok_or (split_once CHR ''='' selector)
       (Generic (''Invalid node selector format: '' @ quoted selector @ ''. Expected '' @ quoted ''key=value''))) (\<lambda>(key, val).
     let key = trim key; val = trim val in
     if key = [] \<or> val = []
     then Err (Generic (''Invalid node selector format: '' @ quoted selector
       @ ''. Key and value must be non-empty''))
     else if m key \<noteq> None then Err (Generic (''Duplicate node selector key: '' @ quoted key))
     else parse_selectors (m(key \<mapsto> val)) rest)"

definition parse_node_selectors :: "str list \<Rightarrow> op_error + (str \<rightharpoonup> str)" where
  "parse_node_selectors selectors = parse_selectors Map.empty selectors"

text \<open>What an entry must be: trimmed key and value, both non-empty, around the first \<open>=\<close>.\<close>

definition selector_entry :: "str \<Rightarrow> (str \<times> str) option" where
  "selector_entry s = (case split_once CHR ''='' s of
     None \<Rightarrow> None
   | Some (k, v) \<Rightarrow> if trim k = [] \<or> trim v = [] then None else Some (trim k, trim v))"

lemma parse_selectors_Cons:
  "parse_selectors m (s # ss) = Ok m' \<longleftrightarrow>
     (\<exists>k v. selector_entry s = Some (k, v) \<and> m k = None \<and> parse_selectors (m(k \<mapsto> v)) ss = Ok m')"
proof (cases "split_once CHR ''='' s")
  case None
  then show ?thesis by (simp add: selector_entry_def)
next
  case (Some kv)
  then show ?thesis by (cases kv) (simp add: selector_entry_def Let_def)
qed

declare parse_selectors.simps(2) [simp del]

lemma parse_selectors_Ok:
  "parse_selectors m ss = Ok m' \<longleftrightarrow>
     (\<exists>es. map selector_entry ss = map Some es \<and> distinct (map fst es)
       \<and> set (map fst es) \<inter> dom m = {} \<and> m' = m ++ map_of es)"
proof (induction ss arbitrary: m)
  case Nil
  then show ?case by auto
next
  case (Cons s ss)
  have upd: "k \<notin> set (map fst es) \<Longrightarrow> m(k \<mapsto> v) ++ map_of es = m ++ map_of ((k, v) # es)"
    for k v and es :: "(str \<times> str) list"
    by (simp add: map_add_upd_left dom_map_of_conv_image_fst)
  show ?case (is "?parse \<longleftrightarrow> (\<exists>es. ?P es)")
  proof
    assume ?parse
    then obtain k v es where *: "selector_entry s = Some (k, v)" "m k = None"
      "map selector_entry ss = map Some es" "distinct (map fst es)"
      "set (map fst es) \<inter> dom (m(k \<mapsto> v)) = {}" "m' = m(k \<mapsto> v) ++ map_of es"
      unfolding parse_selectors_Cons Cons.IH by blast
    from *(5) have k: "k \<notin> set (map fst es)" "set (map fst es) \<inter> dom m = {}"
      by (auto simp del: fun_upd_apply)
    from *(6) upd [OF k(1)] have "m' = m ++ map_of ((k, v) # es)" by (rule trans)
    with * k have "?P ((k, v) # es)" by (simp del: map_add_upd map_of.simps add: domIff)
    then show "\<exists>es. ?P es" ..
  next
    assume "\<exists>es. ?P es"
    then obtain k v es where P: "?P ((k, v) # es)" by (auto simp: Cons_eq_map_conv)
    then have k: "k \<notin> set (map fst es)" "m k = None" "set (map fst es) \<inter> dom (m(k \<mapsto> v)) = {}"
      by auto
    have "m' = m(k \<mapsto> v) ++ map_of es" using P unfolding upd [OF k(1)] by blast
    with P k have "parse_selectors (m(k \<mapsto> v)) ss = Ok m'" unfolding Cons.IH by auto
    with P k show ?parse unfolding parse_selectors_Cons by auto
  qed
qed

lemma parse_node_selectors_Ok:
  "parse_node_selectors ss = Ok m \<longleftrightarrow>
     (\<exists>es. map selector_entry ss = map Some es \<and> distinct (map fst es) \<and> m = map_of es)"
  by (simp add: parse_node_selectors_def parse_selectors_Ok)

end
