(* ===== verification/PodSpec.thy ===== *)
theory PodSpec
  imports OpTypes World
begin

text \<open>
  The workloads the operator manages and how it builds them
  (\<open>bin/operator/src/tdx_quote_generation_service/controller.rs\<close>): the Kubernetes objects as
  records of the fields the code reads or writes (the rest of each object is kept as JSON), and
  the edits \<open>create_or_update_daemonset\<close> and \<open>create_or_update_deployment\<close> make on the parsed
  templates. The process environment is a map; the parsed template is an argument, because
  the YAML parser is a library.
\<close>

subsection \<open>Kubernetes objects\<close>

record secret_key_selector =
  sel_name :: str
  sel_key :: str
  sel_optional :: "bool option"

record env_var_source =
  field_ref :: "str option"
  secret_key_ref :: "secret_key_selector option"

record env_var =
  env_name :: str
  env_value :: "str option"
  env_value_from :: "env_var_source option"

record volume_mount =
  mount_name :: str
  mount_path :: str
  mount_read_only :: "bool option"

record volume =
  volume_name :: str
  volume_source :: json

record container =
  container_name :: str
  image :: "str option"
  container_command :: "str list option"
  container_env :: "env_var list option"
  volume_mounts :: "volume_mount list option"
  container_other :: json

record pod_spec =
  service_account_name :: "str option"
  init_containers :: "container list option"
  containers :: "container list"
  volumes :: "volume list option"
  pod_node_selector :: "(str \<rightharpoonup> str) option"
  pod_other :: json

record owner_reference =
  api_version :: str
  owner_kind :: str
  owner_name :: str
  owner_uid :: str
  owner_controller :: "bool option"
  block_owner_deletion :: "bool option"

text \<open>A DaemonSet or a Deployment.\<close>

record workload =
  wl_name :: "str option"
  wl_namespace :: "str option"
  owner_references :: "owner_reference list option"
  pod :: "pod_spec option"
  wl_other :: json

type_synonym vars = "str \<Rightarrow> str option"

definition env_or :: "vars \<Rightarrow> str \<Rightarrow> str \<Rightarrow> str" where
  "env_or vars name fallback = (case vars name of None \<Rightarrow> fallback | Some v \<Rightarrow> v)"

definition operator_namespace :: "vars \<Rightarrow> str" where
  "operator_namespace vars = env_or vars ''OPERATOR_NAMESPACE'' ''default''"

definition image_from_env :: "vars \<Rightarrow> str option" where
  "image_from_env vars = vars ''RELATED_IMAGE_QGS''"

definition create_owner_reference :: "tqgs \<Rightarrow> op_error + owner_reference" where
  "create_owner_reference r =
     bind_res (ok_or (uid r) (Generic ''Resource UID is missing - cannot create ownerReference'')) (\<lambda>u.
     Ok \<lparr>api_version = ''trustedservices.intel.com/v1'', owner_kind = ''TdxQuoteGenerationService'',
         owner_name = res_name r, owner_uid = u, owner_controller = Some True,
         block_owner_deletion = Some True\<rparr>)"

subsection \<open>External mode\<close>

text \<open>\<open>iter().position(p)\<close>.\<close>

fun position :: "('a \<Rightarrow> bool) \<Rightarrow> 'a list \<Rightarrow> nat option" where
  "position P [] = None"
| "position P (x # xs) = (if P x then Some 0 else map_option Suc (position P xs))"

text \<open>The two assignments to the command; the second index may be out of bounds.\<close>

definition literal_id_command :: "str list \<Rightarrow> op_error + str list" where
  "literal_id_command command =
     bind_res (ok_or (position (\<lambda>a. a = ''-i'') command)
       (Generic ''pck-certs-watcher command missing -i flag'')) (\<lambda>i.
     if Suc i < length command then Ok (command[i := ''--id'', Suc i := ''$(NODE_NAME)''])
     else Err (OpPanic ''index out of bounds''))"

definition use_node_name_as_literal_id :: "pod_spec \<Rightarrow> op_error + pod_spec" where
  "use_node_name_as_literal_id p =
     bind_res (ok_or
       (case init_containers p of None \<Rightarrow> None
        | Some cs \<Rightarrow> map_option (Pair cs) (position (\<lambda>c. container_name c = ''pck-certs-watcher'') cs))
       (Generic ''pck-certs-watcher initContainer not found in template'')) (\<lambda>(cs, i).
     bind_res (ok_or (container_command (cs ! i))
       (Generic ''pck-certs-watcher command not found in template'')) (\<lambda>command.
     bind_res (literal_id_command command) (\<lambda>command.
     Ok (p\<lparr>init_containers := Some (cs[i := (cs ! i)
       \<lparr>container_command := Some command,
        volume_mounts := map_option (filter (\<lambda>m. mount_name m \<noteq> ''platform-info''))
          (volume_mounts (cs ! i))\<rparr>])\<rparr>))))"

definition remove_volume :: "str \<Rightarrow> pod_spec \<Rightarrow> pod_spec" where
  "remove_volume name p = p\<lparr>volumes := map_option (filter (\<lambda>v. volume_name v \<noteq> name)) (volumes p)\<rparr>"

definition external_mode :: "pod_spec \<Rightarrow> op_error + pod_spec" where
  "external_mode p =
     bind_res (use_node_name_as_literal_id (remove_volume ''efivars''
       (p\<lparr>init_containers := map_option (filter (\<lambda>c. container_name c \<noteq> ''platform-registration''))
           (init_containers p)\<rparr>))) (\<lambda>p.
     Ok (remove_volume ''platform-info'' p))"

subsection \<open>The DaemonSet\<close>

definition set_images :: "str \<Rightarrow> pod_spec \<Rightarrow> pod_spec" where
  "set_images img p = p\<lparr>containers := map (image_update (\<lambda>_. Some img)) (containers p),
     init_containers := map_option (map (image_update (\<lambda>_. Some img))) (init_containers p)\<rparr>"

definition daemonset_pod :: "vars \<Rightarrow> tqgs_spec \<Rightarrow> pod_spec \<Rightarrow> op_error + pod_spec" where
  "daemonset_pod vars s p =
     (let p = p\<lparr>service_account_name := Some (env_or vars ''QGS_SERVICE_ACCOUNT'' ''intel-tdx-dcap-qgs'')\<rparr> in
      bind_res (if registration s = External then external_mode p else Ok p) (\<lambda>p.
      bind_res (case node_selector s of None \<Rightarrow> Ok p
        | Some selectors \<Rightarrow> bind_res (parse_node_selectors selectors) (\<lambda>m.
            Ok (p\<lparr>pod_node_selector := Some m\<rparr>))) (\<lambda>p.
      Ok (case image_from_env vars of None \<Rightarrow> p | Some img \<Rightarrow> set_images img p))))"

definition build_daemonset :: "vars \<Rightarrow> str + workload \<Rightarrow> tqgs \<Rightarrow> str \<Rightarrow> op_error + workload" where
  "build_daemonset vars parsed r namespace =
     bind_res (map_err (\<lambda>e. Generic (''Failed to parse DaemonSet template: '' @ e)) parsed) (\<lambda>ds.
     bind_res (create_owner_reference r) (\<lambda>owner.
     bind_res (ok_or (pod ds) (Generic ''DaemonSet template missing pod spec'')) (\<lambda>p.
     bind_res (daemonset_pod vars (spec r) p) (\<lambda>p.
     Ok (ds\<lparr>wl_name := Some (res_name r @ ''-qgs''), wl_namespace := Some namespace,
            owner_references := Some [owner], pod := Some p\<rparr>)))))"

subsection \<open>The registration Deployment\<close>

text \<open>\<open>env.iter_mut().find(..)\<close> and replace, or push.\<close>

definition set_env_var :: "env_var \<Rightarrow> env_var list \<Rightarrow> env_var list" where
  "set_env_var x env = (case position (\<lambda>e. env_name e = env_name x) env of
     None \<Rightarrow> env @ [x] | Some i \<Rightarrow> env[i := x])"

definition env_list :: "container \<Rightarrow> env_var list" where
  "env_list c = (case container_env c of None \<Rightarrow> [] | Some es \<Rightarrow> es)"

definition api_key_env :: "str \<Rightarrow> env_var" where
  "api_key_env sec = \<lparr>env_name = ''INTEL_PCS_API_KEY'', env_value = None,
     env_value_from = Some \<lparr>field_ref = None, secret_key_ref = Some
       \<lparr>sel_name = sec, sel_key = ''api-key'', sel_optional = Some True\<rparr>\<rparr>\<rparr>"

definition override_api_key :: "platform_registration \<Rightarrow> container \<Rightarrow> container" where
  "override_api_key reg c =
     (case reg of
        Online cfg \<Rightarrow> (case api_key_secret_name cfg of
          Some sec \<Rightarrow> c\<lparr>container_env := Some (set_env_var (api_key_env sec) (env_list c))\<rparr>
        | None \<Rightarrow> c)
      | _ \<Rightarrow> c)"

text \<open>One iteration of the loop over the proxy variables.\<close>

definition propagate_proxy :: "vars \<Rightarrow> str \<Rightarrow> container \<Rightarrow> container" where
  "propagate_proxy vars var c =
     (case vars var of
        None \<Rightarrow> c
      | Some val \<Rightarrow>
          if \<exists>e \<in> set (env_list c). env_name e = var then c\<lparr>container_env := Some (env_list c)\<rparr>
          else c\<lparr>container_env := Some (env_list c
            @ [\<lparr>env_name = var, env_value = Some val, env_value_from = None\<rparr>])\<rparr>)"

definition registrar_container :: "vars \<Rightarrow> tqgs_spec \<Rightarrow> container \<Rightarrow> container" where
  "registrar_container vars s c =
     (let c = fold (propagate_proxy vars) [''HTTPS_PROXY'', ''https_proxy'']
                (override_api_key (registration s) c) in
      case image_from_env vars of None \<Rightarrow> c | Some img \<Rightarrow> c\<lparr>image := Some img\<rparr>)"

definition build_deployment :: "vars \<Rightarrow> str + workload \<Rightarrow> tqgs \<Rightarrow> str \<Rightarrow> op_error + workload" where
  "build_deployment vars parsed r namespace =
     bind_res (map_err (\<lambda>e. Generic (''Failed to parse Deployment template: '' @ e)) parsed) (\<lambda>d.
     bind_res (create_owner_reference r) (\<lambda>owner.
     bind_res (ok_or (pod d) (Generic ''Deployment template missing pod spec'')) (\<lambda>p.
     case containers p of
       [] \<Rightarrow> Err (Generic ''Deployment template missing container'')
     | c # cs \<Rightarrow>
         Ok (d\<lparr>wl_name := Some (res_name r @ ''-registrar''), wl_namespace := Some namespace,
               owner_references := Some [owner],
               pod := Some (p\<lparr>service_account_name :=
                   Some (env_or vars ''QGS_SERVICE_ACCOUNT'' ''intel-tdx-dcap-qgs''),
                 containers := registrar_container vars (spec r) c # cs\<rparr>)\<rparr>))))"

end
