(* ===== verification/Templates.thy ===== *)
theory Templates
  imports PodSpec
begin

text \<open>
  The two templates embedded in the operator at compile time
  (\<open>bin/operator/templates/daemonset.yaml\<close>, \<open>deployment.yaml\<close>), as the typed objects their
  YAML describes; fields the operator never reads are kept as JSON.
\<close>

subsection \<open>daemonset.yaml\<close>

definition platform_registration_container :: container where
  "platform_registration_container = \<lparr>container_name = ''platform-registration'',
      image = Some ''intel-tdx-qgs:latest'',
    container_command = Some [''pck-cert-tool'', ''get-platforms'', ''-p'',
      ''/usr/local/bin/get_platform_info'', ''-i'', ''/run/dcap/platform/id'', ''-n'', ''$(NAMESPACE)'',
      ''-e'', ''/run/efivars'', ''--node-name'', ''$(NODE_NAME)''],
    container_env = Some [
    \<lparr>env_name = ''NAMESPACE'', env_value = None,
      env_value_from = Some \<lparr>field_ref = Some ''metadata.namespace'',
      secret_key_ref = None\<rparr>\<rparr>,
    \<lparr>env_name = ''NODE_NAME'', env_value = None,
      env_value_from = Some \<lparr>field_ref = Some ''spec.nodeName'',
      secret_key_ref = None\<rparr>\<rparr>],
    volume_mounts = Some [
    \<lparr>mount_name = ''efivars'', mount_path = ''/run/efivars'', mount_read_only = Some True\<rparr>,
    \<lparr>mount_name = ''platform-info'', mount_path = ''/run/dcap/platform'',
      mount_read_only = None\<rparr>],
    container_other = JObj [(''imagePullPolicy'', JStr ''IfNotPresent''), (''securityContext'',
      JObj [(''readOnlyRootFilesystem'', JBool True), (''allowPrivilegeEscalation'', JBool False),
      (''runAsUser'', JNum 0), (''seLinuxOptions'', JObj [(''type'', JStr ''spc_t'')]),
      (''capabilities'', JObj [(''drop'', JArr [JStr ''ALL''])])]), (''resources'', JObj [(''requests'',
      JObj [(''memory'', JStr ''32Mi''), (''cpu'', JStr ''10m'')]), (''limits'', JObj [(''memory'',
      JStr ''64Mi''), (''cpu'', JStr ''100m''), (''sgx.intel.com/enclave'', JNum 1),
      (''sgx.intel.com/provision'', JNum 1)])])]\<rparr>"

definition pck_certs_watcher_container :: container where
  "pck_certs_watcher_container = \<lparr>container_name = ''pck-certs-watcher'',
      image = Some ''intel-tdx-qgs:latest'',
    container_command = Some [''pck-cert-tool'', ''get-certificates'', ''-i'', ''/run/dcap/platform/id'',
      ''-n'', ''$(NAMESPACE)'', ''-o'', ''/run/dcap/cache/.dcap-qcnl''],
    container_env = Some [
    \<lparr>env_name = ''NAMESPACE'', env_value = None,
      env_value_from = Some \<lparr>field_ref = Some ''metadata.namespace'',
      secret_key_ref = None\<rparr>\<rparr>,
    \<lparr>env_name = ''NODE_NAME'', env_value = None,
      env_value_from = Some \<lparr>field_ref = Some ''spec.nodeName'',
      secret_key_ref = None\<rparr>\<rparr>],
    volume_mounts = Some [
    \<lparr>mount_name = ''dcap-qcnl-cache'', mount_path = ''/run/dcap/cache/'',
      mount_read_only = None\<rparr>,
    \<lparr>mount_name = ''platform-info'', mount_path = ''/run/dcap/platform'',
      mount_read_only = Some True\<rparr>],
    container_other = JObj [(''imagePullPolicy'', JStr ''IfNotPresent''), (''restartPolicy'',
      JStr ''Always''), (''securityContext'', JObj [(''runAsNonRoot'', JBool True),
      (''readOnlyRootFilesystem'', JBool True), (''allowPrivilegeEscalation'', JBool False),
      (''capabilities'', JObj [(''drop'', JArr [JStr ''ALL''])])]), (''resources'', JObj [(''requests'',
      JObj [(''memory'', JStr ''32Mi''), (''cpu'', JStr ''10m'')]), (''limits'', JObj [(''memory'',
      JStr ''64Mi''), (''cpu'', JStr ''100m'')])]), (''startupProbe'', JObj [(''exec'',
      JObj [(''command'', JArr [JStr ''pck-cert-tool'', JStr ''probe'', JStr ''cache-ready'',
      JStr ''/run/dcap/cache/.dcap-qcnl''])]), (''periodSeconds'', JNum 10), (''failureThreshold'',
      JNum 2147483647)])]\<rparr>"

definition tdx_qgs_container :: container where
  "tdx_qgs_container = \<lparr>container_name = ''tdx-qgs'', image = Some ''intel-tdx-qgs:latest'',
    container_command = None,
    container_env = Some [
    \<lparr>env_name = ''XDG_CACHE_HOME'', env_value = Some ''/run/dcap/cache'',
      env_value_from = None\<rparr>],
    volume_mounts = Some [
    \<lparr>mount_name = ''dcap-qcnl-cache'', mount_path = ''/run/dcap/cache'',
      mount_read_only = Some True\<rparr>,
    \<lparr>mount_name = ''qgs-socket'', mount_path = ''/var/run/tdx-qgs'', mount_read_only = None\<rparr>],
    container_other = JObj [(''args'', JArr [JStr ''-n=4'']), (''securityContext'',
      JObj [(''readOnlyRootFilesystem'', JBool True), (''allowPrivilegeEscalation'', JBool False),
      (''runAsUser'', JNum 0), (''runAsGroup'', JNum 107), (''seLinuxOptions'', JObj [(''type'',
      JStr ''spc_t'')]), (''capabilities'', JObj [(''drop'', JArr [JStr ''ALL''])])]), (''resources'',
      JObj [(''requests'', JObj [(''memory'', JStr ''64Mi''), (''cpu'', JStr ''10m'')]), (''limits'',
      JObj [(''memory'', JStr ''128Mi''), (''cpu'', JStr ''200m''), (''sgx.intel.com/enclave'', JNum 1),
      (''sgx.intel.com/provision'', JNum 1)])]), (''imagePullPolicy'', JStr ''IfNotPresent''),
      (''startupProbe'', JObj [(''exec'', JObj [(''command'', JArr [JStr ''pck-cert-tool'',
      JStr ''probe'', JStr ''check-socket'', JStr ''/var/run/tdx-qgs/qgs.socket''])]),
      (''periodSeconds'', JNum 2), (''failureThreshold'', JNum 30)]), (''livenessProbe'',
      JObj [(''exec'', JObj [(''command'', JArr [JStr ''pck-cert-tool'', JStr ''probe'',
      JStr ''check-socket'', JStr ''/var/run/tdx-qgs/qgs.socket''])]), (''periodSeconds'',
      JNum 60)])]\<rparr>"

definition daemonset_template_pod :: pod_spec where
  "daemonset_template_pod = \<lparr>service_account_name = Some ''intel-tdx-dcap-qgs'',
    init_containers = Some [platform_registration_container, pck_certs_watcher_container],
    containers = [tdx_qgs_container],
    volumes = Some [
    \<lparr>volume_name = ''dcap-qcnl-cache'', volume_source = JObj [(''emptyDir'', JObj [(''medium'',
      JStr ''Memory''), (''sizeLimit'', JStr ''1Mi'')])]\<rparr>,
    \<lparr>volume_name = ''qgs-socket'', volume_source = JObj [(''hostPath'', JObj [(''path'',
      JStr ''/var/run/tdx-qgs''), (''type'', JStr ''DirectoryOrCreate'')])]\<rparr>,
    \<lparr>volume_name = ''platform-info'', volume_source = JObj [(''emptyDir'', JObj [(''medium'',
      JStr ''Memory''), (''sizeLimit'', JStr ''4Ki'')])]\<rparr>,
    \<lparr>volume_name = ''efivars'', volume_source = JObj [(''hostPath'', JObj [(''path'',
      JStr ''/sys/firmware/efi/efivars/'')])]\<rparr>],
    pod_node_selector = None,
    pod_other = JObj [(''priorityClassName'', JStr ''system-node-critical''), (''securityContext'',
      JObj [(''seccompProfile'', JObj [(''type'', JStr ''RuntimeDefault'')])])]\<rparr>"

definition DAEMONSET_TEMPLATE :: workload where
  "DAEMONSET_TEMPLATE = \<lparr>wl_name = Some ''intel-tdx-qgs'', wl_namespace = None,
      owner_references = None,
    pod = Some daemonset_template_pod,
    wl_other = JObj [(''selector'', JObj [(''matchLabels'', JObj [(''app'', JStr ''intel-tdx-qgs'')])]),
      (''template'', JObj [(''metadata'', JObj [(''labels'', JObj [(''app'',
      JStr ''intel-tdx-qgs'')])])])]\<rparr>"

subsection \<open>deployment.yaml\<close>

definition registrar_template_container :: container where
  "registrar_template_container = \<lparr>container_name = ''registrar'',
      image = Some ''intel-tdx-qgs:latest'',
    container_command = Some [''pck-cert-tool'', ''register'', ''-n'', ''$(NAMESPACE)''],
    container_env = Some [
    \<lparr>env_name = ''NAMESPACE'', env_value = None,
      env_value_from = Some \<lparr>field_ref = Some ''metadata.namespace'',
      secret_key_ref = None\<rparr>\<rparr>,
    \<lparr>env_name = ''INTEL_PCS_API_KEY'', env_value = None,
      env_value_from = Some \<lparr>field_ref = None,
      secret_key_ref = Some \<lparr>sel_name = ''intel-pcs-api-key'', sel_key = ''api-key'',
      sel_optional = Some True\<rparr>\<rparr>\<rparr>],
    volume_mounts = None,
    container_other = JObj [(''imagePullPolicy'', JStr ''IfNotPresent''), (''securityContext'',
      JObj [(''readOnlyRootFilesystem'', JBool True), (''allowPrivilegeEscalation'', JBool False),
      (''runAsNonRoot'', JBool True), (''runAsUser'', JNum 65534), (''runAsGroup'', JNum 65534),
      (''capabilities'', JObj [(''drop'', JArr [JStr ''ALL''])])]), (''resources'', JObj [(''requests'',
      JObj [(''memory'', JStr ''32Mi''), (''cpu'', JStr ''10m'')]), (''limits'', JObj [(''memory'',
      JStr ''64Mi''), (''cpu'', JStr ''100m'')])])]\<rparr>"

definition deployment_template_pod :: pod_spec where
  "deployment_template_pod = \<lparr>service_account_name = Some ''intel-tdx-dcap-qgs'',
    init_containers = None,
    containers = [registrar_template_container],
    volumes = None,
    pod_node_selector = None,
    pod_other = JObj [(''securityContext'', JObj [(''seccompProfile'', JObj [(''type'',
      JStr ''RuntimeDefault'')])])]\<rparr>"

definition DEPLOYMENT_TEMPLATE :: workload where
  "DEPLOYMENT_TEMPLATE = \<lparr>wl_name = Some ''intel-tdx-registrar'', wl_namespace = None,
      owner_references = None,
    pod = Some deployment_template_pod,
    wl_other = JObj [(''replicas'', JNum 1), (''selector'', JObj [(''matchLabels'', JObj [(''app'',
      JStr ''intel-tdx-registrar'')])]), (''template'', JObj [(''metadata'', JObj [(''labels'',
      JObj [(''app'', JStr ''intel-tdx-registrar'')])])])]\<rparr>"

lemmas template_defs = DAEMONSET_TEMPLATE_def daemonset_template_pod_def DEPLOYMENT_TEMPLATE_def
  deployment_template_pod_def

lemmas container_defs = platform_registration_container_def pck_certs_watcher_container_def
  tdx_qgs_container_def registrar_template_container_def

end
