(* ===== verification/PodProps.thy ===== *)
theory PodProps
  imports Templates
begin

text \<open>
  What the operator's edits of its templates guarantee: which DaemonSets can be built, that
  External mode leaves a pod whose mounts all have a volume and whose watcher takes its ID from
  the node name, and the environment of the registration Deployment's container.
\<close>

subsection \<open>Pods\<close>

definition inits :: "pod_spec \<Rightarrow> container list" where
  "inits p = (case init_containers p of None \<Rightarrow> [] | Some cs \<Rightarrow> cs)"

definition vols :: "pod_spec \<Rightarrow> volume list" where
  "vols p = (case volumes p of None \<Rightarrow> [] | Some vs \<Rightarrow> vs)"

definition mounts :: "container \<Rightarrow> str list" where
  "mounts c = (case volume_mounts c of None \<Rightarrow> [] | Some ms \<Rightarrow> map mount_name ms)"

text \<open>Every mount of every container names a volume of the pod; Kubernetes rejects a pod with a
  dangling mount.\<close>

definition pod_mounts_ok :: "pod_spec \<Rightarrow> bool" where
  "pod_mounts_ok p = list_all (\<lambda>c. list_all (\<lambda>m. m \<in> set (map volume_name (vols p))) (mounts c))
     (inits p @ containers p)"

text \<open>Who may mount the two volumes that External mode removes.\<close>

definition external_ready :: "pod_spec \<Rightarrow> bool" where
  "external_ready p \<longleftrightarrow> pod_mounts_ok p \<and> distinct (map container_name (inits p))
     \<and> list_all (\<lambda>c. ''efivars'' \<in> set (mounts c) \<longrightarrow> container_name c = ''platform-registration'') (inits p)
     \<and> list_all (\<lambda>c. ''platform-info'' \<in> set (mounts c) \<longrightarrow>
         container_name c \<in> {''platform-registration'', ''pck-certs-watcher''}) (inits p)
     \<and> list_all (\<lambda>c. ''efivars'' \<notin> set (mounts c) \<and> ''platform-info'' \<notin> set (mounts c)) (containers p)"

lemma position_Some:
  "position P xs = Some i \<longleftrightarrow> i < length xs \<and> P (xs ! i) \<and> (\<forall>j < i. \<not> P (xs ! j))"
proof (induction xs arbitrary: i)
  case (Cons x xs)
  show ?case
    by (cases i) (auto simp: Cons.IH less_Suc_eq_0_disj)
qed simp

lemma position_None: "position P xs = None \<longleftrightarrow> (\<forall>x \<in> set xs. \<not> P x)"
  by (induction xs) auto

lemma literal_id_command_Ok:
  "literal_id_command cmd = Ok cmd' \<longleftrightarrow>
     (\<exists>pre x post. cmd = pre @ ''-i'' # x # post \<and> ''-i'' \<notin> set pre
       \<and> cmd' = pre @ ''--id'' # ''$(NODE_NAME)'' # post)"
proof
  assume "literal_id_command cmd = Ok cmd'"
  then obtain i where i: "position (\<lambda>a. a = ''-i'') cmd = Some i" "Suc i < length cmd"
    "cmd' = cmd[i := ''--id'', Suc i := ''$(NODE_NAME)'']"
    by (auto simp: literal_id_command_def bind_res_eq_Ok split: if_splits)
  from i(1) have p: "i < length cmd" "cmd ! i = ''-i''" "''-i'' \<notin> set (take i cmd)"
    by (auto simp: position_Some in_set_conv_nth)
  from i(2) have "cmd = take i cmd @ cmd ! i # cmd ! Suc i # drop (Suc (Suc i)) cmd"
    by (metis Suc_lessD id_take_nth_drop Cons_nth_drop_Suc)
  then obtain pre x post where d: "cmd = pre @ ''-i'' # x # post" "length pre = i" "''-i'' \<notin> set pre"
    using p by (metis length_take min.absorb4)
  with i(3) show "\<exists>pre x post. cmd = pre @ ''-i'' # x # post \<and> ''-i'' \<notin> set pre
       \<and> cmd' = pre @ ''--id'' # ''$(NODE_NAME)'' # post"
    by (intro exI [of _ pre] exI [of _ x] exI [of _ post]) (auto simp: list_update_append)
next
  assume "\<exists>pre x post. cmd = pre @ ''-i'' # x # post \<and> ''-i'' \<notin> set pre
       \<and> cmd' = pre @ ''--id'' # ''$(NODE_NAME)'' # post"
  then obtain pre x post where d: "cmd = pre @ ''-i'' # x # post" "''-i'' \<notin> set pre"
    "cmd' = pre @ ''--id'' # ''$(NODE_NAME)'' # post" by blast
  have "position (\<lambda>a. a = ''-i'') cmd = Some (length pre)"
    using d(1,2) by (auto simp: position_Some nth_append in_set_conv_nth)
  with d show "literal_id_command cmd = Ok cmd'"
    by (simp add: literal_id_command_def list_update_append)
qed

lemma use_node_name_as_literal_id_Ok:
  "use_node_name_as_literal_id p = Ok q \<longleftrightarrow>
     (\<exists>cs i cmd cmd'. init_containers p = Some cs
        \<and> position (\<lambda>c. container_name c = ''pck-certs-watcher'') cs = Some i
        \<and> container_command (cs ! i) = Some cmd \<and> literal_id_command cmd = Ok cmd'
        \<and> q = p\<lparr>init_containers := Some (cs[i := (cs ! i)\<lparr>container_command := Some cmd',
            volume_mounts := map_option (filter (\<lambda>m. mount_name m \<noteq> ''platform-info''))
              (volume_mounts (cs ! i))\<rparr>])\<rparr>)"
  by (auto simp: use_node_name_as_literal_id_def bind_res_eq_Ok split: option.splits prod.splits)

lemma vols_remove_volume [simp]:
  "vols (remove_volume n p) = filter (\<lambda>v. volume_name v \<noteq> n) (vols p)"
  "inits (remove_volume n p) = inits p"
  "containers (remove_volume n p) = containers p"
  by (simp_all add: vols_def inits_def remove_volume_def split: option.split)

text \<open>The container the watcher becomes.\<close>

definition literal_watcher :: "container \<Rightarrow> str list \<Rightarrow> container" where
  "literal_watcher c cmd = c\<lparr>container_command := Some cmd,
     volume_mounts := map_option (filter (\<lambda>m. mount_name m \<noteq> ''platform-info'')) (volume_mounts c)\<rparr>"

lemma literal_watcher_simps [simp]:
  "container_name (literal_watcher c cmd) = container_name c"
  "container_command (literal_watcher c cmd) = Some cmd"
  "mounts (literal_watcher c cmd) = filter (\<lambda>m. m \<noteq> ''platform-info'') (mounts c)"
  by (auto simp: literal_watcher_def mounts_def filter_map o_def split: option.split)

lemma external_mode_Ok:
  assumes "external_mode p = Ok q"
  obtains cs i cmd cmd' where
    "filter (\<lambda>c. container_name c \<noteq> ''platform-registration'') (inits p) = cs"
    "i < length cs" "container_name (cs ! i) = ''pck-certs-watcher''"
    "container_command (cs ! i) = Some cmd" "literal_id_command cmd = Ok cmd'"
    "inits q = cs[i := literal_watcher (cs ! i) cmd']"
    "vols q = filter (\<lambda>v. volume_name v \<noteq> ''efivars'' \<and> volume_name v \<noteq> ''platform-info'') (vols p)"
    "containers q = containers p"
proof -
  let ?cs = "filter (\<lambda>c. container_name c \<noteq> ''platform-registration'') (inits p)"
  let ?p = "remove_volume ''efivars'' (p\<lparr>init_containers := map_option
    (filter (\<lambda>c. container_name c \<noteq> ''platform-registration'')) (init_containers p)\<rparr>)"
  from assms obtain r where r: "use_node_name_as_literal_id ?p = Ok r" "q = remove_volume ''platform-info'' r"
    by (auto simp: external_mode_def bind_res_eq_Ok)
  then obtain cs i cmd cmd' where i: "init_containers ?p = Some cs"
    "position (\<lambda>c. container_name c = ''pck-certs-watcher'') cs = Some i"
    "container_command (cs ! i) = Some cmd" "literal_id_command cmd = Ok cmd'"
    "r = ?p\<lparr>init_containers := Some (cs[i := literal_watcher (cs ! i) cmd'])\<rparr>"
    by (auto simp: use_node_name_as_literal_id_Ok literal_watcher_def)
  have "?cs = cs" using i(1) by (auto simp: inits_def remove_volume_def)
  moreover have "i < length cs" "container_name (cs ! i) = ''pck-certs-watcher''"
    using i(2) by (simp_all add: position_Some)
  moreover have "inits q = cs[i := literal_watcher (cs ! i) cmd']"
    using i(5) by (simp add: r(2) inits_def remove_volume_def)
  moreover have "vols q = filter (\<lambda>v. volume_name v \<noteq> ''efivars'' \<and> volume_name v \<noteq> ''platform-info'') (vols p)"
    using i(5) by (auto simp: r(2) vols_def remove_volume_def conj_commute split: option.split)
  moreover have "containers q = containers p"
    using i(5) by (simp add: r(2) remove_volume_def)
  ultimately show thesis using i(3,4) that by blast
qed

text \<open>C31: External mode, for any template whose mounts are in order: the pod loses the
  \<open>platform-registration\<close> container and the two volumes it needed and nothing else, every mount
  left has its volume, and the watcher takes its ID literally from the node name.\<close>

theorem external_mode_sound:
  assumes "external_ready p" "external_mode p = Ok q"
  shows "pod_mounts_ok q
    \<and> map container_name (inits q)
        = filter (\<lambda>n. n \<noteq> ''platform-registration'') (map container_name (inits p))
    \<and> map volume_name (vols q)
        = filter (\<lambda>n. n \<noteq> ''efivars'' \<and> n \<noteq> ''platform-info'') (map volume_name (vols p))
    \<and> containers q = containers p
    \<and> (\<exists>c pre post. c \<in> set (inits q) \<and> container_name c = ''pck-certs-watcher''
        \<and> container_command c = Some (pre @ ''--id'' # ''$(NODE_NAME)'' # post) \<and> ''-i'' \<notin> set pre)"
  using assms(2)
proof (rule external_mode_Ok)
  fix cs i cmd cmd'
  assume cs: "filter (\<lambda>c. container_name c \<noteq> ''platform-registration'') (inits p) = cs"
    and i: "i < length cs" "container_name (cs ! i) = ''pck-certs-watcher''"
    and cmd: "literal_id_command cmd = Ok cmd'"
    and q: "inits q = cs[i := literal_watcher (cs ! i) cmd']" "containers q = containers p"
      "vols q = filter (\<lambda>v. volume_name v \<noteq> ''efivars'' \<and> volume_name v \<noteq> ''platform-info'') (vols p)"
  have csI: "set cs \<subseteq> set (inits p)" "\<forall>c \<in> set cs. container_name c \<noteq> ''platform-registration''"
    using cs by auto
  have names: "map container_name (inits q) = map container_name cs"
    using i(1) by (simp add: q(1) map_update list_update_same_conv)
  have dist: "distinct (map container_name cs)"
    using assms(1) cs by (auto simp: external_ready_def intro: distinct_map_filter)
  have safe: "m \<noteq> ''efivars'' \<and> m \<noteq> ''platform-info'' \<and> m \<in> set (map volume_name (vols p))"
    if c: "c \<in> set (inits q @ containers q)" and m: "m \<in> set (mounts c)" for c m
  proof (cases "c \<in> set (containers p)")
    case True
    then show ?thesis using assms(1) m by (auto simp: external_ready_def pod_mounts_ok_def list_all_iff)
  next
    case False
    with c q have "c \<in> set (cs[i := literal_watcher (cs ! i) cmd'])" by auto
    then obtain j where j: "j < length cs" "c = (if j = i then literal_watcher (cs ! i) cmd' else cs ! j)"
      by (auto simp: in_set_conv_nth nth_list_update)
    have w: "cs ! j \<in> set (inits p)" "container_name (cs ! j) \<noteq> ''platform-registration''"
      using j(1) csI nth_mem by auto
    have "container_name (cs ! j) = ''pck-certs-watcher'' \<Longrightarrow> j = i"
      using dist i j(1) nth_eq_iff_index_eq [of "map container_name cs" i j] by simp
    with w j m assms(1) show ?thesis
      by (fastforce simp: external_ready_def pod_mounts_ok_def list_all_iff split: if_splits)
  qed
  have "pod_mounts_ok q"
    using safe by (fastforce simp: pod_mounts_ok_def list_all_iff q(3))
  moreover have "map container_name cs
      = filter (\<lambda>n. n \<noteq> ''platform-registration'') (map container_name (inits p))"
    using cs by (auto simp: filter_map o_def)
  moreover have "\<exists>c pre post. c \<in> set (inits q) \<and> container_name c = ''pck-certs-watcher''
      \<and> container_command c = Some (pre @ ''--id'' # ''$(NODE_NAME)'' # post) \<and> ''-i'' \<notin> set pre"
  proof -
    obtain pre post where "cmd' = pre @ ''--id'' # ''$(NODE_NAME)'' # post" "''-i'' \<notin> set pre"
      using cmd by (auto simp: literal_id_command_Ok)
    moreover have "literal_watcher (cs ! i) cmd' \<in> set (inits q)"
      using i(1) by (simp add: q(1) set_update_memI)
    ultimately show ?thesis using i(2) by (metis literal_watcher_simps(1,2))
  qed
  ultimately show ?thesis using names q(2,3) by (simp add: filter_map o_def)
qed

theorem external_mode_sound_witness:
  "external_ready daemonset_template_pod
   \<and> (\<exists>q. external_mode daemonset_template_pod = Ok q \<and> pod_mounts_ok q
      \<and> map container_name (inits q) = [''pck-certs-watcher'']
      \<and> map volume_name (vols q) = [''dcap-qcnl-cache'', ''qgs-socket''])"
proof -
  have r: "external_ready daemonset_template_pod"
    by (simp add: external_ready_def pod_mounts_ok_def inits_def vols_def mounts_def template_defs container_defs)
  obtain q where q: "external_mode daemonset_template_pod = Ok q"
    by (simp add: external_mode_def use_node_name_as_literal_id_def literal_id_command_def
        remove_volume_def template_defs container_defs)
  from external_mode_sound [OF r q] r q show ?thesis
    by (simp add: inits_def vols_def template_defs container_defs)
qed

subsection \<open>The DaemonSet\<close>

lemma external_mode_template:
  "\<exists>q. external_mode (daemonset_template_pod\<lparr>service_account_name := a\<rparr>) = Ok q"
  by (simp add: external_mode_def use_node_name_as_literal_id_def literal_id_command_def
      remove_volume_def template_defs container_defs)

lemma set_images_image:
  "list_all (\<lambda>c. image c = Some img) (inits (set_images img p) @ containers (set_images img p))"
  by (cases "init_containers p") (auto simp: set_images_def inits_def list_all_iff)

lemma set_images_simps [simp]:
  "service_account_name (set_images img p) = service_account_name p"
  "pod_node_selector (set_images img p) = pod_node_selector p"
  by (simp_all add: set_images_def)

lemma build_daemonset_cases:
  "case build_daemonset vars (Ok DAEMONSET_TEMPLATE) r namespace of
     Inl e \<Rightarrow> (uid r = None \<and> e = Generic ''Resource UID is missing - cannot create ownerReference'')
       \<or> (\<exists>ss. node_selector (spec r) = Some ss \<and> parse_node_selectors ss = Err e)
   | Inr ds \<Rightarrow> (\<exists>u p. uid r = Some u \<and> pod ds = Some p
       \<and> wl_name ds = Some (res_name r @ ''-qgs'') \<and> wl_namespace ds = Some namespace
       \<and> (\<exists>owner. owner_references ds = Some [owner] \<and> owner_name owner = res_name r \<and> owner_uid owner = u)
       \<and> service_account_name p = Some (env_or vars ''QGS_SERVICE_ACCOUNT'' ''intel-tdx-dcap-qgs'')
       \<and> map_option Ok (pod_node_selector p) = map_option parse_node_selectors (node_selector (spec r))
       \<and> (case image_from_env vars of None \<Rightarrow> True
          | Some img \<Rightarrow> list_all (\<lambda>c. image c = Some img) (inits p @ containers p)))"
proof (cases "uid r")
  case None
  then show ?thesis by (simp add: build_daemonset_def create_owner_reference_def)
next
  case (Some u)
  let ?a = "Some (env_or vars ''QGS_SERVICE_ACCOUNT'' ''intel-tdx-dcap-qgs'')"
  let ?p = "daemonset_template_pod\<lparr>service_account_name := ?a\<rparr>"
  obtain q where q: "(if registration (spec r) = External then external_mode ?p else Ok ?p) = Ok q"
    using external_mode_template [of ?a] by (cases "registration (spec r) = External") auto
  have keep: "service_account_name q = ?a \<and> pod_node_selector q = None"
  proof (cases "registration (spec r) = External")
    case True
    with q show ?thesis
      by (auto simp: external_mode_def use_node_name_as_literal_id_Ok bind_res_eq_Ok remove_volume_def
          template_defs)
  next
    case False
    with q show ?thesis by (auto simp: template_defs)
  qed
  show ?thesis
  proof (cases "node_selector (spec r)")
    case None
    with q keep Some show ?thesis
      by (auto simp: build_daemonset_def create_owner_reference_def daemonset_pod_def Let_def
          DAEMONSET_TEMPLATE_def set_images_image simp del: list_all_append split: option.splits)
  next
    case (Some ss)
    then show ?thesis using q keep \<open>uid r = Some u\<close>
      by (cases "parse_node_selectors ss")
        (auto simp: build_daemonset_def create_owner_reference_def daemonset_pod_def Let_def
          DAEMONSET_TEMPLATE_def set_images_image simp del: list_all_append split: option.splits)
  qed
qed

text \<open>On the embedded template, building the DaemonSet succeeds exactly when the resource has
  a UID and its node selectors parse: no other error and no panic. What it builds carries the
  resource's name and its owner reference, runs under the configured service account, and
  every container has the configured image.\<close>

theorem build_daemonset_outcome:
  "case build_daemonset vars (Ok DAEMONSET_TEMPLATE) r namespace of
     Inl e \<Rightarrow> (uid r = None \<and> e = Generic ''Resource UID is missing - cannot create ownerReference'')
       \<or> (\<exists>ss. node_selector (spec r) = Some ss \<and> parse_node_selectors ss = Err e)
   | Inr ds \<Rightarrow> (\<exists>u p. uid r = Some u \<and> pod ds = Some p
       \<and> wl_name ds = Some (res_name r @ ''-qgs'') \<and> wl_namespace ds = Some namespace
       \<and> (\<exists>owner. owner_references ds = Some [owner] \<and> owner_name owner = res_name r \<and> owner_uid owner = u)
       \<and> service_account_name p = Some (env_or vars ''QGS_SERVICE_ACCOUNT'' ''intel-tdx-dcap-qgs'')
       \<and> map_option Ok (pod_node_selector p) = map_option parse_node_selectors (node_selector (spec r))
       \<and> (case image_from_env vars of None \<Rightarrow> True
          | Some img \<Rightarrow> list_all (\<lambda>c. image c = Some img) (inits p @ containers p)))"
  by (rule build_daemonset_cases)

subsection \<open>The registration Deployment\<close>

definition env_lookup :: "container \<Rightarrow> str \<Rightarrow> env_var option" where
  "env_lookup c n = find (\<lambda>e. env_name e = n) (env_list c)"

definition env_names :: "container \<Rightarrow> str list" where
  "env_names c = map env_name (env_list c)"

definition literal_env :: "str \<Rightarrow> str \<Rightarrow> env_var" where
  "literal_env var val = \<lparr>env_name = var, env_value = Some val, env_value_from = None\<rparr>"

lemma find_update_env:
  "i < length es \<Longrightarrow> env_name (es ! i) = env_name x \<Longrightarrow> (\<forall>j < i. env_name (es ! j) \<noteq> env_name x) \<Longrightarrow>
     find (\<lambda>e. env_name e = n) (es[i := x]) =
       (if n = env_name x then Some x else find (\<lambda>e. env_name e = n) es)"
proof (induction es arbitrary: i)
  case (Cons e es)
  show ?case
  proof (cases i)
    case 0
    with Cons.prems show ?thesis by auto
  next
    case (Suc j)
    from Cons.prems(3) Suc have "env_name e \<noteq> env_name x" "\<forall>k < j. env_name (es ! k) \<noteq> env_name x"
      by (force, auto)
    with Cons.IH [of j] Cons.prems(1,2) Suc show ?thesis by auto
  qed
qed simp

lemma find_set_env_var:
  "find (\<lambda>e. env_name e = n) (set_env_var x es) =
     (if n = env_name x then Some x else find (\<lambda>e. env_name e = n) es)"
proof (cases "position (\<lambda>e. env_name e = env_name x) es")
  case None
  then have "find (\<lambda>e. env_name e = env_name x) es = None"
    by (simp add: position_None find_None_iff)
  with None show ?thesis by (auto simp: set_env_var_def find_append split: option.split)
next
  case (Some i)
  then have i: "i < length es" "env_name (es ! i) = env_name x" "\<forall>j < i. env_name (es ! j) \<noteq> env_name x"
    by (simp_all add: position_Some)
  show ?thesis using find_update_env [OF i, of n] Some by (simp add: set_env_var_def)
qed

lemma distinct_set_env_var:
  assumes "distinct (map env_name es)"
  shows "distinct (map env_name (set_env_var x es))"
proof (cases "position (\<lambda>e. env_name e = env_name x) es")
  case None
  then have "env_name x \<notin> set (map env_name es)" by (auto simp: position_None)
  with assms None show ?thesis by (simp add: set_env_var_def)
next
  case (Some i)
  then have "map env_name (es[i := x]) = map env_name es"
    by (auto simp: position_Some map_update list_update_same_conv)
  with assms Some show ?thesis by (simp add: set_env_var_def)
qed

text \<open>What the environment of the registrar's container becomes, for any template.\<close>

lemma env_lookup_override:
  "env_lookup (override_api_key reg c) n =
     (case reg of
        Online cfg \<Rightarrow> (case api_key_secret_name cfg of
          Some sec \<Rightarrow> if n = ''INTEL_PCS_API_KEY'' then Some (api_key_env sec) else env_lookup c n
        | None \<Rightarrow> env_lookup c n)
      | _ \<Rightarrow> env_lookup c n)"
  "distinct (env_names c) \<Longrightarrow> distinct (env_names (override_api_key reg c))"
proof -
  have e: "env_name (api_key_env sec) = ''INTEL_PCS_API_KEY''" for sec by (simp add: api_key_env_def)
  then show "env_lookup (override_api_key reg c) n =
     (case reg of
        Online cfg \<Rightarrow> (case api_key_secret_name cfg of
          Some sec \<Rightarrow> if n = ''INTEL_PCS_API_KEY'' then Some (api_key_env sec) else env_lookup c n
        | None \<Rightarrow> env_lookup c n)
      | _ \<Rightarrow> env_lookup c n)"
    by (auto simp: override_api_key_def env_lookup_def env_list_def find_set_env_var
        split: platform_registration.split option.split)
  show "distinct (env_names c) \<Longrightarrow> distinct (env_names (override_api_key reg c))"
    by (auto simp: override_api_key_def env_names_def env_list_def distinct_set_env_var
        split: platform_registration.split option.split)
qed

lemma env_lookup_propagate:
  "env_lookup (propagate_proxy vars var c) n =
     (case env_lookup c n of
        Some e \<Rightarrow> Some e
      | None \<Rightarrow> if n = var then map_option (literal_env var) (vars var) else None)"
  "distinct (env_names c) \<Longrightarrow> distinct (env_names (propagate_proxy vars var c))"
proof -
  have has: "(\<exists>e \<in> set (env_list c). env_name e = var) \<longleftrightarrow> env_lookup c var \<noteq> None"
    by (auto simp: env_lookup_def find_None_iff)
  have new: "env_lookup (c\<lparr>container_env := Some (env_list c @ [literal_env var val])\<rparr>) n =
      (case env_lookup c n of Some e \<Rightarrow> Some e
       | None \<Rightarrow> if n = var then Some (literal_env var val) else None)" for val
    by (auto simp: env_lookup_def env_list_def find_append literal_env_def split: option.split)
  show "env_lookup (propagate_proxy vars var c) n =
     (case env_lookup c n of
        Some e \<Rightarrow> Some e
      | None \<Rightarrow> if n = var then map_option (literal_env var) (vars var) else None)"
  proof (cases "vars var")
    case None
    then show ?thesis by (simp add: propagate_proxy_def split: option.split)
  next
    case (Some val)
    have same: "env_lookup (c\<lparr>container_env := Some (env_list c)\<rparr>) n = env_lookup c n"
      by (simp add: env_lookup_def env_list_def)
    show ?thesis
      using Some new [of val] same
      unfolding propagate_proxy_def has literal_env_def [symmetric]
      by (cases "env_lookup c var") (auto split: option.split)
  qed
  have "distinct (env_names c) \<Longrightarrow> \<not> (\<exists>e \<in> set (env_list c). env_name e = var)
      \<Longrightarrow> distinct (env_names (c\<lparr>container_env := Some (env_list c @ [literal_env var val])\<rparr>))" for val
    by (auto simp: env_names_def env_list_def literal_env_def)
  then show "distinct (env_names c) \<Longrightarrow> distinct (env_names (propagate_proxy vars var c))"
    unfolding propagate_proxy_def literal_env_def [symmetric]
    by (auto simp: env_names_def env_list_def split: option.split)
qed

text \<open>C39: On the embedded template, building the registration Deployment fails only without a UID.
  Its one container gets the API key from the secret the resource names, or the default one,
  and each HTTPS proxy setting of the operator; every other variable is the template's, no
  name occurs twice, and the image is the configured one.\<close>

theorem build_deployment_outcome:
  "case build_deployment vars (Ok DEPLOYMENT_TEMPLATE) r namespace of
     Inl e \<Rightarrow> uid r = None \<and> e = Generic ''Resource UID is missing - cannot create ownerReference''
   | Inr d \<Rightarrow> (\<exists>u p c. uid r = Some u \<and> pod d = Some p \<and> containers p = [c]
       \<and> wl_name d = Some (res_name r @ ''-registrar'') \<and> wl_namespace d = Some namespace
       \<and> distinct (env_names c)
       \<and> (\<forall>n. env_lookup c n =
            (if n = ''INTEL_PCS_API_KEY'' then
               Some (api_key_env (case registration (spec r) of
                 Online cfg \<Rightarrow> (case api_key_secret_name cfg of None \<Rightarrow> ''intel-pcs-api-key'' | Some sec \<Rightarrow> sec)
               | _ \<Rightarrow> ''intel-pcs-api-key''))
             else if n \<in> {''HTTPS_PROXY'', ''https_proxy''} then map_option (literal_env n) (vars n)
             else env_lookup registrar_template_container n))
       \<and> image c = Some (env_or vars ''RELATED_IMAGE_QGS'' ''intel-tdx-qgs:latest''))"
proof (cases "uid r")
  case None
  then show ?thesis by (simp add: build_deployment_def create_owner_reference_def)
next
  case (Some u)
  let ?t = registrar_template_container
  let ?o = "override_api_key (registration (spec r)) ?t"
  let ?c = "registrar_container vars (spec r) ?t"
  have env_image: "env_list (c\<lparr>image := i\<rparr>) = env_list c" for c :: container and i
    by (simp add: env_list_def)
  have look: "env_lookup ?c n = env_lookup (propagate_proxy vars ''https_proxy''
      (propagate_proxy vars ''HTTPS_PROXY'' ?o)) n" for n
    by (simp add: registrar_container_def Let_def env_lookup_def env_image split: option.split)
  have names: "env_names ?c = env_names (propagate_proxy vars ''https_proxy''
      (propagate_proxy vars ''HTTPS_PROXY'' ?o))"
    by (simp add: registrar_container_def Let_def env_names_def env_image split: option.split)
  have "distinct (env_names ?t)" by (simp add: env_names_def env_list_def container_defs)
  then have dist: "distinct (env_names ?c)"
    unfolding names by (intro env_lookup_propagate(2) env_lookup_override(2))
  have key: "env_lookup ?t ''INTEL_PCS_API_KEY'' = Some (api_key_env ''intel-pcs-api-key'')"
    "env_lookup ?t ''HTTPS_PROXY'' = None" "env_lookup ?t ''https_proxy'' = None"
    by (simp_all add: env_lookup_def env_list_def container_defs api_key_env_def)
  have "image (propagate_proxy vars v c) = image c" for v and c :: container
    by (simp add: propagate_proxy_def split: option.split)
  moreover have "image ?o = image ?t"
    by (simp add: override_api_key_def split: platform_registration.split option.split)
  moreover have "image ?t = Some ''intel-tdx-qgs:latest''" by (simp add: container_defs)
  ultimately have img: "image ?c = Some (env_or vars ''RELATED_IMAGE_QGS'' ''intel-tdx-qgs:latest'')"
    by (simp add: registrar_container_def Let_def env_or_def image_from_env_def split: option.split)
  show ?thesis
    using Some dist img key
    by (simp add: build_deployment_def create_owner_reference_def template_defs look
        env_lookup_propagate(1) env_lookup_override(1) split: platform_registration.split option.split)
qed

end
