(* ===== verification/PodCommands.thy ===== *)
theory PodCommands
  imports Commands PodProps Registrar
begin

text \<open>
  The operator and the tool together: the pods the operator builds start \<open>pck-cert-tool\<close> with
  command lines from the operator's templates. Here they are read with the tool's own options,
  and the paths they name are followed through the volume mounts.

  How the kubelet starts a container is outside the program. Its parts are arguments, with the
  documented behaviour the templates rely on as hypotheses: \<open>vars\<close> is a container's environment,
  which holds the values of the downward API (\<open>downward\<close>), and \<open>expand\<close> replaces \<open>$(NAME)\<close> in
  an argument (\<open>expands\<close>).
\<close>

type_synonym container_vars = "container \<Rightarrow> str \<Rightarrow> str option"
type_synonym expansion = "(str \<Rightarrow> str option) \<Rightarrow> str \<Rightarrow> str"

definition downward_env :: "str \<Rightarrow> str \<Rightarrow> env_var" where
  "downward_env n field = \<lparr>env_name = n, env_value = None,
     env_value_from = Some \<lparr>field_ref = Some field, secret_key_ref = None\<rparr>\<rparr>"

definition downward :: "container_vars \<Rightarrow> str \<Rightarrow> str \<Rightarrow> bool" where
  "downward vars namespace node \<longleftrightarrow> (\<forall>c n.
     (env_lookup c n = Some (downward_env n ''metadata.namespace'') \<longrightarrow> vars c n = Some namespace)
     \<and> (env_lookup c n = Some (downward_env n ''spec.nodeName'') \<longrightarrow> vars c n = Some node))"

definition expands :: "expansion \<Rightarrow> bool" where
  "expands expand \<longleftrightarrow>
     (\<forall>env s. CHR ''$'' \<notin> set s \<longrightarrow> expand env s = s)
     \<and> (\<forall>env n v. set n \<inter> {CHR ''$'', CHR ''('', CHR '')''} = {} \<and> env n = Some v
          \<longrightarrow> expand env (''$('' @ n @ '')'') = v)"

text \<open>The arguments a container's program is started with, and those of an \<open>exec\<close> probe.\<close>

definition argv :: "container_vars \<Rightarrow> expansion \<Rightarrow> container \<Rightarrow> str list" where
  "argv vars expand c =
     (case container_command c of Some (prog # args) \<Rightarrow> map (expand (vars c)) args | _ \<Rightarrow> [])"

definition program :: "container \<Rightarrow> str option" where
  "program c = (case container_command c of Some (prog # args) \<Rightarrow> Some prog | _ \<Rightarrow> None)"

definition probe_argv :: "json \<Rightarrow> (str \<times> str list) option" where
  "probe_argv p =
     (case json_member2 ''exec'' ''command'' p of
        Some (JArr (JStr prog # args)) \<Rightarrow> Some (prog, List.map_filter json_as_str args)
      | _ \<Rightarrow> None)"

text \<open>All probes of a container that run a program: their kind, the program, and what the tool makes of
  the arguments.\<close>

definition probe_commands :: "(str list \<Rightarrow> command option) \<Rightarrow> container \<Rightarrow> (str \<times> str \<times> command option) list" where
  "probe_commands clap c = List.map_filter (\<lambda>kind.
     Option.bind (json_get kind (container_other c)) (\<lambda>p.
     map_option (\<lambda>(prog, args). (kind, prog, clap args)) (probe_argv p)))
     [''startupProbe'', ''livenessProbe'', ''readinessProbe'']"

text \<open>Where a path of a container lies: the volume, the path inside it, and whether it is writable.
  No mount of these pods lies inside another.\<close>

definition mount_dir :: "volume_mount \<Rightarrow> str" where
  "mount_dir m = (if mount_path m \<noteq> [] \<and> last (mount_path m) = CHR ''/'' then mount_path m
     else mount_path m @ ''/'')"

definition locate :: "container \<Rightarrow> str \<Rightarrow> (str \<times> str \<times> bool) option" where
  "locate c path =
     (case filter (\<lambda>m. take (length (mount_dir m)) path = mount_dir m)
             (case volume_mounts c of None \<Rightarrow> [] | Some ms \<Rightarrow> ms) of
        [] \<Rightarrow> None
      | m # _ \<Rightarrow> Some (mount_name m, drop (length (mount_dir m)) path, mount_read_only m \<noteq> Some True))"

text \<open>Two paths that lie at the same place of one volume.\<close>

definition same_place :: "container \<Rightarrow> str \<Rightarrow> container \<Rightarrow> str \<Rightarrow> bool" where
  "same_place c x d y =
     (case (locate c x, locate d y) of
        (Some (v, p, _), Some (v', p', _)) \<Rightarrow> v = v' \<and> p = p'
      | _ \<Rightarrow> False)"

subsection \<open>The containers of the two workloads\<close>

lemma image_update_simps [simp]:
  "container_name (image_update f c) = container_name c"
  "container_command (image_update f c) = container_command c"
  "volume_mounts (image_update f c) = volume_mounts c"
  "container_other (image_update f c) = container_other c"
  "env_lookup (image_update f c) n = env_lookup c n"
  "locate (image_update f c) path = locate c path"
  "probe_commands clap (image_update f c) = probe_commands clap c"
  "program (image_update f c) = program c"
  by (simp_all add: env_lookup_def env_list_def locate_def probe_commands_def program_def)

definition node_watcher :: container where
  "node_watcher = literal_watcher pck_certs_watcher_container
     [''pck-cert-tool'', ''get-certificates'', ''--id'', ''$(NODE_NAME)'',
      ''-n'', ''$(NAMESPACE)'', ''-o'', ''/run/dcap/cache/.dcap-qcnl'']"

lemma external_mode_template_pod:
  "external_mode (daemonset_template_pod\<lparr>service_account_name := a\<rparr>) = Ok q
     \<Longrightarrow> inits q = [node_watcher] \<and> containers q = [tdx_qgs_container]"
  by (auto simp: external_mode_def use_node_name_as_literal_id_def literal_id_command_def
      remove_volume_def template_defs pck_certs_watcher_container_def platform_registration_container_def
      inits_def node_watcher_def literal_watcher_def)

lemma inits_set_images: "inits (set_images img p) = map (image_update (\<lambda>_. Some img)) (inits p)"
  by (simp add: inits_def set_images_def split: option.split)

lemma set_images_containers: "containers (set_images img p) = map (image_update (\<lambda>_. Some img)) (containers p)"
  by (simp add: set_images_def)

lemma daemonset_containers:
  assumes "build_daemonset ovars (Ok DAEMONSET_TEMPLATE) r namespace = Ok ds" "pod ds = Some p"
  shows "\<exists>f. inits p = map (image_update f) (if registration (spec r) = External then [node_watcher]
        else [platform_registration_container, pck_certs_watcher_container])
    \<and> containers p = map (image_update f) [tdx_qgs_container]"
proof -
  let ?p = "daemonset_template_pod\<lparr>service_account_name :=
    Some (env_or ovars ''QGS_SERVICE_ACCOUNT'' ''intel-tdx-dcap-qgs'')\<rparr>"
  let ?ext = "registration (spec r) = External"
  have "\<exists>q. (if ?ext then external_mode ?p else Ok ?p) = Ok q
    \<and> (p = (case image_from_env ovars of None \<Rightarrow> q | Some img \<Rightarrow> set_images img q)
      \<or> (\<exists>sel. p = (case image_from_env ovars of None \<Rightarrow> q\<lparr>pod_node_selector := sel\<rparr>
        | Some img \<Rightarrow> set_images img (q\<lparr>pod_node_selector := sel\<rparr>))))"
    using assms
    by (cases "node_selector (spec r)")
      (fastforce simp: build_daemonset_def create_owner_reference_def daemonset_pod_def Let_def
        DAEMONSET_TEMPLATE_def bind_res_eq_Ok)+
  then obtain q where q: "(if ?ext then external_mode ?p else Ok ?p) = Ok q"
    and p: "p = (case image_from_env ovars of None \<Rightarrow> q | Some img \<Rightarrow> set_images img q)
      \<or> (\<exists>sel. p = (case image_from_env ovars of None \<Rightarrow> q\<lparr>pod_node_selector := sel\<rparr>
        | Some img \<Rightarrow> set_images img (q\<lparr>pod_node_selector := sel\<rparr>)))" by blast
  have i: "inits q = (if ?ext then [node_watcher]
      else [platform_registration_container, pck_certs_watcher_container])
    \<and> containers q = [tdx_qgs_container]"
    using q external_mode_template_pod by (auto simp: inits_def template_defs split: if_splits)
  show ?thesis
  proof (cases "image_from_env ovars")
    case None
    with i p show ?thesis by (intro exI [of _ id]) (auto simp: inits_def)
  next
    case (Some img)
    with i p show ?thesis
      by (intro exI [of _ "\<lambda>_. Some img"]) (auto simp: inits_set_images set_images_containers, auto simp: inits_def)
  qed
qed


lemma deployment_container:
  assumes "build_deployment ovars (Ok DEPLOYMENT_TEMPLATE) r namespace = Ok d"
  shows "\<exists>p. pod d = Some p \<and> inits p = []
    \<and> containers p = [registrar_container ovars (spec r) registrar_template_container]"
  using assms
  by (auto simp: build_deployment_def create_owner_reference_def DEPLOYMENT_TEMPLATE_def
      deployment_template_pod_def bind_res_eq_Ok inits_def)

lemma registrar_container_keeps:
  "container_command (registrar_container ovars s c) = container_command c"
  "env_lookup c ''NAMESPACE'' = Some e \<Longrightarrow> env_lookup (registrar_container ovars s c) ''NAMESPACE'' = Some e"
  "container_other (registrar_container ovars s c) = container_other c"
proof -
  have o: "container_command (override_api_key reg c) = container_command c"
    "container_other (override_api_key reg c) = container_other c" for reg c
    by (simp_all add: override_api_key_def split: platform_registration.split option.split)
  have p: "container_command (propagate_proxy vars var c) = container_command c"
    "container_other (propagate_proxy vars var c) = container_other c" for vars var c
    by (simp_all add: propagate_proxy_def split: option.split)
  show "container_other (registrar_container ovars s c) = container_other c"
    by (simp add: registrar_container_def Let_def o p split: option.split)
  show "container_command (registrar_container ovars s c) = container_command c"
    by (simp add: registrar_container_def Let_def o p split: option.split)
  have i: "env_lookup (c\<lparr>image := x\<rparr>) n = env_lookup c n" for c :: container and x n
    by (simp add: env_lookup_def env_list_def)
  show "env_lookup (registrar_container ovars s c) ''NAMESPACE'' = Some e"
    if "env_lookup c ''NAMESPACE'' = Some e"
    using that by (simp add: registrar_container_def Let_def i env_lookup_propagate(1)
        env_lookup_override(1) split: option.split platform_registration.split)
qed

subsection \<open>Their command lines\<close>

lemma expandsD:
  assumes "expands expand"
  shows "CHR ''$'' \<notin> set s \<Longrightarrow> expand env s = s"
    and "env ''NAMESPACE'' = Some v \<Longrightarrow> expand env ''$(NAMESPACE)'' = v"
    and "env ''NODE_NAME'' = Some v \<Longrightarrow> expand env ''$(NODE_NAME)'' = v"
proof -
  have r: "expand env (''$('' @ n @ '')'') = v"
    if "set n \<inter> {CHR ''$'', CHR ''('', CHR '')''} = {}" "env n = Some v" for n
    using assms that by (simp add: expands_def)
  show "CHR ''$'' \<notin> set s \<Longrightarrow> expand env s = s" using assms by (simp add: expands_def)
  show "env ''NAMESPACE'' = Some v \<Longrightarrow> expand env ''$(NAMESPACE)'' = v"
    using r [of "''NAMESPACE''"] by simp
  show "env ''NODE_NAME'' = Some v \<Longrightarrow> expand env ''$(NODE_NAME)'' = v"
    using r [of "''NODE_NAME''"] by simp
qed

lemma template_env:
  "env_lookup platform_registration_container ''NAMESPACE'' = Some (downward_env ''NAMESPACE'' ''metadata.namespace'')"
  "env_lookup platform_registration_container ''NODE_NAME'' = Some (downward_env ''NODE_NAME'' ''spec.nodeName'')"
  "env_lookup pck_certs_watcher_container ''NAMESPACE'' = Some (downward_env ''NAMESPACE'' ''metadata.namespace'')"
  "env_lookup node_watcher ''NAMESPACE'' = Some (downward_env ''NAMESPACE'' ''metadata.namespace'')"
  "env_lookup node_watcher ''NODE_NAME'' = Some (downward_env ''NODE_NAME'' ''spec.nodeName'')"
  "env_lookup registrar_template_container ''NAMESPACE'' = Some (downward_env ''NAMESPACE'' ''metadata.namespace'')"
  by (simp_all add: env_lookup_def env_list_def container_defs downward_env_def node_watcher_def
      literal_watcher_def)

lemma template_commands:
  "container_command platform_registration_container = Some [''pck-cert-tool'', ''get-platforms'', ''-p'',
     ''/usr/local/bin/get_platform_info'', ''-i'', ''/run/dcap/platform/id'', ''-n'', ''$(NAMESPACE)'',
     ''-e'', ''/run/efivars'', ''--node-name'', ''$(NODE_NAME)'']"
  "container_command pck_certs_watcher_container = Some [''pck-cert-tool'', ''get-certificates'', ''-i'',
     ''/run/dcap/platform/id'', ''-n'', ''$(NAMESPACE)'', ''-o'', ''/run/dcap/cache/.dcap-qcnl'']"
  "container_command node_watcher = Some [''pck-cert-tool'', ''get-certificates'', ''--id'',
     ''$(NODE_NAME)'', ''-n'', ''$(NAMESPACE)'', ''-o'', ''/run/dcap/cache/.dcap-qcnl'']"
  "container_command registrar_template_container = Some [''pck-cert-tool'', ''register'', ''-n'', ''$(NAMESPACE)'']"
  by (simp_all add: container_defs node_watcher_def)

lemma downwardD:
  assumes "downward vars namespace node"
  shows "env_lookup c n = Some (downward_env n ''metadata.namespace'') \<Longrightarrow> vars c n = Some namespace"
    and "env_lookup c n = Some (downward_env n ''spec.nodeName'') \<Longrightarrow> vars c n = Some node"
  using assms by (simp_all add: downward_def)

definition node_get_platforms :: "str \<Rightarrow> str \<Rightarrow> get_platforms_args" where
  "node_get_platforms namespace node = \<lparr>gp_platform_info_binary = ''/usr/local/bin/get_platform_info'',
     gp_id_file = Some ''/run/dcap/platform/id'', gp_namespace = namespace,
     gp_efivars_dir = ''/run/efivars'', gp_node_name = Some node\<rparr>"

definition node_get_certificates :: "str option \<Rightarrow> str option \<Rightarrow> str \<Rightarrow> get_certificates_args" where
  "node_get_certificates file literal namespace = \<lparr>gc_id_file = file, gc_id = literal,
     gc_output_dir = ''/run/dcap/cache/.dcap-qcnl'', gc_namespace = namespace\<rparr>"

lemma container_commands:
  assumes "downward vars namespace node" "expands expand" "plain_value namespace" "plain_value node"
    "clap_reads clap"
  shows "clap (argv vars expand (image_update f platform_registration_container)) =
      Some (GetPlatforms (node_get_platforms namespace node))"
    and "clap (argv vars expand (image_update f pck_certs_watcher_container)) =
      Some (GetCertificates (node_get_certificates (Some ''/run/dcap/platform/id'') None namespace))"
    and "clap (argv vars expand (image_update f node_watcher)) =
      Some (GetCertificates (node_get_certificates None (Some node) namespace))"
    and "clap (argv vars expand (registrar_container ovars s registrar_template_container)) =
      Some (Register \<lparr>ra_api_key = None, ra_namespace = namespace\<rparr>)"
proof -
  note e = expandsD [OF assms(2)] downwardD [OF assms(1)] template_env template_commands
  let ?r = "registrar_container ovars s registrar_template_container"
  have n: "vars ?r ''NAMESPACE'' = Some namespace"
    by (rule downwardD(1) [OF assms(1)], rule registrar_container_keeps(2)) (rule template_env)
  have 1: "argv vars expand (image_update f platform_registration_container) = [''get-platforms'', ''-p'',
      ''/usr/local/bin/get_platform_info'', ''-i'', ''/run/dcap/platform/id'', ''-n'', namespace,
      ''-e'', ''/run/efivars'', ''--node-name'', node]"
    by (simp add: argv_def e)
  have 2: "argv vars expand (image_update f pck_certs_watcher_container) = [''get-certificates'', ''-i'',
      ''/run/dcap/platform/id'', ''-n'', namespace, ''-o'', ''/run/dcap/cache/.dcap-qcnl'']"
    by (simp add: argv_def e)
  have 3: "argv vars expand (image_update f node_watcher) = [''get-certificates'', ''--id'', node,
      ''-n'', namespace, ''-o'', ''/run/dcap/cache/.dcap-qcnl'']"
    by (simp add: argv_def e)
  have 4: "argv vars expand ?r = [''register'', ''-n'', namespace]"
    by (simp add: argv_def e registrar_container_keeps(1) n)
  show "clap (argv vars expand (image_update f platform_registration_container)) =
      Some (GetPlatforms (node_get_platforms namespace node))"
    unfolding 1 by (rule clap_readsD [OF assms(5)])
      (simp add: read_command_defs assms(3,4) node_get_platforms_def)
  show "clap (argv vars expand (image_update f pck_certs_watcher_container)) =
      Some (GetCertificates (node_get_certificates (Some ''/run/dcap/platform/id'') None namespace))"
    unfolding 2 by (rule clap_readsD [OF assms(5)])
      (simp add: read_command_defs assms(3,4) node_get_certificates_def)
  show "clap (argv vars expand (image_update f node_watcher)) =
      Some (GetCertificates (node_get_certificates None (Some node) namespace))"
    unfolding 3 by (rule clap_readsD [OF assms(5)])
      (simp add: read_command_defs assms(3,4) node_get_certificates_def)
  show "clap (argv vars expand ?r) = Some (Register \<lparr>ra_api_key = None, ra_namespace = namespace\<rparr>)"
    unfolding 4 by (rule clap_readsD [OF assms(5)]) (simp add: read_command_defs assms(3,4))
qed

lemma template_probes:
  assumes "clap_reads clap"
  shows "probe_commands clap platform_registration_container = []"
    and "probe_commands clap pck_certs_watcher_container =
      [(''startupProbe'', ''pck-cert-tool'', Some (Probe (CacheReady ''/run/dcap/cache/.dcap-qcnl'')))]"
    and "probe_commands clap node_watcher =
      [(''startupProbe'', ''pck-cert-tool'', Some (Probe (CacheReady ''/run/dcap/cache/.dcap-qcnl'')))]"
    and "probe_commands clap tdx_qgs_container =
      [(''startupProbe'', ''pck-cert-tool'', Some (Probe (CheckSocket ''/var/run/tdx-qgs/qgs.socket''))),
       (''livenessProbe'', ''pck-cert-tool'', Some (Probe (CheckSocket ''/var/run/tdx-qgs/qgs.socket'')))]"
    and "probe_commands clap (registrar_container ovars s registrar_template_container) = []"
proof -
  have p: "clap [''probe'', ''cache-ready'', ''/run/dcap/cache/.dcap-qcnl''] =
      Some (Probe (CacheReady ''/run/dcap/cache/.dcap-qcnl''))"
    "clap [''probe'', ''check-socket'', ''/var/run/tdx-qgs/qgs.socket''] =
      Some (Probe (CheckSocket ''/var/run/tdx-qgs/qgs.socket''))"
    by (rule clap_readsD [OF assms], simp add: read_command_defs)+
  note defs = probe_commands_def probe_argv_def container_defs json_member2_def map_filter_simps
  show "probe_commands clap platform_registration_container = []" by (simp add: defs)
  show "probe_commands clap pck_certs_watcher_container =
      [(''startupProbe'', ''pck-cert-tool'', Some (Probe (CacheReady ''/run/dcap/cache/.dcap-qcnl'')))]"
    by (simp add: defs p)
  show "probe_commands clap node_watcher =
      [(''startupProbe'', ''pck-cert-tool'', Some (Probe (CacheReady ''/run/dcap/cache/.dcap-qcnl'')))]"
    by (simp add: defs p node_watcher_def literal_watcher_def)
  show "probe_commands clap tdx_qgs_container =
      [(''startupProbe'', ''pck-cert-tool'', Some (Probe (CheckSocket ''/var/run/tdx-qgs/qgs.socket''))),
       (''livenessProbe'', ''pck-cert-tool'', Some (Probe (CheckSocket ''/var/run/tdx-qgs/qgs.socket'')))]"
    by (simp add: defs p)
  show "probe_commands clap (registrar_container ovars s registrar_template_container) = []"
    unfolding probe_commands_def registrar_container_keeps(3)
    by (simp add: registrar_template_container_def map_filter_simps)
qed

lemma template_programs:
  "program platform_registration_container = Some ''pck-cert-tool''"
  "program pck_certs_watcher_container = Some ''pck-cert-tool''"
  "program node_watcher = Some ''pck-cert-tool''"
  "program tdx_qgs_container = None"
  "program (registrar_container ovars s registrar_template_container) = Some ''pck-cert-tool''"
  by (simp_all add: program_def registrar_container_keeps(1) template_commands) (simp add: container_defs)

subsection \<open>Where their files lie\<close>

lemma template_places:
  "locate (image_update f platform_registration_container) ''/run/dcap/platform/id'' =
     Some (''platform-info'', ''id'', True)"
  "locate (image_update f pck_certs_watcher_container) ''/run/dcap/platform/id'' =
     Some (''platform-info'', ''id'', False)"
  "locate (image_update f platform_registration_container) ''/run/efivars'' = None"
  by (simp_all add: locate_def container_defs mount_dir_def)

lemma cache_places:
  "w \<in> {pck_certs_watcher_container, node_watcher} \<Longrightarrow>
     locate (image_update f w) (''/run/dcap/cache/.dcap-qcnl/'' @ file) =
       Some (''dcap-qcnl-cache'', ''.dcap-qcnl/'' @ file, True)"
  "locate (image_update f tdx_qgs_container) (''/run/dcap/cache/.dcap-qcnl/'' @ file) =
     Some (''dcap-qcnl-cache'', ''.dcap-qcnl/'' @ file, False)"
  by (auto simp: locate_def container_defs mount_dir_def node_watcher_def literal_watcher_def)

lemma locate_path:
  "locate c path = Some (v, rest, b) \<Longrightarrow>
     \<exists>m. m \<in> set (case volume_mounts c of None \<Rightarrow> [] | Some ms \<Rightarrow> ms) \<and> mount_name m = v \<and> path = mount_dir m @ rest"
proof -
  assume l: "locate c path = Some (v, rest, b)"
  let ?ms = "case volume_mounts c of None \<Rightarrow> [] | Some ms \<Rightarrow> ms"
  let ?P = "\<lambda>m. take (length (mount_dir m)) path = mount_dir m"
  obtain m ms where f: "filter ?P ?ms = m # ms" "v = mount_name m" "rest = drop (length (mount_dir m)) path"
    using l by (auto simp: locate_def split: list.splits)
  then have "m \<in> set (filter ?P ?ms)" by simp
  then have "m \<in> set ?ms" "?P m" by auto
  with f show ?thesis by (metis append_take_drop_id)
qed

lemma template_same_place:
  "same_place platform_registration_container x pck_certs_watcher_container y \<Longrightarrow> x = y"
  by (auto simp: same_place_def platform_registration_container_def pck_certs_watcher_container_def
      mount_dir_def split: option.splits dest!: locate_path)

subsection \<open>A concrete pod\<close>

definition demo_vars :: container_vars where
  "demo_vars c n =
     (case env_lookup c n of
        None \<Rightarrow> None
      | Some e \<Rightarrow> (case env_value_from e of
          None \<Rightarrow> env_value e
        | Some src \<Rightarrow>
            if field_ref src = Some ''metadata.namespace'' then Some ''ns''
            else if field_ref src = Some ''spec.nodeName'' then Some ''node-1'' else None))"

definition demo_expand :: expansion where
  "demo_expand env s = (if CHR ''$'' \<notin> set s then s else value_or s (env (butlast (drop 2 s))))"

definition demo_service :: tqgs where
  "demo_service = \<lparr>res_name = ''q'', uid = Some ''u'', generation = None, creation_timestamp = None,
     deletion_timestamp = None, finalizers = None,
     spec = \<lparr>registration = Offline, node_selector = None\<rparr>, res_status = None\<rparr>"

lemma demo_pod_parts:
  "downward demo_vars ''ns'' ''node-1''" "expands demo_expand" "plain_value ''ns''" "plain_value ''node-1''"
  "clap_reads read_command" "registration (spec demo_service) \<noteq> External"
  by (simp_all add: downward_def demo_vars_def downward_env_def expands_def demo_expand_def value_or_def
      clap_reads_def demo_service_def)

lemma pod_demo_daemonset:
  "\<exists>ds. build_daemonset (\<lambda>_. None) (Ok DAEMONSET_TEMPLATE) demo_service ''ns'' = Ok ds
     \<and> pod ds = Some (daemonset_template_pod\<lparr>service_account_name := Some ''intel-tdx-dcap-qgs''\<rparr>)"
  by (simp add: build_daemonset_def create_owner_reference_def daemonset_pod_def Let_def
      DAEMONSET_TEMPLATE_def demo_service_def image_from_env_def env_or_def)

lemma pod_demo_deployment:
  "\<exists>d. build_deployment (\<lambda>_. None) (Ok DEPLOYMENT_TEMPLATE) demo_service ''ns'' = Ok d"
  by (simp add: build_deployment_def create_owner_reference_def DEPLOYMENT_TEMPLATE_def
      deployment_template_pod_def demo_service_def)

lemma demo_pod_writes:
  assumes manifest: "\<And>u :: host. files u (path_join ''/run/efivars'' SGX_PLATFORM_MANIFEST_EFI_VAR) =
      files w (path_join ''/run/efivars'' SGX_PLATFORM_MANIFEST_EFI_VAR) \<Longrightarrow>
      \<exists>u'. get_platform_manifest node_env ''/run/efivars'' u = (Ok manifest, u')"
  shows "\<exists>w'. run_command demo_out node_env (GetPlatforms (node_get_platforms ''ns'' ''node-1'')) w = (Ok 0, w')
     \<and> ApplySecret ''a1b2c3d4e5f6a1b2c3d4e5f6a1b2c3d4'' (apply_force FIELD_MANAGER)
         (platform_doc ''ns'' ''a1b2c3d4e5f6a1b2c3d4e5f6a1b2c3d4'' ''0000'' ''0102030405060708090a0b0c0d0e0f10''
            ''0b00'' manifest (Some ''node-1''))
         \<in> set (new_events w w')"
proof -
  let ?q = "''a1b2c3d4e5f6a1b2c3d4e5f6a1b2c3d4''"
  let ?bin = "''/usr/local/bin/get_platform_info''"
  let ?w1 = "log_io (PathExists ?bin) w"
  let ?w2 = "log_event (RunBinary ?bin) ?w1"
  have i: "get_platform_info node_env demo_json ?bin ?w1 =
     (Ok (as_bytes ''0102030405060708090a0b0c0d0e0f10'', as_bytes ''0000'', as_bytes ''0b00'',
        as_bytes ?q), ?w2)"
    using node_info_any [of ?bin ?w1] by (simp add: demo_json_def [abs_def])
  obtain w3 where wf: "write_id_file node_env ''/run/dcap/platform/id'' ?q ?w2 = (Ok (), w3)"
    using write_id_file_works [OF node_env_io] by blast
  have "files w3 = (files ?w2)(''/run/dcap/platform/id'' \<mapsto> as_bytes ?q)" using wf by (rule write_id_file_Ok)
  then have "files w3 (path_join ''/run/efivars'' SGX_PLATFORM_MANIFEST_EFI_VAR)
      = files w (path_join ''/run/efivars'' SGX_PLATFORM_MANIFEST_EFI_VAR)"
    by (simp add: path_join_def SGX_PLATFORM_MANIFEST_EFI_VAR_def)
  then obtain w4 where m: "get_platform_manifest node_env ''/run/efivars'' w3 = (Ok manifest, w4)"
    using manifest by blast
  have u: "from_utf8 e (as_bytes s) = Ok s" if "list_all (\<lambda>c. (of_char c :: nat) < 0x80) s" for s and e :: error
    using that by (simp add: from_utf8_as_bytes str_ok_ascii)
  have l: "validate_label_value ''node-1'' = Ok ()"
    by (simp add: validate_label_value_def Let_def as_bytes_Cons byte_of_def is_ascii_alphanumeric_def)
  define doc where "doc = platform_doc ''ns'' ?q ''0000'' ''0102030405060708090a0b0c0d0e0f10'' ''0b00''
      manifest (Some ''node-1'')"
  have c: "create_secret node_env demo_json (Ok ()) ?bin (Some ''/run/dcap/platform/id'') ''ns'' ''/run/efivars''
      (Some ''node-1'') ?w1 = (Ok (), log_event (ApplySecret ?q (apply_force FIELD_MANAGER) doc) w4)"
    using i wf m unfolding create_secret_def doc_def
    by (simp add: bind_fx_def u apply_secret_def l with_context_def) (simp add: node_env_def quiet_env_def)
  obtain es where "events w4 = events w3 @ es"
    using quiet_get_platform_manifest [OF m] by (auto simp: adds_def)
  moreover obtain es2 where "events w3 = events ?w2 @ es2"
    using quiet_write_id_file [OF wf] by (auto simp: adds_def)
  ultimately show ?thesis
    using c by (simp add: run_command_def node_get_platforms_def demo_out_def bind_fx_def path_exists_def
        node_env_io new_events_def doc_def)
qed

lemma demo_pod_registers:
  "\<exists>w' doc. run_command demo_out node_env (GetPlatforms (node_get_platforms ''ns'' ''node-1'')) node_host = (Ok 0, w')
     \<and> ApplySecret ''a1b2c3d4e5f6a1b2c3d4e5f6a1b2c3d4'' (apply_force FIELD_MANAGER) doc
         \<in> set (new_events node_host w')"
proof -
  have "\<exists>u'. get_platform_manifest node_env ''/run/efivars'' u = (Ok None, u')"
    if "files u (path_join ''/run/efivars'' SGX_PLATFORM_MANIFEST_EFI_VAR) =
      files node_host (path_join ''/run/efivars'' SGX_PLATFORM_MANIFEST_EFI_VAR)" for u :: host
  proof -
    have "files u (path_join ''/run/efivars'' SGX_PLATFORM_MANIFEST_EFI_VAR) = None"
      using that by (simp add: node_host_def path_join_def SGX_PLATFORM_MANIFEST_EFI_VAR_def)
    then show ?thesis
      by (simp add: get_platform_manifest_def match_fx_def bind_fx_def map_err_fx_def host_ops node_env_io Let_def)
  qed
  from demo_pod_writes [OF this] show ?thesis by blast
qed

text \<open>The watcher of an External pod: it reads the secret named after the node, and its cache file is
  the one of the reserved all-zero ID.\<close>

lemma external_watcher_runs:
  assumes "trim node = node" "node \<noteq> []" "\<And>h op. env_io env h op = None"
    and "out_client out = Ok ()" "out_sigterm out = Ok ()"
  shows "\<exists>v' es. run_command out env (GetCertificates (node_get_certificates None (Some node) namespace)) v = (Ok 0, v')
    \<and> events v' = events v @ [FileIo (PathExists ''/run/dcap/cache/.dcap-qcnl''),
        GetSecret (pck_secret_name node)] @ es
    \<and> (\<forall>q. q \<noteq> cache_file ''/run/dcap/cache/.dcap-qcnl'' ZERO_ID \<longrightarrow> files v' q = files v q)"
proof -
  let ?dir = "''/run/dcap/cache/.dcap-qcnl''"
  obtain st v' where run: "watch_certificates env (Ok ()) (Ok ()) node ZERO_ID ?dir (out_items out) v = (Ok st, v')"
    using watch_certificates_total [OF assms(3)] by blast
  have "resolve_id env None (Some node) v = (Ok (node, ZERO_ID), v)"
    using assms(1,2) by (simp add: resolve_id_def bind_fx_def Let_def)
  then have "run_command out env (GetCertificates (node_get_certificates None (Some node) namespace)) v = (Ok 0, v')"
    using run assms(4,5) by (simp add: run_command_def node_get_certificates_def bind_fx_def)
  moreover have "\<forall>q. q \<noteq> cache_file ?dir ZERO_ID \<longrightarrow> files v' q = files v q"
    using keepsD [OF keeps_watch_certificates run] by (simp add: only_cache_file_def)
  moreover obtain es where "events v' = events v @ [FileIo (PathExists ?dir), GetSecret (node @ ''-pck'')] @ es"
    using watch_certificates_reads [OF run assms(3)] by blast
  ultimately show ?thesis unfolding pck_secret_name_def by blast
qed

text \<open>The second container of a registering pod, after the first one: what it runs.\<close>

lemma pod_watcher_runs:
  assumes "downward vars namespace node" "expands expand" "plain_value namespace" "plain_value node"
    and "clap_reads clap" "registration (spec r) \<noteq> External"
    and "build_daemonset ovars (Ok DAEMONSET_TEMPLATE) r namespace = Ok ds"
    and "pod ds = Some p" "inits p = [c1, c2]" "containers p = [c3]"
    and "clap (argv vars expand c1) = Some cmd1" "clap (argv vars expand c2) = Some cmd2"
    and "run_command out env cmd1 w = (r1, w')" "ApplySecret name params doc \<in> set (new_events w w')"
    and "\<forall>x y. same_place c1 x c2 y \<longrightarrow> files v y = files w' x"
    and "\<And>h op. env_io env2 h op = None" "out_client out = Ok ()" "out_sigterm out = Ok ()"
  shows "\<exists>v' es st file. run_command out env2 cmd2 v = (Ok 0, v')
    \<and> file = cache_file ''/run/dcap/cache/.dcap-qcnl'' name
    \<and> watch_certificates env2 (Ok ()) (Ok ()) name name ''/run/dcap/cache/.dcap-qcnl'' (out_items out)
        (log_io (ReadFile ''/run/dcap/platform/id'') v) = (Ok st, v')
    \<and> events v' = events v @ [FileIo (ReadFile ''/run/dcap/platform/id''),
        FileIo (PathExists ''/run/dcap/cache/.dcap-qcnl''), GetSecret (pck_secret_name name)] @ es
    \<and> (\<forall>q. q \<noteq> file \<longrightarrow> files v' q = files v q)
    \<and> env_lookup c3 ''XDG_CACHE_HOME'' = Some (literal_env ''XDG_CACHE_HOME'' ''/run/dcap/cache'')
    \<and> same_place c2 file c3 (''/run/dcap/cache'' @ ''/.dcap-qcnl/'' @ name @ ''_0000'')
    \<and> locate c3 (''/run/dcap/cache'' @ ''/.dcap-qcnl/'' @ name @ ''_0000'') =
        Some (''dcap-qcnl-cache'', ''.dcap-qcnl/'' @ name @ ''_0000'', False)
    \<and> cmd1 = GetPlatforms (node_get_platforms namespace node)"
proof -
  obtain f where f: "inits p = map (image_update f) [platform_registration_container, pck_certs_watcher_container]"
    "containers p = map (image_update f) [tdx_qgs_container]"
    using daemonset_containers [OF assms(7,8)] assms(6) by auto
  have c: "c1 = image_update f platform_registration_container"
    "c2 = image_update f pck_certs_watcher_container" "c3 = image_update f tdx_qgs_container"
    using f assms(9,10) by (simp_all del: image_update_simps)
  note cmds = container_commands [OF assms(1-5)]
  have cmd: "cmd1 = GetPlatforms (node_get_platforms namespace node)"
    "cmd2 = GetCertificates (node_get_certificates (Some ''/run/dcap/platform/id'') None namespace)"
    using assms(11,12) cmds(1,2) [of f] by (simp_all add: c)
  have id: "files v ''/run/dcap/platform/id'' = files w' ''/run/dcap/platform/id''"
    by (rule assms(15) [rule_format]) (simp add: c same_place_def template_places del: image_update_simps)
  let ?f = "''/run/dcap/cache/.dcap-qcnl/'' @ name @ ''_0000''"
  have gp: "gp_id_file (node_get_platforms namespace node) = Some ''/run/dcap/platform/id''"
    "gc_id_file (node_get_certificates x y namespace) = x"
    "gc_output_dir (node_get_certificates x y namespace) = ''/run/dcap/cache/.dcap-qcnl''" for x y
    by (simp_all add: node_get_platforms_def node_get_certificates_def)
  have "all_hex name" and run: "\<exists>v' es st. run_command out env2 cmd2 v = (Ok 0, v')
    \<and> watch_certificates env2 (Ok ()) (Ok ()) name name ''/run/dcap/cache/.dcap-qcnl'' (out_items out)
        (log_io (ReadFile ''/run/dcap/platform/id'') v) = (Ok st, v')
    \<and> events v' = events v @ [FileIo (ReadFile ''/run/dcap/platform/id''),
        FileIo (PathExists ''/run/dcap/cache/.dcap-qcnl''), GetSecret (name @ ''-pck'')] @ es
    \<and> (\<forall>q. q \<noteq> path_join ''/run/dcap/cache/.dcap-qcnl'' (name @ ''_0000'') \<longrightarrow> files v' q = files v q)"
    using commands_agree_on_id [OF assms(13) [unfolded cmd] gp(1) assms(14) id assms(16) gp(2) assms(17,18)]
    unfolding cmd gp by blast+
  have j: "path_join ''/run/dcap/cache/.dcap-qcnl'' (name @ ''_0000'') = ?f"
    using \<open>all_hex name\<close> by (cases name) (auto simp: path_join_def all_hex_def as_bytes_Cons byte_of_def is_ascii_hexdigit_def)
  have e: "env_lookup c3 ''XDG_CACHE_HOME'' = Some (literal_env ''XDG_CACHE_HOME'' ''/run/dcap/cache'')"
    by (simp add: c env_lookup_def env_list_def container_defs literal_env_def)
  have m: "same_place c2 ?f c3 (''/run/dcap/cache'' @ ''/.dcap-qcnl/'' @ name @ ''_0000'')"
    using cache_places(1) [of pck_certs_watcher_container f "name @ ''_0000''"] cache_places(2) [of f "name @ ''_0000''"]
    by (simp add: c same_place_def del: image_update_simps)
  have l: "locate c3 (''/run/dcap/cache'' @ ''/.dcap-qcnl/'' @ name @ ''_0000'') =
        Some (''dcap-qcnl-cache'', ''.dcap-qcnl/'' @ name @ ''_0000'', False)"
    using cache_places(2) [of f "name @ ''_0000''"] by (simp add: c del: image_update_simps)
  obtain v' es st where r: "run_command out env2 cmd2 v = (Ok 0, v')"
    "watch_certificates env2 (Ok ()) (Ok ()) name name ''/run/dcap/cache/.dcap-qcnl'' (out_items out)
        (log_io (ReadFile ''/run/dcap/platform/id'') v) = (Ok st, v')"
    "events v' = events v @ [FileIo (ReadFile ''/run/dcap/platform/id''),
        FileIo (PathExists ''/run/dcap/cache/.dcap-qcnl''), GetSecret (name @ ''-pck'')] @ es"
    "\<forall>q. q \<noteq> ?f \<longrightarrow> files v' q = files v q"
    using run unfolding j by (elim exE conjE)
  show ?thesis unfolding pck_secret_name_def cache_file_def j
    by (intro exI [of _ v'] exI [of _ es] exI [of _ st] exI [of _ ?f] conjI)
      (rule r refl e m l cmd(1))+
qed

subsection \<open>Properties\<close>

text \<open>C21: Every container and every probe of the workloads the operator builds that is given a command
  starts \<open>pck-cert-tool\<close> with a command line it accepts. The node's init containers get the
  namespace of the workload and the name of their node; the certificate watcher takes its ID from the file
  \<open>get-platforms\<close> writes, or in External mode from the node name, and its startup probe looks at
  the directory it writes; the service runs its image's own program, and its startup and
  liveness probes connect to a socket on the volume it shares with the host. The registrar's
  pod has the one container that runs \<open>register\<close>, without probes.\<close>

theorem workload_commands_parse:
  assumes "downward vars namespace node" "expands expand" "plain_value namespace" "plain_value node"
    and "clap_reads clap"
    and "build_daemonset ovars (Ok DAEMONSET_TEMPLATE) r namespace = Ok ds"
    and "build_deployment ovars (Ok DEPLOYMENT_TEMPLATE) r namespace = Ok d"
  shows "\<exists>p q c3. pod ds = Some p \<and> pod d = Some q \<and> containers p = [c3]
    \<and> (\<forall>c \<in> set (inits p @ containers q). program c = Some ''pck-cert-tool'')
    \<and> map (\<lambda>c. clap (argv vars expand c)) (inits p) =
        (if registration (spec r) = External
         then [Some (GetCertificates (node_get_certificates None (Some node) namespace))]
         else [Some (GetPlatforms (node_get_platforms namespace node)),
           Some (GetCertificates (node_get_certificates (gp_id_file (node_get_platforms namespace node)) None namespace))])
    \<and> map (probe_commands clap) (inits p) = (if registration (spec r) = External then [] else [[]])
        @ [[(''startupProbe'', ''pck-cert-tool'',
             Some (Probe (CacheReady (gc_output_dir (node_get_certificates None (Some node) namespace)))))]]
    \<and> program c3 = None
    \<and> probe_commands clap c3 =
        [(''startupProbe'', ''pck-cert-tool'', Some (Probe (CheckSocket ''/var/run/tdx-qgs/qgs.socket''))),
         (''livenessProbe'', ''pck-cert-tool'', Some (Probe (CheckSocket ''/var/run/tdx-qgs/qgs.socket'')))]
    \<and> locate c3 ''/var/run/tdx-qgs/qgs.socket'' = Some (''qgs-socket'', ''qgs.socket'', True)
    \<and> inits q = [] \<and> map (\<lambda>c. clap (argv vars expand c)) (containers q) =
        [Some (Register \<lparr>ra_api_key = None, ra_namespace = namespace\<rparr>)]
    \<and> map (probe_commands clap) (containers q) = [[]]"
proof -
  obtain p where p: "pod ds = Some p"
    using build_daemonset_cases [where vars = ovars and r = r and namespace = namespace] assms(6) by auto
  obtain f where f: "inits p = map (image_update f) (if registration (spec r) = External then [node_watcher]
        else [platform_registration_container, pck_certs_watcher_container])"
    "containers p = [image_update f tdx_qgs_container]"
    using daemonset_containers [OF assms(6) p] by auto
  obtain q where q: "pod d = Some q" "inits q = []"
    "containers q = [registrar_container ovars (spec r) registrar_template_container]"
    using deployment_container [OF assms(7)] by blast
  note cmds = container_commands [OF assms(1-5)] template_probes [OF assms(5)] template_programs
  have "locate (image_update f tdx_qgs_container) ''/var/run/tdx-qgs/qgs.socket'' =
      Some (''qgs-socket'', ''qgs.socket'', True)"
    by (simp add: locate_def container_defs mount_dir_def)
  then show ?thesis
    using cmds by (intro exI [of _ p] exI [of _ q] exI [of _ "image_update f tdx_qgs_container"] conjI p q(1) f(2))
      (simp_all add: f q node_get_platforms_def node_get_certificates_def)
qed

theorem workload_commands_parse_witness:
  "\<exists>p (q :: pod_spec) c3. map (\<lambda>c. read_command (argv demo_vars demo_expand c)) (inits p) =
      [Some (GetPlatforms (node_get_platforms ''ns'' ''node-1'')),
       Some (GetCertificates (node_get_certificates (Some ''/run/dcap/platform/id'') None ''ns''))]
    \<and> containers p = [c3] \<and> map snd (probe_commands read_command c3) =
        [(''pck-cert-tool'', Some (Probe (CheckSocket ''/var/run/tdx-qgs/qgs.socket''))),
         (''pck-cert-tool'', Some (Probe (CheckSocket ''/var/run/tdx-qgs/qgs.socket'')))]
    \<and> map (\<lambda>c. read_command (argv demo_vars demo_expand c)) (containers q) =
      [Some (Register \<lparr>ra_api_key = None, ra_namespace = ''ns''\<rparr>)]"
proof -
  obtain ds where ds: "build_daemonset (\<lambda>_. None) (Ok DAEMONSET_TEMPLATE) demo_service ''ns'' = Ok ds"
    using pod_demo_daemonset by blast
  obtain d where d: "build_deployment (\<lambda>_. None) (Ok DEPLOYMENT_TEMPLATE) demo_service ''ns'' = Ok d"
    using pod_demo_deployment by blast
  have f: "gp_id_file (node_get_platforms ''ns'' ''node-1'') = Some ''/run/dcap/platform/id''"
    by (simp add: node_get_platforms_def)
  obtain p c3 and q :: pod_spec where "map (\<lambda>c. read_command (argv demo_vars demo_expand c)) (inits p) =
      [Some (GetPlatforms (node_get_platforms ''ns'' ''node-1'')),
       Some (GetCertificates (node_get_certificates (Some ''/run/dcap/platform/id'') None ''ns''))]"
    "containers p = [c3]" "probe_commands read_command c3 =
        [(''startupProbe'', ''pck-cert-tool'', Some (Probe (CheckSocket ''/var/run/tdx-qgs/qgs.socket''))),
         (''livenessProbe'', ''pck-cert-tool'', Some (Probe (CheckSocket ''/var/run/tdx-qgs/qgs.socket'')))]"
    "map (\<lambda>c. read_command (argv demo_vars demo_expand c)) (containers q) =
      [Some (Register \<lparr>ra_api_key = None, ra_namespace = ''ns''\<rparr>)]"
    using workload_commands_parse [OF demo_pod_parts(1-5) ds d]
    unfolding f if_not_P [OF demo_pod_parts(6)] by (elim exE conjE)
  then show ?thesis by (intro exI [of _ p] exI [of _ q] exI [of _ c3]) simp
qed

text \<open>C19: The pod as a whole: in a DaemonSet that registers its nodes, once the first container has
  written the platform-data secret, the second finds the ID on the volume they share, first reads
  the very secret the registrar writes for this platform, and changes no file but the cache file
  of the QE ID, which lies where the quote provider library of the third container, which cannot
  write it, looks for it.\<close>

theorem pod_finds_its_certificates:
  assumes "downward vars namespace node" "expands expand" "plain_value namespace" "plain_value node"
    and "clap_reads clap" "registration (spec r) \<noteq> External"
    and "build_daemonset ovars (Ok DAEMONSET_TEMPLATE) r namespace = Ok ds"
    and "pod ds = Some p" "inits p = [c1, c2]" "containers p = [c3]"
    and "clap (argv vars expand c1) = Some cmd1" "clap (argv vars expand c2) = Some cmd2"
    and "run_command out env cmd1 w = (r1, w')" "ApplySecret name params doc \<in> set (new_events w w')"
    and "\<forall>x y. same_place c1 x c2 y \<longrightarrow> files v y = files w' x"
    and "\<And>h op. env_io env2 h op = None" "out_client out = Ok ()" "out_sigterm out = Ok ()"
  shows "\<exists>v' file es home. run_command out env2 cmd2 v = (Ok 0, v')
    \<and> events v' = events v @ [FileIo (ReadFile ''/run/dcap/platform/id''),
        FileIo (PathExists ''/run/dcap/cache/.dcap-qcnl''), GetSecret (pck_secret_name name)] @ es
    \<and> (\<forall>q. q \<noteq> file \<longrightarrow> files v' q = files v q)
    \<and> env_lookup c3 ''XDG_CACHE_HOME'' = Some (literal_env ''XDG_CACHE_HOME'' home)
    \<and> same_place c2 file c3 (home @ ''/.dcap-qcnl/'' @ name @ ''_0000'')
    \<and> locate c3 (home @ ''/.dcap-qcnl/'' @ name @ ''_0000'') =
        Some (''dcap-qcnl-cache'', ''.dcap-qcnl/'' @ name @ ''_0000'', False)"
proof -
  obtain v' es st path where "run_command out env2 cmd2 v = (Ok 0, v')"
    "events v' = events v @ [FileIo (ReadFile ''/run/dcap/platform/id''),
        FileIo (PathExists ''/run/dcap/cache/.dcap-qcnl''), GetSecret (pck_secret_name name)] @ es"
    "\<forall>q. q \<noteq> path \<longrightarrow> files v' q = files v q"
    "env_lookup c3 ''XDG_CACHE_HOME'' = Some (literal_env ''XDG_CACHE_HOME'' ''/run/dcap/cache'')"
    "same_place c2 path c3 (''/run/dcap/cache'' @ ''/.dcap-qcnl/'' @ name @ ''_0000'')"
    "locate c3 (''/run/dcap/cache'' @ ''/.dcap-qcnl/'' @ name @ ''_0000'') =
        Some (''dcap-qcnl-cache'', ''.dcap-qcnl/'' @ name @ ''_0000'', False)"
    using pod_watcher_runs [OF assms] by (elim exE conjE)
  then show ?thesis
    by (intro exI [of _ v'] exI [of _ path] exI [of _ es] exI [of _ "''/run/dcap/cache''"] conjI)
qed

theorem pod_finds_its_certificates_witness:
  "\<exists>w' v' es. run_command demo_out node_env (GetPlatforms (node_get_platforms ''ns'' ''node-1'')) node_host = (Ok 0, w')
     \<and> run_command demo_out quiet_env (GetCertificates
         (node_get_certificates (Some ''/run/dcap/platform/id'') None ''ns'')) w' = (Ok 0, v')
     \<and> events v' = events w' @ [FileIo (ReadFile ''/run/dcap/platform/id''),
        FileIo (PathExists ''/run/dcap/cache/.dcap-qcnl''),
        GetSecret (pck_secret_name ''a1b2c3d4e5f6a1b2c3d4e5f6a1b2c3d4'')] @ es"
proof -
  let ?gp = "GetPlatforms (node_get_platforms ''ns'' ''node-1'')"
  let ?gc = "GetCertificates (node_get_certificates (Some ''/run/dcap/platform/id'') None ''ns'')"
  let ?p = "daemonset_template_pod\<lparr>service_account_name := Some ''intel-tdx-dcap-qgs''\<rparr>"
  obtain w' doc where run: "run_command demo_out node_env ?gp node_host = (Ok 0, w')"
    and mem: "ApplySecret ''a1b2c3d4e5f6a1b2c3d4e5f6a1b2c3d4'' (apply_force FIELD_MANAGER) doc
      \<in> set (new_events node_host w')"
    using demo_pod_registers by blast
  obtain ds where ds: "build_daemonset (\<lambda>_. None) (Ok DAEMONSET_TEMPLATE) demo_service ''ns'' = Ok ds"
    "pod ds = Some ?p"
    using pod_demo_daemonset by blast
  have p: "inits ?p = [platform_registration_container, pck_certs_watcher_container]"
    "containers ?p = [tdx_qgs_container]"
    by (simp_all add: inits_def daemonset_template_pod_def)
  have i: "image_update id c = c" for c :: container by simp
  note cmds = container_commands(1,2) [OF demo_pod_parts(1-5), of id, unfolded i]
  have share: "\<forall>x y. same_place platform_registration_container x pck_certs_watcher_container y
      \<longrightarrow> files w' y = files w' x"
    using template_same_place by blast
  have o: "out_client demo_out = Ok ()" "out_sigterm demo_out = Ok ()" by (simp_all add: demo_out_def)
  show ?thesis
    using run pod_finds_its_certificates [OF demo_pod_parts ds p cmds run mem share quiet_env_io o]
    by blast
qed

end
