(* ===== verification/Operator.thy ===== *)
theory Operator
  imports PodSpec "HOL-Library.Option_ord"
begin

text \<open>
  The operator's reconciler (\<open>controller.rs\<close>) and its finalizer helpers (\<open>finalizer.rs\<close>). The
  state is the log of the calls made so far: the Kubernetes API and the clock are an
  environment that answers each call after any history, as for the registrar. The process
  environment, the parsed templates, chrono's formats and the text of a Kubernetes error are
  fixed values of the environment.
\<close>

subsection \<open>The cluster\<close>

text \<open>The status of a DaemonSet and of a Deployment, as far as the operator reads them.\<close>

record daemonset_status =
  ds_desired_number_scheduled :: int
  ds_current_number_scheduled :: int
  ds_number_ready :: int

record deployment_status =
  ready_replicas :: "int option"
  replicas :: "int option"

text \<open>Patches are by resource name, with the field manager if one is given.\<close>

datatype op_event =
  ListInstances
| GetInstance str
| PatchInstance str "str option" json
| PatchStatus str "str option" json
| ApplyDaemonSet str str patch_params workload
| ApplyDeployment str str patch_params workload
| GetDaemonSet str str
| GetDeployment str str
| DeleteDeployment str str
| ReadNow

type_synonym op_log = "op_event list"

record op_env =
  env_vars :: vars
  env_ds_template :: "str + workload"
  env_deploy_template :: "str + workload"
  kube_display :: "kube_error \<Rightarrow> str"
  to_rfc3339 :: "timestamp \<Rightarrow> str"
  to_rfc3339_nanos :: "timestamp \<Rightarrow> str"
  env_now :: "op_log \<Rightarrow> timestamp"
  env_list_instances :: "op_log \<Rightarrow> kube_error + tqgs list"
  env_instance :: "op_log \<Rightarrow> op_event \<Rightarrow> kube_error + tqgs"
  env_write :: "op_log \<Rightarrow> op_event \<Rightarrow> kube_error + unit"
  env_daemonset :: "op_log \<Rightarrow> op_event \<Rightarrow> kube_error + daemonset_status option"
  env_deployment :: "op_log \<Rightarrow> op_event \<Rightarrow> kube_error + deployment_status option"

type_synonym 'a op = "(op_log, op_error, 'a) fx"

text \<open>A call is answered after the history so far and logged; \<open>?\<close> wraps its error.\<close>

definition kube_call :: "op_event \<Rightarrow> (op_log \<Rightarrow> op_event \<Rightarrow> kube_error + 'a) \<Rightarrow> 'a op" where
  "kube_call e answer w = (map_err OpKube (answer w e), w @ [e])"

definition utc_now :: "op_env \<Rightarrow> (op_log, 'e, timestamp) fx" where
  "utc_now env w = (Ok (env_now env w), w @ [ReadNow])"

definition json_opt :: "('a \<Rightarrow> json) \<Rightarrow> 'a option \<Rightarrow> json" where
  "json_opt f x = (case x of None \<Rightarrow> JNull | Some y \<Rightarrow> f y)"

subsection \<open>Constants\<close>

definition DEFAULT_REQUEUE_INTERVAL :: duration where
  "DEFAULT_REQUEUE_INTERVAL = from_secs 300"

definition ERROR_REQUEUE_INTERVAL :: duration where
  "ERROR_REQUEUE_INTERVAL = from_secs 60"

definition DELETE_REQUEUE_INTERVAL :: duration where
  "DELETE_REQUEUE_INTERVAL = from_secs 5"

definition MAX_STATUS_MESSAGE_LEN :: nat where
  "MAX_STATUS_MESSAGE_LEN = 1024"

subsection \<open>Status patches\<close>

definition condition_json :: "str \<Rightarrow> str \<Rightarrow> str \<Rightarrow> str \<Rightarrow> str \<Rightarrow> int option \<Rightarrow> json" where
  "condition_json ty st rsn msg now gen = JObj
     [(''type'', JStr ty), (''status'', JStr st), (''reason'', JStr rsn), (''message'', JStr msg),
      (''lastTransitionTime'', JStr now), (''observedGeneration'', json_opt JNum gen)]"

definition condition_patch :: "str \<Rightarrow> str \<Rightarrow> str \<Rightarrow> str \<Rightarrow> str \<Rightarrow> int option \<Rightarrow> json" where
  "condition_patch now ty st rsn msg gen = JObj [(''status'', JObj
     [(''conditions'', JArr [condition_json ty st rsn msg now gen]),
      (''observedGeneration'', json_opt JNum gen)])]"

definition update_status ::
  "op_env \<Rightarrow> str \<Rightarrow> str \<Rightarrow> str \<Rightarrow> str \<Rightarrow> str \<Rightarrow> int option \<Rightarrow> unit op" where
  "update_status env name ty st rsn msg gen =
     bind_fx (utc_now env) (\<lambda>now.
     kube_call (PatchStatus name (Some ''operator'') (condition_patch (to_rfc3339 env now) ty st rsn msg gen))
       (env_write env))"

text \<open>What one pass of the reconciler saw of the cluster.\<close>

record observation =
  obs_daemonset :: str
  obs_desired :: int
  obs_current :: int
  obs_number_ready :: int
  obs_deployment :: "str option"
  obs_deployment_ready :: "bool option"
  obs_ready :: bool

definition status_changed :: "tqgs \<Rightarrow> observation \<Rightarrow> bool" where
  "status_changed r obs = (case res_status r of
     None \<Rightarrow> True
   | Some s \<Rightarrow> daemonset_name s \<noteq> Some (obs_daemonset obs)
       \<or> desired_number_scheduled s \<noteq> obs_desired obs
       \<or> current_number_scheduled s \<noteq> obs_current obs
       \<or> number_ready s \<noteq> obs_number_ready obs
       \<or> registration_deployment_name s \<noteq> obs_deployment obs
       \<or> registration_deployment_ready s \<noteq> obs_deployment_ready obs
       \<or> observed_generation s \<noteq> generation r)"

definition ready_reason :: "bool \<Rightarrow> str" where
  "ready_reason rdy = (if rdy then ''ServicesReady'' else ''ServicesNotReady'')"

definition ready_condition_changed :: "tqgs \<Rightarrow> bool \<Rightarrow> bool" where
  "ready_condition_changed r rdy = (case res_status r of
     None \<Rightarrow> True
   | Some s \<Rightarrow> \<not> list_ex (\<lambda>c. condition_type c = ''Ready''
       \<and> cond_status c = (if rdy then CondTrue else CondFalse)
       \<and> cond_reason c = Some (ready_reason rdy)) (conditions s))"

definition ready_message :: "observation \<Rightarrow> str" where
  "ready_message obs =
     (if obs_ready obs then
        (if obs_deployment_ready obs \<noteq> None then ''DaemonSet and registration Deployment are ready''
         else ''DaemonSet is ready and running on all nodes'')
      else if obs_deployment_ready obs = Some False then ''Registration Deployment is not yet ready''
      else ''DaemonSet is not yet ready on all nodes'')"

definition status_patch :: "str \<Rightarrow> tqgs \<Rightarrow> observation \<Rightarrow> json" where
  "status_patch now r obs = JObj [(''status'', JObj
     [(''daemonsetName'', JStr (obs_daemonset obs)),
      (''desiredNumberScheduled'', JNum (obs_desired obs)),
      (''currentNumberScheduled'', JNum (obs_current obs)),
      (''numberReady'', JNum (obs_number_ready obs)),
      (''registrationDeploymentName'', json_opt JStr (obs_deployment obs)),
      (''registrationDeploymentReady'', json_opt JBool (obs_deployment_ready obs)),
      (''observedGeneration'', json_opt JNum (generation r)),
      (''conditions'', JArr [condition_json ''Ready'' (if obs_ready obs then ''True'' else ''False'')
         (ready_reason (obs_ready obs)) (ready_message obs) now (generation r)])])]"

definition write_status :: "op_env \<Rightarrow> tqgs \<Rightarrow> observation \<Rightarrow> unit op" where
  "write_status env r obs =
     (if status_changed r obs \<or> ready_condition_changed r (obs_ready obs) then
        bind_fx (utc_now env) (\<lambda>now.
        kube_call (PatchStatus (res_name r) None (status_patch (to_rfc3339_nanos env now) r obs))
          (env_write env))
      else ret_fx ())"

subsection \<open>Workloads\<close>

definition create_or_update_daemonset :: "op_env \<Rightarrow> tqgs \<Rightarrow> str \<Rightarrow> str op" where
  "create_or_update_daemonset env r namespace =
     bind_fx (lift_fx (build_daemonset (env_vars env) (env_ds_template env) r namespace)) (\<lambda>ds.
     bind_fx (kube_call (ApplyDaemonSet namespace (res_name r @ ''-qgs'')
       (apply_force ''tdx-qgs-operator'') ds) (env_write env)) (\<lambda>_.
     ret_fx (res_name r @ ''-qgs'')))"

definition create_or_update_deployment :: "op_env \<Rightarrow> tqgs \<Rightarrow> str \<Rightarrow> str op" where
  "create_or_update_deployment env r namespace =
     bind_fx (lift_fx (build_deployment (env_vars env) (env_deploy_template env) r namespace)) (\<lambda>d.
     bind_fx (kube_call (ApplyDeployment namespace (res_name r @ ''-registrar'')
       (apply_force ''tdx-qgs-operator'') d) (env_write env)) (\<lambda>_.
     ret_fx (res_name r @ ''-registrar'')))"

fun is_not_found :: "op_error \<Rightarrow> bool" where
  "is_not_found (OpKube (KubeApi c _ _)) \<longleftrightarrow> c = 404"
| "is_not_found _ \<longleftrightarrow> False"

definition delete_deployment_if_exists :: "op_env \<Rightarrow> tqgs \<Rightarrow> str \<Rightarrow> unit op" where
  "delete_deployment_if_exists env r namespace =
     match_fx (kube_call (DeleteDeployment namespace (res_name r @ ''-registrar'')) (env_write env))
       (\<lambda>e. if is_not_found e then ret_fx () else fail_fx e)
       (\<lambda>_. ret_fx ())"

definition deployment_is_ready :: "deployment_status option \<Rightarrow> bool" where
  "deployment_is_ready st =
     (case (Option.bind st ready_replicas, Option.bind st replicas) of
        (Some rdy, Some all) \<Rightarrow> rdy = all \<and> rdy > 0
      | _ \<Rightarrow> False)"

definition daemonset_is_ready :: "daemonset_status option \<Rightarrow> bool" where
  "daemonset_is_ready st = (case st of None \<Rightarrow> False | Some s \<Rightarrow>
     ds_desired_number_scheduled s > 0 \<and> ds_number_ready s = ds_desired_number_scheduled s)"

text \<open>The Deployment in Online mode, its deletion in the other modes; the name and readiness
  reported for it.\<close>

definition reconcile_deployment :: "op_env \<Rightarrow> tqgs \<Rightarrow> str \<Rightarrow> (str option \<times> bool option) op" where
  "reconcile_deployment env r namespace =
     (case registration (spec r) of
        Online _ \<Rightarrow>
          bind_fx (create_or_update_deployment env r namespace) (\<lambda>name.
          match_fx (kube_call (GetDeployment namespace name) (env_deployment env))
            (\<lambda>_. ret_fx (Some name, Some False))
            (\<lambda>st. ret_fx (Some name, Some (deployment_is_ready st))))
      | _ \<Rightarrow> bind_fx (delete_deployment_if_exists env r namespace) (\<lambda>_. ret_fx (None, None)))"

subsection \<open>Reconciliation\<close>

text \<open>The name of the oldest instance when it is another one. The sort is stable.\<close>

definition superseded_by :: "tqgs \<Rightarrow> tqgs list \<Rightarrow> str option" where
  "superseded_by r instances =
     (if 1 < length instances then
        (case sort_key creation_timestamp instances of
           [] \<Rightarrow> None
         | oldest # _ \<Rightarrow> if res_name oldest \<noteq> res_name r then Some (res_name oldest) else None)
      else None)"

definition observe :: "str \<Rightarrow> str option \<times> bool option \<Rightarrow> daemonset_status option \<Rightarrow> observation" where
  "observe ds_name dep st =
     \<lparr>obs_daemonset = ds_name,
      obs_desired = (case st of None \<Rightarrow> 0 | Some s \<Rightarrow> ds_desired_number_scheduled s),
      obs_current = (case st of None \<Rightarrow> 0 | Some s \<Rightarrow> ds_current_number_scheduled s),
      obs_number_ready = (case st of None \<Rightarrow> 0 | Some s \<Rightarrow> ds_number_ready s),
      obs_deployment = fst dep, obs_deployment_ready = snd dep,
      obs_ready = (daemonset_is_ready st \<and> (case snd dep of None \<Rightarrow> True | Some b \<Rightarrow> b))\<rparr>"

definition reconcile_workloads :: "op_env \<Rightarrow> tqgs \<Rightarrow> action op" where
  "reconcile_workloads env r =
     (let namespace = operator_namespace (env_vars env) in
      bind_fx (create_or_update_daemonset env r namespace) (\<lambda>ds_name.
      bind_fx (reconcile_deployment env r namespace) (\<lambda>dep.
      bind_fx (kube_call (GetDaemonSet namespace ds_name) (env_daemonset env)) (\<lambda>st.
      let obs = observe ds_name dep st in
      bind_fx (write_status env r obs) (\<lambda>_.
      ret_fx (Requeue (if obs_ready obs then DEFAULT_REQUEUE_INTERVAL else from_secs 10)))))))"

definition multiple_instances_message :: "str \<Rightarrow> str" where
  "multiple_instances_message oldest =
     ''Only one TdxQuoteGenerationService instance is allowed. Instance '' @ quoted oldest @ '' is active.''"

definition reconcile_resource :: "op_env \<Rightarrow> tqgs \<Rightarrow> action op" where
  "reconcile_resource env r =
     bind_fx (kube_call ListInstances (\<lambda>w _. env_list_instances env w)) (\<lambda>instances.
     case superseded_by r instances of
       Some oldest \<Rightarrow>
         bind_fx (update_status env (res_name r) ''Ready'' ''False'' ''MultipleInstances''
           (multiple_instances_message oldest) (generation r)) (\<lambda>_.
         ret_fx (Requeue DEFAULT_REQUEUE_INTERVAL))
     | None \<Rightarrow> reconcile_workloads env r)"

definition cleanup_resource :: "tqgs \<Rightarrow> action op" where
  "cleanup_resource r = ret_fx AwaitChange"

subsection \<open>Errors\<close>

text \<open>\<open>char_indices().nth(n)\<close>: the byte offset of the character number \<open>n\<close>.\<close>

fun char_index :: "nat \<Rightarrow> bytes \<Rightarrow> nat option" where
  "char_index n [] = None"
| "char_index 0 bs = Some 0"
| "char_index (Suc n) bs = map_option ((+) (utf8_width bs)) (char_index n (drop (utf8_width bs) bs))"

definition status_message :: "op_env \<Rightarrow> op_error \<Rightarrow> str" where
  "status_message env e =
     (case e of
        OpKube (KubeApi c rsn msg) \<Rightarrow>
          ''Kubernetes API error ('' @ dec_string c @ '' '' @ rsn @ ''): '' @ msg
      | _ \<Rightarrow> op_error_display (kube_display env) e)"

text \<open>\<open>String::truncate\<close> at that offset.\<close>

definition truncate_message :: "str \<Rightarrow> str" where
  "truncate_message msg = (case char_index MAX_STATUS_MESSAGE_LEN (as_bytes msg) of
     None \<Rightarrow> msg | Some i \<Rightarrow> take i msg)"

definition already_reported :: "tqgs \<Rightarrow> str \<Rightarrow> bool" where
  "already_reported r msg = (case res_status r of
     None \<Rightarrow> False
   | Some s \<Rightarrow> list_ex (\<lambda>c. condition_type c = ''Ready'' \<and> cond_reason c = Some ''ReconcileFailed''
       \<and> cond_message c = Some msg \<and> cond_generation c = generation r) (conditions s))"

definition report_reconcile_error :: "op_env \<Rightarrow> tqgs \<Rightarrow> op_error \<Rightarrow> unit op" where
  "report_reconcile_error env r e =
     (let msg = truncate_message (status_message env e) in
      if already_reported r msg then ret_fx ()
      else match_fx (update_status env (res_name r) ''Ready'' ''False'' ''ReconcileFailed'' msg (generation r))
        (\<lambda>_. ret_fx ()) (\<lambda>_. ret_fx ()))"

definition op_error_policy :: "tqgs \<Rightarrow> op_error \<Rightarrow> action" where
  "op_error_policy r e =
     Requeue (if is_deleting r then DELETE_REQUEUE_INTERVAL else ERROR_REQUEUE_INTERVAL)"

text \<open>\<open>reconcile\<close>: kube's finalizer helper is an argument; it calls the handler for one event, adds
  and removes the finalizer, and gives back the handler's error as text.\<close>

datatype finalizer_event = Apply tqgs | Cleanup tqgs

definition handle_event :: "op_env \<Rightarrow> finalizer_event \<Rightarrow> action op" where
  "handle_event env ev =
     (case ev of
        Apply r \<Rightarrow> match_fx (reconcile_resource env r)
          (\<lambda>e. bind_fx (report_reconcile_error env r e) (\<lambda>_. fail_fx e))
          (\<lambda>a. ret_fx a)
      | Cleanup r \<Rightarrow> cleanup_resource r)"

type_synonym finalizer_helper =
  "tqgs \<Rightarrow> (finalizer_event \<Rightarrow> action op) \<Rightarrow> (op_log, str, action) fx"

definition reconcile :: "finalizer_helper \<Rightarrow> op_env \<Rightarrow> tqgs \<Rightarrow> action op" where
  "reconcile fin env r = map_err_fx Finalizer (fin r (handle_event env))"

subsection \<open>Owners\<close>

record object_ref =
  ref_name :: str
  ref_namespace :: "str option"

text \<open>\<open>ObjectRef::from_owner_ref\<close> is an argument.\<close>

fun find_map :: "('a \<Rightarrow> 'b option) \<Rightarrow> 'a list \<Rightarrow> 'b option" where
  "find_map f [] = None"
| "find_map f (x # xs) = (case f x of Some y \<Rightarrow> Some y | None \<Rightarrow> find_map f xs)"

definition owner_ref ::
  "(str option \<Rightarrow> owner_reference \<Rightarrow> object_ref option) \<Rightarrow> owner_reference list \<Rightarrow> object_ref option" where
  "owner_ref from_owner_ref owners =
     find_map (from_owner_ref None) (filter (\<lambda>x. owner_controller x = Some True) owners)"

text \<open>What \<open>run\<close> makes the controller reconcile: a resource that changed, and the owner of a
  DaemonSet or Deployment that changed in the operator's namespace.\<close>

datatype watch_event = ResourceEvent tqgs | WorkloadEvent str "owner_reference list"

definition run_triggers ::
  "vars \<Rightarrow> (str option \<Rightarrow> owner_reference \<Rightarrow> object_ref option) \<Rightarrow> watch_event \<Rightarrow> object_ref option" where
  "run_triggers vars from_owner_ref ev =
     (case ev of
        ResourceEvent r \<Rightarrow> Some \<lparr>ref_name = res_name r, ref_namespace = None\<rparr>
      | WorkloadEvent ns owners \<Rightarrow>
          if ns = operator_namespace vars then owner_ref from_owner_ref owners else None)"

subsection \<open>Finalizer helpers of \<open>finalizer.rs\<close>\<close>

definition finalizers_patch :: "json \<Rightarrow> json" where
  "finalizers_patch fs = JObj [(''metadata'', JObj [(''finalizers'', fs)])]"

definition add_finalizer :: "op_env \<Rightarrow> str \<Rightarrow> tqgs op" where
  "add_finalizer env name =
     bind_fx (kube_call (GetInstance name) (env_instance env)) (\<lambda>r.
     let fs = (case finalizers r of None \<Rightarrow> [] | Some fs \<Rightarrow> fs) in
     if FINALIZER \<in> set fs then ret_fx r
     else kube_call (PatchInstance name (Some ''operator'')
       (finalizers_patch (JArr (map JStr (fs @ [FINALIZER]))))) (env_instance env))"

definition remove_finalizer :: "op_env \<Rightarrow> str \<Rightarrow> tqgs op" where
  "remove_finalizer env name =
     bind_fx (kube_call (GetInstance name) (env_instance env)) (\<lambda>r.
     case finalizers r of
       None \<Rightarrow> ret_fx r
     | Some fs \<Rightarrow>
         let kept = filter (\<lambda>f. f \<noteq> FINALIZER) fs in
         if length kept = length fs then ret_fx r
         else kube_call (PatchInstance name (Some ''operator'')
           (finalizers_patch (if kept = [] then JNull else JArr (map JStr kept)))) (env_instance env))"

definition ensure_finalizer :: "op_env \<Rightarrow> tqgs \<Rightarrow> tqgs option op" where
  "ensure_finalizer env r =
     (if has_finalizer r then ret_fx None
      else bind_fx (add_finalizer env (res_name r)) (\<lambda>x. ret_fx (Some x)))"

end
