(* ===== verification/StatusJson.thy ===== *)
theory StatusJson
  imports Operator "HOL-Library.AList"
begin

text \<open>
  How a status patch comes back: JSON merge patches (RFC 7386), which the operator asks the
  API server to apply, and the deserialiser serde derives for the status types of \<open>types.rs\<close>
  and \<open>status.rs\<close>. Parsing an RFC 3339 time is an argument.
\<close>

subsection \<open>Merge patches\<close>

fun members :: "json \<Rightarrow> (str \<times> json) list" where
  "members (JObj ms) = ms"
| "members _ = []"

fun merge_patch :: "json \<Rightarrow> json \<Rightarrow> json"
  and merge_members :: "(str \<times> json) list \<Rightarrow> (str \<times> json) list \<Rightarrow> (str \<times> json) list" where
  "merge_patch target (JObj ps) = JObj (merge_members (members target) ps)"
| "merge_patch target JNull = JNull"
| "merge_patch target (JBool b) = JBool b"
| "merge_patch target (JNum n) = JNum n"
| "merge_patch target (JStr s) = JStr s"
| "merge_patch target (JArr xs) = JArr xs"
| "merge_members ms [] = ms"
| "merge_members ms ((k, v) # ps) =
     merge_members
       (if v = JNull then AList.delete k ms
        else AList.update k (merge_patch (case map_of ms k of None \<Rightarrow> JNull | Some t \<Rightarrow> t) v) ms) ps"

lemma map_of_update [simp]: "map_of (AList.update k v ms) k' = (if k' = k then Some v else map_of ms k')"
  by (simp add: update_conv')

lemma map_of_delete [simp]: "map_of (AList.delete k ms) k' = (if k' = k then None else map_of ms k')"
  by (simp add: delete_conv')

lemma json_get_alist [simp]:
  "json_get k' (JObj (AList.update k v ms)) = (if k' = k then Some v else json_get k' (JObj ms))"
  "json_get k' (JObj (AList.delete k ms)) = (if k' = k then None else json_get k' (JObj ms))"
  by (simp_all only: json_get.simps(1) map_of_update map_of_delete)

lemma map_of_merge_members:
  "distinct (map fst ps) \<Longrightarrow> map_of (merge_members ms ps) k =
     (case map_of ps k of
        None \<Rightarrow> map_of ms k
      | Some v \<Rightarrow> if v = JNull then None
          else Some (merge_patch (case map_of ms k of None \<Rightarrow> JNull | Some t \<Rightarrow> t) v))"
proof (induction ps arbitrary: ms)
  case Nil
  show ?case by simp
next
  case (Cons p ps)
  obtain k' v where p: "p = (k', v)" by fastforce
  let ?ms = "if v = JNull then AList.delete k' ms
    else AList.update k' (merge_patch (case map_of ms k' of None \<Rightarrow> JNull | Some t \<Rightarrow> t) v) ms"
  have IH: "map_of (merge_members ?ms ps) k = (case map_of ps k of
      None \<Rightarrow> map_of ?ms k
    | Some v \<Rightarrow> if v = JNull then None
        else Some (merge_patch (case map_of ?ms k of None \<Rightarrow> JNull | Some t \<Rightarrow> t) v))"
    using Cons.prems by (intro Cons.IH) simp
  show ?case
  proof (cases "k = k'")
    case True
    then have "map_of ps k = None" using Cons.prems p by (simp add: map_of_eq_None_iff)
    with True IH p show ?thesis by (simp only: merge_members.simps) simp
  next
    case False
    then have "map_of ?ms k = map_of ms k" by simp
    with False IH p show ?thesis by (simp only: merge_members.simps) simp
  qed
qed

text \<open>Reading a member of a merged document.\<close>

lemma json_get_merge:
  "distinct (map fst ps) \<Longrightarrow> json_get k (merge_patch target (JObj ps)) =
     (case map_of ps k of
        None \<Rightarrow> map_of (members target) k
      | Some v \<Rightarrow> if v = JNull then None
          else Some (merge_patch (case map_of (members target) k of None \<Rightarrow> JNull | Some t \<Rightarrow> t) v))"
  by (simp add: json_get.simps(1) map_of_merge_members del: json_get_simps)

subsection \<open>Deserialising a status\<close>

text \<open>An optional member: missing and \<open>null\<close> give \<open>None\<close>.\<close>

definition opt_member :: "(json \<Rightarrow> 'a option) \<Rightarrow> str \<Rightarrow> json \<Rightarrow> 'a option option" where
  "opt_member f k j = (case json_get k j of
     None \<Rightarrow> Some None
   | Some v \<Rightarrow> if v = JNull then Some None else map_option Some (f v))"

definition i32 :: "int \<Rightarrow> bool" where
  "i32 n \<longleftrightarrow> - (2 ^ 31) \<le> n \<and> n < 2 ^ 31"

definition i64 :: "int \<Rightarrow> bool" where
  "i64 n \<longleftrightarrow> - (2 ^ 63) \<le> n \<and> n < 2 ^ 63"

fun json_as_int :: "(int \<Rightarrow> bool) \<Rightarrow> json \<Rightarrow> int option" where
  "json_as_int ok (JNum n) = (if ok n then Some n else None)"
| "json_as_int ok _ = None"

fun json_as_bool :: "json \<Rightarrow> bool option" where
  "json_as_bool (JBool b) = Some b"
| "json_as_bool _ = None"

definition default_i32 :: "str \<Rightarrow> json \<Rightarrow> int option" where
  "default_i32 k j = (case json_get k j of None \<Rightarrow> Some 0 | Some v \<Rightarrow> json_as_int i32 v)"

fun condition_status_of_json :: "json \<Rightarrow> condition_status option" where
  "condition_status_of_json (JStr s) =
     (if s = ''True'' then Some CondTrue else if s = ''False'' then Some CondFalse
      else if s = ''Unknown'' then Some CondUnknown else None)"
| "condition_status_of_json _ = None"

definition condition_of_json :: "(str \<Rightarrow> timestamp option) \<Rightarrow> json \<Rightarrow> condition option" where
  "condition_of_json parse_time j =
     Option.bind (Option.bind (json_get ''type'' j) json_as_str) (\<lambda>ty.
     Option.bind (Option.bind (json_get ''status'' j) condition_status_of_json) (\<lambda>st.
     Option.bind (opt_member json_as_str ''reason'' j) (\<lambda>rsn.
     Option.bind (opt_member json_as_str ''message'' j) (\<lambda>msg.
     Option.bind (opt_member (\<lambda>v. Option.bind (json_as_str v) parse_time) ''lastTransitionTime'' j) (\<lambda>t.
     Option.bind (opt_member (json_as_int i64) ''observedGeneration'' j) (\<lambda>gen.
     Some \<lparr>condition_type = ty, cond_status = st, cond_reason = rsn, cond_message = msg,
           last_transition_time = t, cond_generation = gen\<rparr>))))))"

fun all_some :: "'a option list \<Rightarrow> 'a list option" where
  "all_some [] = Some []"
| "all_some (None # xs) = None"
| "all_some (Some x # xs) = map_option ((#) x) (all_some xs)"

definition conditions_of_json :: "(str \<Rightarrow> timestamp option) \<Rightarrow> json \<Rightarrow> condition list option" where
  "conditions_of_json parse_time j = (case json_get ''conditions'' j of
     None \<Rightarrow> Some []
   | Some (JArr xs) \<Rightarrow> all_some (map (condition_of_json parse_time) xs)
   | Some _ \<Rightarrow> None)"

definition status_of_json :: "(str \<Rightarrow> timestamp option) \<Rightarrow> json \<Rightarrow> service_status option" where
  "status_of_json parse_time j =
     Option.bind (opt_member json_as_str ''daemonsetName'' j) (\<lambda>ds.
     Option.bind (default_i32 ''desiredNumberScheduled'' j) (\<lambda>desired.
     Option.bind (default_i32 ''currentNumberScheduled'' j) (\<lambda>current.
     Option.bind (default_i32 ''numberReady'' j) (\<lambda>number.
     Option.bind (opt_member json_as_str ''registrationDeploymentName'' j) (\<lambda>dep.
     Option.bind (opt_member json_as_bool ''registrationDeploymentReady'' j) (\<lambda>dep_ready.
     Option.bind (conditions_of_json parse_time j) (\<lambda>cs.
     Option.bind (opt_member (json_as_int i64) ''observedGeneration'' j) (\<lambda>gen.
     Some \<lparr>daemonset_name = ds, desired_number_scheduled = desired,
           current_number_scheduled = current, number_ready = number,
           registration_deployment_name = dep, registration_deployment_ready = dep_ready,
           conditions = cs, observed_generation = gen\<rparr>))))))))"

text \<open>The status a resource has once a patch was merged into its document \<open>old\<close>.\<close>

definition merged_status :: "(str \<Rightarrow> timestamp option) \<Rightarrow> json \<Rightarrow> json \<Rightarrow> service_status option" where
  "merged_status parse_time old patch =
     Option.bind (json_get ''status'' (merge_patch old patch)) (status_of_json parse_time)"

subsection \<open>What the operator's patches leave\<close>

lemma merged_status_doc:
  "merged_status parse_time old (JObj [(''status'', JObj ps)]) =
     status_of_json parse_time (merge_patch (case map_of (members old) ''status'' of
       None \<Rightarrow> JNull | Some t \<Rightarrow> t) (JObj ps))"
  by (simp add: merged_status_def)

lemma condition_json_roundtrip:
  assumes "parse_time now = Some t" "pred_option i64 gen" "condition_status_of_json (JStr st) = Some st'"
  shows "condition_of_json parse_time (condition_json ty st rsn msg now gen) = Some
    \<lparr>condition_type = ty, cond_status = st', cond_reason = Some rsn, cond_message = Some msg,
     last_transition_time = Some t, cond_generation = gen\<rparr>"
  using assms by (cases gen) (simp_all add: condition_of_json_def condition_json_def opt_member_def json_opt_def)

definition observation_ok :: "observation \<Rightarrow> bool" where
  "observation_ok obs \<longleftrightarrow> i32 (obs_desired obs) \<and> i32 (obs_current obs) \<and> i32 (obs_number_ready obs)"

text \<open>The status an observation should be reported as.\<close>

definition reported_status :: "timestamp \<Rightarrow> int option \<Rightarrow> observation \<Rightarrow> service_status" where
  "reported_status t gen obs =
     \<lparr>daemonset_name = Some (obs_daemonset obs), desired_number_scheduled = obs_desired obs,
      current_number_scheduled = obs_current obs, number_ready = obs_number_ready obs,
      registration_deployment_name = obs_deployment obs,
      registration_deployment_ready = obs_deployment_ready obs,
      conditions = [\<lparr>condition_type = ''Ready'',
        cond_status = (if obs_ready obs then CondTrue else CondFalse),
        cond_reason = Some (ready_reason (obs_ready obs)), cond_message = Some (ready_message obs),
        last_transition_time = Some t, cond_generation = gen\<rparr>],
      observed_generation = gen\<rparr>"

lemma merged_status_patch:
  assumes "parse_time now = Some t" "pred_option i64 (generation r)" "observation_ok obs"
  shows "merged_status parse_time old (status_patch now r obs) = Some (reported_status t (generation r) obs)"
proof -
  have "condition_of_json parse_time (condition_json ''Ready'' ''True'' rsn msg now (generation r)) = Some
      \<lparr>condition_type = ''Ready'', cond_status = CondTrue, cond_reason = Some rsn,
       cond_message = Some msg, last_transition_time = Some t, cond_generation = generation r\<rparr>"
    and "condition_of_json parse_time (condition_json ''Ready'' ''False'' rsn msg now (generation r)) = Some
      \<lparr>condition_type = ''Ready'', cond_status = CondFalse, cond_reason = Some rsn,
       cond_message = Some msg, last_transition_time = Some t, cond_generation = generation r\<rparr>"
    for rsn msg
    using assms(1,2) by (auto intro: condition_json_roundtrip)
  then show ?thesis
    using assms(2,3)
    unfolding status_patch_def merged_status_doc status_of_json_def opt_member_def default_i32_def
      conditions_of_json_def reported_status_def observation_ok_def json_opt_def
    by (cases "generation r"; cases "obs_deployment obs"; cases "obs_deployment_ready obs")
      (simp_all add: ready_reason_def)
qed

end
