(* ===== verification/OperatorProps.thy ===== *)
theory OperatorProps
  imports StatusJson PodProps "HOL-Library.Sublist"
begin

text \<open>
  Properties of the operator's reconciler: the order of its calls, that one instance is active,
  that status patches come to rest, how errors are reported, and that the objects it manages
  lead back to their resource.
\<close>

subsection \<open>Runs\<close>

text \<open>The calls a piece of code added to the log.\<close>

definition op_calls :: "op_log \<Rightarrow> op_log \<Rightarrow> op_event list" where
  "op_calls w w' = drop (length w) w'"

lemma op_calls_append [simp]: "op_calls w (w @ es) = es" "op_calls w w = []"
  by (simp_all add: op_calls_def)

lemmas op_run = kube_call_def utc_now_def bind_fx_def match_fx_def update_status_def

lemma create_or_update_daemonset_run:
  "create_or_update_daemonset env r ns w =
     (case build_daemonset (env_vars env) (env_ds_template env) r ns of
        Inl e \<Rightarrow> (Err e, w)
      | Inr ds \<Rightarrow>
          let e = ApplyDaemonSet ns (res_name r @ ''-qgs'') (apply_force ''tdx-qgs-operator'') ds in
          (case env_write env w e of Inl k \<Rightarrow> Err (OpKube k) | Inr _ \<Rightarrow> Ok (res_name r @ ''-qgs''), w @ [e]))"
  by (auto simp: create_or_update_daemonset_def op_run Let_def split: sum.splits)

lemma create_or_update_deployment_run:
  "create_or_update_deployment env r ns w =
     (case build_deployment (env_vars env) (env_deploy_template env) r ns of
        Inl e \<Rightarrow> (Err e, w)
      | Inr d \<Rightarrow>
          let e = ApplyDeployment ns (res_name r @ ''-registrar'') (apply_force ''tdx-qgs-operator'') d in
          (case env_write env w e of Inl k \<Rightarrow> Err (OpKube k) | Inr _ \<Rightarrow> Ok (res_name r @ ''-registrar''),
           w @ [e]))"
  by (auto simp: create_or_update_deployment_def op_run Let_def split: sum.splits)

text \<open>The calls made for the Deployment, complete or cut short by an error.\<close>

definition deployment_calls :: "tqgs \<Rightarrow> str \<Rightarrow> workload \<Rightarrow> op_event list" where
  "deployment_calls r ns d = (case registration (spec r) of
     Online _ \<Rightarrow> [ApplyDeployment ns (res_name r @ ''-registrar'') (apply_force ''tdx-qgs-operator'') d,
       GetDeployment ns (res_name r @ ''-registrar'')]
   | _ \<Rightarrow> [DeleteDeployment ns (res_name r @ ''-registrar'')])"

lemma reconcile_deployment_calls:
  assumes "reconcile_deployment env r ns w = (res, w')"
  shows "\<exists>d es. w' = w @ es \<and> prefix es (deployment_calls r ns d)
    \<and> (is_ok res \<longrightarrow> es = deployment_calls r ns d)"
proof (cases "registration (spec r)")
  case (Online cfg)
  show ?thesis
  proof (cases "build_deployment (env_vars env) (env_deploy_template env) r ns")
    case (Inl e)
    with assms Online show ?thesis
      by (auto simp: reconcile_deployment_def create_or_update_deployment_run bind_fx_def)
  next
    case (Inr d)
    with assms Online show ?thesis
      by (intro exI [of _ d]) (auto simp: reconcile_deployment_def create_or_update_deployment_run
          deployment_calls_def Let_def op_run split: sum.splits)
  qed
qed (use assms in \<open>auto simp: reconcile_deployment_def delete_deployment_if_exists_def
    deployment_calls_def op_run split: sum.splits prod.splits if_splits\<close>)

lemma write_status_calls:
  assumes "write_status env r obs w = (res, w')"
  shows "\<exists>es doc. w' = w @ es \<and> (es = [] \<or> es = [ReadNow, PatchStatus (res_name r) None doc])
    \<and> (es = [] \<longleftrightarrow> \<not> (status_changed r obs \<or> ready_condition_changed r (obs_ready obs)))"
  using assms by (auto simp: write_status_def op_run split: if_splits sum.splits)

definition workload_calls :: "vars \<Rightarrow> tqgs \<Rightarrow> workload \<Rightarrow> workload \<Rightarrow> op_event list" where
  "workload_calls vars r ds d =
     (let ns = operator_namespace vars in
      [ApplyDaemonSet ns (res_name r @ ''-qgs'') (apply_force ''tdx-qgs-operator'') ds]
      @ deployment_calls r ns d @ [GetDaemonSet ns (res_name r @ ''-qgs'')])"

definition status_calls :: "tqgs \<Rightarrow> json \<Rightarrow> op_event list" where
  "status_calls r doc = [ReadNow, PatchStatus (res_name r) None doc]"

lemma prefix_appendI: "prefix es as \<Longrightarrow> prefix es (as @ bs)"
  by (auto simp: prefix_def)

lemma reconcile_workloads_calls:
  assumes "reconcile_workloads env r w = (res, w')"
  shows "\<exists>ds d doc es. w' = w @ es
    \<and> prefix es (workload_calls (env_vars env) r ds d @ status_calls r doc)
    \<and> (is_ok res \<longrightarrow> es = workload_calls (env_vars env) r ds d
        \<or> es = workload_calls (env_vars env) r ds d @ status_calls r doc)"
proof -
  let ?ns = "operator_namespace (env_vars env)" and ?n = "res_name r @ ''-qgs''"
  have short: ?thesis if "\<not> is_ok res" "w' = w @ es" "prefix es (workload_calls (env_vars env) r ds d)" for es ds d
    using that by (intro exI [of _ ds] exI [of _ d] exI [of _ JNull] exI [of _ es]) (simp add: prefix_appendI)
  obtain r1 w1 where m1: "create_or_update_daemonset env r ?ns w = (r1, w1)" by fastforce
  then obtain ds es1 where w1: "w1 = w @ es1"
    "es1 = [] \<and> \<not> is_ok r1 \<or> es1 = [ApplyDaemonSet ?ns ?n (apply_force ''tdx-qgs-operator'') ds]"
    "is_ok r1 \<longrightarrow> r1 = Ok ?n"
    by (auto simp: create_or_update_daemonset_run Let_def split: sum.splits)
  show ?thesis
  proof (cases r1)
    case (Inl e)
    with assms m1 have "\<not> is_ok res" "w' = w1"
      by (auto simp: reconcile_workloads_def Let_def bind_fx_def)
    with w1 Inl show ?thesis by (intro short [of es1 ds]) (auto simp: workload_calls_def Let_def)
  next
    case (Inr x)
    with w1 have es1: "x = ?n" "es1 = [ApplyDaemonSet ?ns ?n (apply_force ''tdx-qgs-operator'') ds]" by auto
    obtain r2 w2 where m2: "reconcile_deployment env r ?ns w1 = (r2, w2)" by fastforce
    from reconcile_deployment_calls [OF this] obtain d es2 where w2: "w2 = w1 @ es2"
      "prefix es2 (deployment_calls r ?ns d)" "is_ok r2 \<longrightarrow> es2 = deployment_calls r ?ns d" by blast
    have p2: "prefix (es1 @ es2) (workload_calls (env_vars env) r ds d)"
      using w2(2) by (simp add: workload_calls_def Let_def es1 prefix_appendI)
    show ?thesis
    proof (cases r2)
      case (Inl e)
      with assms m1 m2 \<open>r1 = Inr x\<close> have "\<not> is_ok res" "w' = w2"
        by (auto simp: reconcile_workloads_def Let_def bind_fx_def)
      with w1(1) w2(1) p2 show ?thesis by (intro short [of "es1 @ es2"]) auto
    next
      case (Inr dep)
      let ?g = "GetDaemonSet ?ns ?n"
      have full: "es1 @ es2 @ [?g] = workload_calls (env_vars env) r ds d"
        using w2(3) Inr by (simp add: workload_calls_def Let_def es1)
      show ?thesis
      proof (cases "env_daemonset env w2 ?g")
        case (Inl e)
        with assms m1 m2 \<open>r1 = Inr x\<close> \<open>r2 = Inr dep\<close> es1(1) have "\<not> is_ok res" "w' = w2 @ [?g]"
          by (auto simp: reconcile_workloads_def Let_def op_run)
        with w1(1) w2(1) full show ?thesis by (intro short [of "es1 @ es2 @ [?g]"]) auto
      next
        case (Inr st)
        let ?obs = "observe ?n dep st"
        obtain r4 w4 where m4: "write_status env r ?obs (w2 @ [?g]) = (r4, w4)" by fastforce
        from write_status_calls [OF this] obtain es4 doc where w4: "w4 = (w2 @ [?g]) @ es4"
          "es4 = [] \<or> es4 = status_calls r doc" unfolding status_calls_def by blast
        from assms m1 m2 m4 \<open>r1 = Inr x\<close> \<open>r2 = Inr dep\<close> Inr es1(1) have "w' = w4"
          by (auto simp: reconcile_workloads_def Let_def kube_call_def bind_fx_def split: sum.splits)
        with w1(1) w2(1) w4(1) have "w' = w @ (es1 @ es2 @ [?g]) @ es4" by simp
        with w4(2) full show ?thesis
          by (intro exI [of _ ds] exI [of _ d] exI [of _ doc] exI [of _ "(es1 @ es2 @ [?g]) @ es4"])
            (auto simp: prefix_appendI)
      qed
    qed
  qed
qed

lemma operator_call_order_calls:
  assumes "reconcile_resource env r w = (res, w')"
  shows "case env_list_instances env w of
     Inl e \<Rightarrow> res = Err (OpKube e) \<and> op_calls w w' = [ListInstances]
   | Inr instances \<Rightarrow>
      (case superseded_by r instances of
         Some oldest \<Rightarrow> op_calls w w' = [ListInstances, ReadNow, PatchStatus (res_name r) (Some ''operator'')
           (condition_patch (to_rfc3339 env (env_now env (w @ [ListInstances]))) ''Ready'' ''False''
             ''MultipleInstances'' (multiple_instances_message oldest) (generation r))]
       | None \<Rightarrow> \<exists>ds d doc es. op_calls w w' = ListInstances # es
           \<and> prefix es (workload_calls (env_vars env) r ds d @ status_calls r doc)
           \<and> (is_ok res \<longrightarrow> es = workload_calls (env_vars env) r ds d
               \<or> es = workload_calls (env_vars env) r ds d @ status_calls r doc))"
proof (cases "env_list_instances env w")
  case (Inl e)
  with assms show ?thesis by (auto simp: reconcile_resource_def op_run)
next
  case (Inr instances)
  show ?thesis
  proof (cases "superseded_by r instances")
    case None
    with assms Inr have "reconcile_workloads env r (w @ [ListInstances]) = (res, w')"
      by (simp add: reconcile_resource_def kube_call_def bind_fx_def)
    from reconcile_workloads_calls [OF this] None Inr show ?thesis by (force simp: op_calls_def)
  next
    case (Some oldest)
    with assms Inr show ?thesis by (auto simp: reconcile_resource_def op_run split: sum.splits)
  qed
qed

text \<open>C11: The calls of one reconciliation. It lists the instances first; an instance that is not the
  oldest only gets a status patch that names the active one, with the present time; otherwise
  the calls are a prefix of: apply the DaemonSet, apply and read (Online) or delete the
  Deployment, read the DaemonSet, patch the status; success is all of them, with or without
  the patch.\<close>

theorem operator_call_order:
  assumes "reconcile_resource env r w = (res, w')"
  shows "case env_list_instances env w of
     Inl e \<Rightarrow> res = Err (OpKube e) \<and> op_calls w w' = [ListInstances]
   | Inr instances \<Rightarrow>
      (case superseded_by r instances of
         Some oldest \<Rightarrow> op_calls w w' = [ListInstances, ReadNow, PatchStatus (res_name r) (Some ''operator'')
           (condition_patch (to_rfc3339 env (env_now env (w @ [ListInstances]))) ''Ready'' ''False''
             ''MultipleInstances'' (multiple_instances_message oldest) (generation r))]
       | None \<Rightarrow> \<exists>ds d doc es. op_calls w w' = ListInstances # es
           \<and> prefix es (workload_calls (env_vars env) r ds d @ status_calls r doc)
           \<and> (is_ok res \<longrightarrow> es = workload_calls (env_vars env) r ds d
               \<or> es = workload_calls (env_vars env) r ds d @ status_calls r doc))"
  using assms by (rule operator_call_order_calls)

subsection \<open>One active instance\<close>

text \<open>Whatever instances the API server lists, exactly one of them is the active one, and it is
  one of the oldest: all others are superseded by it.\<close>

theorem single_active_instance:
  assumes "instances \<noteq> []" "distinct (map res_name instances)"
  shows "\<exists>r \<in> set instances. superseded_by r instances = None
    \<and> (\<forall>r' \<in> set instances. creation_timestamp r \<le> creation_timestamp r')
    \<and> (\<forall>r' \<in> set instances. r' \<noteq> r \<longrightarrow> superseded_by r' instances = Some (res_name r))"
proof -
  obtain r rest where sorted: "sort_key creation_timestamp instances = r # rest"
    using assms(1) by (metis list.exhaust length_0_conv length_sort)
  have mem: "set instances = set (r # rest)" by (metis sorted set_sort)
  have old: "creation_timestamp r \<le> creation_timestamp r'" if "r' \<in> set instances" for r'
    using that sorted_sort_key [of creation_timestamp instances] unfolding mem sorted by auto
  have r: "r \<in> set instances" unfolding mem by simp
  have other: "res_name r' \<noteq> res_name r" if "r' \<in> set instances" "r' \<noteq> r" for r'
    using that r assms(2) unfolding distinct_map by (meson inj_onD)
  have len: "1 < length instances" if "r' \<in> set instances" "r' \<noteq> r" for r'
  proof -
    have "length instances = length (r # rest)" by (metis sorted length_sort)
    moreover have "rest \<noteq> []" using that unfolding mem by auto
    ultimately show ?thesis by (cases rest) simp_all
  qed
  have "superseded_by r instances = None" by (simp add: superseded_by_def sorted)
  moreover have "superseded_by r' instances = Some (res_name r)" if "r' \<in> set instances" "r' \<noteq> r" for r'
    using len [OF that] other [OF that] by (simp add: superseded_by_def sorted)
  ultimately show ?thesis using r old by blast
qed

subsection \<open>Status patches come to rest\<close>

text \<open>A cluster that answers reads of the workloads of \<open>r\<close> the same way at any time.\<close>

definition steady :: "op_env \<Rightarrow> tqgs \<Rightarrow> daemonset_status option \<Rightarrow> kube_error + deployment_status option \<Rightarrow> bool" where
  "steady env r st dep \<longleftrightarrow> (let ns = operator_namespace (env_vars env) in
     (\<forall>w. env_daemonset env w (GetDaemonSet ns (res_name r @ ''-qgs'')) = Ok st)
     \<and> (\<forall>w. env_deployment env w (GetDeployment ns (res_name r @ ''-registrar'')) = dep))"

text \<open>What a reconciliation of \<open>r\<close> observes in it.\<close>

definition steady_observation ::
  "tqgs \<Rightarrow> daemonset_status option \<Rightarrow> kube_error + deployment_status option \<Rightarrow> observation" where
  "steady_observation r st dep = observe (res_name r @ ''-qgs'')
     (case registration (spec r) of
        Online _ \<Rightarrow> (Some (res_name r @ ''-registrar''), Some (case dep of Inl _ \<Rightarrow> False | Inr s \<Rightarrow> deployment_is_ready s))
      | _ \<Rightarrow> (None, None)) st"

lemma steady_deployment:
  assumes "steady env r st dep" "reconcile_deployment env r (operator_namespace (env_vars env)) w = (Ok d, w')"
  shows "d = (case registration (spec r) of
      Online _ \<Rightarrow> (Some (res_name r @ ''-registrar''), Some (case dep of Inl _ \<Rightarrow> False | Inr s \<Rightarrow> deployment_is_ready s))
    | _ \<Rightarrow> (None, None))"
  using assms by (auto simp: reconcile_deployment_def create_or_update_deployment_run
      delete_deployment_if_exists_def op_run steady_def Let_def
      split: platform_registration.splits sum.splits if_splits)

definition is_plain_patch :: "op_event \<Rightarrow> bool" where
  "is_plain_patch e \<longleftrightarrow> (\<exists>n doc. e = PatchStatus n None doc)"

lemma not_plain_patch [simp]:
  "\<not> is_plain_patch ListInstances" "\<not> is_plain_patch (ApplyDaemonSet a b c d)" "\<not> is_plain_patch ReadNow"
  "\<not> is_plain_patch (ApplyDeployment a b c d)" "\<not> is_plain_patch (GetDeployment a b)"
  "\<not> is_plain_patch (DeleteDeployment a b)" "\<not> is_plain_patch (GetDaemonSet a b)"
  "\<not> is_plain_patch (PatchStatus a (Some m) doc)" "is_plain_patch (PatchStatus a None doc)"
  by (simp_all add: is_plain_patch_def)

lemma deployment_calls_not_plain:
  "e \<in> set (deployment_calls r ns d) \<Longrightarrow> \<not> is_plain_patch e"
  by (auto simp: deployment_calls_def split: platform_registration.splits)

lemma steady_patches:
  assumes "steady env r st dep" "reconcile_resource env r w = (res, w')"
    and e: "e \<in> set (op_calls w w')" "is_plain_patch e"
  shows "(status_changed r (steady_observation r st dep)
      \<or> ready_condition_changed r (obs_ready (steady_observation r st dep)))
    \<and> (\<exists>t. e = PatchStatus (res_name r) None
        (status_patch (to_rfc3339_nanos env t) r (steady_observation r st dep)))"
proof -
  let ?ns = "operator_namespace (env_vars env)" and ?n = "res_name r @ ''-qgs''"
  from operator_call_order_calls [OF assms(2)] e obtain instances where
    "env_list_instances env w = Ok instances" "superseded_by r instances = None"
    by (force split: sum.splits option.splits)
  with assms(2) have run: "reconcile_workloads env r (w @ [ListInstances]) = (res, w')"
    by (simp add: reconcile_resource_def kube_call_def bind_fx_def)
  obtain r1 w1 where m1: "create_or_update_daemonset env r ?ns (w @ [ListInstances]) = (r1, w1)" by fastforce
  then obtain es1 where w1: "w1 = w @ es1" "\<forall>e \<in> set es1. \<not> is_plain_patch e" "is_ok r1 \<longrightarrow> r1 = Ok ?n"
    by (auto simp: create_or_update_daemonset_run Let_def split: sum.splits)
  obtain r2 w2 where m2: "reconcile_deployment env r ?ns w1 = (r2, w2)" by fastforce
  from reconcile_deployment_calls [OF this] obtain d' es2 where w2': "w2 = w1 @ es2"
    "prefix es2 (deployment_calls r ?ns d')" by blast
  then have w2: "w2 = w1 @ es2" "\<forall>e \<in> set es2. \<not> is_plain_patch e"
    using deployment_calls_not_plain set_mono_prefix by (simp, blast)
  have g: "env_daemonset env w2 (GetDaemonSet ?ns ?n) = Ok st"
    using assms(1) by (simp add: steady_def Let_def)
  show ?thesis
  proof (cases r1)
    case (Inl x)
    with run m1 w1 e show ?thesis by (auto simp: reconcile_workloads_def Let_def bind_fx_def)
  next
    case r1: (Inr x)
    show ?thesis
    proof (cases r2)
      case (Inl y)
      with run m1 m2 r1 w1 w2 e show ?thesis by (auto simp: reconcile_workloads_def Let_def bind_fx_def)
    next
      case (Inr d)
      let ?obs = "steady_observation r st dep"
      have "observe ?n d st = ?obs"
        using steady_deployment [OF assms(1), of w1 d w2] m2 Inr by (simp add: steady_observation_def)
      with run m1 m2 r1 Inr w1(3) g obtain r4 where "write_status env r ?obs (w2 @ [GetDaemonSet ?ns ?n]) = (r4, w')"
        by (auto simp: reconcile_workloads_def Let_def kube_call_def bind_fx_def split: sum.splits prod.splits)
      with w1 w2 e show ?thesis
        by (auto simp: write_status_def op_run split: if_splits sum.splits)
    qed
  qed
qed

text \<open>C14: Every status patch causes another reconciliation. In a steady cluster this comes to rest:
  once the API server has merged a patch into the resource, the status read back says what was
  observed, with the readiness as its one condition, and the next reconciliation patches
  nothing.\<close>

theorem status_writes_settle:
  assumes "steady env r st dep" "observation_ok (steady_observation r st dep)"
    and "pred_option i64 (generation r)" "\<And>t. parse_time (to_rfc3339_nanos env t) = Some t"
    and "reconcile_resource env r w = (res, w1)" "PatchStatus n None doc \<in> set (op_calls w w1)"
    and "merged_status parse_time old doc = Some s"
    and "reconcile_resource env (r\<lparr>res_status := Some s\<rparr>) w2 = (res', w3)"
  shows "(\<exists>t. s = reported_status t (generation r) (steady_observation r st dep))
    \<and> is_ready conditions s = obs_ready (steady_observation r st dep)
    \<and> (\<forall>n doc. PatchStatus n None doc \<notin> set (op_calls w2 w3))"
proof -
  let ?obs = "steady_observation r st dep" and ?r = "r\<lparr>res_status := Some s\<rparr>"
  from steady_patches [OF assms(1,5,6)] obtain t where
    "doc = status_patch (to_rfc3339_nanos env t) r ?obs" by auto
  moreover have "merged_status parse_time old (status_patch (to_rfc3339_nanos env t) r ?obs)
      = Some (reported_status t (generation r) ?obs)"
    using assms(4,3,2) by (rule merged_status_patch)
  ultimately have s: "s = reported_status t (generation r) ?obs" using assms(7) by simp
  have "steady env ?r st dep" using assms(1) by (simp add: steady_def)
  moreover have "steady_observation ?r st dep = ?obs"
    by (simp add: steady_observation_def split: platform_registration.split)
  ultimately have "status_changed ?r ?obs \<or> ready_condition_changed ?r (obs_ready ?obs)"
    if "PatchStatus n' None doc' \<in> set (op_calls w2 w3)" for n' doc'
    using steady_patches [OF _ assms(8) that, of st dep] by simp
  moreover have "\<not> status_changed ?r ?obs" "\<not> ready_condition_changed ?r (obs_ready ?obs)"
    by (simp_all add: status_changed_def ready_condition_changed_def s reported_status_def)
  ultimately have "\<forall>n doc. PatchStatus n None doc \<notin> set (op_calls w2 w3)" by blast
  moreover have "is_ready conditions s = obs_ready ?obs"
    by (simp add: s reported_status_def is_ready_def is_condition_true_def get_condition_def)
  ultimately show ?thesis using s by blast
qed

subsection \<open>Reporting errors\<close>

text \<open>The characters of a string.\<close>

function char_count :: "bytes \<Rightarrow> nat" where
  "char_count bs = (if bs = [] \<or> utf8_width bs = 0 then 0
     else Suc (char_count (drop (utf8_width bs) bs)))"
  by pat_completeness auto
termination by (relation "measure length") auto

declare char_count.simps [simp del]

lemma byte_in_take: "byte_in lo hi (take k bs) i \<longleftrightarrow> i < k \<and> byte_in lo hi bs i"
  by (auto simp: byte_in_def)

text \<open>The width of the first character only depends on that many bytes.\<close>

lemma if_take_step:
  assumes "P' \<Longrightarrow> P" "P \<Longrightarrow> a \<le> k \<Longrightarrow> P'" "b \<noteq> 0 \<longrightarrow> b \<le> k \<longrightarrow> b' = b"
  shows "(if P then a else b) \<noteq> (0::nat) \<longrightarrow> (if P then a else b) \<le> k \<longrightarrow>
    (if P' then a else b') = (if P then a else b)"
  using assms by auto

lemma utf8_width_take:
  assumes "utf8_width bs \<noteq> 0" "utf8_width bs \<le> k"
  shows "utf8_width (take k bs) = utf8_width bs"
proof -
  have "utf8_width bs \<noteq> 0 \<longrightarrow> utf8_width bs \<le> k \<longrightarrow> utf8_width (take k bs) = utf8_width bs"
    unfolding utf8_width_def Let_def
    by (intro if_take_step) (simp_all add: byte_in_take)
  with assms show ?thesis by blast
qed

lemma char_index_spec:
  assumes "utf8_valid bs"
  shows "case char_index n bs of
      None \<Rightarrow> char_count bs \<le> n
    | Some i \<Rightarrow> i < length bs \<and> utf8_valid (take i bs) \<and> char_count (take i bs) = n \<and> n < char_count bs"
  using assms
proof (induction n bs rule: char_index.induct)
  case (1 n)
  then show ?case by (simp add: char_count.simps)
next
  case (2 b bs)
  then have "utf8_width (b # bs) \<noteq> 0" using utf8_valid.simps [of "b # bs"] by (auto split: if_splits)
  then show ?case by (simp add: char_count.simps [of "b # bs"] char_count.simps [of "[]"])
next
  case (3 n b bs)
  let ?bs = "b # bs" and ?w = "utf8_width (b # bs)"
  have w: "?w \<noteq> 0" "utf8_valid (drop ?w ?bs)"
    using 3(2) utf8_valid.simps [of ?bs] by (auto split: if_splits)
  have count: "char_count ?bs = Suc (char_count (drop ?w ?bs))"
    using w(1) by (simp add: char_count.simps [of ?bs])
  show ?case
  proof (cases "char_index n (drop ?w ?bs)")
    case None
    with 3(1) w(2) count show ?thesis by simp
  next
    case (Some i)
    with 3(1) w(2) have i: "i < length (drop ?w ?bs)" "utf8_valid (take i (drop ?w ?bs))"
      "char_count (take i (drop ?w ?bs)) = n" "n < char_count (drop ?w ?bs)" by auto
    let ?t = "take (?w + i) ?bs"
    have t: "utf8_width ?t = ?w" "?t \<noteq> []" "drop ?w ?t = take i (drop ?w ?bs)"
      using w(1) by (auto simp: utf8_width_take take_drop add.commute)
    have "utf8_valid ?t" using t i(2) w(1) utf8_valid.simps [of ?t] by simp
    moreover have "char_count ?t = Suc n" using t i(3) w(1) char_count.simps [of ?t] by simp
    ultimately show ?thesis using Some i(1,4) count by simp
  qed
qed

lemma truncate_message_spec:
  assumes "str_ok msg"
  shows "str_ok (truncate_message msg) \<and> prefix (truncate_message msg) msg
    \<and> char_count (as_bytes (truncate_message msg)) = min 1024 (char_count (as_bytes msg))"
proof (cases "char_index 1024 (as_bytes msg)")
  case None
  with char_index_spec [of "as_bytes msg" 1024] assms show ?thesis
    by (simp add: truncate_message_def MAX_STATUS_MESSAGE_LEN_def str_ok_def)
next
  case (Some i)
  have "as_bytes (take i msg) = take i (as_bytes msg)" by (simp add: as_bytes_def take_map)
  with Some char_index_spec [of "as_bytes msg" 1024] assms show ?thesis
    by (simp add: truncate_message_def MAX_STATUS_MESSAGE_LEN_def str_ok_def take_is_prefix)
qed

lemma merged_condition_patch:
  assumes "parse_time now = Some t" "pred_option i64 gen" "condition_status_of_json (JStr st) = Some st'"
    and "merged_status parse_time old (condition_patch now ty st rsn msg gen) = Some s"
  shows "conditions s = [\<lparr>condition_type = ty, cond_status = st', cond_reason = Some rsn,
      cond_message = Some msg, last_transition_time = Some t, cond_generation = gen\<rparr>]
    \<and> observed_generation s = gen"
proof -
  have "condition_of_json parse_time (condition_json ty st rsn msg now gen) = Some
      \<lparr>condition_type = ty, cond_status = st', cond_reason = Some rsn,
       cond_message = Some msg, last_transition_time = Some t, cond_generation = gen\<rparr>"
    using assms(1,2,3) by (rule condition_json_roundtrip)
  then show ?thesis
    using assms(2,4)
    unfolding condition_patch_def merged_status_doc status_of_json_def conditions_of_json_def
      opt_member_def json_opt_def
    by (cases gen) (auto simp: bind_eq_Some_conv)
qed

text \<open>C35: Reporting a reconcile error: the call cannot fail; what it reports is the message cut to its
  first 1024 characters, in a false \<open>Ready\<close> condition; and once the API server has merged that
  patch, reporting the same error again changes nothing.\<close>

theorem error_report_settles:
  assumes "str_ok (status_message env e)" "pred_option i64 (generation r)"
    and "\<And>t. parse_time (to_rfc3339 env t) = Some t"
    and "report_reconcile_error env r e w = (res, w1)" "PatchStatus n m doc \<in> set (op_calls w w1)"
    and "merged_status parse_time old doc = Some s"
  shows "res = Ok ()
    \<and> (\<exists>t msg. conditions s = [\<lparr>condition_type = ''Ready'', cond_status = CondFalse,
        cond_reason = Some ''ReconcileFailed'', cond_message = Some msg,
        last_transition_time = Some t, cond_generation = generation r\<rparr>]
      \<and> prefix msg (status_message env e)
      \<and> char_count (as_bytes msg) = min 1024 (char_count (as_bytes (status_message env e))))
    \<and> report_reconcile_error env (r\<lparr>res_status := Some s\<rparr>) e w2 = (Ok (), w2)"
proof -
  let ?msg = "truncate_message (status_message env e)"
  have res: "res = Ok ()" using assms(4)
    by (auto simp: report_reconcile_error_def Let_def op_run split: if_splits sum.splits)
  from assms(4,5) have "\<exists>t. doc = condition_patch (to_rfc3339 env t) ''Ready'' ''False'' ''ReconcileFailed'' ?msg
      (generation r)"
    by (auto simp: report_reconcile_error_def Let_def op_run split: if_splits sum.splits)
  then obtain t where doc: "doc = condition_patch (to_rfc3339 env t) ''Ready'' ''False'' ''ReconcileFailed'' ?msg
      (generation r)" ..
  from assms(6) have m: "merged_status parse_time old (condition_patch (to_rfc3339 env t) ''Ready'' ''False''
      ''ReconcileFailed'' ?msg (generation r)) = Some s" unfolding doc .
  have c: "conditions s = [\<lparr>condition_type = ''Ready'', cond_status = CondFalse,
        cond_reason = Some ''ReconcileFailed'', cond_message = Some ?msg,
        last_transition_time = Some t, cond_generation = generation r\<rparr>]"
    by (rule merged_condition_patch [where parse_time = parse_time
        and now = "to_rfc3339 env t" and st = "''False''", THEN conjunct1, OF _ _ _ m])
      (use assms(2,3) in simp_all)
  then have "already_reported (r\<lparr>res_status := Some s\<rparr>) ?msg"
    by (simp add: already_reported_def)
  then have "report_reconcile_error env (r\<lparr>res_status := Some s\<rparr>) e w2 = (Ok (), w2)"
    by (simp add: report_reconcile_error_def Let_def)
  with res c truncate_message_spec [OF assms(1)] show ?thesis by blast
qed

text \<open>A failing reconciliation, under kube's finalizer helper: the error reaches the controller,
  which retries after a minute; before that it is reported in the status, with one call unless
  the status already says it, and nothing that goes wrong there replaces the error.\<close>

theorem reconcile_error_path:
  assumes "\<not> is_deleting r" "\<And>h. fin r h = map_err_fx err_text (h (Apply r))"
    and "reconcile_resource env r w = (Err e, w1)"
  shows "\<exists>w2. reconcile fin env r w = (Err (Finalizer (err_text e)), w2)
    \<and> op_calls w1 w2 = (if already_reported r (truncate_message (status_message env e)) then []
        else [ReadNow, PatchStatus (res_name r) (Some ''operator'')
          (condition_patch (to_rfc3339 env (env_now env w1)) ''Ready'' ''False'' ''ReconcileFailed''
            (truncate_message (status_message env e)) (generation r))])
    \<and> op_error_policy r (Finalizer (err_text e)) = Requeue (from_secs 60)"
  using assms
  by (auto simp: reconcile_def handle_event_def report_reconcile_error_def Let_def op_run map_err_fx_def
      op_error_policy_def ERROR_REQUEUE_INTERVAL_def split: sum.split)

text \<open>The status of a superseded instance never comes to rest: whatever its status says, every
  reconciliation patches it, and the time of that moment makes the result a different status
  than before whenever the clock has moved, which causes the next reconciliation.\<close>

theorem superseded_never_settles:
  assumes "env_list_instances env w = Ok instances" "superseded_by r instances = Some oldest"
    and "\<And>t. parse_time (to_rfc3339 env t) = Some t" "pred_option i64 (generation r)"
    and "\<forall>c \<in> set (conditions s). last_transition_time c \<noteq> Some (env_now env (w @ [ListInstances]))"
    and "reconcile_resource env (r\<lparr>res_status := Some s\<rparr>) w = (res, w')"
  shows "\<exists>doc. PatchStatus (res_name r) (Some ''operator'') doc \<in> set (op_calls w w')
    \<and> (\<forall>old s'. merged_status parse_time old doc = Some s' \<longrightarrow> s' \<noteq> s)"
proof -
  let ?t = "env_now env (w @ [ListInstances])"
  let ?doc = "condition_patch (to_rfc3339 env ?t) ''Ready'' ''False'' ''MultipleInstances''
    (multiple_instances_message oldest) (generation r)"
  have "superseded_by (r\<lparr>res_status := Some s\<rparr>) instances = superseded_by r instances"
    by (simp add: superseded_by_def cong: list.case_cong)
  then have "superseded_by (r\<lparr>res_status := Some s\<rparr>) instances = Some oldest" using assms(2) by simp
  with operator_call_order_calls [OF assms(6)] assms(1)
  have "PatchStatus (res_name r) (Some ''operator'') ?doc \<in> set (op_calls w w')" by simp
  moreover have "s' \<noteq> s" if "merged_status parse_time old ?doc = Some s'" for old s'
  proof -
    have "conditions s' = [\<lparr>condition_type = ''Ready'', cond_status = CondFalse,
        cond_reason = Some ''MultipleInstances'', cond_message = Some (multiple_instances_message oldest),
        last_transition_time = Some ?t, cond_generation = generation r\<rparr>]"
      by (rule merged_condition_patch [where parse_time = parse_time
        and now = "to_rfc3339 env ?t" and st = "''False''", THEN conjunct1, OF _ _ _ that])
        (use assms(3,4) in simp_all)
    then have "conditions s' \<noteq> []" "last_transition_time (hd (conditions s')) = Some ?t" by simp_all
    with assms(5) show ?thesis by (metis list.set_sel(1))
  qed
  ultimately show ?thesis by blast
qed

subsection \<open>Owners\<close>

text \<open>The objects the operator builds lead back to their resource: any event the controller
  receives on one of them, whatever other owners were added behind the operator's reference,
  is a reconciliation of that resource, as an event on the resource itself is.\<close>

theorem managed_objects_map_back:
  assumes "\<And>x. api_version x = ''trustedservices.intel.com/v1'' \<Longrightarrow> owner_kind x = ''TdxQuoteGenerationService'' \<Longrightarrow>
      from_owner_ref None x = Some \<lparr>ref_name = owner_name x, ref_namespace = None\<rparr>"
    and "build_daemonset vars tpl r (operator_namespace vars) = Ok obj
      \<or> build_deployment vars tpl r (operator_namespace vars) = Ok obj"
  shows "\<exists>owners ns. owner_references obj = Some owners \<and> wl_namespace obj = Some ns
    \<and> run_triggers vars from_owner_ref (WorkloadEvent ns (owners @ others))
        = run_triggers vars from_owner_ref (ResourceEvent r)"
proof -
  let ?ns = "operator_namespace vars"
  have "\<exists>owner. create_owner_reference r = Ok owner \<and> owner_references obj = Some [owner] \<and> wl_namespace obj = Some ?ns"
    if "build_deployment vars tpl r ?ns = Ok obj"
  proof -
    from that obtain d owner p where "create_owner_reference r = Ok owner"
      and c: "(case containers p of [] \<Rightarrow> Err (Generic ''Deployment template missing container'')
        | c # cs \<Rightarrow> Ok (d\<lparr>wl_name := Some (res_name r @ ''-registrar''), wl_namespace := Some ?ns,
               owner_references := Some [owner],
               pod := Some (p\<lparr>service_account_name :=
                   Some (env_or vars ''QGS_SERVICE_ACCOUNT'' ''intel-tdx-dcap-qgs''),
                 containers := registrar_container vars (spec r) c # cs\<rparr>)\<rparr>)) = Ok obj"
      by (auto simp: build_deployment_def bind_res_eq_Ok)
    then show ?thesis by (cases "containers p") auto
  qed
  then obtain owner where "create_owner_reference r = Ok owner" "owner_references obj = Some [owner]"
    "wl_namespace obj = Some ?ns"
    using assms(2) by (auto simp: build_daemonset_def bind_res_eq_Ok)
  moreover from this(1) assms(1) [of owner] have
    "owner_ref from_owner_ref ([owner] @ others) = Some \<lparr>ref_name = res_name r, ref_namespace = None\<rparr>"
    by (auto simp: create_owner_reference_def bind_res_eq_Ok owner_ref_def)
  ultimately show ?thesis by (auto simp: run_triggers_def)
qed

subsection \<open>Finalizers\<close>

text \<open>The finalizers of a document.\<close>

definition finalizers_of_json :: "json \<Rightarrow> str list option" where
  "finalizers_of_json doc = (case Option.bind (json_get ''metadata'' doc) (json_get ''finalizers'') of
     Some (JArr xs) \<Rightarrow> all_some (map json_as_str xs)
   | _ \<Rightarrow> None)"

lemma all_some_map [simp]: "all_some (map (\<lambda>x. Some (f x)) xs) = Some (map f xs)"
  by (induction xs) auto

lemma finalizers_merged:
  "finalizers_of_json (merge_patch old (finalizers_patch (JArr (map JStr fs)))) = Some fs"
  "finalizers_of_json (merge_patch old (finalizers_patch JNull)) = None"
  by (simp_all add: finalizers_of_json_def finalizers_patch_def o_def)

text \<open>Adding and removing the operator's finalizer writes back the whole list that was read: what
  the resource holds after the merge is exactly that list with the finalizer added at the end
  or taken out, whatever the list had become in the meantime, so a finalizer another
  controller added between the read and the write is lost. Nothing is written when there is
  nothing to do.\<close>

theorem finalizer_patches_overwrite:
  assumes "env_instance env w (GetInstance name) = Ok r"
  shows "add_finalizer env name w =
      (if has_finalizer r then (Ok r, w @ [GetInstance name])
       else let e = PatchInstance name (Some ''operator'') (finalizers_patch (JArr (map JStr
              ((case finalizers r of None \<Rightarrow> [] | Some fs \<Rightarrow> fs) @ [FINALIZER])))) in
         (map_err OpKube (env_instance env (w @ [GetInstance name]) e), w @ [GetInstance name, e]))
    \<and> (\<forall>doc. PatchInstance name m doc \<in> set (op_calls w (snd (add_finalizer env name w))) \<longrightarrow>
        finalizers_of_json (merge_patch old doc)
          = Some ((case finalizers r of None \<Rightarrow> [] | Some fs \<Rightarrow> fs) @ [FINALIZER]))
    \<and> (\<forall>doc. PatchInstance name m doc \<in> set (op_calls w (snd (remove_finalizer env name w))) \<longrightarrow>
        finalizers_of_json (merge_patch old doc)
          = (case filter (\<lambda>f. f \<noteq> FINALIZER) (the (finalizers r)) of [] \<Rightarrow> None | fs \<Rightarrow> Some fs))"
  using assms
  by (auto simp: add_finalizer_def remove_finalizer_def has_finalizer_def op_run Let_def finalizers_merged
      split: option.splits list.splits simp del: map_append)

end
