(* ===== verification/Admission.thy ===== *)
theory Admission
  imports PodProps
begin

text \<open>
  What the API server admits: the CEL rules and schema bounds of \<open>types.rs\<close> on node selectors,
  the API key Secret's name and the instance name, with the regular expressions they contain and a matcher proved against their language. The
  last section shows that an admitted resource always has a DaemonSet.
\<close>

subsection \<open>Regular expressions\<close>

datatype rexp =
  REps
| RChr "char \<Rightarrow> bool"
| RSeq rexp rexp
| ROpt rexp
| RUpto nat rexp
| RStar rexp

primrec lang :: "rexp \<Rightarrow> str set" where
  "lang REps = {[]}"
| "lang (RChr P) = {[c] | c. P c}"
| "lang (RSeq r s) = {u @ v | u v. u \<in> lang r \<and> v \<in> lang s}"
| "lang (ROpt r) = insert [] (lang r)"
| "lang (RUpto n r) = {concat us | us. length us \<le> n \<and> set us \<subseteq> lang r}"
| "lang (RStar r) = {concat us | us. set us \<subseteq> lang r}"

text \<open>The matcher gives what can be left of a string after a match at its start.\<close>

primrec repeat :: "(str \<Rightarrow> str list) \<Rightarrow> nat \<Rightarrow> str \<Rightarrow> str list" where
  "repeat m 0 s = [s]"
| "repeat m (Suc n) s = s # concat (map (repeat m n) (m s))"

primrec rests :: "rexp \<Rightarrow> str \<Rightarrow> str list" where
  "rests REps s = [s]"
| "rests (RChr P) s = (case s of [] \<Rightarrow> [] | c # cs \<Rightarrow> if P c then [cs] else [])"
| "rests (RSeq r r') s = concat (map (rests r') (rests r s))"
| "rests (ROpt r) s = s # rests r s"
| "rests (RUpto n r) s = repeat (rests r) n s"
| "rests (RStar r) s = repeat (rests r) (length s) s"

lemma repeat_iff:
  assumes "\<And>s t. t \<in> set (m s) \<longleftrightarrow> (\<exists>u \<in> L. s = u @ t)"
  shows "t \<in> set (repeat m n s) \<longleftrightarrow> (\<exists>us. length us \<le> n \<and> set us \<subseteq> L \<and> s = concat us @ t)"
proof (induction n arbitrary: s)
  case 0
  show ?case by auto
next
  case (Suc n)
  have "(\<exists>us. length us \<le> Suc n \<and> set us \<subseteq> L \<and> s = concat us @ t) \<longleftrightarrow>
      s = t \<or> (\<exists>u us. u \<in> L \<and> length us \<le> n \<and> set us \<subseteq> L \<and> s = u @ concat us @ t)"
    (is "?l \<longleftrightarrow> ?r")
  proof
    assume ?l
    then obtain us where "length us \<le> Suc n" "set us \<subseteq> L" "s = concat us @ t" by blast
    then show ?r by (cases us) auto
  next
    assume ?r
    then show ?l
      by (elim disjE exE conjE) (force intro: exI [of _ "[]"], force intro: exI [of _ "u # us" for u us])
  qed
  then show ?case by (auto simp: Suc.IH assms)
qed

theorem rests_iff: "t \<in> set (rests r s) \<longleftrightarrow> (\<exists>u \<in> lang r. s = u @ t)"
proof (induction r arbitrary: s t)
  case (RChr P)
  then show ?case by (auto split: list.split)
next
  case (RUpto n r)
  show ?case by (auto simp: repeat_iff [OF RUpto.IH])
next
  case (RStar r)
  have "\<exists>vs. length vs \<le> length s \<and> set vs \<subseteq> lang r \<and> s = concat vs @ t"
    if "set us \<subseteq> lang r" "s = concat us @ t" for us
  proof -
    let ?vs = "filter (\<lambda>u. u \<noteq> []) us"
    have c: "concat ?vs = concat us" by (induction us) auto
    have short: "length vs \<le> length (concat vs)" if "[] \<notin> set vs" for vs :: "str list"
      using that
    proof (induction vs)
      case (Cons v vs)
      then have "0 < length v" "length vs \<le> length (concat vs)" by auto
      then show ?case by (cases v) simp_all
    qed simp
    have "length ?vs \<le> length (concat us)" using short [of ?vs] c by simp
    then have "length ?vs \<le> length s" using that(2) by simp
    moreover have "set ?vs \<subseteq> lang r" using that(1) by auto
    ultimately show ?thesis using c that(2) by (intro exI [of _ ?vs]) simp
  qed
  then show ?case by (auto simp: repeat_iff [OF RStar.IH])
qed (auto, metis append_assoc)

subsection \<open>The rules\<close>

definition full_match :: "rexp \<Rightarrow> str \<Rightarrow> bool" where
  "full_match r s \<longleftrightarrow> [] \<in> set (rests r s)"

definition prefix_match :: "rexp \<Rightarrow> str \<Rightarrow> bool" where
  "prefix_match r s \<longleftrightarrow> rests r s \<noteq> []"

lemma full_match_iff: "full_match r s \<longleftrightarrow> s \<in> lang r"
  by (simp add: full_match_def rests_iff)

definition is_lower :: "char \<Rightarrow> bool" where
  "is_lower c \<longleftrightarrow> (let n = (of_char c :: nat) in 97 \<le> n \<and> n \<le> 122)"

definition is_upper :: "char \<Rightarrow> bool" where
  "is_upper c \<longleftrightarrow> (let n = (of_char c :: nat) in 65 \<le> n \<and> n \<le> 90)"

definition is_digit :: "char \<Rightarrow> bool" where
  "is_digit c \<longleftrightarrow> (let n = (of_char c :: nat) in 48 \<le> n \<and> n \<le> 57)"

text \<open>\<open>[a-z0-9]([-a-z0-9]{0,61}[a-z0-9])?\<close>\<close>

definition dns_label :: rexp where
  "dns_label = (let e = RChr (\<lambda>c. is_lower c \<or> is_digit c) in
     RSeq e (ROpt (RSeq (RUpto 61 (RChr (\<lambda>c. c = CHR ''-'' \<or> is_lower c \<or> is_digit c))) e)))"

text \<open>\<open>[A-Za-z0-9]([-A-Za-z0-9_.]{0,61}[A-Za-z0-9])?\<close>\<close>

definition label_name :: rexp where
  "label_name = (let e = RChr (\<lambda>c. is_upper c \<or> is_lower c \<or> is_digit c) in
     RSeq e (ROpt (RSeq (RUpto 61 (RChr (\<lambda>c. c \<in> {CHR ''-'', CHR ''_'', CHR ''.''}
       \<or> is_upper c \<or> is_lower c \<or> is_digit c))) e)))"

text \<open>\<open>(label([.]label)*/)?name\<close>\<close>

definition label_key :: rexp where
  "label_key = RSeq (ROpt (RSeq dns_label (RSeq (RStar (RSeq (RChr (\<lambda>c. c = CHR ''.'')) dns_label))
     (RChr (\<lambda>c. c = CHR ''/''))))) label_name"

definition selector_pattern :: rexp where
  "selector_pattern = RSeq label_key (RSeq (RChr (\<lambda>c. c = CHR ''='')) label_name)"

definition prefix_pattern :: rexp where
  "prefix_pattern = (let e = RChr (\<lambda>c. c \<noteq> CHR ''/'') in
     RSeq e (RSeq (RUpto 252 e) (RChr (\<lambda>c. c = CHR ''/''))))"

text \<open>The two rules and the bound of the schema of \<open>NodeSelectorEntry\<close>.\<close>

definition entry_admitted :: "str \<Rightarrow> bool" where
  "entry_admitted s \<longleftrightarrow> length s \<le> 381 \<and> full_match selector_pattern s
     \<and> (CHR ''/'' \<notin> set s \<or> prefix_match prefix_pattern s)"

text \<open>\<open>y.split('=')[0]\<close>, and the rule and bound on the whole list.\<close>

definition split_key :: "str \<Rightarrow> str" where
  "split_key s = takeWhile (\<lambda>c. c \<noteq> CHR ''='') s"

definition selectors_admitted :: "str list \<Rightarrow> bool" where
  "selectors_admitted ss \<longleftrightarrow> length ss \<le> 16 \<and> list_all entry_admitted ss
     \<and> list_all (\<lambda>x. length (filter (\<lambda>y. split_key y = split_key x) ss) = 1) ss"

text \<open>\<open>[a-z0-9]([-a-z0-9.]*[a-z0-9])?\<close>, and the rule and bound on an API key Secret's name.\<close>

definition secret_name_pattern :: rexp where
  "secret_name_pattern = (let e = RChr (\<lambda>c. is_lower c \<or> is_digit c) in
     RSeq e (ROpt (RSeq (RStar (RChr (\<lambda>c. c = CHR ''-'' \<or> c = CHR ''.'' \<or> is_lower c \<or> is_digit c))) e)))"

definition online_admitted :: "online_config \<Rightarrow> bool" where
  "online_admitted cfg \<longleftrightarrow> (case api_key_secret_name cfg of
     None \<Rightarrow> True
   | Some s \<Rightarrow> length s \<le> 253 \<and> full_match secret_name_pattern s)"

text \<open>A whole resource: the rule that pins its name, and the rules of its spec. (The rule that
  exactly one registration mode is set holds of every value of the type.)\<close>

definition instance_admitted :: "tqgs \<Rightarrow> bool" where
  "instance_admitted r \<longleftrightarrow> res_name r = ''intel-tdx-dcap''
     \<and> pred_option selectors_admitted (node_selector (spec r))
     \<and> (case registration (spec r) of Online cfg \<Rightarrow> online_admitted cfg | _ \<Rightarrow> True)"

subsection \<open>What admitted entries look like\<close>

text \<open>All characters a pattern can match satisfy \<open>P\<close>.\<close>

primrec chars_in :: "(char \<Rightarrow> bool) \<Rightarrow> rexp \<Rightarrow> bool" where
  "chars_in P REps \<longleftrightarrow> True"
| "chars_in P (RChr Q) \<longleftrightarrow> (\<forall>c. Q c \<longrightarrow> P c)"
| "chars_in P (RSeq r s) \<longleftrightarrow> chars_in P r \<and> chars_in P s"
| "chars_in P (ROpt r) \<longleftrightarrow> chars_in P r"
| "chars_in P (RUpto n r) \<longleftrightarrow> chars_in P r"
| "chars_in P (RStar r) \<longleftrightarrow> chars_in P r"

lemma chars_in_lang: "chars_in P r \<Longrightarrow> u \<in> lang r \<Longrightarrow> list_all P u"
proof (induction r arbitrary: u)
  case (RUpto n r)
  then show ?case by (auto simp: list_all_iff) blast
next
  case (RStar r)
  then show ?case by (auto simp: list_all_iff) blast
qed (auto simp: list_all_iff)

definition label_char :: "char \<Rightarrow> bool" where
  "label_char c \<longleftrightarrow> c \<in> {CHR ''-'', CHR ''_'', CHR ''.'', CHR ''/''} \<or> is_upper c \<or> is_lower c \<or> is_digit c"

lemma label_char_simps: "label_char c \<Longrightarrow> c \<noteq> CHR ''='' \<and> ascii_graphic (byte_of c)"
  by (auto simp: label_char_def is_upper_def is_lower_def is_digit_def ascii_graphic_def Let_def)

lemma lang_starts: "u \<in> lang (RSeq (RChr P) r) \<Longrightarrow> u \<noteq> []"
  by auto

lemma label_name_lang:
  assumes "u \<in> lang label_name"
  shows "u \<noteq> [] \<and> list_all label_char u"
proof -
  have "chars_in label_char label_name" by (auto simp: label_name_def Let_def label_char_def)
  moreover have "u \<noteq> []" using assms unfolding label_name_def Let_def by (rule lang_starts)
  ultimately show ?thesis using assms chars_in_lang by blast
qed

lemma label_key_lang:
  assumes "u \<in> lang label_key"
  shows "u \<noteq> [] \<and> list_all label_char u"
proof -
  have "chars_in label_char label_key"
    by (auto simp: label_key_def label_name_def dns_label_def Let_def label_char_def)
  moreover have "u \<noteq> []" using assms label_name_lang by (auto simp: label_key_def)
  ultimately show ?thesis using assms chars_in_lang by blast
qed

lemma trim_label:
  assumes "list_all label_char u"
  shows "trim u = u"
proof -
  have g: "list_all ascii_graphic (as_bytes u)"
    using assms label_char_simps by (auto simp: as_bytes_def list_all_iff)
  have "ascii_graphic (hd (as_bytes u)) \<and> ascii_graphic (last (as_bytes u))" if "as_bytes u \<noteq> []"
    using g that unfolding list_all_iff by (meson hd_in_set last_in_set)
  then have "trim_bytes (as_bytes u) = as_bytes u" by (rule trim_bytes_graphic)
  then show ?thesis by (simp add: trim_def)
qed

definition split_value :: "str \<Rightarrow> str" where
  "split_value s = drop (Suc (length (split_key s))) s"

lemma admitted_entry:
  assumes "entry_admitted s"
  shows "selector_entry s = Some (split_key s, split_value s)"
proof -
  from assms have "s \<in> lang selector_pattern" by (simp add: entry_admitted_def full_match_iff)
  then have "\<exists>k v. s = k @ CHR ''='' # v \<and> k \<in> lang label_key \<and> v \<in> lang label_name"
    unfolding selector_pattern_def by (simp only: lang.simps) auto
  then obtain k v where s: "s = k @ CHR ''='' # v" and k: "k \<noteq> []" "list_all label_char k"
    and v: "v \<noteq> []" "list_all label_char v"
    using label_key_lang label_name_lang by blast
  have n: "CHR ''='' \<notin> set k" using k(2) label_char_simps by (auto simp: list_all_iff)
  then have "takeWhile (\<lambda>c. c \<noteq> CHR ''='') s = k" unfolding s by (subst takeWhile_append2) auto
  then have "split_key s = k" "split_value s = v" by (simp_all add: split_key_def split_value_def s)
  moreover have "split_once CHR ''='' s = Some (k, v)" using s n by (simp add: split_once_Some)
  ultimately show ?thesis using k v by (simp add: selector_entry_def trim_label)
qed

lemma unique_keys_distinct:
  "list_all (\<lambda>x. length (filter (\<lambda>y. f y = f x) xs) = 1) xs \<Longrightarrow> distinct (map f xs)"
proof (induction xs)
  case (Cons x xs)
  then have "filter (\<lambda>y. f y = f x) xs = []" by simp
  then have x: "f x \<notin> f ` set xs" by (auto simp: filter_empty_conv)
  moreover have "list_all (\<lambda>z. length (filter (\<lambda>y. f y = f z) xs) = 1) xs"
  proof (unfold list_all_iff, rule ballI)
    fix z assume z: "z \<in> set xs"
    with x have "f x \<noteq> f z" by auto
    moreover have "length (filter (\<lambda>y. f y = f z) (x # xs)) = 1"
      using Cons.prems z by (simp only: list_all_iff) (meson list.set_intros(2))
    ultimately show "length (filter (\<lambda>y. f y = f z) xs) = 1" by simp
  qed
  ultimately show ?case using Cons.IH by simp
qed simp

lemma admitted_selectors_parse:
  assumes "selectors_admitted ss"
  shows "parse_node_selectors ss = Ok (map_of (map (\<lambda>s. (split_key s, split_value s)) ss))"
proof -
  let ?es = "map (\<lambda>s. (split_key s, split_value s)) ss"
  have "map selector_entry ss = map Some ?es"
    using assms admitted_entry by (auto simp: selectors_admitted_def list_all_iff)
  moreover have "distinct (map fst ?es)"
    using assms unique_keys_distinct [of split_key ss] by (simp add: selectors_admitted_def o_def)
  ultimately show ?thesis unfolding parse_node_selectors_Ok by blast
qed

lemma admitted_daemonset:
  assumes "uid r = Some u" "pred_option selectors_admitted (node_selector (spec r))"
  shows "\<exists>ds. build_daemonset vars (Ok DAEMONSET_TEMPLATE) r ns = Ok ds"
proof -
  have "is_ok (parse_node_selectors ss)" if "selectors_admitted ss" for ss
    using that by (simp add: admitted_selectors_parse)
  with build_daemonset_cases [where vars = vars and r = r and namespace = ns] assms show ?thesis
    by (cases "build_daemonset vars (Ok DAEMONSET_TEMPLATE) r ns") fastforce+
qed

text \<open>C33: Admission and parser agree: node selectors that the CEL rules admit always parse, to exactly
  the keys and values written; so for every admitted resource with a UID the DaemonSet is
  built, and its pod selects nodes by those labels.\<close>

theorem admitted_resource_builds:
  assumes "uid r = Some u" "node_selector (spec r) = Some ss" "selectors_admitted ss"
  shows "parse_node_selectors ss = Ok (map_of (map (\<lambda>s. (split_key s, split_value s)) ss))
    \<and> (\<exists>ds p. build_daemonset vars (Ok DAEMONSET_TEMPLATE) r ns = Ok ds \<and> pod ds = Some p
        \<and> pod_node_selector p = Some (map_of (map (\<lambda>s. (split_key s, split_value s)) ss)))"
  using build_daemonset_cases [where vars = vars and r = r and namespace = ns] assms(1,2)
    admitted_selectors_parse [OF assms(3)]
  by (auto split: sum.splits)

theorem admitted_resource_builds_witness:
  "selectors_admitted [''a/b=c'', ''d=e-f'']
   \<and> parse_node_selectors [''a/b=c'', ''d=e-f''] = Ok [''d'' \<mapsto> ''e-f'', ''a/b'' \<mapsto> ''c'']"
proof -
  let ?ss = "[''a/b=c'', ''d=e-f'']"
  let ?r = "\<lparr>res_name = ''q'', uid = Some ''u'', generation = None, creation_timestamp = None,
    deletion_timestamp = None, finalizers = None,
    spec = \<lparr>registration = Offline, node_selector = Some ?ss\<rparr>, res_status = None\<rparr>"
  have a: "selectors_admitted ?ss"
    by (simp add: selectors_admitted_def entry_admitted_def full_match_def prefix_match_def selector_pattern_def
        label_key_def label_name_def dns_label_def prefix_pattern_def split_key_def Let_def
        is_lower_def is_upper_def is_digit_def numeral_eq_Suc)
  then show ?thesis
    using admitted_resource_builds [of ?r "''u''" ?ss]
    by (simp add: split_key_def split_value_def map_of_def)
qed

end
