(* ===== verification/OperatorDemo.thy ===== *)
theory OperatorDemo
  imports OperatorProps Admission
begin

text \<open>
  A concrete cluster on which the operator's properties are shown to apply: one resource in
  Offline mode, a DaemonSet that is ready, a clock that counts calls and an RFC 3339 format
  replaced by unary numbers.
\<close>

definition demo_res :: tqgs where
  "demo_res = \<lparr>res_name = ''q'', uid = Some ''u'', generation = Some 1, creation_timestamp = Some 5,
     deletion_timestamp = None, finalizers = Some [''x''],
     spec = \<lparr>registration = Offline, node_selector = None\<rparr>, res_status = None\<rparr>"

definition demo_older :: tqgs where
  "demo_older = demo_res\<lparr>res_name := ''p'', creation_timestamp := Some 2\<rparr>"

definition unary :: "nat \<Rightarrow> str" where
  "unary n = replicate n CHR ''1''"

definition unary_parse :: "str \<Rightarrow> nat option" where
  "unary_parse s = Some (length s)"

lemma unary_parse [simp]: "unary_parse (unary n) = Some n"
  by (simp add: unary_parse_def unary_def)

definition demo_ds_status :: daemonset_status where
  "demo_ds_status = \<lparr>ds_desired_number_scheduled = 1, ds_current_number_scheduled = 1, ds_number_ready = 1\<rparr>"

definition demo_cluster :: op_env where
  "demo_cluster = \<lparr>env_vars = (\<lambda>_. None), env_ds_template = Ok DAEMONSET_TEMPLATE,
     env_deploy_template = Ok DEPLOYMENT_TEMPLATE, kube_display = (\<lambda>_. ''''),
     to_rfc3339 = unary, to_rfc3339_nanos = unary, env_now = length,
     env_list_instances = (\<lambda>_. Ok [demo_res]), env_instance = (\<lambda>_ _. Ok demo_res),
     env_write = (\<lambda>_ _. Ok ()), env_daemonset = (\<lambda>_ _. Ok (Some demo_ds_status)),
     env_deployment = (\<lambda>_ _. Ok None)\<rparr>"

lemma demo_daemonset: "\<exists>ds. build_daemonset (\<lambda>_. None) (Ok DAEMONSET_TEMPLATE) demo_res ns = Ok ds"
  using build_daemonset_cases [where vars = "\<lambda>_. None" and r = demo_res and namespace = ns]
  by (auto simp: demo_res_def split: sum.splits)

definition demo_observation :: observation where
  "demo_observation = \<lparr>obs_daemonset = ''q-qgs'', obs_desired = 1, obs_current = 1, obs_number_ready = 1,
     obs_deployment = None, obs_deployment_ready = None, obs_ready = True\<rparr>"

lemma demo_steady: "steady demo_cluster demo_res (Some demo_ds_status) (Ok None)"
  "steady_observation demo_res (Some demo_ds_status) (Ok None) = demo_observation"
  by (simp_all add: steady_def demo_cluster_def steady_observation_def observe_def demo_res_def
      demo_observation_def demo_ds_status_def daemonset_is_ready_def Let_def)

lemma demo_run:
  "\<exists>ds. reconcile_resource demo_cluster demo_res [] = (Ok (Requeue (from_secs 300)),
     [ListInstances, ApplyDaemonSet ''default'' ''q-qgs'' (apply_force ''tdx-qgs-operator'') ds,
      DeleteDeployment ''default'' ''q-registrar'', GetDaemonSet ''default'' ''q-qgs'', ReadNow,
      PatchStatus ''q'' None (status_patch (unary 4) demo_res demo_observation)])"
proof -
  obtain ds where ds: "build_daemonset (\<lambda>_. None) (Ok DAEMONSET_TEMPLATE) demo_res ''default'' = Ok ds"
    using demo_daemonset by blast
  have obs: "observe ''q-qgs'' (None, None) (Some demo_ds_status) = demo_observation"
    by (simp add: observe_def demo_observation_def demo_ds_status_def daemonset_is_ready_def)
  have r: "res_name demo_res = ''q''" "registration (spec demo_res) = Offline" "res_status demo_res = None"
    by (simp_all add: demo_res_def)
  have e: "env_vars demo_cluster = (\<lambda>_. None)" "env_ds_template demo_cluster = Ok DAEMONSET_TEMPLATE"
    "env_now demo_cluster = length" "to_rfc3339_nanos demo_cluster = unary"
    "env_list_instances demo_cluster = (\<lambda>_. Ok [demo_res])" "env_write demo_cluster = (\<lambda>_ _. Ok ())"
    "env_daemonset demo_cluster = (\<lambda>_ _. Ok (Some demo_ds_status))"
    by (simp_all add: demo_cluster_def)
  have ns: "operator_namespace (\<lambda>_. None) = ''default''" by (simp add: operator_namespace_def env_or_def)
  have four: "(4::nat) = Suc (Suc (Suc (Suc 0)))" by simp
  show ?thesis
    by (intro exI [of _ ds])
      (simp add: four reconcile_resource_def reconcile_workloads_def superseded_by_def e r ns ds obs Let_def
        create_or_update_daemonset_run reconcile_deployment_def delete_deployment_if_exists_def op_run
        write_status_def status_changed_def demo_observation_def DEFAULT_REQUEUE_INTERVAL_def)
qed

theorem operator_call_order_witness:
  "\<exists>res w'. reconcile_resource demo_cluster demo_res [] = (Ok res, w')
    \<and> (\<exists>ds d doc. op_calls [] w' = ListInstances # workload_calls (\<lambda>_. None) demo_res ds d @ status_calls demo_res doc)"
proof -
  obtain w' where run: "reconcile_resource demo_cluster demo_res [] = (Ok (Requeue (from_secs 300)), w')"
    and l: "length w' = 6" using demo_run by force
  have e: "env_list_instances demo_cluster [] = Ok [demo_res]" "superseded_by demo_res [demo_res] = None"
    "env_vars demo_cluster = (\<lambda>_. None)" by (simp_all add: demo_cluster_def superseded_by_def)
  have "registration (spec demo_res) = Offline" by (simp add: demo_res_def)
  then have n: "length (workload_calls (\<lambda>_. None) demo_res ds d) = 3" for ds d
    by (simp add: workload_calls_def deployment_calls_def Let_def)
  from operator_call_order [OF run] e l n show ?thesis
    by (auto simp: run op_calls_def)
qed

theorem single_active_instance_witness:
  "superseded_by demo_res [demo_res, demo_older] = Some ''p'' \<and> superseded_by demo_older [demo_res, demo_older] = None"
proof -
  have d: "distinct (map res_name [demo_res, demo_older])" by (simp add: demo_older_def demo_res_def)
  have ne: "creation_timestamp demo_older < creation_timestamp demo_res" "res_name demo_older = ''p''"
    by (simp_all add: demo_older_def demo_res_def)
  from single_active_instance [OF _ d] ne show ?thesis by auto
qed

theorem status_writes_settle_witness:
  "\<exists>doc w1 s w3 res. PatchStatus ''q'' None doc \<in> set w1
    \<and> reconcile_resource demo_cluster demo_res [] = (Ok (Requeue (from_secs 300)), w1)
    \<and> merged_status unary_parse JNull doc = Some s \<and> is_ready conditions s
    \<and> reconcile_resource demo_cluster (demo_res\<lparr>res_status := Some s\<rparr>) w1 = (res, w3)
    \<and> (\<forall>n doc. PatchStatus n None doc \<notin> set (op_calls w1 w3))"
proof -
  let ?doc = "status_patch (unary 4) demo_res demo_observation"
  obtain w1 where run: "reconcile_resource demo_cluster demo_res [] = (Ok (Requeue (from_secs 300)), w1)"
    and mem: "PatchStatus ''q'' None ?doc \<in> set (op_calls [] w1)" using demo_run by (force simp: op_calls_def)
  have ok: "observation_ok (steady_observation demo_res (Some demo_ds_status) (Ok None))"
    by (simp add: demo_steady observation_ok_def demo_observation_def i32_def)
  have gen: "pred_option i64 (generation demo_res)" by (simp add: demo_res_def i64_def)
  have t: "unary_parse (to_rfc3339_nanos demo_cluster t) = Some t" for t by (simp add: demo_cluster_def)
  have "merged_status unary_parse JNull ?doc = Some (reported_status 4 (generation demo_res) demo_observation)"
    using gen ok by (intro merged_status_patch) (simp_all add: demo_steady)
  moreover obtain res w3 where
    "reconcile_resource demo_cluster (demo_res\<lparr>res_status := Some (reported_status 4 (generation demo_res)
      demo_observation)\<rparr>) w1 = (res, w3)" by fastforce
  ultimately show ?thesis
    using status_writes_settle [OF demo_steady(1) ok gen t run mem] run mem
    by (auto simp: demo_steady demo_observation_def op_calls_def intro!: exI [of _ ?doc])
qed

text \<open>A cluster where the DaemonSet may not be written.\<close>

definition demo_forbidden :: op_env where
  "demo_forbidden = demo_cluster\<lparr>env_write := (\<lambda>_ _. Err (KubeApi 403 ''Forbidden'' ''denied''))\<rparr>"

lemma demo_forbidden_run:
  "\<exists>ds. reconcile_resource demo_forbidden demo_res [] = (Err (OpKube (KubeApi 403 ''Forbidden'' ''denied'')),
     [ListInstances, ApplyDaemonSet ''default'' ''q-qgs'' (apply_force ''tdx-qgs-operator'') ds])"
proof -
  obtain ds where ds: "build_daemonset (\<lambda>_. None) (Ok DAEMONSET_TEMPLATE) demo_res ''default'' = Ok ds"
    using demo_daemonset by blast
  have r: "res_name demo_res = ''q''" by (simp add: demo_res_def)
  have e: "env_vars demo_forbidden = (\<lambda>_. None)" "env_ds_template demo_forbidden = Ok DAEMONSET_TEMPLATE"
    "env_list_instances demo_forbidden = (\<lambda>_. Ok [demo_res])"
    "env_write demo_forbidden = (\<lambda>_ _. Err (KubeApi 403 ''Forbidden'' ''denied''))"
    by (simp_all add: demo_forbidden_def demo_cluster_def)
  show ?thesis
    by (intro exI [of _ ds])
      (simp add: reconcile_resource_def reconcile_workloads_def superseded_by_def e r ds Let_def
        operator_namespace_def env_or_def create_or_update_daemonset_run op_run)
qed

theorem error_report_settles_witness:
  "\<exists>w1 doc s. report_reconcile_error demo_cluster demo_res (Generic ''boom'') [] = (Ok (), w1)
    \<and> PatchStatus ''q'' (Some ''operator'') doc \<in> set w1
    \<and> report_reconcile_error demo_cluster (demo_res\<lparr>res_status := Some s\<rparr>) (Generic ''boom'') w1 = (Ok (), w1)"
proof -
  let ?e = "Generic ''boom''" and ?msg = "truncate_message ''boom''"
  let ?doc = "condition_patch (unary 0) ''Ready'' ''False'' ''ReconcileFailed'' ?msg (Some 1)"
  let ?w1 = "[ReadNow, PatchStatus ''q'' (Some ''operator'') ?doc]"
  let ?inner = "merge_patch (case map_of (members JNull) ''status'' of None \<Rightarrow> JNull | Some t \<Rightarrow> t)
    (JObj [(''conditions'', JArr [condition_json ''Ready'' ''False'' ''ReconcileFailed'' ?msg (unary 0) (Some 1)]),
      (''observedGeneration'', JNum 1)])"
  have sm: "status_message demo_cluster ?e = ''boom''"
    by (simp add: status_message_def op_error_display_def)
  have ok: "str_ok (status_message demo_cluster ?e)" unfolding sm by (rule str_ok_ascii) simp
  have gen: "pred_option i64 (generation demo_res)" by (simp add: demo_res_def i64_def)
  have t: "unary_parse (to_rfc3339 demo_cluster t) = Some t" for t by (simp add: demo_cluster_def)
  have run: "report_reconcile_error demo_cluster demo_res ?e [] = (Ok (), ?w1)"
    by (simp add: report_reconcile_error_def sm Let_def already_reported_def op_run)
      (simp add: demo_res_def demo_cluster_def)
  have "condition_of_json unary_parse (condition_json ''Ready'' ''False'' ''ReconcileFailed'' ?msg (unary 0) (Some 1))
      = Some \<lparr>condition_type = ''Ready'', cond_status = CondFalse, cond_reason = Some ''ReconcileFailed'',
        cond_message = Some ?msg, last_transition_time = Some 0, cond_generation = Some 1\<rparr>"
    by (rule condition_json_roundtrip) (simp_all add: i64_def)
  then obtain s where s: "merged_status unary_parse JNull ?doc = Some s"
    unfolding condition_patch_def merged_status_doc
    by (simp add: status_of_json_def opt_member_def default_i32_def conditions_of_json_def json_opt_def i64_def)
  have "PatchStatus ''q'' (Some ''operator'') ?doc \<in> set (op_calls [] ?w1)" by (simp add: op_calls_def)
  from error_report_settles [OF ok gen t run this s, of ?w1] run show ?thesis
    by (intro exI [of _ ?w1] exI [of _ ?doc] exI [of _ s]) simp
qed

text \<open>A finalizer helper that finds the finalizer in place and calls the handler.\<close>

definition demo_helper :: finalizer_helper where
  "demo_helper r h = map_err_fx (\<lambda>_. ''apply failed'') (h (Apply r))"

theorem reconcile_error_path_witness:
  "\<exists>w1 w2. reconcile_resource demo_forbidden demo_res [] = (Err (OpKube (KubeApi 403 ''Forbidden'' ''denied'')), w1)
    \<and> reconcile demo_helper demo_forbidden demo_res [] = (Err (Finalizer ''apply failed''), w2)
    \<and> length (op_calls w1 w2) = 2"
proof -
  obtain w1 where run: "reconcile_resource demo_forbidden demo_res []
      = (Err (OpKube (KubeApi 403 ''Forbidden'' ''denied'')), w1)" using demo_forbidden_run by blast
  have d: "\<not> is_deleting demo_res" by (simp add: is_deleting_def demo_res_def)
  have h: "demo_helper demo_res h = map_err_fx (\<lambda>_. ''apply failed'') (h (Apply demo_res))" for h
    by (rule ext) (simp add: demo_helper_def)
  have "\<not> already_reported demo_res msg" for msg by (simp add: already_reported_def demo_res_def)
  with reconcile_error_path [where fin = demo_helper and err_text = "\<lambda>_. ''apply failed''", OF d h run] run show ?thesis by force
qed

theorem superseded_never_settles_witness:
  "\<exists>w' doc. PatchStatus ''q'' (Some ''operator'') doc \<in> set (op_calls [] w')
    \<and> snd (reconcile_resource (demo_cluster\<lparr>env_list_instances := (\<lambda>_. Ok [demo_older, demo_res])\<rparr>)
        (demo_res\<lparr>res_status := Some default_status\<rparr>) []) = w'
    \<and> (\<forall>old s'. merged_status unary_parse old doc = Some s' \<longrightarrow> s' \<noteq> default_status)"
proof -
  let ?env = "demo_cluster\<lparr>env_list_instances := (\<lambda>_. Ok [demo_older, demo_res])\<rparr>"
  have l: "env_list_instances ?env [] = Ok [demo_older, demo_res]" by simp
  have s: "superseded_by demo_res [demo_older, demo_res] = Some ''p''"
    by (simp add: superseded_by_def demo_older_def demo_res_def)
  have t: "unary_parse (to_rfc3339 ?env t) = Some t" for t by (simp add: demo_cluster_def)
  have gen: "pred_option i64 (generation demo_res)" by (simp add: demo_res_def i64_def)
  have c: "\<forall>c \<in> set (conditions default_status). last_transition_time c \<noteq> Some (env_now ?env ([] @ [ListInstances]))"
    by (simp add: default_status_def)
  obtain res w' where run: "reconcile_resource ?env (demo_res\<lparr>res_status := Some default_status\<rparr>) [] = (res, w')"
    by fastforce
  from superseded_never_settles [OF l s t gen c run] run show ?thesis by (auto simp: demo_res_def)
qed

theorem managed_objects_map_back_witness:
  "\<exists>ds owners ns. build_daemonset (\<lambda>_. None) (Ok DAEMONSET_TEMPLATE) demo_res ''default'' = Ok ds
    \<and> owner_references ds = Some owners \<and> wl_namespace ds = Some ns
    \<and> run_triggers (\<lambda>_. None) (\<lambda>ns x. if api_version x = ''trustedservices.intel.com/v1''
            \<and> owner_kind x = ''TdxQuoteGenerationService''
          then Some \<lparr>ref_name = owner_name x, ref_namespace = ns\<rparr> else None) (WorkloadEvent ns owners)
        = Some \<lparr>ref_name = ''q'', ref_namespace = None\<rparr>"
proof -
  let ?f = "\<lambda>ns x. if api_version x = ''trustedservices.intel.com/v1'' \<and> owner_kind x = ''TdxQuoteGenerationService''
    then Some \<lparr>ref_name = owner_name x, ref_namespace = ns :: str option\<rparr> else None"
  have d: "operator_namespace (\<lambda>_. None) = ''default''" by (simp add: operator_namespace_def env_or_def)
  obtain ds where ds: "build_daemonset (\<lambda>_. None) (Ok DAEMONSET_TEMPLATE) demo_res ''default'' = Ok ds"
    using demo_daemonset by blast
  have f: "?f None x = Some \<lparr>ref_name = owner_name x, ref_namespace = None\<rparr>"
    if "api_version x = ''trustedservices.intel.com/v1''" "owner_kind x = ''TdxQuoteGenerationService''" for x
    using that by simp
  have "run_triggers (\<lambda>_. None) ?f (ResourceEvent demo_res) = Some \<lparr>ref_name = ''q'', ref_namespace = None\<rparr>"
    by (simp add: run_triggers_def demo_res_def)
  with managed_objects_map_back [of ?f "\<lambda>_. None" "Ok DAEMONSET_TEMPLATE" demo_res ds "[]", OF f] ds d
  show ?thesis by auto
qed

theorem finalizer_patches_overwrite_witness:
  "finalizers_of_json (merge_patch (finalizers_patch (JArr [JStr ''x'', JStr ''added in between'']))
     (finalizers_patch (JArr [JStr ''x'', JStr FINALIZER]))) = Some [''x'', FINALIZER]
   \<and> add_finalizer demo_cluster ''q'' [] = (Ok demo_res, [GetInstance ''q'',
       PatchInstance ''q'' (Some ''operator'') (finalizers_patch (JArr [JStr ''x'', JStr FINALIZER]))])"
proof -
  have g: "env_instance demo_cluster [] (GetInstance ''q'') = Ok demo_res" by (simp add: demo_cluster_def)
  have f: "\<not> has_finalizer demo_res" "finalizers demo_res = Some [''x'']"
    by (simp_all add: has_finalizer_def demo_res_def FINALIZER_def)
  have a: "add_finalizer demo_cluster ''q'' [] = (Ok demo_res, [GetInstance ''q'',
       PatchInstance ''q'' (Some ''operator'') (finalizers_patch (JArr [JStr ''x'', JStr FINALIZER]))])"
    using finalizer_patches_overwrite [OF g] f by (simp add: Let_def demo_cluster_def)
  with finalizer_patches_overwrite [OF g, of "Some ''operator''"
      "finalizers_patch (JArr [JStr ''x'', JStr ''added in between''])"] f
  show ?thesis by (simp add: op_calls_def)
qed

end
