(* ===== verification/Rbac.thy ===== *)
theory Rbac
  imports OperatorDemo
begin

text \<open>
  The roles the repository ships (\<open>bin/operator/deployment/rbac\<close> and the chart's
  \<open>templates/role.yaml\<close>) and the operator's calls. The API server's rule is Kubernetes RBAC: a
  request is permitted when a rule bound to the account names its group, resource and verb, for
  all namespaces or for that of the binding. Kustomize's name prefix and namespace are applied
  (\<open>default/kustomization.yaml\<close>). The binding of the service's account to OpenShift's privileged
  security context constraint (\<open>deployment/manifests/scc-role.yaml\<close>), which only the OLM bundle
  adds and which no call of the programs uses, is left out.
\<close>

subsection \<open>Requests and rules\<close>

record api_request =
  req_verb :: str
  req_group :: str
  req_resource :: str
  req_namespace :: "str option"

record policy_rule =
  api_groups :: "str list"
  rule_resources :: "str list"
  rule_verbs :: "str list"

text \<open>A binding of rules to a service account; without a namespace it is a cluster role binding.\<close>

record role_binding =
  subject :: "str \<times> str"
  bound_in :: "str option"
  role_rules :: "policy_rule list"

definition rule_covers :: "policy_rule \<Rightarrow> api_request \<Rightarrow> bool" where
  "rule_covers rule q \<longleftrightarrow> req_group q \<in> set (api_groups rule) \<and> req_resource q \<in> set (rule_resources rule)
     \<and> req_verb q \<in> set (rule_verbs rule)"

definition permitted :: "role_binding list \<Rightarrow> str \<times> str \<Rightarrow> api_request \<Rightarrow> bool" where
  "permitted bindings account q \<longleftrightarrow>
     list_ex (\<lambda>b. subject b = account \<and> (bound_in b = None \<or> bound_in b = req_namespace q)
       \<and> list_ex (\<lambda>rule. rule_covers rule q) (role_rules b)) bindings"

subsection \<open>The shipped roles\<close>

abbreviation CRD_GROUP :: str where "CRD_GROUP \<equiv> ''trustedservices.intel.com''"

definition manager_cluster_role :: "policy_rule list" where
  "manager_cluster_role =
     [\<lparr>api_groups = [CRD_GROUP], rule_resources = [''tdxquotegenerationservices''],
       rule_verbs = [''get'', ''list'', ''watch'', ''patch'']\<rparr>,
      \<lparr>api_groups = [CRD_GROUP], rule_resources = [''tdxquotegenerationservices/status''], rule_verbs = [''patch'']\<rparr>,
      \<lparr>api_groups = [CRD_GROUP], rule_resources = [''tdxquotegenerationservices/finalizers''], rule_verbs = [''update'']\<rparr>]"

definition manager_role :: "policy_rule list" where
  "manager_role =
     [\<lparr>api_groups = [''apps''], rule_resources = [''daemonsets''],
       rule_verbs = [''get'', ''list'', ''watch'', ''create'', ''patch'']\<rparr>,
      \<lparr>api_groups = [''apps''], rule_resources = [''deployments''],
       rule_verbs = [''get'', ''list'', ''watch'', ''create'', ''patch'', ''delete'']\<rparr>]"

definition qgs_role :: "policy_rule list" where
  "qgs_role = [\<lparr>api_groups = [[]], rule_resources = [''secrets''],
     rule_verbs = [''get'', ''list'', ''watch'', ''create'', ''patch'']\<rparr>]"

text \<open>The chart's role of the tool: without the writes in External mode.\<close>

definition chart_role :: "bool \<Rightarrow> policy_rule list" where
  "chart_role external = [\<lparr>api_groups = [[]], rule_resources = [''secrets''],
     rule_verbs = [''get'', ''list'', ''watch''] @ (if external then [] else [''create'', ''patch''])\<rparr>]"

definition NAME_PREFIX :: str where "NAME_PREFIX = ''intel-tdx-dcap-''"

definition operator_account :: "str \<Rightarrow> str \<times> str" where
  "operator_account ns = (NAME_PREFIX @ ''controller-manager'', ns)"

definition qgs_account :: "str \<Rightarrow> str \<times> str" where
  "qgs_account ns = (NAME_PREFIX @ ''qgs'', ns)"

definition shipped_bindings :: "str \<Rightarrow> role_binding list" where
  "shipped_bindings ns =
     [\<lparr>subject = operator_account ns, bound_in = None, role_rules = manager_cluster_role\<rparr>,
      \<lparr>subject = operator_account ns, bound_in = Some ns, role_rules = manager_role\<rparr>,
      \<lparr>subject = qgs_account ns, bound_in = Some ns, role_rules = qgs_role\<rparr>]"

text \<open>The chart's binding in the release namespace.\<close>

definition chart_bindings :: "bool \<Rightarrow> str \<Rightarrow> role_binding list" where
  "chart_bindings external ns = [\<lparr>subject = (''intel-tdx-dcap-qgs'', ns), bound_in = Some ns, role_rules = chart_role external\<rparr>]"

subsection \<open>What a call needs\<close>

definition instances :: "str \<Rightarrow> str \<Rightarrow> api_request" where
  "instances verb sub = \<lparr>req_verb = verb, req_group = CRD_GROUP,
     req_resource = ''tdxquotegenerationservices'' @ sub, req_namespace = None\<rparr>"

definition apps :: "str \<Rightarrow> str \<Rightarrow> str \<Rightarrow> api_request" where
  "apps verb resource ns = \<lparr>req_verb = verb, req_group = ''apps'', req_resource = resource, req_namespace = Some ns\<rparr>"

definition secrets :: "str \<Rightarrow> str \<Rightarrow> api_request" where
  "secrets verb ns = \<lparr>req_verb = verb, req_group = [], req_resource = ''secrets'', req_namespace = Some ns\<rparr>"

text \<open>A server-side apply needs \<open>patch\<close>, and \<open>create\<close> for an object that is not there; an owner
  reference that blocks the owner's deletion needs \<open>update\<close> on the owner's finalizers.\<close>

definition owner_requests :: "workload \<Rightarrow> api_request list" where
  "owner_requests wl =
     (if list_ex (\<lambda>x. block_owner_deletion x = Some True) (case owner_references wl of None \<Rightarrow> [] | Some xs \<Rightarrow> xs)
      then [instances ''update'' ''/finalizers''] else [])"

fun needed :: "op_event \<Rightarrow> api_request list" where
  "needed ListInstances = [instances ''list'' []]"
| "needed (GetInstance n) = [instances ''get'' []]"
| "needed (PatchInstance n m doc) = [instances ''patch'' []]"
| "needed (PatchStatus n m doc) = [instances ''patch'' ''/status'']"
| "needed (ApplyDaemonSet ns n p wl) = [apps ''patch'' ''daemonsets'' ns, apps ''create'' ''daemonsets'' ns] @ owner_requests wl"
| "needed (ApplyDeployment ns n p wl) = [apps ''patch'' ''deployments'' ns, apps ''create'' ''deployments'' ns] @ owner_requests wl"
| "needed (GetDaemonSet ns n) = [apps ''get'' ''daemonsets'' ns]"
| "needed (GetDeployment ns n) = [apps ''get'' ''deployments'' ns]"
| "needed (DeleteDeployment ns n) = [apps ''delete'' ''deployments'' ns]"
| "needed ReadNow = []"

text \<open>A watch lists and then watches: those of \<open>run\<close>.\<close>

definition run_watches :: "vars \<Rightarrow> api_request list" where
  "run_watches vars = (let ns = operator_namespace vars in
     [instances ''list'' [], instances ''watch'' [], apps ''list'' ''daemonsets'' ns, apps ''watch'' ''daemonsets'' ns,
      apps ''list'' ''deployments'' ns, apps ''watch'' ''deployments'' ns])"

lemmas rbac_defs = permitted_def rule_covers_def shipped_bindings_def manager_cluster_role_def manager_role_def
  qgs_role_def operator_account_def qgs_account_def NAME_PREFIX_def instances_def apps_def secrets_def

subsection \<open>The operator\<close>

text \<open>The calls that touch namespaced objects only in \<open>ns\<close>.\<close>

fun in_namespace :: "str \<Rightarrow> op_event \<Rightarrow> bool" where
  "in_namespace ns (ApplyDaemonSet n _ _ _) \<longleftrightarrow> n = ns"
| "in_namespace ns (ApplyDeployment n _ _ _) \<longleftrightarrow> n = ns"
| "in_namespace ns (GetDaemonSet n _) \<longleftrightarrow> n = ns"
| "in_namespace ns (GetDeployment n _) \<longleftrightarrow> n = ns"
| "in_namespace ns (DeleteDeployment n _) \<longleftrightarrow> n = ns"
| "in_namespace ns _ \<longleftrightarrow> True"

lemma operator_requests [simp]:
  "permitted (shipped_bindings ns) (operator_account ns) (instances ''get'' [])"
  "permitted (shipped_bindings ns) (operator_account ns) (instances ''list'' [])"
  "permitted (shipped_bindings ns) (operator_account ns) (instances ''watch'' [])"
  "permitted (shipped_bindings ns) (operator_account ns) (instances ''patch'' [])"
  "permitted (shipped_bindings ns) (operator_account ns) (instances ''patch'' ''/status'')"
  "permitted (shipped_bindings ns) (operator_account ns) (instances ''update'' ''/finalizers'')"
  by (simp_all add: rbac_defs)

lemma operator_app_requests [simp]:
  "v \<in> {''get'', ''list'', ''watch'', ''create'', ''patch''} \<Longrightarrow>
     permitted (shipped_bindings ns) (operator_account ns) (apps v ''daemonsets'' ns)"
  "v \<in> {''get'', ''list'', ''watch'', ''create'', ''patch'', ''delete''} \<Longrightarrow>
     permitted (shipped_bindings ns) (operator_account ns) (apps v ''deployments'' ns)"
  by (simp_all add: rbac_defs)

lemma owner_requests_permitted:
  "q \<in> set (owner_requests wl) \<Longrightarrow> permitted (shipped_bindings ns) (operator_account ns) q"
  by (simp add: owner_requests_def split: if_splits)

lemma in_namespace_permitted:
  "in_namespace ns e \<Longrightarrow> q \<in> set (needed e) \<Longrightarrow> permitted (shipped_bindings ns) (operator_account ns) q"
  by (cases e) (auto simp: owner_requests_permitted)

text \<open>The workload a call applies, and that a call is one of the operator for its own namespace:
  applied workloads live there, under the account of the service. No instance is read by name (the
  helpers of \<open>finalizer.rs\<close> would do that, but nothing calls them).\<close>

fun applied :: "op_event \<Rightarrow> workload option" where
  "applied (ApplyDaemonSet _ _ _ wl) = Some wl"
| "applied (ApplyDeployment _ _ _ wl) = Some wl"
| "applied _ = None"

definition service_account :: "vars \<Rightarrow> str" where
  "service_account vars = env_or vars ''QGS_SERVICE_ACCOUNT'' ''intel-tdx-dcap-qgs''"

definition own_call :: "vars \<Rightarrow> op_event \<Rightarrow> bool" where
  "own_call vars e \<longleftrightarrow> in_namespace (operator_namespace vars) e \<and> (\<forall>n. e \<noteq> GetInstance n)
     \<and> (\<forall>wl. applied e = Some wl \<longrightarrow> wl_namespace wl = Some (operator_namespace vars)
        \<and> Option.bind (pod wl) service_account_name = Some (service_account vars))"

lemma build_daemonset_account:
  assumes "build_daemonset vars tpl r ns = Ok wl"
  shows "wl_namespace wl = Some ns \<and> Option.bind (pod wl) service_account_name = Some (service_account vars)"
proof -
  obtain ds owner p q where "daemonset_pod vars (spec r) p = Ok q"
    and wl: "wl = ds\<lparr>wl_name := Some (res_name r @ ''-qgs''), wl_namespace := Some ns,
            owner_references := Some [owner], pod := Some q\<rparr>"
    using assms by (auto simp: build_daemonset_def bind_res_eq_Ok)
  then obtain p1 p2 where
    1: "(if registration (spec r) = External then external_mode (p\<lparr>service_account_name := Some (service_account vars)\<rparr>)
       else Ok (p\<lparr>service_account_name := Some (service_account vars)\<rparr>)) = Ok p1"
    and 2: "(case node_selector (spec r) of None \<Rightarrow> Ok p1
        | Some selectors \<Rightarrow> bind_res (parse_node_selectors selectors) (\<lambda>m. Ok (p1\<lparr>pod_node_selector := Some m\<rparr>))) = Ok p2"
    and 3: "q = (case image_from_env vars of None \<Rightarrow> p2 | Some img \<Rightarrow> set_images img p2)"
    unfolding daemonset_pod_def Let_def bind_res_eq_Ok service_account_def by (elim exE conjE) simp
  have "service_account_name p1 = Some (service_account vars)"
    using 1 by (auto simp: external_mode_def use_node_name_as_literal_id_Ok bind_res_eq_Ok remove_volume_def split: if_splits)
  moreover have "service_account_name q = service_account_name p1"
    using 2 3 by (auto simp: bind_res_eq_Ok split: option.splits)
  ultimately have "service_account_name q = Some (service_account vars)" by simp
  with wl show ?thesis by simp
qed

lemma build_deployment_account:
  "build_deployment vars tpl r ns = Ok wl \<Longrightarrow>
     wl_namespace wl = Some ns \<and> Option.bind (pod wl) service_account_name = Some (service_account vars)"
  by (auto simp: build_deployment_def bind_res_eq_Ok service_account_def neq_Nil_conv split: list.splits)

text \<open>The log grows, by calls that satisfy \<open>P\<close>.\<close>

definition grows :: "(op_event \<Rightarrow> bool) \<Rightarrow> op_log \<Rightarrow> op_log \<Rightarrow> bool" where
  "grows P w w' \<longleftrightarrow> (\<exists>es. w' = w @ es \<and> list_all P es)"

lemma reflp_grows [intro, simp]: "reflp (grows P)"
  by (simp add: reflp_def grows_def)

lemma transp_grows [intro, simp]: "transp (grows P)"
  by (rule transpI) (auto simp: grows_def)

lemma grows_ops:
  "keeps (grows P) (kube_call e f) \<longleftrightarrow> P e"
  "keeps (grows P) (utc_now env) \<longleftrightarrow> P ReadNow"
  by (simp_all add: keeps_def grows_def kube_call_def utc_now_def)

lemma keeps_if [intro]: "keeps R m \<Longrightarrow> keeps R n \<Longrightarrow> keeps R (if b then m else n)"
  by simp

lemma own_call_simps [simp]:
  "own_call vars ListInstances" "own_call vars (PatchInstance n m doc)"
  "own_call vars (PatchStatus n m doc)" "own_call vars ReadNow"
  "own_call vars (GetDaemonSet (operator_namespace vars) n)" "own_call vars (GetDeployment (operator_namespace vars) n)"
  "own_call vars (DeleteDeployment (operator_namespace vars) n)"
  by (simp_all add: own_call_def)

lemma grows_update_status: "keeps (grows (own_call vars)) (update_status env n ty st rsn msg gen)"
  unfolding update_status_def by (intro keeps_bind transp_grows) (simp_all add: grows_ops)

lemma grows_create_or_update:
  fixes env :: op_env
  defines "ns \<equiv> operator_namespace (env_vars env)"
  shows "keeps (grows (own_call (env_vars env))) (create_or_update_daemonset env r ns)"
    "keeps (grows (own_call (env_vars env))) (create_or_update_deployment env r ns)"
proof -
  show "keeps (grows (own_call (env_vars env))) (create_or_update_daemonset env r ns)"
    using build_daemonset_account [of "env_vars env" "env_ds_template env" r ns]
    by (auto simp: keeps_def create_or_update_daemonset_run grows_def own_call_def ns_def Let_def split: sum.splits)
  show "keeps (grows (own_call (env_vars env))) (create_or_update_deployment env r ns)"
    using build_deployment_account [of "env_vars env" "env_deploy_template env" r ns]
    by (auto simp: keeps_def create_or_update_deployment_run grows_def own_call_def ns_def Let_def split: sum.splits)
qed

lemma grows_reconcile_deployment:
  "keeps (grows (own_call (env_vars env))) (reconcile_deployment env r (operator_namespace (env_vars env)))"
proof -
  let ?R = "grows (own_call (env_vars env))" and ?ns = "operator_namespace (env_vars env)"
  have d: "keeps ?R (delete_deployment_if_exists env r ?ns)"
    unfolding delete_deployment_if_exists_def
    by (intro keeps_match keeps_pure keeps_if transp_grows reflp_grows) (simp add: grows_ops)
  show ?thesis
  proof (cases "registration (spec r)")
    case (Online cfg)
    have "own_call (env_vars env) (GetDeployment ?ns name)" for name by simp
    then show ?thesis
      unfolding reconcile_deployment_def Online platform_registration.case
      by (intro keeps_bind keeps_match keeps_pure transp_grows reflp_grows grows_create_or_update)
        (simp add: grows_ops)
  qed (use d in \<open>simp_all add: reconcile_deployment_def keeps_bind keeps_pure\<close>)
qed

lemma grows_reconcile_resource:
  "keeps (grows (own_call (env_vars env))) (reconcile_resource env r)"
proof -
  let ?R = "grows (own_call (env_vars env))"
  have w: "keeps ?R (write_status env r obs)" for obs
    unfolding write_status_def
    by (intro keeps_if keeps_bind keeps_pure transp_grows reflp_grows) (simp_all add: grows_ops)
  have "keeps ?R (reconcile_workloads env r)"
    unfolding reconcile_workloads_def Let_def
    by (intro keeps_bind keeps_pure w transp_grows reflp_grows grows_create_or_update grows_reconcile_deployment)
      (simp add: grows_ops)
  then have "keeps ?R (case superseded_by r instances of
       Some oldest \<Rightarrow> bind_fx (update_status env (res_name r) ''Ready'' ''False'' ''MultipleInstances''
           (multiple_instances_message oldest) (generation r)) (\<lambda>_. ret_fx (Requeue DEFAULT_REQUEUE_INTERVAL))
     | None \<Rightarrow> reconcile_workloads env r)" for instances
    by (cases "superseded_by r instances")
      (simp_all add: keeps_bind keeps_pure grows_update_status)
  then show ?thesis
    unfolding reconcile_resource_def by (intro keeps_bind transp_grows) (simp_all add: grows_ops)
qed

lemma grows_handle_event:
  "keeps (grows (own_call (env_vars env))) (handle_event env ev)"
proof (cases ev)
  case (Apply r)
  let ?R = "grows (own_call (env_vars env))"
  have "keeps ?R (report_reconcile_error env r e)" for e
    unfolding report_reconcile_error_def Let_def
    by (intro keeps_if keeps_match keeps_pure grows_update_status transp_grows reflp_grows)
  then show ?thesis
    unfolding handle_event_def Apply finalizer_event.case
    by (intro keeps_match keeps_bind keeps_pure grows_reconcile_resource transp_grows reflp_grows)
qed (simp add: handle_event_def cleanup_resource_def keeps_pure)

text \<open>What is relied on of kube's finalizer helper: besides calling the handler it only patches the
  instance.\<close>

definition patches_only :: "finalizer_helper \<Rightarrow> bool" where
  "patches_only fin \<longleftrightarrow> (\<forall>P r h. (\<forall>m doc. P (PatchInstance (res_name r) m doc)) \<longrightarrow> (\<forall>ev. keeps (grows P) (h ev))
     \<longrightarrow> keeps (grows P) (fin r h))"

lemma grows_reconcile:
  assumes "patches_only fin"
  shows "keeps (grows (own_call (env_vars env))) (reconcile fin env r)"
proof -
  have "keeps (grows (own_call (env_vars env))) (fin r (handle_event env))"
    using assms grows_handle_event unfolding patches_only_def by (metis own_call_simps(2))
  then show ?thesis by (simp add: reconcile_def keeps_def map_err_fx_def case_prod_beta)
qed

text \<open>The environment the manager Deployment gives the operator, after kustomize.\<close>

definition deployed :: "vars \<Rightarrow> str \<Rightarrow> bool" where
  "deployed vars ns \<longleftrightarrow> vars ''OPERATOR_NAMESPACE'' = Some ns
     \<and> vars ''QGS_SERVICE_ACCOUNT'' = Some (NAME_PREFIX @ ''qgs'')"

lemma deployed_values [simp]:
  assumes "deployed vars ns"
  shows "operator_namespace vars = ns" "service_account vars = NAME_PREFIX @ ''qgs''"
  using assms by (simp_all add: deployed_def operator_namespace_def service_account_def env_or_def)

subsection \<open>Which permissions it needs\<close>

text \<open>kube's finalizer helper, as documented: it patches nothing but the instance; an instance that
  is not being deleted is handed to the handler once it has the finalizer, and is patched before.\<close>

definition finalizer_contract :: "finalizer_helper \<Rightarrow> bool" where
  "finalizer_contract fin \<longleftrightarrow> patches_only fin
     \<and> (\<forall>r h w. \<not> is_deleting r \<longrightarrow>
          (if has_finalizer r then snd (fin r h w) = snd (h (Apply r) w)
           else \<exists>m doc es. snd (fin r h w) = w @ PatchInstance (res_name r) m doc # es))"

text \<open>What some reconciliation or watch of an operator deployed in \<open>ns\<close> needs.\<close>

definition operator_needs :: "finalizer_helper \<Rightarrow> str \<Rightarrow> api_request set" where
  "operator_needs fin ns = {q. \<exists>env r w. deployed (env_vars env) ns
     \<and> (q \<in> set (run_watches (env_vars env))
       \<or> (\<exists>e \<in> set (op_calls w (snd (reconcile fin env r w))). q \<in> set (needed e)))}"

definition deployed_vars :: "str \<Rightarrow> vars" where
  "deployed_vars ns = [''OPERATOR_NAMESPACE'' \<mapsto> ns, ''QGS_SERVICE_ACCOUNT'' \<mapsto> NAME_PREFIX @ ''qgs'']"

definition deployed_cluster :: "str \<Rightarrow> op_env" where
  "deployed_cluster ns = demo_cluster\<lparr>env_vars := deployed_vars ns\<rparr>"

definition any_instance :: "platform_registration \<Rightarrow> tqgs" where
  "any_instance reg = demo_res\<lparr>finalizers := Some [FINALIZER],
     spec := \<lparr>registration = reg, node_selector = None\<rparr>\<rparr>"

lemma deployed_demo: "deployed (env_vars (deployed_cluster ns)) ns"
  by (simp add: deployed_def deployed_cluster_def deployed_vars_def)

text \<open>Complete runs in this cluster, in every mode.\<close>

lemma deployed_daemonset:
  "\<exists>ds. build_daemonset (deployed_vars ns) (Ok DAEMONSET_TEMPLATE) (any_instance reg) ns = Ok ds
     \<and> (\<exists>owner. owner_references ds = Some [owner] \<and> create_owner_reference (any_instance reg) = Ok owner)"
  using build_daemonset_cases [where vars = "deployed_vars ns" and r = "any_instance reg" and namespace = ns]
  by (auto simp: any_instance_def demo_res_def build_daemonset_def bind_res_eq_Ok split: sum.splits)

lemma deployed_run:
  "\<exists>a ds d doc. build_daemonset (deployed_vars ns) (Ok DAEMONSET_TEMPLATE) (any_instance reg) ns = Ok ds
     \<and> reconcile_resource (deployed_cluster ns) (any_instance reg) [] =
       (Ok a, ListInstances # workload_calls (deployed_vars ns) (any_instance reg) ds d
          @ [ReadNow, PatchStatus ''q'' None doc])"
proof -
  obtain ds where ds: "build_daemonset (deployed_vars ns) (Ok DAEMONSET_TEMPLATE) (any_instance reg) ns = Ok ds"
    using deployed_daemonset by blast
  obtain d where d: "build_deployment (deployed_vars ns) (Ok DEPLOYMENT_TEMPLATE) (any_instance reg) ns = Ok d"
    by (simp add: build_deployment_def create_owner_reference_def any_instance_def demo_res_def template_defs)
  define i where "i = any_instance reg"
  have r: "res_name i = ''q''" "res_status i = None"
    by (simp_all add: i_def any_instance_def demo_res_def)
  have e: "env_vars (deployed_cluster ns) = deployed_vars ns"
    "env_ds_template (deployed_cluster ns) = Ok DAEMONSET_TEMPLATE"
    "env_deploy_template (deployed_cluster ns) = Ok DEPLOYMENT_TEMPLATE"
    "env_list_instances (deployed_cluster ns) = (\<lambda>_. Ok [demo_res])"
    "env_write (deployed_cluster ns) = (\<lambda>_ _. Ok ())"
    "env_daemonset (deployed_cluster ns) = (\<lambda>_ _. Ok (Some demo_ds_status))"
    "env_deployment (deployed_cluster ns) = (\<lambda>_ _. Ok None)"
    by (simp_all add: deployed_cluster_def demo_cluster_def)
  have ns: "operator_namespace (deployed_vars ns) = ns"
    by (simp add: deployed_vars_def operator_namespace_def env_or_def)
  show ?thesis
    unfolding i_def [symmetric]
    by (cases "registration (spec i)"; rule exI; rule exI [of _ ds]; rule exI [of _ d];
      simp add: ds [folded i_def] d [folded i_def] reconcile_resource_def reconcile_workloads_def superseded_by_def e r ns Let_def
        create_or_update_daemonset_run create_or_update_deployment_run reconcile_deployment_def
        delete_deployment_if_exists_def op_run write_status_def status_changed_def workload_calls_def
        deployment_calls_def)
qed

text \<open>Under the contract such a run is also one of \<open>reconcile\<close>; its calls and what they need.\<close>

lemma finalizer_contract_run:
  assumes "finalizer_contract fin" "\<not> is_deleting r" "has_finalizer r"
    and "reconcile_resource env r w = (Ok a, w')"
  shows "snd (reconcile fin env r w) = w'"
proof -
  have "snd (fin r (handle_event env) w) = snd (handle_event env (Apply r) w)"
    using assms(1-3) by (simp add: finalizer_contract_def)
  then show ?thesis
    using assms(4) by (simp add: reconcile_def handle_event_def match_fx_def map_err_fx_def case_prod_beta)
qed

lemma deployed_needs:
  assumes "finalizer_contract fin"
  shows "\<exists>ds d doc. owner_requests ds = [instances ''update'' ''/finalizers'']
    \<and> (\<forall>e \<in> set (ListInstances # workload_calls (deployed_vars ns) (any_instance reg) ds d @ [PatchStatus ''q'' None doc]).
        set (needed e) \<subseteq> operator_needs fin ns)"
proof -
  obtain a ds d doc where ds: "build_daemonset (deployed_vars ns) (Ok DAEMONSET_TEMPLATE) (any_instance reg) ns = Ok ds"
    and run: "reconcile_resource (deployed_cluster ns) (any_instance reg) [] =
       (Ok a, ListInstances # workload_calls (deployed_vars ns) (any_instance reg) ds d @ [ReadNow, PatchStatus ''q'' None doc])"
    using deployed_run by blast
  have i: "\<not> is_deleting (any_instance reg)" "has_finalizer (any_instance reg)"
    by (simp_all add: any_instance_def demo_res_def is_deleting_def has_finalizer_def)
  have "owner_requests ds = [instances ''update'' ''/finalizers'']"
    using deployed_daemonset [of ns reg] ds
    by (auto simp: owner_requests_def create_owner_reference_def any_instance_def demo_res_def)
  moreover have "q \<in> operator_needs fin ns"
    if "e \<in> set (ListInstances # workload_calls (deployed_vars ns) (any_instance reg) ds d @ [PatchStatus ''q'' None doc])"
      "q \<in> set (needed e)" for e q
    using that finalizer_contract_run [OF assms i run] deployed_demo [of ns]
    unfolding operator_needs_def
    by (intro CollectI exI [of _ "deployed_cluster ns"] exI [of _ "any_instance reg"] exI [of _ "[]"])
      (auto simp: op_calls_def)
  ultimately show ?thesis by blast
qed

lemma finalizer_patch_needed:
  assumes "finalizer_contract fin"
  shows "instances ''patch'' [] \<in> operator_needs fin ns"
proof -
  let ?r = "demo_res\<lparr>finalizers := None\<rparr>" and ?env = "deployed_cluster ns"
  have "\<not> is_deleting ?r" "\<not> has_finalizer ?r"
    by (simp_all add: demo_res_def is_deleting_def has_finalizer_def)
  then obtain m doc es where "snd (fin ?r (handle_event ?env) []) = [] @ PatchInstance (res_name ?r) m doc # es"
    using assms unfolding finalizer_contract_def by metis
  then have "snd (reconcile fin ?env ?r []) = PatchInstance (res_name ?r) m doc # es"
    by (simp add: reconcile_def map_err_fx_def case_prod_beta)
  then show ?thesis
    unfolding operator_needs_def using deployed_demo [of ns]
    by (intro CollectI exI [of _ ?env] exI [of _ ?r] exI [of _ "[]"]) (simp add: op_calls_def)
qed

lemma operator_needs_all:
  assumes "finalizer_contract fin"
  shows "v \<in> {''list'', ''watch'', ''patch''} \<Longrightarrow> instances v [] \<in> operator_needs fin ns"
    and "instances ''patch'' ''/status'' \<in> operator_needs fin ns"
    and "instances ''update'' ''/finalizers'' \<in> operator_needs fin ns"
    and "v \<in> {''get'', ''list'', ''watch'', ''create'', ''patch''} \<Longrightarrow> apps v ''daemonsets'' ns \<in> operator_needs fin ns"
    and "v \<in> {''get'', ''list'', ''watch'', ''create'', ''patch'', ''delete''} \<Longrightarrow>
      apps v ''deployments'' ns \<in> operator_needs fin ns"
proof -
  have dep: "deployed (deployed_vars ns) ns" using deployed_demo [of ns] by (simp add: deployed_cluster_def)
  have watch: "q \<in> operator_needs fin ns" if "q \<in> set (run_watches (deployed_vars ns))" for q
    unfolding operator_needs_def using that deployed_demo [of ns]
    by (intro CollectI exI [of _ "deployed_cluster ns"]) (simp add: deployed_cluster_def)
  note w = watch [unfolded run_watches_def Let_def deployed_values(1) [OF dep]]
  note calls = workload_calls_def deployment_calls_def any_instance_def demo_res_def Let_def deployed_values(1) [OF dep]
  obtain ds d doc where off: "owner_requests ds = [instances ''update'' ''/finalizers'']"
    "\<forall>e \<in> set (ListInstances # workload_calls (deployed_vars ns) (any_instance Offline) ds d @ [PatchStatus ''q'' None doc]).
        set (needed e) \<subseteq> operator_needs fin ns"
    using deployed_needs [OF assms, of ns Offline] by (elim exE conjE)
  obtain ds' d' doc' where on:
    "\<forall>e \<in> set (ListInstances # workload_calls (deployed_vars ns) (any_instance (Online \<lparr>api_key_secret_name = None\<rparr>)) ds' d'
        @ [PatchStatus ''q'' None doc']). set (needed e) \<subseteq> operator_needs fin ns"
    using deployed_needs [OF assms, of ns "Online \<lparr>api_key_secret_name = None\<rparr>"] by (elim exE conjE)
  show "instances ''patch'' ''/status'' \<in> operator_needs fin ns"
    by (rule subsetD [OF bspec [OF off(2), of "PatchStatus ''q'' None doc"]]) simp_all
  show "v \<in> {''list'', ''watch'', ''patch''} \<Longrightarrow> instances v [] \<in> operator_needs fin ns"
    using w finalizer_patch_needed [OF assms] by auto
  have ds: "q \<in> operator_needs fin ns"
    if "q \<in> set (needed (ApplyDaemonSet ns ''q-qgs'' (apply_force ''tdx-qgs-operator'') ds))" for q
    by (rule subsetD [OF bspec [OF off(2)] that]) (simp add: calls)
  show "instances ''update'' ''/finalizers'' \<in> operator_needs fin ns"
    by (rule ds) (simp add: off(1))
  have "apps ''get'' ''daemonsets'' ns \<in> operator_needs fin ns"
    by (rule subsetD [OF bspec [OF off(2), of "GetDaemonSet ns ''q-qgs''"]]) (simp_all add: calls)
  then show "v \<in> {''get'', ''list'', ''watch'', ''create'', ''patch''} \<Longrightarrow> apps v ''daemonsets'' ns \<in> operator_needs fin ns"
    using w ds by auto
  have "apps ''delete'' ''deployments'' ns \<in> operator_needs fin ns"
    by (rule subsetD [OF bspec [OF off(2), of "DeleteDeployment ns ''q-registrar''"]]) (simp_all add: calls)
  moreover have "apps ''get'' ''deployments'' ns \<in> operator_needs fin ns"
    by (rule subsetD [OF bspec [OF on, of "GetDeployment ns ''q-registrar''"]]) (simp_all add: calls)
  moreover have "q \<in> operator_needs fin ns"
    if "q \<in> set (needed (ApplyDeployment ns ''q-registrar'' (apply_force ''tdx-qgs-operator'') d'))" for q
    by (rule subsetD [OF bspec [OF on] that]) (simp add: calls)
  ultimately show "v \<in> {''get'', ''list'', ''watch'', ''create'', ''patch'', ''delete''} \<Longrightarrow>
      apps v ''deployments'' ns \<in> operator_needs fin ns"
    using w by auto
qed

text \<open>No need is beyond the roles, and none is a read of an instance by name.\<close>

lemma operator_needs_permitted:
  assumes "patches_only fin" "q \<in> operator_needs fin ns"
  shows "permitted (shipped_bindings ns) (operator_account ns) q \<and> q \<noteq> instances ''get'' []
    \<and> (req_group q = CRD_GROUP \<longrightarrow> req_namespace q = None)"
proof -
  have other: "q' \<noteq> instances ''get'' [] \<and> (req_group q' = CRD_GROUP \<longrightarrow> req_namespace q' = None)"
    if "(\<forall>n. e \<noteq> GetInstance n) \<and> q' \<in> set (needed e)" for e q'
    using that by (cases e) (auto simp: owner_requests_def instances_def apps_def split: if_splits)
  obtain env r w where env: "deployed (env_vars env) ns" and q: "q \<in> set (run_watches (env_vars env))
      \<or> (\<exists>e \<in> set (op_calls w (snd (reconcile fin env r w))). q \<in> set (needed e))"
    using assms(2) by (auto simp: operator_needs_def)
  from q show ?thesis
  proof
    assume "q \<in> set (run_watches (env_vars env))"
    with env show ?thesis by (auto simp: run_watches_def Let_def) (simp_all add: instances_def apps_def)
  next
    assume "\<exists>e \<in> set (op_calls w (snd (reconcile fin env r w))). q \<in> set (needed e)"
    then obtain e where e: "e \<in> set (op_calls w (snd (reconcile fin env r w)))" "q \<in> set (needed e)" ..
    obtain es where "snd (reconcile fin env r w) = w @ es" "list_all (own_call (env_vars env)) es"
      using keepsD [OF grows_reconcile [OF assms(1), of env r] surjective_pairing, of w] unfolding grows_def by blast
    with e(1) env have "in_namespace ns e" "\<forall>n. e \<noteq> GetInstance n"
      by (auto simp: list_all_iff own_call_def op_calls_def)
    with in_namespace_permitted [OF _ e(2)] other e(2) show ?thesis by blast
  qed
qed

lemma granted_requests:
  assumes "permitted (shipped_bindings ns) (operator_account ns) q" "req_group q = CRD_GROUP \<longrightarrow> req_namespace q = None"
  shows "(\<exists>v \<in> {''get'', ''list'', ''watch'', ''patch''}. q = instances v [])
    \<or> q = instances ''patch'' ''/status'' \<or> q = instances ''update'' ''/finalizers''
    \<or> (\<exists>v \<in> {''get'', ''list'', ''watch'', ''create'', ''patch''}. q = apps v ''daemonsets'' ns)
    \<or> (\<exists>v \<in> {''get'', ''list'', ''watch'', ''create'', ''patch'', ''delete''}. q = apps v ''deployments'' ns)"
proof -
  have same: "q = \<lparr>req_verb = req_verb q, req_group = req_group q, req_resource = req_resource q,
      req_namespace = req_namespace q\<rparr>" by simp
  from assms(1) have "list_ex (\<lambda>rule. rule_covers rule q) manager_cluster_role
      \<or> (Some ns = req_namespace q \<and> list_ex (\<lambda>rule. rule_covers rule q) manager_role)"
    by (auto simp: permitted_def shipped_bindings_def operator_account_def qgs_account_def NAME_PREFIX_def)
  then consider "req_group q = CRD_GROUP" "req_resource q = ''tdxquotegenerationservices''" "req_verb q \<in> {''get'', ''list'', ''watch'', ''patch''}"
    | "req_group q = CRD_GROUP" "req_resource q = ''tdxquotegenerationservices/status''" "req_verb q \<in> {''patch''}"
    | "req_group q = CRD_GROUP" "req_resource q = ''tdxquotegenerationservices/finalizers''" "req_verb q \<in> {''update''}"
    | "req_group q = ''apps''" "req_resource q = ''daemonsets''" "req_namespace q = Some ns"
        "req_verb q \<in> {''get'', ''list'', ''watch'', ''create'', ''patch''}"
    | "req_group q = ''apps''" "req_resource q = ''deployments''" "req_namespace q = Some ns"
        "req_verb q \<in> {''get'', ''list'', ''watch'', ''create'', ''patch'', ''delete''}"
    by (simp add: manager_cluster_role_def manager_role_def rule_covers_def) metis
  then show ?thesis
  proof cases
    case 1
    then have "q = instances (req_verb q) []" using assms(2) by (subst same) (simp add: instances_def)
    with 1(3) show ?thesis by blast
  next
    case 2
    then have "q = instances ''patch'' ''/status''" using assms(2) by (subst same) (simp add: instances_def)
    then show ?thesis by blast
  next
    case 3
    then have "q = instances ''update'' ''/finalizers''" using assms(2) by (subst same) (simp add: instances_def)
    then show ?thesis by blast
  next
    case 4
    then have "q = apps (req_verb q) ''daemonsets'' ns" by (subst same) (simp add: apps_def)
    with 4(4) show ?thesis by blast
  next
    case 5
    then have "q = apps (req_verb q) ''deployments'' ns" by (subst same) (simp add: apps_def)
    with 5(4) show ?thesis by blast
  qed
qed

lemma instance_reads_unnamespaced: "req_namespace (instances v sub) = None"
  by (simp add: instances_def)

text \<open>C12: The shipped roles against what the operator does. With the environment its Deployment gives
  it, every watch and every call of every reconciliation (server-side applies and their owner
  references included, whatever the cluster answers) is permitted to its service account; and
  every permission of the account is needed by a watch or by the calls of some reconciliation, with one
  exception: nothing reads an instance by name, so \<open>get\<close> on the instances is granted in vain.\<close>

theorem operator_permissions:
  assumes "finalizer_contract fin"
  shows "{q. permitted (shipped_bindings ns) (operator_account ns) q
        \<and> (req_group q = CRD_GROUP \<longrightarrow> req_namespace q = None)}
      = insert (instances ''get'' []) (operator_needs fin ns)
    \<and> instances ''get'' [] \<notin> operator_needs fin ns"
proof (intro conjI equalityI subsetI)
  have p: "patches_only fin" using assms by (simp add: finalizer_contract_def)
  show "instances ''get'' [] \<notin> operator_needs fin ns" using operator_needs_permitted [OF p] by blast
  fix q
  {
    assume "q \<in> {q. permitted (shipped_bindings ns) (operator_account ns) q
        \<and> (req_group q = CRD_GROUP \<longrightarrow> req_namespace q = None)}"
    then show "q \<in> insert (instances ''get'' []) (operator_needs fin ns)"
      using granted_requests [of ns q] operator_needs_all [OF assms, where ns = ns] by auto
  next
    assume "q \<in> insert (instances ''get'' []) (operator_needs fin ns)"
    then show "q \<in> {q. permitted (shipped_bindings ns) (operator_account ns) q
        \<and> (req_group q = CRD_GROUP \<longrightarrow> req_namespace q = None)}"
      using operator_needs_permitted [OF p, of q ns] by (auto simp: instance_reads_unnamespaced)
  }
qed

text \<open>A helper that meets the contract.\<close>

definition demo_finalizer :: finalizer_helper where
  "demo_finalizer r h =
     (if is_deleting r then ret_fx AwaitChange
      else if has_finalizer r then map_err_fx (\<lambda>_. ''apply failed'') (h (Apply r))
      else (\<lambda>w. (Ok AwaitChange, w @ [PatchInstance (res_name r) None (JArr [JStr FINALIZER])])))"

lemma demo_finalizer_contract: "finalizer_contract demo_finalizer"
  by (auto simp: finalizer_contract_def patches_only_def demo_finalizer_def keeps_def grows_def map_err_fx_def
      ret_fx_def case_prod_beta split: if_splits)

theorem operator_permissions_witness:
  "{q. permitted (shipped_bindings ''sys'') (operator_account ''sys'') q
        \<and> (req_group q = CRD_GROUP \<longrightarrow> req_namespace q = None)}
      = insert (instances ''get'' []) (operator_needs demo_finalizer ''sys'')
    \<and> instances ''get'' [] \<notin> operator_needs demo_finalizer ''sys''
    \<and> apps ''delete'' ''deployments'' ''sys'' \<in> operator_needs demo_finalizer ''sys''"
  using operator_permissions [OF demo_finalizer_contract, of "''sys''"]
    operator_needs_all(5) [OF demo_finalizer_contract, of "''delete''" "''sys''"] by simp

end
