(* ===== verification/ToolRbac.thy ===== *)
theory ToolRbac
  imports Rbac Cli Registrar
begin

text \<open>
  The tool's permissions: the role it shares with the service in the operator's namespace, and the role
  of the chart, which depends on the mode, against the calls of the runs of its commands.
\<close>

subsection \<open>What the commands need\<close>

text \<open>The calls of the log that go to the API server; a server-side apply needs \<open>patch\<close>, and \<open>create\<close> for
  a secret that is not there. The registrar and \<open>get-certificates\<close> also list and watch secrets.\<close>

fun tool_needed :: "str \<Rightarrow> event \<Rightarrow> api_request list" where
  "tool_needed ns (GetSecret n) = [secrets ''get'' ns]"
| "tool_needed ns (ApplySecret n p doc) = [secrets ''patch'' ns, secrets ''create'' ns]"
| "tool_needed ns e = []"

definition tool_watches :: "str \<Rightarrow> api_request list" where
  "tool_watches ns = [secrets ''list'' ns, secrets ''watch'' ns]"

definition command_needs :: "str \<Rightarrow> command \<Rightarrow> api_request set" where
  "command_needs ns command = {q. \<exists>out env h. \<exists>ev \<in> set (new_events h (snd (run_command out env command h))).
     q \<in> set (tool_needed ns ev)}"

definition certificates_needs :: "str \<Rightarrow> api_request set" where
  "certificates_needs ns = set (tool_watches ns)
     \<union> (\<Union>a \<in> {a. gc_namespace a = ns}. command_needs ns (GetCertificates a))"

definition registrar_needs :: "('c, 's, 'd) crates \<Rightarrow> str \<Rightarrow> api_request set" where
  "registrar_needs C ns = set (tool_watches ns)
     \<union> {q. \<exists>env key s w w' r. process_platform_secret C env key ns s w = (r, w')
         \<and> (\<exists>ev \<in> set (new_events w w'). q \<in> set (tool_needed ns ev))}"

definition tool_needs :: "('c, 's, 'd) crates \<Rightarrow> str \<Rightarrow> api_request set" where
  "tool_needs C ns = (\<Union>a \<in> {a. gp_namespace a = ns}. command_needs ns (GetPlatforms a))
     \<union> certificates_needs ns \<union> registrar_needs C ns"

subsection \<open>The calls of the watcher\<close>

text \<open>All that the watcher does outside: it reads secrets and works on files.\<close>

definition watcher_event :: "event \<Rightarrow> bool" where
  "watcher_event e \<longleftrightarrow> (\<exists>n. e = GetSecret n) \<or> (\<exists>op. e = FileIo op)"

lemma adds_write_certificate: "keeps (adds watcher_event) (write_certificate_from_secret env cid dir s)"
  by (rule keepsI) (auto simp: write_certificate_from_secret_def write_certificate_to_file_def replace_file_def
    bind_fx_def map_err_fx_def host_ops adds_def watcher_event_def Let_def ret_fx_def
    split: option.splits prod.splits sum.splits)

lemma adds_watch_loop: "keeps (adds watcher_event) (watch_loop env cid dir seen items)"
proof (induction items arbitrary: seen)
  case (Cons item items)
  have stop: "keeps (adds watcher_event) (Pair x)" for x :: "error + watch_status"
    by (simp add: keeps_def)
  from Cons show ?case
    by (cases item) (auto intro!: keeps_bind adds_write_certificate stop)
qed (simp add: keeps_pure)

lemma adds_watch_certificates:
  "keeps (adds watcher_event) (watch_certificates env client sigterm ident cid dir items)"
proof -
  let ?R = "adds watcher_event"
  have 1: "keeps ?R (path_exists env dir)" "keeps ?R (plain_io env (CreateDirs dir))"
    by (auto intro!: keepsI simp: host_ops adds_def watcher_event_def)
  have 2: "keeps ?R (if there then ret_fx () else map_err_fx io_msg (plain_io env (CreateDirs dir)))" for there
    using 1 by (auto intro: keeps_map_err keeps_pure)
  have 3: "keeps ?R (get_secret env name)" for name by (simp add: adds_ops watcher_event_def)
  show ?thesis
    unfolding watch_certificates_def Let_def
    by (intro keeps_bind keeps_match keeps_pure 1 2 3 adds_write_certificate adds_watch_loop reflp_adds transp_adds)
qed

lemma adds_resolve_id: "keeps (adds watcher_event) (resolve_id env id_file literal)"
  by (rule keepsI) (auto simp: resolve_id_def get_id_from_file_def read_to_string_def bind_fx_def map_err_fx_def
    lift_fx_def host_ops adds_def watcher_event_def Let_def ret_fx_def fail_fx_def
    split: option.splits prod.splits sum.splits if_splits)

lemma adds_get_certificates: "keeps (adds watcher_event) (run_command out env (GetCertificates a))"
proof -
  have "keeps (adds watcher_event) (bind_fx (watch_certificates env (out_client out) (out_sigterm out) i c
      (gc_output_dir a) (out_items out)) (\<lambda>_. ret_fx (0 :: nat)))" for i c
    by (intro keeps_bind keeps_pure adds_watch_certificates reflp_adds transp_adds)
  then show ?thesis
    unfolding run_command_def command.case
    by (intro keeps_bind adds_resolve_id transp_adds) (simp add: case_prod_beta)
qed

subsection \<open>The needs of the commands\<close>

lemma tool_needed_secrets:
  "q \<in> set (tool_needed ns ev) \<Longrightarrow> \<exists>v \<in> {''get'', ''patch'', ''create''}. q = secrets v ns"
  by (cases ev) auto

lemma trim_n: "trim ''n'' = ''n''"
  by code_simp

lemma certificates_needs_eq: "certificates_needs ns = {secrets v ns | v. v \<in> {''get'', ''list'', ''watch''}}"
proof -
  let ?a = "\<lparr>gc_id_file = None, gc_id = Some ''n'', gc_output_dir = ''/cache'', gc_namespace = ns\<rparr>"
  have "q = secrets ''get'' ns" if needs: "q \<in> command_needs ns (GetCertificates a)" for q a
  proof -
    obtain out env h ev where ev: "ev \<in> set (new_events h (snd (run_command out env (GetCertificates a) h)))"
      "q \<in> set (tool_needed ns ev)"
      using needs unfolding command_needs_def by blast
    have "watcher_event ev"
      using adds_new_events [OF keepsD [OF adds_get_certificates surjective_pairing]] ev(1)
      by (fastforce simp: list_all_iff)
    with ev(2) show ?thesis by (auto simp: watcher_event_def)
  qed
  moreover have "secrets ''get'' ns \<in> command_needs ns (GetCertificates ?a)"
  proof -
    obtain st v' where w: "watch_certificates quiet_env (Ok ()) (Ok ()) ''n'' ZERO_ID ''/cache'' [] demo_host = (Ok st, v')"
      using watch_certificates_total [OF quiet_env_io] by blast
    from watch_certificates_reads [OF w quiet_env_io]
    have "GetSecret ''n-pck'' \<in> set (new_events demo_host v')" by (auto simp: new_events_def)
    moreover have "snd (run_command demo_out quiet_env (GetCertificates ?a) demo_host) = v'"
      using w by (simp add: run_command_def resolve_id_def demo_out_def bind_fx_def Let_def trim_n)
    ultimately have "GetSecret ''n-pck'' \<in> set (new_events demo_host (snd (run_command demo_out quiet_env (GetCertificates ?a) demo_host)))"
      by simp
    then show ?thesis unfolding command_needs_def by force
  qed
  moreover have "?a \<in> {a. gc_namespace a = ns}" by simp
  ultimately have "(\<Union>a \<in> {a. gc_namespace a = ns}. command_needs ns (GetCertificates a)) = {secrets ''get'' ns}"
    by (intro equalityI subsetI) (blast, metis UN_I singletonD)
  then show ?thesis
    unfolding certificates_needs_def by (auto simp: tool_watches_def)
qed

lemma tool_needs_eq:
  "tool_needs C ns = {secrets v ns | v. v \<in> {''get'', ''list'', ''watch'', ''create'', ''patch''}}"
proof
  show "tool_needs C ns \<subseteq> {secrets v ns | v. v \<in> {''get'', ''list'', ''watch'', ''create'', ''patch''}}"
    unfolding tool_needs_def registrar_needs_def certificates_needs_eq command_needs_def
    by (auto simp: tool_watches_def dest!: tool_needed_secrets)
  let ?a = "demo_gp\<lparr>gp_namespace := ns\<rparr>"
  obtain w' name doc where "run_command demo_out node_env (GetPlatforms ?a) node_host = (Ok 0, w')"
    "ApplySecret name (apply_force FIELD_MANAGER) doc \<in> set (new_events node_host w')"
    using demo_get_platforms_in by blast
  then have "secrets v ns \<in> command_needs ns (GetPlatforms ?a)" if "v \<in> {''create'', ''patch''}" for v
    using that unfolding command_needs_def
    by (intro CollectI exI [of _ demo_out] exI [of _ node_env] exI [of _ node_host]) force
  then have "secrets v ns \<in> tool_needs C ns" if "v \<in> {''create'', ''patch''}" for v
    using that unfolding tool_needs_def by (intro UnI1 UN_I [of ?a]) simp_all
  moreover have "secrets v ns \<in> tool_needs C ns" if "v \<in> {''get'', ''list'', ''watch''}" for v
    using that unfolding tool_needs_def certificates_needs_eq by blast
  ultimately show "{secrets v ns | v. v \<in> {''get'', ''list'', ''watch'', ''create'', ''patch''}} \<subseteq> tool_needs C ns"
    by blast
qed

subsection \<open>What the roles grant\<close>

lemma granted_secrets:
  "{q. permitted [\<lparr>subject = a, bound_in = Some ns, role_rules =
      [\<lparr>api_groups = [[]], rule_resources = [''secrets''], rule_verbs = vs\<rparr>]\<rparr>] a q} = {secrets v ns | v. v \<in> set vs}"
  (is "?G = ?S")
proof
  show "?G \<subseteq> ?S"
  proof
    fix q assume "q \<in> ?G"
    then have "req_namespace q = Some ns" "req_group q = []" "req_resource q = ''secrets''" "req_verb q \<in> set vs"
      by (auto simp: permitted_def rule_covers_def)
    moreover from this have "q = secrets (req_verb q) ns" by (cases q) (simp add: secrets_def)
    ultimately show "q \<in> ?S" by blast
  qed
  show "?S \<subseteq> ?G" by (auto simp: permitted_def rule_covers_def secrets_def)
qed

lemma shipped_secrets:
  "permitted (shipped_bindings ns) (qgs_account ns) q \<longleftrightarrow>
     permitted [\<lparr>subject = qgs_account ns, bound_in = Some ns, role_rules = qgs_role\<rparr>] (qgs_account ns) q"
  by (simp add: permitted_def shipped_bindings_def operator_account_def qgs_account_def NAME_PREFIX_def)

text \<open>C13: The tool may do what it does, and no more. Every pod the operator deploys runs in the
  operator's namespace under the account the tool's role is bound to; there the account may make
  exactly the calls that runs of the tool's commands make there, and their watches. The chart
  grants its account the same, except in External mode, where only \<open>get-certificates\<close> runs: there
  the account may make exactly the calls and watches of that command, so it may write nothing.\<close>

theorem tool_permissions:
  assumes "patches_only fin" and "deployed (env_vars env) ns" and "reconcile fin env r w = (res, w')"
    and "e \<in> set (op_calls w w')" and "applied e = Some wl"
  shows "wl_namespace wl = Some ns \<and> (\<exists>p. pod wl = Some p \<and> service_account_name p = Some (fst (qgs_account ns)))
    \<and> {q. permitted (shipped_bindings ns) (qgs_account ns) q} = tool_needs C ns
    \<and> {q. permitted (chart_bindings False ns) (''intel-tdx-dcap-qgs'', ns) q} = tool_needs C ns
    \<and> {q. permitted (chart_bindings True ns) (''intel-tdx-dcap-qgs'', ns) q} = certificates_needs ns
    \<and> (\<forall>q \<in> certificates_needs ns. req_verb q \<in> {''get'', ''list'', ''watch''})"
proof (intro conjI)
  obtain es where "w' = w @ es" "list_all (own_call (env_vars env)) es"
    using keepsD [OF grows_reconcile [OF assms(1)] assms(3)] by (auto simp: grows_def)
  with assms(2,4,5) have "wl_namespace wl = Some ns" "Option.bind (pod wl) service_account_name = Some (NAME_PREFIX @ ''qgs'')"
    by (auto simp: list_all_iff own_call_def op_calls_def)
  then show "wl_namespace wl = Some ns"
    "\<exists>p. pod wl = Some p \<and> service_account_name p = Some (fst (qgs_account ns))"
    by (auto simp: qgs_account_def Option.bind_eq_Some_conv)
  show "{q. permitted (shipped_bindings ns) (qgs_account ns) q} = tool_needs C ns"
    unfolding shipped_secrets qgs_role_def granted_secrets tool_needs_eq by simp
  show "{q. permitted (chart_bindings False ns) (''intel-tdx-dcap-qgs'', ns) q} = tool_needs C ns"
    unfolding chart_bindings_def chart_role_def granted_secrets tool_needs_eq by simp
  show "{q. permitted (chart_bindings True ns) (''intel-tdx-dcap-qgs'', ns) q} = certificates_needs ns"
    unfolding chart_bindings_def chart_role_def granted_secrets certificates_needs_eq by simp
  show "\<forall>q \<in> certificates_needs ns. req_verb q \<in> {''get'', ''list'', ''watch''}"
    unfolding certificates_needs_eq by (auto simp: secrets_def)
qed

theorem tool_permissions_witness:
  "\<exists>ds w'. reconcile demo_finalizer (deployed_cluster ''sys'') (any_instance Offline) [] = w'
    \<and> ApplyDaemonSet ''sys'' ''q-qgs'' (apply_force ''tdx-qgs-operator'') ds \<in> set (snd w')
    \<and> wl_namespace ds = Some ''sys''
    \<and> (\<exists>p. pod ds = Some p \<and> service_account_name p = Some ''intel-tdx-dcap-qgs'')
    \<and> {q. permitted (chart_bindings True ''sys'') (''intel-tdx-dcap-qgs'', ''sys'') q} = certificates_needs ''sys''
    \<and> {q. permitted (shipped_bindings ''sys'') (qgs_account ''sys'') q} = tool_needs demo_crates ''sys''"
proof -
  have c: "finalizer_contract demo_finalizer" by (rule demo_finalizer_contract)
  obtain a ds d doc where run: "reconcile_resource (deployed_cluster ''sys'') (any_instance Offline) [] =
       (Ok a, ListInstances # workload_calls (deployed_vars ''sys'') (any_instance Offline) ds d
          @ [ReadNow, PatchStatus ''q'' None doc])"
    using deployed_run by blast
  have i: "\<not> is_deleting (any_instance Offline)" "has_finalizer (any_instance Offline)"
    by (simp_all add: any_instance_def demo_res_def is_deleting_def has_finalizer_def)
  let ?e = "ApplyDaemonSet ''sys'' ''q-qgs'' (apply_force ''tdx-qgs-operator'') ds"
  have ns: "operator_namespace (deployed_vars ''sys'') = ''sys''"
    by (simp add: deployed_vars_def operator_namespace_def env_or_def)
  have mem: "?e \<in> set (snd (reconcile demo_finalizer (deployed_cluster ''sys'') (any_instance Offline) []))"
    unfolding finalizer_contract_run [OF c i run]
    by (simp add: workload_calls_def ns Let_def any_instance_def demo_res_def)
  then have "?e \<in> set (op_calls [] (snd (reconcile demo_finalizer (deployed_cluster ''sys'') (any_instance Offline) [])))"
    by (simp add: op_calls_def)
  from tool_permissions [OF _ deployed_demo surjective_pairing this, of ds demo_crates] c mem
  show ?thesis
    by (intro exI [of _ ds] exI) (simp add: finalizer_contract_def qgs_account_def NAME_PREFIX_def)
qed

end
