(* ===== verification/ExternalPod.thy ===== *)
theory ExternalPod
  imports PodCommands ToolRbac
begin

text \<open>
  External mode from the resource to the cache file: an external registrar provides the secrets,
  and the pods the operator builds only fetch them, by the name of their node.
\<close>

text \<open>C20: In External mode the pod of a node runs one command of the tool before the service, the
  watcher, which takes the secret named after the node: when someone has provided it with a
  well-formed blob, that blob is what the quote provider library finds, under the reserved all-zero
  ID in the directory it looks. Nothing else on the node changes, and nothing is written to the
  cluster or run on the platform.\<close>

theorem external_pod_gets_certificates:
  assumes "downward vars namespace node" "expands expand" "plain_value namespace" "plain_value node"
    and "clap_reads clap" "registration (spec r) = External" "trim node = node" "node \<noteq> []"
    and "build_daemonset ovars (Ok DAEMONSET_TEMPLATE) r namespace = Ok ds" "pod ds = Some p"
    and "\<And>h op. env_io env h op = None" "out_client out = Ok ()" "out_sigterm out = Ok ()"
    and "\<And>h. env_get_secret env h (pck_secret_name node) = Ok t" "cert_of t = Some cert"
    and "delivered (out_items out) = []"
  shows "\<exists>c c3 cmd v' path home. inits p = [c] \<and> containers p = [c3]
    \<and> clap (argv vars expand c) = Some cmd \<and> run_command out env cmd v = (Ok 0, v')
    \<and> files v' = (files v)(path \<mapsto> cert)
    \<and> env_lookup c3 ''XDG_CACHE_HOME'' = Some (literal_env ''XDG_CACHE_HOME'' home)
    \<and> same_place c path c3 (home @ ''/.dcap-qcnl/'' @ ZERO_ID @ ''_0000'')
    \<and> (\<forall>e \<in> set (new_events v v'). \<not> is_write e \<and> (\<forall>b. e \<noteq> RunBinary b))"
proof -
  let ?dir = "''/run/dcap/cache/.dcap-qcnl''"
  let ?f = "''/run/dcap/cache/.dcap-qcnl/'' @ ZERO_ID @ ''_0000''"
  obtain f where f: "inits p = [image_update f node_watcher]" "containers p = [image_update f tdx_qgs_container]"
    using daemonset_containers [OF assms(9,10)] assms(6) by auto
  have cmd: "clap (argv vars expand (image_update f node_watcher)) =
      Some (GetCertificates (node_get_certificates None (Some node) namespace))"
    by (rule container_commands [OF assms(1-5)])
  obtain st v' where watch: "watch_certificates env (Ok ()) (Ok ()) node ZERO_ID ?dir (out_items out) v = (Ok st, v')"
    using watch_certificates_total [OF assms(11)] by blast
  have "resolve_id env None (Some node) v = (Ok (node, ZERO_ID), v)"
    using assms(7,8) by (simp add: resolve_id_def bind_fx_def Let_def)
  then have run: "run_command out env (GetCertificates (node_get_certificates None (Some node) namespace)) v = (Ok 0, v')"
    using watch assms(12,13) by (simp add: run_command_def node_get_certificates_def bind_fx_def)
  have "files v' = (files v)(cache_file ?dir ZERO_ID :=
      latest (files v (cache_file ?dir ZERO_ID)) ([t] @ delivered (out_items out)))"
    using assms(11,14,16) by (intro watch_certificates_files [OF watch]) (simp_all add: pck_secret_name_def versions_honest_def)
  then have files: "files v' = (files v)(?f \<mapsto> cert)"
    using assms(15,16) by (simp add: newer_def cache_file_def path_join_def ZERO_ID_def)
  have e: "env_lookup (image_update f tdx_qgs_container) ''XDG_CACHE_HOME'' = Some (literal_env ''XDG_CACHE_HOME'' ''/run/dcap/cache'')"
    by (simp add: env_lookup_def env_list_def container_defs literal_env_def)
  have place: "same_place (image_update f node_watcher) ?f (image_update f tdx_qgs_container)
      (''/run/dcap/cache'' @ ''/.dcap-qcnl/'' @ ZERO_ID @ ''_0000'')"
    using cache_places(1) [of node_watcher f "ZERO_ID @ ''_0000''"] cache_places(2) [of f "ZERO_ID @ ''_0000''"]
    by (simp add: same_place_def del: image_update_simps)
  have quiet: "\<forall>e \<in> set (new_events v v'). \<not> is_write e \<and> (\<forall>b. e \<noteq> RunBinary b)"
    using adds_new_events [OF keepsD [OF adds_watch_certificates watch]]
    by (auto simp: list_all_iff watcher_event_def is_write_def)
  show ?thesis
    by (rule exI [of _ "image_update f node_watcher"], rule exI [of _ "image_update f tdx_qgs_container"],
      rule exI [of _ "GetCertificates (node_get_certificates None (Some node) namespace)"], rule exI [of _ v'],
      rule exI [of _ ?f], rule exI [of _ "''/run/dcap/cache''"], intro conjI)
      (rule f cmd run files e place quiet)+
qed

text \<open>An External resource, a node of the demonstration cluster and a secret someone stored for it.\<close>

definition external_service :: tqgs where
  "external_service = demo_service\<lparr>spec := \<lparr>registration = External, node_selector = None\<rparr>\<rparr>"

definition external_api :: env where
  "external_api = quiet_env\<lparr>env_get_secret := (\<lambda>h n. Ok (demo_wsecret ''1''))\<rparr>"

theorem external_pod_gets_certificates_witness:
  "\<exists>c v' path. clap_reads read_command
    \<and> read_command (argv demo_vars demo_expand c) = Some (GetCertificates (node_get_certificates None (Some ''node-1'') ''ns''))
    \<and> run_command demo_out external_api (GetCertificates (node_get_certificates None (Some ''node-1'') ''ns'')) demo_host = (Ok 0, v')
    \<and> files v' path = Some (blob_bytes demo_wblob)"
proof -
  obtain ds where ds: "build_daemonset (\<lambda>_. None) (Ok DAEMONSET_TEMPLATE) external_service ''ns'' = Ok ds"
    using build_daemonset_cases [where vars = "\<lambda>_. None" and r = external_service and namespace = "''ns''"]
    by (auto simp: external_service_def demo_service_def split: sum.splits)
  obtain p where p: "pod ds = Some p"
    using build_daemonset_cases [where vars = "\<lambda>_. None" and r = external_service and namespace = "''ns''"] ds by auto
  have ext: "registration (spec external_service) = External" by (simp add: external_service_def)
  have io: "env_io external_api h op = None" for h op by (simp add: external_api_def quiet_env_def)
  have o: "out_client demo_out = Ok ()" "out_sigterm demo_out = Ok ()" by (simp_all add: demo_out_def)
  have t: "trim ''node-1'' = ''node-1''"
    unfolding trim_def by (subst trim_bytes_graphic) (simp_all add: as_bytes_def ascii_graphic_def of_bytes_def)
  have sec: "env_get_secret external_api h (pck_secret_name ''node-1'') = Ok (demo_wsecret ''1'')" for h
    by (simp add: external_api_def)
  have d: "delivered (out_items demo_out) = []" by (simp add: demo_out_def)
  have ne: "''node-1'' \<noteq> []" by simp
  obtain c cmd v' path where c: "inits p = [c]" "read_command (argv demo_vars demo_expand c) = Some cmd"
    "run_command demo_out external_api cmd demo_host = (Ok 0, v')"
    "files v' = (files demo_host)(path \<mapsto> blob_bytes demo_wblob)"
    using external_pod_gets_certificates [where v = demo_host, OF demo_pod_parts(1-5) ext t ne ds p io o sec demo_cert_of d]
    by (elim exE conjE)
  moreover have "read_command (argv demo_vars demo_expand c) =
      Some (GetCertificates (node_get_certificates None (Some ''node-1'') ''ns''))"
  proof -
    obtain f where "inits p = [image_update f node_watcher]"
      using daemonset_containers [OF ds p] ext by auto
    with c(1) container_commands(3) [OF demo_pod_parts(1-5), of f] show ?thesis
      by (simp del: image_update_simps)
  qed
  ultimately show ?thesis using demo_pod_parts(5)
    by (intro exI [of _ c] exI [of _ v'] exI [of _ path]) simp
qed

end
