(* ===== verification/AdmittedRun.thy ===== *)
theory AdmittedRun
  imports OperatorDemo
begin

text \<open>
  Admission and reconciler together: what the operator does for instances the CEL rules of
  \<open>types.rs\<close> admit.
\<close>

lemma reconcile_workloads_first:
  assumes "reconcile_workloads env r w = (res, w')"
    and "build_daemonset (env_vars env) (env_ds_template env) r (operator_namespace (env_vars env)) = Ok ds"
  shows "\<exists>es. w' = w @ ApplyDaemonSet (operator_namespace (env_vars env)) (res_name r @ ''-qgs'')
      (apply_force ''tdx-qgs-operator'') ds # es"
proof -
  let ?ns = "operator_namespace (env_vars env)" and ?n = "res_name r @ ''-qgs''"
  let ?e = "ApplyDaemonSet ?ns ?n (apply_force ''tdx-qgs-operator'') ds"
  show ?thesis
  proof (cases "env_write env w ?e")
    case (Inl k)
    with assms show ?thesis
      by (auto simp: reconcile_workloads_def create_or_update_daemonset_run bind_fx_def Let_def)
  next
    case (Inr u)
    obtain r2 w2 where m: "reconcile_deployment env r ?ns (w @ [?e]) = (r2, w2)" by fastforce
    from reconcile_deployment_calls [OF this] obtain es2 where w2: "w2 = (w @ [?e]) @ es2" by blast
    show ?thesis
    proof (cases r2)
      case Inl
      with assms Inr m w2 show ?thesis
        by (auto simp: reconcile_workloads_def create_or_update_daemonset_run bind_fx_def Let_def)
    next
      case dep: (Inr d)
      show ?thesis
      proof (cases "env_daemonset env w2 (GetDaemonSet ?ns ?n)")
        case Inl
        with assms Inr m w2 dep show ?thesis
          by (auto simp: reconcile_workloads_def create_or_update_daemonset_run op_run Let_def)
      next
        case st: (Inr s)
        obtain r4 w4 where m4: "write_status env r (observe ?n d s) (w2 @ [GetDaemonSet ?ns ?n]) = (r4, w4)" by fastforce
        from write_status_calls [OF this] obtain es4 where w4: "w4 = (w2 @ [GetDaemonSet ?ns ?n]) @ es4" by blast
        from assms Inr m dep st m4 have "w' = w4"
          by (auto simp: reconcile_workloads_def create_or_update_daemonset_run kube_call_def bind_fx_def Let_def
              split: sum.splits prod.splits)
        with w4 w2 show ?thesis by simp
      qed
    qed
  qed
qed

lemma admitted_not_superseded:
  assumes "instance_admitted r" "list_all instance_admitted instances"
  shows "superseded_by r instances = None"
proof (cases "sort_key creation_timestamp instances")
  case (Cons oldest rest)
  then have "oldest \<in> set instances" by (metis list.set_intros(1) set_sort)
  with assms have "res_name oldest = res_name r" by (simp add: list_all_iff instance_admitted_def)
  with Cons show ?thesis by (simp add: superseded_by_def)
qed (simp add: superseded_by_def)

text \<open>C15: Admission closes the operator's own error branches: where every instance satisfies the CEL
  rules and the templates are the embedded ones, a reconciliation of an instance whose listing
  succeeds always gets as far as applying the DaemonSet built for it; it never fails on a
  node selector, and is never held back as a second instance.\<close>

theorem admitted_instance_deployed:
  assumes "reconcile_resource env r w = (res, w')"
    and "env_list_instances env w = Ok instances" "list_all instance_admitted instances"
    and "instance_admitted r" "uid r = Some u" "env_ds_template env = Ok DAEMONSET_TEMPLATE"
  shows "\<exists>ds es. build_daemonset (env_vars env) (Ok DAEMONSET_TEMPLATE) r (operator_namespace (env_vars env)) = Ok ds
    \<and> op_calls w w' = ListInstances # ApplyDaemonSet (operator_namespace (env_vars env)) ''intel-tdx-dcap-qgs''
        (apply_force ''tdx-qgs-operator'') ds # es"
proof -
  obtain ds where ds: "build_daemonset (env_vars env) (Ok DAEMONSET_TEMPLATE) r
      (operator_namespace (env_vars env)) = Ok ds"
    using admitted_daemonset [OF assms(5)] assms(4) unfolding instance_admitted_def by blast
  have "reconcile_workloads env r (w @ [ListInstances]) = (res, w')"
    using assms(1,2) admitted_not_superseded [OF assms(4,3)]
    by (simp add: reconcile_resource_def kube_call_def bind_fx_def)
  from reconcile_workloads_first [OF this] obtain es where
    "w' = (w @ [ListInstances]) @ ApplyDaemonSet (operator_namespace (env_vars env)) (res_name r @ ''-qgs'')
      (apply_force ''tdx-qgs-operator'') ds # es"
    using ds assms(6) by fastforce
  then have "op_calls w w' = ListInstances # ApplyDaemonSet (operator_namespace (env_vars env))
      (res_name r @ ''-qgs'') (apply_force ''tdx-qgs-operator'') ds # es"
    by (simp add: op_calls_def)
  moreover have "res_name r @ ''-qgs'' = ''intel-tdx-dcap-qgs''"
    using assms(4) by (simp add: instance_admitted_def)
  ultimately show ?thesis using ds by auto
qed

definition demo_admitted_res :: tqgs where
  "demo_admitted_res = demo_res\<lparr>res_name := ''intel-tdx-dcap'',
     spec := \<lparr>registration = Online \<lparr>api_key_secret_name = Some ''pcs-key''\<rparr>, node_selector = Some [''a/b=c'']\<rparr>\<rparr>"

theorem admitted_instance_deployed_witness:
  "\<exists>res w' ds es. reconcile_resource (demo_cluster\<lparr>env_list_instances := (\<lambda>_. Ok [demo_admitted_res])\<rparr>)
      demo_admitted_res [] = (res, w')
    \<and> op_calls [] w' = ListInstances # ApplyDaemonSet ''default'' ''intel-tdx-dcap-qgs''
        (apply_force ''tdx-qgs-operator'') ds # es"
proof -
  let ?env = "demo_cluster\<lparr>env_list_instances := (\<lambda>_. Ok [demo_admitted_res])\<rparr>"
  have sel: "selectors_admitted [''a/b=c'']"
    by (simp add: selectors_admitted_def entry_admitted_def full_match_def prefix_match_def selector_pattern_def
        label_key_def label_name_def dns_label_def prefix_pattern_def split_key_def Let_def
        is_lower_def is_upper_def is_digit_def numeral_eq_Suc)
  have key: "full_match secret_name_pattern ''pcs-key''"
    by (simp add: full_match_def secret_name_pattern_def Let_def is_lower_def is_digit_def)
  have a: "instance_admitted demo_admitted_res"
    using sel key by (simp add: instance_admitted_def demo_admitted_res_def online_admitted_def)
  have u: "uid demo_admitted_res = Some ''u''" by (simp add: demo_admitted_res_def demo_res_def)
  obtain res w' where run: "reconcile_resource ?env demo_admitted_res [] = (res, w')" by fastforce
  have l: "env_list_instances ?env [] = Ok [demo_admitted_res]" "list_all instance_admitted [demo_admitted_res]"
    "env_ds_template ?env = Ok DAEMONSET_TEMPLATE" "operator_namespace (env_vars ?env) = ''default''"
    using a by (simp_all add: demo_cluster_def operator_namespace_def env_or_def)
  from admitted_instance_deployed [OF run l(1,2) a u l(3)] l(4) run show ?thesis by metis
qed

end
