(* ===== verification/SpecJson.thy ===== *)
theory SpecJson
  imports Admission StatusJson
begin

text \<open>
  The resource's spec as JSON: the serialiser and deserialiser serde derives for the types of
  \<open>bin/operator/src/tdx_quote_generation_service/types.rs\<close>, the schema of the custom resource and
  its rule that exactly one registration mode is set. Under the schema the rule says exactly
  which documents the operator can read. (serde also reads a struct from an array of its fields;
  the schema admits no array there, and that form is left out for the spec itself.)
\<close>

subsection \<open>Serialisation\<close>

definition online_json :: "online_config \<Rightarrow> json" where
  "online_json cfg = JObj (case api_key_secret_name cfg of
     None \<Rightarrow> [] | Some s \<Rightarrow> [(''apiKeySecretName'', JStr s)])"

definition registration_json :: "platform_registration \<Rightarrow> json" where
  "registration_json r = (case r of
     Online cfg \<Rightarrow> JObj [(''Online'', online_json cfg)]
   | Offline \<Rightarrow> JObj [(''Offline'', JObj [])]
   | External \<Rightarrow> JObj [(''External'', JObj [])])"

definition spec_json :: "tqgs_spec \<Rightarrow> json" where
  "spec_json s = JObj ((''platformRegistration'', registration_json (registration s)) #
     (case node_selector s of None \<Rightarrow> [] | Some ss \<Rightarrow> [(''nodeSelector'', JArr (map JStr ss))]))"

subsection \<open>Deserialisation\<close>

text \<open>\<open>Option<String>\<close>: \<open>null\<close> or a string.\<close>

fun opt_str_of_json :: "json \<Rightarrow> str option option" where
  "opt_str_of_json JNull = Some None"
| "opt_str_of_json (JStr s) = Some (Some s)"
| "opt_str_of_json _ = None"

fun online_of_json :: "json \<Rightarrow> online_config option" where
  "online_of_json (JObj ms) = map_option (\<lambda>s. \<lparr>api_key_secret_name = s\<rparr>)
     (opt_member json_as_str ''apiKeySecretName'' (JObj ms))"
| "online_of_json (JArr [x]) = map_option (\<lambda>s. \<lparr>api_key_secret_name = s\<rparr>) (opt_str_of_json x)"
| "online_of_json _ = None"

text \<open>A struct without fields: any object, or the empty array.\<close>

fun empty_struct :: "json \<Rightarrow> bool" where
  "empty_struct (JObj ms) = True"
| "empty_struct (JArr xs) = (xs = [])"
| "empty_struct _ = False"

text \<open>An externally tagged enum: an object with one member, named after the variant.\<close>

fun registration_of_json :: "json \<Rightarrow> platform_registration option" where
  "registration_of_json (JObj [(k, c)]) =
     (if k = ''Online'' then map_option Online (online_of_json c)
      else if k = ''Offline'' then if empty_struct c then Some Offline else None
      else if k = ''External'' then if empty_struct c then Some External else None
      else None)"
| "registration_of_json _ = None"

fun entries_of_json :: "json \<Rightarrow> str list option" where
  "entries_of_json (JArr xs) = all_some (map json_as_str xs)"
| "entries_of_json _ = None"

fun spec_of_json :: "json \<Rightarrow> tqgs_spec option" where
  "spec_of_json (JObj ms) =
     Option.bind (case json_get ''platformRegistration'' (JObj ms) of
         None \<Rightarrow> Some default_platform_registration
       | Some v \<Rightarrow> registration_of_json v) (\<lambda>r.
     Option.bind (opt_member entries_of_json ''nodeSelector'' (JObj ms)) (\<lambda>ns.
     Some \<lparr>registration = r, node_selector = ns\<rparr>))"
| "spec_of_json _ = None"

subsection \<open>Schema and rules\<close>

text \<open>A document the schema admits: the API server has dropped unknown members, and each member has
  its type, \<open>nodeSelector\<close> also \<open>null\<close>. (The schema admits a \<open>null\<close> \<open>apiKeySecretName\<close> too, where
  the rule on it depends on what CEL's \<open>has\<close> says of \<open>null\<close>; that document is left out.)\<close>

fun is_str :: "json \<Rightarrow> bool" where
  "is_str (JStr s) = True"
| "is_str _ = False"

fun fields_ok :: "(str \<Rightarrow> json \<Rightarrow> bool) \<Rightarrow> json \<Rightarrow> bool" where
  "fields_ok ok (JObj ms) = (distinct (map fst ms) \<and> list_all (\<lambda>(k, v). ok k v) ms)"
| "fields_ok ok _ = False"

definition online_schema :: "json \<Rightarrow> bool" where
  "online_schema = fields_ok (\<lambda>k v. k = ''apiKeySecretName'' \<and> is_str v)"

definition registration_schema :: "json \<Rightarrow> bool" where
  "registration_schema = fields_ok (\<lambda>k v.
     (k = ''Online'' \<and> online_schema v) \<or> (k \<in> {''Offline'', ''External''} \<and> v = JObj []))"

fun strings_ok :: "json \<Rightarrow> bool" where
  "strings_ok (JArr xs) = list_all is_str xs"
| "strings_ok _ = False"

definition spec_schema :: "json \<Rightarrow> bool" where
  "spec_schema = fields_ok (\<lambda>k v.
     (k = ''platformRegistration'' \<and> registration_schema v) \<or> (k = ''nodeSelector'' \<and> (v = JNull \<or> strings_ok v)))"

text \<open>\<open>[has(self.Online), has(self.Offline), has(self.External)].filter(mode, mode).size() == 1\<close>;
  without the member the default \<open>Offline {}\<close> is filled in.\<close>

definition one_mode :: "json \<Rightarrow> bool" where
  "one_mode v \<longleftrightarrow> length (filter (\<lambda>mode. mode)
     (map (\<lambda>k. json_get k v \<noteq> None) [''Online'', ''Offline'', ''External''])) = 1"

definition one_mode_rule :: "json \<Rightarrow> bool" where
  "one_mode_rule j = (case json_get ''platformRegistration'' j of None \<Rightarrow> True | Some v \<Rightarrow> one_mode v)"

text \<open>The rules and bounds on node selectors and on the API key Secret's name, on the document.\<close>

definition selectors_rule :: "json \<Rightarrow> bool" where
  "selectors_rule j = (case json_get ''nodeSelector'' j of
     Some (JArr xs) \<Rightarrow> selectors_admitted (List.map_filter json_as_str xs)
   | _ \<Rightarrow> True)"

definition api_key_rule :: "json \<Rightarrow> bool" where
  "api_key_rule j =
     (case Option.bind (json_member2 ''platformRegistration'' ''Online'' j) (json_get ''apiKeySecretName'') of
        Some (JStr s) \<Rightarrow> length s \<le> 253 \<and> full_match secret_name_pattern s
      | _ \<Rightarrow> True)"

text \<open>The same on the values that are read.\<close>

definition spec_admitted :: "tqgs_spec \<Rightarrow> bool" where
  "spec_admitted s \<longleftrightarrow> pred_option selectors_admitted (node_selector s)
     \<and> (case registration s of Online cfg \<Rightarrow> online_admitted cfg | _ \<Rightarrow> True)"

subsection \<open>Lemmas\<close>

lemma map_of_distinct_iff:
  "distinct (map fst ms) \<Longrightarrow> map_of ms k = Some v \<longleftrightarrow> (k, v) \<in> set ms"
  by (rule map_of_eq_Some_iff)

lemma all_some_strings: "list_all is_str xs \<Longrightarrow> \<exists>ss. all_some (map json_as_str xs) = Some ss"
proof (induction xs)
  case (Cons x xs)
  then show ?case by (cases x) auto
qed simp

lemma all_some_map_JStr: "all_some (map (json_as_str \<circ> JStr) ss) = Some ss"
  by (induction ss) auto

lemma online_schema_decodes: "online_schema v \<Longrightarrow> \<exists>cfg. online_of_json v = Some cfg"
proof -
  assume s: "online_schema v"
  then obtain ms where v: "v = JObj ms" by (cases v) (auto simp: online_schema_def)
  have "is_str x" if "map_of ms ''apiKeySecretName'' = Some x" for x
    using s map_of_SomeD [OF that] by (auto simp: v online_schema_def list_all_iff)
  then have "\<exists>x. opt_member json_as_str ''apiKeySecretName'' (JObj ms) = Some x"
    by (cases "map_of ms ''apiKeySecretName''") (auto simp: opt_member_def json_get.simps elim!: is_str.elims)
  then show ?thesis by (auto simp: v)
qed

text \<open>Under the schema, the modes set are the members of the object.\<close>

lemma one_mode_members:
  assumes "registration_schema (JObj ms)"
  shows "one_mode (JObj ms) \<longleftrightarrow> length ms = 1"
proof -
  let ?K = "[''Online'', ''Offline'', ''External'']"
  have d: "distinct (map fst ms)" and s: "fst ` set ms \<subseteq> set ?K"
    using assms by (auto simp: registration_schema_def list_all_iff)
  have "length (filter (\<lambda>mode. mode) (map (\<lambda>k. json_get k (JObj ms) \<noteq> None) ?K))
      = length (filter (\<lambda>k. k \<in> fst ` set ms) ?K)"
  proof -
    have "json_get k (JObj ms) \<noteq> None \<longleftrightarrow> k \<in> fst ` set ms" for k
      by (simp only: json_get.simps map_of_eq_None_iff not_not)
    then show ?thesis by (simp only: filter_map o_def length_map)
  qed
  also have "\<dots> = card (set (filter (\<lambda>k. k \<in> fst ` set ms) ?K))"
    by (rule distinct_card [symmetric]) (rule distinct_filter, simp)
  also have "set (filter (\<lambda>k. k \<in> fst ` set ms) ?K) = set (map fst ms)"
    using s by (simp only: set_filter set_map) blast
  also have "card (set (map fst ms)) = length ms" using d by (simp only: distinct_card length_map)
  finally show ?thesis by (simp only: one_mode_def)
qed

lemma registration_decodes:
  assumes "registration_schema v"
  shows "registration_of_json v \<noteq> None \<longleftrightarrow> one_mode v"
proof -
  obtain ms where v: "v = JObj ms" using assms by (cases v) (auto simp: registration_schema_def)
  consider (one) k c where "ms = [(k, c)]" | (other) "length ms \<noteq> 1"
    by (cases ms rule: list.exhaust; cases "tl ms") force+
  then show ?thesis
  proof cases
    case one
    then have "(k = ''Online'' \<and> online_schema c) \<or> (k \<in> {''Offline'', ''External''} \<and> c = JObj [])"
      using assms by (simp add: v registration_schema_def)
    with online_schema_decodes have "registration_of_json v \<noteq> None" by (auto simp: v one)
    moreover have "one_mode v" using assms one by (simp add: v one_mode_members del: One_nat_def)
    ultimately show ?thesis by simp
  next
    case other
    then have "registration_of_json v = None" by (cases v rule: registration_of_json.cases) (auto simp: v)
    then show ?thesis using assms other by (simp add: v one_mode_members)
  qed
qed

lemma spec_decodes:
  assumes "spec_schema j"
  shows "spec_of_json j \<noteq> None \<longleftrightarrow> one_mode_rule j"
proof -
  obtain ms where j: "j = JObj ms" using assms by (cases j) (auto simp: spec_schema_def)
  have r: "registration_schema v" if "map_of ms ''platformRegistration'' = Some v" for v
    using assms map_of_SomeD [OF that] by (auto simp: j spec_schema_def list_all_iff)
  have n: "v = JNull \<or> strings_ok v" if "map_of ms ''nodeSelector'' = Some v" for v
    using assms map_of_SomeD [OF that] by (auto simp: j spec_schema_def list_all_iff)
  have "\<exists>ns. opt_member entries_of_json ''nodeSelector'' j = Some ns"
    using n all_some_strings
    by (cases "map_of ms ''nodeSelector''") (auto simp: opt_member_def j json_get.simps elim!: strings_ok.elims)
  then have "spec_of_json j \<noteq> None \<longleftrightarrow> (case map_of ms ''platformRegistration'' of
      None \<Rightarrow> True | Some v \<Rightarrow> registration_of_json v \<noteq> None)"
    by (auto simp: j json_get.simps bind_eq_Some_conv split: option.split)
  also have "\<dots> \<longleftrightarrow> one_mode_rule j"
    using r registration_decodes by (auto simp: j json_get.simps one_mode_rule_def split: option.split)
  finally show ?thesis .
qed

lemma registration_json_schema: "registration_schema (registration_json r) \<and> one_mode (registration_json r)
    \<and> registration_of_json (registration_json r) = Some r"
  by (auto simp: registration_json_def registration_schema_def one_mode_def online_json_def online_schema_def
      opt_member_def split: platform_registration.split option.split)

lemma spec_json_roundtrip:
  "spec_schema (spec_json s) \<and> one_mode_rule (spec_json s) \<and> spec_of_json (spec_json s) = Some s"
proof -
  have "list_all is_str (map JStr ss)" for ss by (simp add: list_all_iff)
  then show ?thesis
    using registration_json_schema [of "registration s"]
    by (cases "node_selector s")
      (auto simp: spec_json_def spec_schema_def one_mode_rule_def opt_member_def all_some_map_JStr)
qed

lemma all_some_map_filter: "all_some (map f xs) = Some ys \<Longrightarrow> List.map_filter f xs = ys"
proof (induction xs arbitrary: ys)
  case (Cons x xs)
  then show ?case by (cases "f x") (auto simp: map_filter_simps)
qed (simp add: map_filter_simps)

text \<open>A registration that is read: one member, whose API key Secret is the one the rule sees.\<close>

lemma api_key_read:
  assumes "registration_schema v" "registration_of_json v = Some r"
  shows "(case r of Online cfg \<Rightarrow> online_admitted cfg | _ \<Rightarrow> True) \<longleftrightarrow>
    (case Option.bind (json_get ''Online'' v) (json_get ''apiKeySecretName'') of
        Some (JStr s) \<Rightarrow> length s \<le> 253 \<and> full_match secret_name_pattern s
      | _ \<Rightarrow> True)"
proof -
  obtain k c where v: "v = JObj [(k, c)]"
    using assms(2) by (cases v rule: registration_of_json.cases) auto
  show ?thesis
  proof (cases "k = ''Online''")
    case False
    with assms v show ?thesis by (auto simp: json_get.simps split: if_splits)
  next
    case True
    then obtain cs where c: "c = JObj cs" and cs: "online_schema c"
      using assms(1) by (cases c) (auto simp: v registration_schema_def online_schema_def)
    have "is_str x" if "map_of cs ''apiKeySecretName'' = Some x" for x
      using cs map_of_SomeD [OF that] by (auto simp: c online_schema_def list_all_iff)
    then show ?thesis
      using assms(2) True
      by (cases "map_of cs ''apiKeySecretName''")
        (auto simp: v c json_get.simps opt_member_def online_admitted_def elim!: is_str.elims)
  qed
qed

lemma spec_rules_read:
  assumes "spec_schema j" "spec_of_json j = Some s"
  shows "spec_admitted s \<longleftrightarrow> selectors_rule j \<and> api_key_rule j"
proof -
  obtain ms where j: "j = JObj ms" using assms(1) by (cases j) (auto simp: spec_schema_def)
  have n: "v = JNull \<or> strings_ok v" if "map_of ms ''nodeSelector'' = Some v" for v
    using assms(1) map_of_SomeD [OF that] by (auto simp: j spec_schema_def list_all_iff)
  have r: "registration_schema v" if "map_of ms ''platformRegistration'' = Some v" for v
    using assms(1) map_of_SomeD [OF that] by (auto simp: j spec_schema_def list_all_iff)
  have "pred_option selectors_admitted (node_selector s) \<longleftrightarrow> selectors_rule j"
    using assms(2) n
    by (cases "map_of ms ''nodeSelector''")
      (auto simp: j json_get.simps opt_member_def bind_eq_Some_conv selectors_rule_def all_some_map_filter
        elim!: strings_ok.elims)
  moreover have "(case registration s of Online cfg \<Rightarrow> online_admitted cfg | _ \<Rightarrow> True) \<longleftrightarrow> api_key_rule j"
  proof (cases "map_of ms ''platformRegistration''")
    case None
    with assms(2) show ?thesis
      by (auto simp: j json_get.simps bind_eq_Some_conv api_key_rule_def json_member2_def default_platform_registration_def)
  next
    case (Some v)
    with assms(2) have "registration_of_json v = Some (registration s)"
      by (auto simp: j json_get.simps bind_eq_Some_conv)
    from api_key_read [OF r [OF Some] this] Some show ?thesis
      by (simp add: j json_get.simps api_key_rule_def json_member2_def)
  qed
  ultimately show ?thesis by (simp add: spec_admitted_def)
qed

subsection \<open>Properties\<close>

text \<open>C22: Typing: of the documents the schema of the custom resource admits, serde reads exactly those
  in which the rule finds one registration mode, and the spec that is read satisfies the remaining rules
  exactly when the document does, so it belongs to an admitted instance.\<close>

theorem admitted_spec_decodes:
  assumes "spec_schema j"
  shows "(spec_of_json j \<noteq> None \<longleftrightarrow> one_mode_rule j)
    \<and> (\<forall>s. spec_of_json j = Some s \<longrightarrow>
         (instance_admitted (r\<lparr>res_name := ''intel-tdx-dcap'', spec := s\<rparr>) \<longleftrightarrow> selectors_rule j \<and> api_key_rule j))"
  using spec_decodes [OF assms] spec_rules_read [OF assms]
  by (auto simp: instance_admitted_def spec_admitted_def)

definition sample_json :: json where
  "sample_json = JObj [(''platformRegistration'', JObj [(''Online'', JObj [(''apiKeySecretName'', JStr ''key'')])]),
     (''nodeSelector'', JArr [JStr ''tdx=on''])]"

theorem admitted_spec_decodes_witness:
  "spec_schema sample_json \<and> one_mode_rule sample_json
   \<and> spec_of_json sample_json =
       Some \<lparr>registration = Online \<lparr>api_key_secret_name = Some ''key''\<rparr>, node_selector = Some [''tdx=on'']\<rparr>
   \<and> \<not> one_mode_rule (JObj [(''platformRegistration'', JObj [])])
   \<and> spec_of_json (JObj [(''platformRegistration'', JObj [])]) = None"
proof -
  have s: "spec_schema sample_json"
    by (simp add: sample_json_def spec_schema_def registration_schema_def online_schema_def)
  have e: "spec_schema (JObj [(''platformRegistration'', JObj [])])"
    by (simp add: spec_schema_def registration_schema_def)
  have "spec_of_json sample_json =
       Some \<lparr>registration = Online \<lparr>api_key_secret_name = Some ''key''\<rparr>, node_selector = Some [''tdx=on'']\<rparr>"
    by (simp add: sample_json_def json_get.simps opt_member_def)
  moreover have "\<not> one_mode_rule (JObj [(''platformRegistration'', JObj [])])"
    by (simp add: one_mode_rule_def one_mode_def json_get.simps)
  ultimately show ?thesis
    using s admitted_spec_decodes [OF s, of undefined] admitted_spec_decodes [OF e, of undefined] by auto
qed

text \<open>The JSON of every spec meets the schema and the rule on the modes, and reads back as the
  same spec.\<close>

theorem spec_json_reads_back:
  "spec_schema (spec_json s) \<and> one_mode_rule (spec_json s) \<and> spec_of_json (spec_json s) = Some s"
  by (rule spec_json_roundtrip)

end
