(* ===== verification/FakeInfo.thy ===== *)
theory FakeInfo
  imports Platforms
begin

text \<open>
  The stand-in for the platform-info binary that the end-to-end tests run on machines without
  SGX (\<open>test/fake-platform-info/src/main.rs\<close>), and that its output meets what
  \<open>get_platform_info\<close> demands of the real one. SHA-256 and the JSON parser of the reader are
  arguments.
\<close>

definition fake_qe_id :: "(bytes \<Rightarrow> bytes) \<Rightarrow> str \<Rightarrow> str" where
  "fake_qe_id sha256 node_name = hex_string (take 16 (sha256 (as_bytes node_name)))"

text \<open>What is printed before the newline: \<open>CHR 0x22\<close> is the double quote.\<close>

definition json_member :: "str \<Rightarrow> str \<Rightarrow> str" where
  "json_member k v = [CHR 0x22] @ k @ [CHR 0x22, CHR '':'', CHR 0x22] @ v @ [CHR 0x22]"

definition fake_line :: "(bytes \<Rightarrow> bytes) \<Rightarrow> str \<Rightarrow> str" where
  "fake_line sha256 node_name =
     ''{'' @ json_member ''cpu_svn'' ''0102030405060708090a0b0c0d0e0f10''
     @ '','' @ json_member ''enc_ppid'' (concat (replicate 384 ''ab''))
     @ '','' @ json_member ''pce_id'' ''0000'' @ '','' @ json_member ''pce_svn'' ''0b00''
     @ '','' @ json_member ''qe_id'' (fake_qe_id sha256 node_name) @ ''}''"

text \<open>A run: without the environment variable it panics, with a text on the standard error.\<close>

definition fake_platform_info :: "(bytes \<Rightarrow> bytes) \<Rightarrow> bytes \<Rightarrow> str option \<Rightarrow> process_output" where
  "fake_platform_info sha256 panic_text node_name =
     (case node_name of
        None \<Rightarrow> \<lparr>out_success = False, out_stdout = [], out_stderr = panic_text\<rparr>
      | Some node \<Rightarrow> \<lparr>out_success = True, out_stdout = as_bytes (fake_line sha256 node @ [CHR 0x0A]), out_stderr = []\<rparr>)"

text \<open>The object a JSON parser reads from the line.\<close>

definition fake_object :: "(bytes \<Rightarrow> bytes) \<Rightarrow> str \<Rightarrow> json" where
  "fake_object sha256 node_name = JObj
     [(''cpu_svn'', JStr ''0102030405060708090a0b0c0d0e0f10''),
      (''enc_ppid'', JStr (concat (replicate 384 ''ab''))), (''pce_id'', JStr ''0000''),
      (''pce_svn'', JStr ''0b00''), (''qe_id'', JStr (fake_qe_id sha256 node_name))]"

lemma all_hex_ascii: "all_hex s \<Longrightarrow> list_all (\<lambda>b. unat b < 0x80) (as_bytes s)"
  by (auto simp: all_hex_def list_all_iff dest: hexdigit_ascii)

lemma fake_line_str_ok: "str_ok (fake_line sha256 node @ [CHR 0x0A])"
proof -
  have ab: "all_hex (concat (replicate n ''ab''))" for n
    by (induction n) (simp_all add: hex_eval)
  have "list_all (\<lambda>b. unat b < 0x80) (as_bytes (fake_line sha256 node @ [CHR 0x0A]))"
    using all_hex_ascii [OF ab, of 384] all_hex_ascii [of "fake_qe_id sha256 node"]
    by (simp add: fake_line_def json_member_def fake_qe_id_def as_bytes_Cons)
  then show ?thesis unfolding str_ok_def by (rule utf8_valid_ascii)
qed

text \<open>Trimming takes off the newline and nothing else.\<close>

lemma trim_bytes_newline:
  assumes "bs \<noteq> []" "ascii_graphic (hd bs)" "ascii_graphic (last bs)"
  shows "trim_bytes (bs @ [0x0A]) = bs"
proof -
  let ?ws = "map rev white_space"
  have front: "trim_front white_space (bs @ [0x0A]) = bs @ [0x0A]"
    using assms white_space_graphic by (intro trim_front_id) (metis hd_append2)
  have "leading_width ?ws (0x0A # rev bs) = 1"
    by (simp add: leading_width_def white_space_def)
  then have "trim_front ?ws (0x0A # rev bs) = trim_front ?ws (rev bs)"
    by (subst trim_front.simps) simp
  also have "\<dots> = rev bs"
    using assms white_space_graphic by (intro trim_front_id) (auto simp: hd_rev)
  finally show ?thesis by (simp add: trim_bytes_def front)
qed

lemma trim_fake_line: "trim (fake_line sha256 node @ [CHR 0x0A]) = fake_line sha256 node"
proof -
  have "as_bytes (fake_line sha256 node) \<noteq> []" "ascii_graphic (hd (as_bytes (fake_line sha256 node)))"
    "ascii_graphic (last (as_bytes (fake_line sha256 node)))"
    by (simp_all add: fake_line_def as_bytes_Cons ascii_graphic_def)
  then have "trim_bytes (as_bytes (fake_line sha256 node) @ [0x0A]) = as_bytes (fake_line sha256 node)"
    by (rule trim_bytes_newline)
  then show ?thesis by (simp add: trim_def as_bytes_Cons byte_of_def)
qed

text \<open>The fake meets the binary's contract: on any node, where the reader's parser reads the
  printed line, \<open>get_platform_info\<close> succeeds with the fixed CPU SVN, PCE ID and PCE SVN and a QE
  ID of 32 hexadecimal digits, and two nodes with one QE ID agree on the first 16 bytes of
  their digests; without \<open>NODE_NAME\<close> it fails.\<close>

theorem fake_info_accepted:
  assumes "\<And>bs. length (sha256 bs) = 32"
    and "\<And>n. node_name = Some n \<Longrightarrow> from_json (fake_line sha256 n) = Some (fake_object sha256 n)"
    and "\<And>h. env_run env h bin = Ok (fake_platform_info sha256 panic_text node_name)"
  shows "case node_name of
      None \<Rightarrow> get_platform_info env from_json bin w =
        (Err (MsgStr ''Platform info binary failed: '' (from_utf8_lossy panic_text)), log_event (RunBinary bin) w)
    | Some n \<Rightarrow> get_platform_info env from_json bin w =
        (Ok (as_bytes ''0102030405060708090a0b0c0d0e0f10'', as_bytes ''0000'', as_bytes ''0b00'',
          as_bytes (fake_qe_id sha256 n)), log_event (RunBinary bin) w)
      \<and> length (fake_qe_id sha256 n) = 32 \<and> all_hex (fake_qe_id sha256 n)
      \<and> (fake_qe_id sha256 m = fake_qe_id sha256 n \<longleftrightarrow>
          take 16 (sha256 (as_bytes m)) = take 16 (sha256 (as_bytes n)))"
proof (cases node_name)
  case None
  with assms(3) show ?thesis
    by (simp add: get_platform_info_def bind_fx_def map_err_fx_def run_binary_def fake_platform_info_def)
next
  case (Some n)
  have ne: "fake_line sha256 n \<noteq> []" by (simp add: fake_line_def)
  have "platform_fields (fake_object sha256 n) =
     Ok (as_bytes ''0102030405060708090a0b0c0d0e0f10'', as_bytes ''0000'', as_bytes ''0b00'',
        as_bytes (fake_qe_id sha256 n))"
    using assms(1) by (simp add: platform_fields_Ok fake_object_def fake_qe_id_def hex_eval)
  moreover have "from_utf8_lossy (as_bytes (fake_line sha256 n @ [CHR 0x0A])) = fake_line sha256 n @ [CHR 0x0A]"
    using fake_line_str_ok by (rule from_utf8_lossy_as_bytes)
  ultimately have "get_platform_info env from_json bin w =
        (Ok (as_bytes ''0102030405060708090a0b0c0d0e0f10'', as_bytes ''0000'', as_bytes ''0b00'',
          as_bytes (fake_qe_id sha256 n)), log_event (RunBinary bin) w)"
    using assms(2,3) ne Some
    by (simp add: get_platform_info_def bind_fx_def map_err_fx_def run_binary_def fake_platform_info_def
        trim_fake_line del: as_bytes_append)
  then show ?thesis using Some assms(1) by (auto simp: fake_qe_id_def)
qed

text \<open>A digest of fixed length, and a parser that reads every line as that of one node.\<close>

definition demo_digest :: "bytes \<Rightarrow> bytes" where
  "demo_digest bs = replicate 32 (of_nat (length bs))"

definition fake_env :: env where
  "fake_env = quiet_env\<lparr>env_run := (\<lambda>h b. Ok (fake_platform_info demo_digest [] (Some ''node-1'')))\<rparr>"

theorem fake_info_accepted_witness:
  "get_platform_info fake_env (\<lambda>s. Some (fake_object demo_digest ''node-1'')) ''bin'' node_host =
     (Ok (as_bytes ''0102030405060708090a0b0c0d0e0f10'', as_bytes ''0000'', as_bytes ''0b00'',
        as_bytes (concat (replicate 16 ''06''))), log_event (RunBinary ''bin'') node_host)"
proof -
  have d: "length (demo_digest bs) = 32" for bs by (simp add: demo_digest_def)
  have run: "env_run fake_env h ''bin'' = Ok (fake_platform_info demo_digest [] (Some ''node-1''))" for h
    by (simp add: fake_env_def)
  have "as_bytes (hex_byte 6) = as_bytes ''06''"
    by (simp add: hex_byte_def hex_digit_def as_bytes_Cons byte_of_def)
  then have "hex_byte 6 = ''06''" by (simp only: as_bytes_inject)
  then have id: "fake_qe_id demo_digest ''node-1'' = concat (replicate 16 ''06'')"
    by (simp add: fake_qe_id_def demo_digest_def hex_string_def)
  from fake_info_accepted [where from_json = "\<lambda>s. Some (fake_object demo_digest ''node-1'')" and
      node_name = "Some ''node-1''" and w = node_host, OF d _ run] id show ?thesis by simp
qed

end
