(* ===== verification/PlatformHelper.thy ===== *)
theory PlatformHelper
  imports FakeInfo
begin

text \<open>
  The platform-info helper, a C program (\<open>bin/get-platform-info/get_platform_info.c\<close>) that
  \<open>get-platforms\<close> runs: it loads Intel's ID and PCE enclaves, asks them for the platform's
  identity and prints it as one line of JSON. The SGX runtime and the enclaves are the argument
  \<open>rt\<close>, which answers every call after the history of calls so far; the constants of the SGX
  headers are fields of it. Arrays are functions from the index, pointers to out-parameters
  are results; a buffer that could not be written to the terminal is left out, since the
  program does not look at the result of \<open>printf\<close>.
\<close>

subsection \<open>The SGX runtime\<close>

type_synonym c_array = "nat \<Rightarrow> u8"

text \<open>\<open>sgx_report_t\<close> begins with the CPU SVN of its body; \<open>sgx_pce_info_t\<close>.\<close>

record sgx_report =
  report_cpu_svn :: c_array
  report_rest :: c_array

record sgx_pce_info =
  pce_isv_svn :: u16
  info_pce_id :: u16

text \<open>What the ECalls are given, of \<open>ms_ide_get_pce_encrypt_key_t\<close> and \<open>ms_get_pc_info_t\<close>; and what
  the second one writes.\<close>

record ms_ide_get_pce_encrypt_key =
  p_pce_target :: c_array
  ide_crypto_suite :: u8
  cert_key_type :: u16
  ide_key_size :: u32

record ms_get_pc_info =
  p_report :: sgx_report
  p_public_key :: c_array
  pc_key_size :: u32
  pc_crypto_suite :: u8
  encrypted_ppid_buf_size :: u32

record pc_info_result =
  encrypted_ppid :: c_array
  encrypted_ppid_out_size :: u32
  pce_info :: sgx_pce_info
  signature_scheme :: u8

datatype sgx_call =
  CreateEnclave str u32 "u64 option"
| GetTargetInfo u64
| IdeGetPceEncryptKey u64 ms_ide_get_pce_encrypt_key
| GetPcInfo u64 ms_get_pc_info
| IdeGetId u64
| DestroyEnclave u64

text \<open>Creating an enclave gives a status and, where it writes one, the enclave ID; an ECall gives
  the status of the call, the status the enclave returns, and its results.\<close>

record sgx_runtime =
  SGX_SUCCESS :: u32
  PCE_ALG_RSA_OAEP_3072 :: nat
  PCE_NIST_P256_ECDSA_SHA256 :: nat
  rt_create :: "sgx_call list \<Rightarrow> str \<Rightarrow> u32 \<times> u64 option"
  rt_target_info :: "sgx_call list \<Rightarrow> u64 \<Rightarrow> u32 \<times> c_array"
  rt_ide_key :: "sgx_call list \<Rightarrow> u64 \<Rightarrow> ms_ide_get_pce_encrypt_key \<Rightarrow> u32 \<times> u32 \<times> sgx_report \<times> c_array"
  rt_pc_info :: "sgx_call list \<Rightarrow> u64 \<Rightarrow> ms_get_pc_info \<Rightarrow> u32 \<times> u32 \<times> pc_info_result"
  rt_ide_id :: "sgx_call list \<Rightarrow> u64 \<Rightarrow> u32 \<times> u32 \<times> c_array"

text \<open>The process: its calls, what it printed, and the two locals \<open>cleanup\<close> reads.\<close>

record helper =
  sgx_calls :: "sgx_call list"
  std_out :: str
  std_err :: str
  id_enclave_eid :: u64
  pce_enclave_eid :: u64

definition log_call :: "sgx_call \<Rightarrow> helper \<Rightarrow> helper" where
  "log_call c h = h\<lparr>sgx_calls := sgx_calls h @ [c]\<rparr>"

text \<open>\<open>fprintf(stderr, \<dots>)\<close> followed by \<open>return -1\<close>: the way to the label \<open>cleanup\<close>.\<close>

definition fail_with :: "str \<Rightarrow> (helper, int, 'a) fx" where
  "fail_with msg = (\<lambda>h. (Err (- 1), h\<lparr>std_err := std_err h @ msg\<rparr>))"

text \<open>The format \<open>0x%04x\<close>.\<close>

fun hex_nat :: "nat \<Rightarrow> bytes" where
  "hex_nat n = (if n < 16 then [hex_digit n] else hex_nat (n div 16) @ [hex_digit (n mod 16)])"

declare hex_nat.simps [simp del]

definition hex04 :: "u32 \<Rightarrow> str" where
  "hex04 s = (let ds = hex_nat (unat s) in ''0x'' @ of_bytes (replicate (4 - length ds) 48 @ ds))"

definition NL :: str where "NL = [CHR 0x0A]"

subsection \<open>The program\<close>

definition ID_ENCLAVE_PATH :: str where
  "ID_ENCLAVE_PATH = ''/usr/lib/x86_64-linux-gnu/libsgx_id_enclave.signed.so.1''"

definition PCE_ENCLAVE_PATH :: str where
  "PCE_ENCLAVE_PATH = ''/usr/lib/x86_64-linux-gnu/libsgx_pce.signed.so.1''"

definition CPU_SVN_LENGTH :: nat where "CPU_SVN_LENGTH = 16"
definition ISV_SVN_LENGTH :: nat where "ISV_SVN_LENGTH = 2"
definition PCE_ID_LENGTH :: nat where "PCE_ID_LENGTH = 2"
definition PPID_RSA3072_ENCRYPTED :: u16 where "PPID_RSA3072_ENCRYPTED = 3"
definition REF_RSA_OAEP_3072_MOD_SIZE :: nat where "REF_RSA_OAEP_3072_MOD_SIZE = 384"
definition REF_RSA_OAEP_3072_EXP_SIZE :: nat where "REF_RSA_OAEP_3072_EXP_SIZE = 4"

lemmas helper_sizes = CPU_SVN_LENGTH_def ISV_SVN_LENGTH_def PCE_ID_LENGTH_def
  REF_RSA_OAEP_3072_MOD_SIZE_def REF_RSA_OAEP_3072_EXP_SIZE_def

text \<open>The pointer \<open>p_eid\<close> is the update of the local it points to.\<close>

definition load_enclave ::
  "sgx_runtime \<Rightarrow> str \<Rightarrow> ((u64 \<Rightarrow> u64) \<Rightarrow> helper \<Rightarrow> helper) \<Rightarrow> (helper, int, unit) fx" where
  "load_enclave rt enclave_path p_eid h =
     (let (sgx_status, eid) = rt_create rt (sgx_calls h) enclave_path;
          h = log_call (CreateEnclave enclave_path sgx_status eid) h;
          h = (case eid of None \<Rightarrow> h | Some i \<Rightarrow> p_eid (\<lambda>_. i) h)
      in if SGX_SUCCESS rt \<noteq> sgx_status
         then fail_with (''ERROR: Failed to load enclave: '' @ hex04 sgx_status @ NL
           @ ''Make sure '' @ enclave_path @ '' exists and has correct permissions.'' @ NL) h
         else ret_fx () h)"

definition unload_enclave :: "u64 \<Rightarrow> helper \<Rightarrow> helper" where
  "unload_enclave eid h = (if eid = 0 then h else log_call (DestroyEnclave eid) h)"

definition call_ide_get_id :: "sgx_runtime \<Rightarrow> u64 \<Rightarrow> (helper, int, u32 \<times> c_array) fx" where
  "call_ide_get_id rt eid h =
     (let (sgx_status, retval, platform_id) = rt_ide_id rt (sgx_calls h) eid;
          h = log_call (IdeGetId eid) h
      in if sgx_status \<noteq> SGX_SUCCESS rt
         then fail_with (''ERROR: sgx_ecall failed: '' @ hex04 sgx_status @ NL) h
         else ret_fx (retval, platform_id) h)"

text \<open>One loop of \<open>printf("%02x")\<close>, between the texts around it.\<close>

definition hex_array :: "nat \<Rightarrow> c_array \<Rightarrow> str" where
  "hex_array n a = concat (map (\<lambda>i. hex_byte (a i)) [0..<n])"

definition print_json_output ::
  "c_array \<Rightarrow> c_array \<Rightarrow> c_array \<Rightarrow> c_array \<Rightarrow> c_array \<Rightarrow> str" where
  "print_json_output svn ppid pid isv qe =
     ''{'' @ json_member ''cpu_svn'' (hex_array CPU_SVN_LENGTH svn)
     @ '','' @ json_member ''enc_ppid'' (hex_array REF_RSA_OAEP_3072_MOD_SIZE ppid)
     @ '','' @ json_member ''pce_id'' (hex_array PCE_ID_LENGTH pid)
     @ '','' @ json_member ''pce_svn'' (hex_array ISV_SVN_LENGTH isv)
     @ '','' @ json_member ''qe_id'' (hex_array 16 qe) @ ''}'' @ NL"

definition call_ide_get_pce_encrypt_key ::
  "sgx_runtime \<Rightarrow> u64 \<Rightarrow> c_array \<Rightarrow> u32 \<Rightarrow> (helper, int, u32 \<times> sgx_report \<times> c_array) fx" where
  "call_ide_get_pce_encrypt_key rt eid pce_target key_size h =
     (let ms = \<lparr>p_pce_target = pce_target, ide_crypto_suite = word_of_nat (PCE_ALG_RSA_OAEP_3072 rt),
            cert_key_type = PPID_RSA3072_ENCRYPTED, ide_key_size = key_size\<rparr>;
          (sgx_status, retval, report, pub_key) = rt_ide_key rt (sgx_calls h) eid ms;
          h = log_call (IdeGetPceEncryptKey eid ms) h
      in if sgx_status \<noteq> SGX_SUCCESS rt
         then fail_with (''ERROR: sgx_ecall (ide_get_pce_encrypt_key) failed: '' @ hex04 sgx_status @ NL) h
         else ret_fx (retval, report, pub_key) h)"

definition call_get_pc_info ::
  "sgx_runtime \<Rightarrow> u64 \<Rightarrow> sgx_report \<Rightarrow> c_array \<Rightarrow> u32 \<Rightarrow> u32
     \<Rightarrow> (helper, int, u32 \<times> c_array \<times> sgx_pce_info) fx" where
  "call_get_pc_info rt eid report public_key key_size ppid_buf_size h =
     (let ms = \<lparr>p_report = report, p_public_key = public_key, pc_key_size = key_size,
            pc_crypto_suite = word_of_nat (PCE_ALG_RSA_OAEP_3072 rt), encrypted_ppid_buf_size = ppid_buf_size\<rparr>;
          (sgx_status, retval, res) = rt_pc_info rt (sgx_calls h) eid ms;
          h = log_call (GetPcInfo eid ms) h
      in if sgx_status \<noteq> SGX_SUCCESS rt
         then fail_with (''ERROR: sgx_ecall (get_pc_info) failed: '' @ hex04 sgx_status @ NL) h
         else if unat (signature_scheme res) \<noteq> PCE_NIST_P256_ECDSA_SHA256 rt
         then fail_with (''ERROR: PCE returned incorrect signature scheme.'' @ NL) h
         else if unat (encrypted_ppid_out_size res) \<noteq> REF_RSA_OAEP_3072_MOD_SIZE
         then fail_with (''ERROR: PCE returned incorrect encrypted PPID size.'' @ NL) h
         else ret_fx (retval, encrypted_ppid res, pce_info res) h)"

text \<open>The check of an enclave's own status in \<open>get_platform_info\<close>.\<close>

definition check_status :: "sgx_runtime \<Rightarrow> str \<Rightarrow> u32 \<Rightarrow> (helper, int, unit) fx" where
  "check_status rt what sgx_status =
     (if SGX_SUCCESS rt \<noteq> sgx_status then fail_with (''ERROR: '' @ what @ hex04 sgx_status @ NL)
      else ret_fx ())"

definition get_target_info :: "sgx_runtime \<Rightarrow> u64 \<Rightarrow> (helper, int, u32 \<times> c_array) fx" where
  "get_target_info rt eid h = (Ok (rt_target_info rt (sgx_calls h) eid), log_call (GetTargetInfo eid) h)"

text \<open>The bytes of a \<open>uint16_t\<close> in memory, little-endian on x86.\<close>

definition u16_bytes :: "u16 \<Rightarrow> c_array" where
  "u16_bytes v = (\<lambda>i. if i < 2 then le_encode 2 v ! i else 0)"

definition print_out :: "str \<Rightarrow> (helper, int, unit) fx" where
  "print_out s h = (Ok (), h\<lparr>std_out := std_out h @ s\<rparr>)"

definition ENC_PUBLIC_KEY_SIZE :: u32 where
  "ENC_PUBLIC_KEY_SIZE = word_of_nat (REF_RSA_OAEP_3072_MOD_SIZE + REF_RSA_OAEP_3072_EXP_SIZE)"

text \<open>\<open>get_platform_info\<close> once both enclaves are loaded, up to the label \<open>cleanup\<close>, and whole.\<close>

definition query_enclaves :: "sgx_runtime \<Rightarrow> u64 \<Rightarrow> u64 \<Rightarrow> (helper, int, unit) fx" where
  "query_enclaves rt id_eid pce_eid =
     bind_fx (get_target_info rt pce_eid) (\<lambda>(sgx_status, pce_target_info).
     bind_fx (check_status rt ''Failed to get pce target info: '' sgx_status) (\<lambda>_.
     bind_fx (call_ide_get_pce_encrypt_key rt id_eid pce_target_info ENC_PUBLIC_KEY_SIZE)
       (\<lambda>(sgx_status, id_enclave_report, enc_public_key).
     bind_fx (check_status rt ''ide_get_pce_encrypt_key returned error: '' sgx_status) (\<lambda>_.
     bind_fx (call_get_pc_info rt pce_eid id_enclave_report enc_public_key ENC_PUBLIC_KEY_SIZE
         (word_of_nat REF_RSA_OAEP_3072_MOD_SIZE)) (\<lambda>(sgx_status, ppid, info).
     bind_fx (check_status rt ''get_pc_info returned error: '' sgx_status) (\<lambda>_.
     bind_fx (call_ide_get_id rt id_eid) (\<lambda>(sgx_status, platform_id).
     bind_fx (check_status rt ''ide_get_id returned error: '' sgx_status) (\<lambda>_.
     print_out (print_json_output (report_cpu_svn id_enclave_report) ppid
       (u16_bytes (info_pce_id info)) (u16_bytes (pce_isv_svn info)) platform_id)))))))))"

definition query_platform :: "sgx_runtime \<Rightarrow> (helper, int, unit) fx" where
  "query_platform rt =
     bind_fx (load_enclave rt ID_ENCLAVE_PATH id_enclave_eid_update) (\<lambda>_.
     bind_fx (load_enclave rt PCE_ENCLAVE_PATH pce_enclave_eid_update) (\<lambda>_ h.
     query_enclaves rt (id_enclave_eid h) (pce_enclave_eid h) h))"

definition helper_platform_info :: "sgx_runtime \<Rightarrow> helper \<Rightarrow> int \<times> helper" where
  "helper_platform_info rt h =
     (case query_platform rt h of (r, h) \<Rightarrow>
       (let h = unload_enclave (pce_enclave_eid h) h;
            h = unload_enclave (id_enclave_eid h) h
        in (case r of Inl ret \<Rightarrow> ret | Inr _ \<Rightarrow> 0, h)))"

definition helper_start :: helper where
  "helper_start = \<lparr>sgx_calls = [], std_out = [], std_err = [], id_enclave_eid = 0, pce_enclave_eid = 0\<rparr>"

definition helper_main :: "sgx_runtime \<Rightarrow> int \<times> helper" where
  "helper_main rt = helper_platform_info rt helper_start"

text \<open>The process its caller sees: only the low byte of \<open>main\<close>'s result is the exit code.\<close>

definition helper_process :: "sgx_runtime \<Rightarrow> process_output" where
  "helper_process rt =
     (case helper_main rt of (ret, h) \<Rightarrow>
       \<lparr>out_success = (ret mod 256 = 0), out_stdout = as_bytes (std_out h), out_stderr = as_bytes (std_err h)\<rparr>)"

subsection \<open>The enclaves a run holds\<close>

text \<open>What the SGX documentation promises of creating an enclave: a non-zero ID on success, and no
  ID (or zero) on failure.\<close>

definition runtime_ok :: "sgx_runtime \<Rightarrow> bool" where
  "runtime_ok rt \<longleftrightarrow> (\<forall>cs path s e. rt_create rt cs path = (s, e) \<longrightarrow>
     (if s = SGX_SUCCESS rt then \<exists>i. e = Some i \<and> i \<noteq> 0 else e = None \<or> e = Some 0))"

text \<open>The enclaves open after a sequence of calls, the last one loaded first: \<open>None\<close> when a call
  uses an enclave that is not open or one is destroyed out of order.\<close>

fun uses :: "sgx_call \<Rightarrow> u64 option" where
  "uses (GetTargetInfo e) = Some e"
| "uses (IdeGetPceEncryptKey e _) = Some e"
| "uses (GetPcInfo e _) = Some e"
| "uses (IdeGetId e) = Some e"
| "uses _ = None"

fun enclave_step :: "u32 \<Rightarrow> sgx_call \<Rightarrow> u64 list \<Rightarrow> u64 list option" where
  "enclave_step success (CreateEnclave _ s (Some e)) es = Some (if s = success then e # es else es)"
| "enclave_step success (CreateEnclave _ s None) es = Some es"
| "enclave_step success (DestroyEnclave e) es =
     (case es of [] \<Rightarrow> None | e' # es' \<Rightarrow> if e' = e then Some es' else None)"
| "enclave_step success c es = (case uses c of Some e \<Rightarrow> if e \<in> set es then Some es else None | None \<Rightarrow> None)"

fun enclaves_after :: "u32 \<Rightarrow> sgx_call list \<Rightarrow> u64 list \<Rightarrow> u64 list option" where
  "enclaves_after success [] es = Some es"
| "enclaves_after success (c # cs) es = Option.bind (enclave_step success c es) (enclaves_after success cs)"

lemma enclaves_after_append:
  "enclaves_after success (cs @ ds) es = Option.bind (enclaves_after success cs es) (enclaves_after success ds)"
  by (induction cs arbitrary: es) (simp_all split: Option.bind_split)

lemma enclave_step_uses: "uses c = Some e \<Longrightarrow> e \<in> set es \<Longrightarrow> enclave_step success c es = Some es"
  by (cases c) auto

lemma enclaves_after_uses:
  "list_all (\<lambda>c. \<exists>e \<in> set es. uses c = Some e) cs \<Longrightarrow> enclaves_after success cs es = Some es"
  by (induction cs) (auto simp: enclave_step_uses)

text \<open>The calls a piece of the program made on the two enclaves; its locals are unchanged, and it
  either succeeds or says why not.\<close>

definition queries :: "u64 list \<Rightarrow> helper \<Rightarrow> helper \<Rightarrow> bool" where
  "queries es s t \<longleftrightarrow> id_enclave_eid t = id_enclave_eid s \<and> pce_enclave_eid t = pce_enclave_eid s
     \<and> (\<exists>cs. sgx_calls t = sgx_calls s @ cs \<and> list_all (\<lambda>c. \<exists>e \<in> set es. uses c = Some e) cs)"

lemma reflp_queries [intro, simp]: "reflp (queries es)"
  by (simp add: reflp_def queries_def)

lemma transp_queries [intro, simp]: "transp (queries es)"
proof (rule transpI)
  fix s t u assume "queries es s t" "queries es t u"
  then obtain cs ds where "sgx_calls u = sgx_calls s @ (cs @ ds)"
    "list_all (\<lambda>c. \<exists>e \<in> set es. uses c = Some e) (cs @ ds)"
    "id_enclave_eid u = id_enclave_eid s" "pce_enclave_eid u = pce_enclave_eid s"
    by (auto simp: queries_def)
  then show "queries es s u" unfolding queries_def by blast
qed

lemmas helper_ops = log_call_def fail_with_def check_status_def get_target_info_def print_out_def
  call_ide_get_id_def call_ide_get_pce_encrypt_key_def call_get_pc_info_def

lemma queries_ops:
  "pce \<in> set es \<Longrightarrow> keeps (queries es) (get_target_info rt pce)"
  "keeps (queries es) (check_status rt what s)"
  "ide \<in> set es \<Longrightarrow> keeps (queries es) (call_ide_get_pce_encrypt_key rt ide tgt n)"
  "pce \<in> set es \<Longrightarrow> keeps (queries es) (call_get_pc_info rt pce rep key n k)"
  "ide \<in> set es \<Longrightarrow> keeps (queries es) (call_ide_get_id rt ide)"
  "keeps (queries es) (print_out txt)"
  by (auto simp: keeps_def queries_def helper_ops Let_def split: prod.splits)

lemma queries_query_enclaves:
  "ide \<in> set es \<Longrightarrow> pce \<in> set es \<Longrightarrow> keeps (queries es) (query_enclaves rt ide pce)"
  unfolding query_enclaves_def case_prod_unfold by (intro keeps_bind queries_ops transp_queries)

text \<open>A run: the ID enclave could not be loaded, the PCE could not, or both are queried.\<close>

definition loaded :: "str \<Rightarrow> u32 \<Rightarrow> u64 \<Rightarrow> sgx_call" where
  "loaded path s e = CreateEnclave path s (Some e)"

lemma helper_main_cases:
  assumes ok: "runtime_ok rt"
  obtains (no_id) s e where "s \<noteq> SGX_SUCCESS rt" "e = None \<or> e = Some 0"
      "sgx_calls (snd (helper_main rt)) = [CreateEnclave ID_ENCLAVE_PATH s e]" "fst (helper_main rt) = - 1"
      "std_out (snd (helper_main rt)) = []" "std_err (snd (helper_main rt)) \<noteq> []"
  | (no_pce) ide s e where "ide \<noteq> 0" "s \<noteq> SGX_SUCCESS rt" "e = None \<or> e = Some 0"
      "sgx_calls (snd (helper_main rt)) = [CreateEnclave ID_ENCLAVE_PATH (SGX_SUCCESS rt) (Some ide),
         CreateEnclave PCE_ENCLAVE_PATH s e, DestroyEnclave ide]" "fst (helper_main rt) = - 1"
      "std_out (snd (helper_main rt)) = []" "std_err (snd (helper_main rt)) \<noteq> []"
  | (both) ide pce r h where "ide \<noteq> 0" "pce \<noteq> 0"
      "query_enclaves rt ide pce \<lparr>sgx_calls = [CreateEnclave ID_ENCLAVE_PATH (SGX_SUCCESS rt) (Some ide),
         CreateEnclave PCE_ENCLAVE_PATH (SGX_SUCCESS rt) (Some pce)], std_out = [], std_err = [],
         id_enclave_eid = ide, pce_enclave_eid = pce\<rparr> = (r, h)"
      "helper_main rt = (case r of Inl ret \<Rightarrow> ret | Inr _ \<Rightarrow> 0,
         log_call (DestroyEnclave ide) (log_call (DestroyEnclave pce) h))"
proof -
  obtain s1 e1 where c1: "rt_create rt [] ID_ENCLAVE_PATH = (s1, e1)" by fastforce
  obtain s2 e2 where c2: "rt_create rt [CreateEnclave ID_ENCLAVE_PATH s1 e1] PCE_ENCLAVE_PATH = (s2, e2)"
    by fastforce
  note defs = helper_main_def helper_platform_info_def query_platform_def load_enclave_def helper_start_def
    bind_fx_def Let_def log_call_def fail_with_def unload_enclave_def
  have k1: "if s1 = SGX_SUCCESS rt then \<exists>i. e1 = Some i \<and> i \<noteq> 0 else e1 = None \<or> e1 = Some 0"
    and k2: "if s2 = SGX_SUCCESS rt then \<exists>i. e2 = Some i \<and> i \<noteq> 0 else e2 = None \<or> e2 = Some 0"
    using ok c1 c2 by (auto simp: runtime_ok_def)
  consider "s1 \<noteq> SGX_SUCCESS rt" | ide where "s1 = SGX_SUCCESS rt" "e1 = Some ide" "ide \<noteq> 0" "s2 \<noteq> SGX_SUCCESS rt"
    | ide pce where "s1 = SGX_SUCCESS rt" "e1 = Some ide" "ide \<noteq> 0" "s2 = SGX_SUCCESS rt" "e2 = Some pce" "pce \<noteq> 0"
    using k1 k2 by (auto split: if_splits)
  then show thesis
  proof cases
    case 1
    with c1 k1 show thesis by (intro no_id [of s1 e1]) (auto simp: defs)
  next
    case 2
    with c1 c2 k2 show thesis by (intro no_pce [of ide s2 e2]) (auto simp: defs)
  next
    case 3
    let ?h = "\<lparr>sgx_calls = [CreateEnclave ID_ENCLAVE_PATH (SGX_SUCCESS rt) (Some ide),
         CreateEnclave PCE_ENCLAVE_PATH (SGX_SUCCESS rt) (Some pce)], std_out = [], std_err = [],
         id_enclave_eid = ide, pce_enclave_eid = pce\<rparr>"
    obtain r h where q: "query_enclaves rt ide pce ?h = (r, h)" by fastforce
    have "queries [ide, pce] ?h h" using keepsD [OF queries_query_enclaves q] by simp
    then have "id_enclave_eid h = ide" "pce_enclave_eid h = pce" by (simp_all add: queries_def)
    with 3 c1 c2 q show thesis by (intro both [OF _ _ q]) (simp_all add: defs)
  qed
qed

text \<open>C27: The helper releases what it loads: on every path every enclave it loaded is destroyed
  exactly once, the last one first, no call is made on an enclave that is not loaded, and none
  is left when the process ends.\<close>

theorem helper_releases_enclaves:
  assumes "runtime_ok rt"
  shows "enclaves_after (SGX_SUCCESS rt) (sgx_calls (snd (helper_main rt))) [] = Some []"
  using assms
proof (cases rule: helper_main_cases)
  case (both ide pce r h)
  let ?cs = "[CreateEnclave ID_ENCLAVE_PATH (SGX_SUCCESS rt) (Some ide),
         CreateEnclave PCE_ENCLAVE_PATH (SGX_SUCCESS rt) (Some pce)]"
  obtain cs where cs: "sgx_calls h = ?cs @ cs" "list_all (\<lambda>c. \<exists>e \<in> set [pce, ide]. uses c = Some e) cs"
    using keepsD [OF queries_query_enclaves both(3), of "[pce, ide]"] by (auto simp: queries_def)
  from both(4) cs(1) have "sgx_calls (snd (helper_main rt)) = ?cs @ cs @ [DestroyEnclave pce, DestroyEnclave ide]"
    by (simp add: log_call_def)
  with enclaves_after_uses [OF cs(2)] show ?thesis by (simp add: enclaves_after_append)
qed (auto elim!: disjE)

subsection \<open>What a run prints\<close>

text \<open>A step that prints nothing on the standard output and explains itself when it fails; a piece
  of code whose failures do so.\<close>

definition explains :: "(helper, int, 'a) fx \<Rightarrow> bool" where
  "explains m \<longleftrightarrow> (\<forall>h r h'. m h = (r, h') \<longrightarrow> std_out h' = std_out h
     \<and> (case r of Inl x \<Rightarrow> x = - 1 \<and> std_err h' \<noteq> [] | Inr _ \<Rightarrow> std_err h' = std_err h))"

definition fails_loudly :: "(helper, int, 'a) fx \<Rightarrow> bool" where
  "fails_loudly m \<longleftrightarrow> (\<forall>h x h'. m h = (Err x, h') \<longrightarrow> x = - 1 \<and> std_out h' = std_out h \<and> std_err h' \<noteq> [])"

lemma explains_ops:
  "explains (get_target_info rt pce)"
  "explains (check_status rt what s)"
  "explains (call_ide_get_pce_encrypt_key rt ide tgt n)"
  "explains (call_get_pc_info rt pce rep key n k)"
  "explains (call_ide_get_id rt ide)"
  by (auto simp: explains_def helper_ops Let_def split: prod.splits if_splits)

lemma fails_loudly_bind: "explains m \<Longrightarrow> (\<And>x. fails_loudly (k x)) \<Longrightarrow> fails_loudly (bind_fx m k)"
  by (fastforce simp: explains_def fails_loudly_def bind_fx_eq_Err)

lemma fails_loudly_print: "fails_loudly (print_out txt)"
  by (simp add: fails_loudly_def print_out_def)

lemma fails_loudly_query_enclaves: "fails_loudly (query_enclaves rt ide pce)"
  unfolding query_enclaves_def case_prod_unfold
  by (intro fails_loudly_bind explains_ops fails_loudly_print)

text \<open>The calls of a successful run in order, with the arguments that tie the two enclaves
  together, and what they answered: the ID enclave makes its report for the PCE enclave, and
  the PCE enclave gets that report with the key the ID enclave made.\<close>

definition attestation :: "sgx_runtime \<Rightarrow> u64 \<Rightarrow> u64 \<Rightarrow> sgx_call list \<Rightarrow> sgx_report \<Rightarrow> c_array \<Rightarrow> sgx_pce_info
     \<Rightarrow> c_array \<Rightarrow> bool" where
  "attestation rt ide pce cs report ppid info platform_id \<longleftrightarrow>
     (let ok = SGX_SUCCESS rt; suite = word_of_nat (PCE_ALG_RSA_OAEP_3072 rt) in
      \<exists>target key res.
        let ide_ms = \<lparr>p_pce_target = target, ide_crypto_suite = suite, cert_key_type = 3, ide_key_size = 388\<rparr>;
            pc_ms = \<lparr>p_report = report, p_public_key = key, pc_key_size = 388, pc_crypto_suite = suite,
              encrypted_ppid_buf_size = 384\<rparr>;
            c0 = [CreateEnclave ID_ENCLAVE_PATH ok (Some ide), CreateEnclave PCE_ENCLAVE_PATH ok (Some pce)];
            c1 = c0 @ [GetTargetInfo pce]; c2 = c1 @ [IdeGetPceEncryptKey ide ide_ms]; c3 = c2 @ [GetPcInfo pce pc_ms]
        in rt_target_info rt c0 pce = (ok, target)
         \<and> rt_ide_key rt c1 ide ide_ms = (ok, ok, report, key)
         \<and> rt_pc_info rt c2 pce pc_ms = (ok, ok, res)
         \<and> unat (signature_scheme res) = PCE_NIST_P256_ECDSA_SHA256 rt \<and> encrypted_ppid_out_size res = 384
         \<and> encrypted_ppid res = ppid \<and> pce_info res = info
         \<and> rt_ide_id rt c3 ide = (ok, ok, platform_id)
         \<and> cs = c3 @ [IdeGetId ide, DestroyEnclave pce, DestroyEnclave ide])"

definition helper_line :: "sgx_report \<Rightarrow> c_array \<Rightarrow> sgx_pce_info \<Rightarrow> c_array \<Rightarrow> str" where
  "helper_line report ppid info platform_id = print_json_output (report_cpu_svn report) ppid
     (u16_bytes (info_pce_id info)) (u16_bytes (pce_isv_svn info)) platform_id"

lemma unat_384_aux: "unat (384 :: u32) = 384"
  by simp

lemma unat_384 [simp]: "unat (x :: u32) = 384 \<longleftrightarrow> x = 384"
  by (metis unat_384_aux word_eq_iff_unsigned)

lemma ops_Ok:
  "get_target_info rt pce h = (Ok (s, tgt), h') \<longleftrightarrow>
     rt_target_info rt (sgx_calls h) pce = (s, tgt) \<and> h' = log_call (GetTargetInfo pce) h"
  "check_status rt what s h = (Ok u, h') \<longleftrightarrow> s = SGX_SUCCESS rt \<and> h' = h"
  "call_ide_get_pce_encrypt_key rt ide tgt n h = (Ok (s, rep, key), h') \<longleftrightarrow>
     (let ms = \<lparr>p_pce_target = tgt, ide_crypto_suite = word_of_nat (PCE_ALG_RSA_OAEP_3072 rt),
        cert_key_type = 3, ide_key_size = n\<rparr>
      in rt_ide_key rt (sgx_calls h) ide ms = (SGX_SUCCESS rt, s, rep, key)
        \<and> h' = log_call (IdeGetPceEncryptKey ide ms) h)"
  "call_get_pc_info rt pce rep key n k h = (Ok (s, ppid, info), h') \<longleftrightarrow>
     (let ms = \<lparr>p_report = rep, p_public_key = key, pc_key_size = n,
        pc_crypto_suite = word_of_nat (PCE_ALG_RSA_OAEP_3072 rt), encrypted_ppid_buf_size = k\<rparr>
      in h' = log_call (GetPcInfo pce ms) h \<and> (\<exists>res. rt_pc_info rt (sgx_calls h) pce ms = (SGX_SUCCESS rt, s, res)
        \<and> unat (signature_scheme res) = PCE_NIST_P256_ECDSA_SHA256 rt \<and> encrypted_ppid_out_size res = 384
        \<and> encrypted_ppid res = ppid \<and> pce_info res = info))"
  "call_ide_get_id rt ide h = (Ok (s, pid), h') \<longleftrightarrow>
     rt_ide_id rt (sgx_calls h) ide = (SGX_SUCCESS rt, s, pid) \<and> h' = log_call (IdeGetId ide) h"
  "print_out txt h = (Ok v, h') \<longleftrightarrow> h' = h\<lparr>std_out := std_out h @ txt\<rparr>"
proof -
  show "call_get_pc_info rt pce rep key n k h = (Ok (s, ppid, info), h') \<longleftrightarrow>
     (let ms = \<lparr>p_report = rep, p_public_key = key, pc_key_size = n,
        pc_crypto_suite = word_of_nat (PCE_ALG_RSA_OAEP_3072 rt), encrypted_ppid_buf_size = k\<rparr>
      in h' = log_call (GetPcInfo pce ms) h \<and> (\<exists>res. rt_pc_info rt (sgx_calls h) pce ms = (SGX_SUCCESS rt, s, res)
        \<and> unat (signature_scheme res) = PCE_NIST_P256_ECDSA_SHA256 rt \<and> encrypted_ppid_out_size res = 384
        \<and> encrypted_ppid res = ppid \<and> pce_info res = info))"
    by (auto simp: call_get_pc_info_def fail_with_def Let_def REF_RSA_OAEP_3072_MOD_SIZE_def split: prod.splits)
qed (auto simp: get_target_info_def check_status_def call_ide_get_id_def call_ide_get_pce_encrypt_key_def
    print_out_def fail_with_def Let_def PPID_RSA3072_ENCRYPTED_def split: prod.splits)

lemma query_enclaves_Ok:
  assumes "query_enclaves rt ide pce h = (Ok u, h')"
    and "sgx_calls h = [CreateEnclave ID_ENCLAVE_PATH (SGX_SUCCESS rt) (Some ide),
         CreateEnclave PCE_ENCLAVE_PATH (SGX_SUCCESS rt) (Some pce)]"
  shows "\<exists>report ppid info platform_id.
     attestation rt ide pce (sgx_calls h' @ [DestroyEnclave pce, DestroyEnclave ide]) report ppid info platform_id
     \<and> std_out h' = std_out h @ helper_line report ppid info platform_id \<and> std_err h' = std_err h"
proof -
  let ?ide = "\<lambda>target. \<lparr>p_pce_target = target, ide_crypto_suite = word_of_nat (PCE_ALG_RSA_OAEP_3072 rt),
      cert_key_type = 3, ide_key_size = 388\<rparr>"
  let ?pc = "\<lambda>report key. \<lparr>p_report = report, p_public_key = key, pc_key_size = 388,
      pc_crypto_suite = word_of_nat (PCE_ALG_RSA_OAEP_3072 rt), encrypted_ppid_buf_size = 384\<rparr>"
  from assms(1) obtain target report key res pid where
    "rt_target_info rt (sgx_calls h) pce = (SGX_SUCCESS rt, target)"
    "rt_ide_key rt (sgx_calls h @ [GetTargetInfo pce]) ide (?ide target) = (SGX_SUCCESS rt, SGX_SUCCESS rt, report, key)"
    "rt_pc_info rt (sgx_calls h @ [GetTargetInfo pce, IdeGetPceEncryptKey ide (?ide target)]) pce (?pc report key)
       = (SGX_SUCCESS rt, SGX_SUCCESS rt, res)"
    "unat (signature_scheme res) = PCE_NIST_P256_ECDSA_SHA256 rt" "encrypted_ppid_out_size res = 384"
    "rt_ide_id rt (sgx_calls h @ [GetTargetInfo pce, IdeGetPceEncryptKey ide (?ide target),
       GetPcInfo pce (?pc report key)]) ide = (SGX_SUCCESS rt, SGX_SUCCESS rt, pid)"
    "h' = h\<lparr>sgx_calls := sgx_calls h @ [GetTargetInfo pce, IdeGetPceEncryptKey ide (?ide target),
       GetPcInfo pce (?pc report key), IdeGetId ide],
       std_out := std_out h @ helper_line report (encrypted_ppid res) (pce_info res) pid\<rparr>"
    by (simp add: query_enclaves_def bind_fx_eq_Ok ops_Ok Let_def ENC_PUBLIC_KEY_SIZE_def helper_sizes
        log_call_def helper_line_def) (elim exE conjE, simp)
  with assms(2) show ?thesis
    by (intro exI [of _ report] exI [of _ "encrypted_ppid res"] exI [of _ "pce_info res"] exI [of _ pid])
      (auto simp: attestation_def Let_def)
qed

subsection \<open>How the line is read\<close>

text \<open>A JSON object of string members whose texts need no escapes, and what a JSON parser makes of
  it: the law \<open>reads_flat_objects\<close>, of \<open>serde_json::from_str\<close>.\<close>

definition plain_text :: "str \<Rightarrow> bool" where
  "plain_text s \<longleftrightarrow> (\<forall>c \<in> set s. ascii_graphic (byte_of c) \<and> c \<noteq> CHR 0x22 \<and> c \<noteq> CHR 0x5C)"

fun members_text :: "(str \<times> str) list \<Rightarrow> str" where
  "members_text [] = []"
| "members_text [(k, v)] = json_member k v"
| "members_text ((k, v) # ms) = json_member k v @ '','' @ members_text ms"

definition flat_object :: "(str \<times> str) list \<Rightarrow> str" where
  "flat_object ms = ''{'' @ members_text ms @ ''}''"

definition reads_flat_objects :: "(str \<Rightarrow> json option) \<Rightarrow> bool" where
  "reads_flat_objects from_json \<longleftrightarrow>
     (\<forall>ms. distinct (map fst ms) \<longrightarrow> list_all (\<lambda>(k, v). plain_text k \<and> plain_text v) ms \<longrightarrow>
        from_json (flat_object ms) = Some (JObj (map (\<lambda>(k, v). (k, JStr v)) ms)))"

text \<open>The values a successful run prints, as texts.\<close>

definition helper_members :: "sgx_report \<Rightarrow> c_array \<Rightarrow> sgx_pce_info \<Rightarrow> c_array \<Rightarrow> (str \<times> str) list" where
  "helper_members report ppid info platform_id =
     [(''cpu_svn'', hex_array 16 (report_cpu_svn report)), (''enc_ppid'', hex_array 384 ppid),
      (''pce_id'', hex_array 2 (u16_bytes (info_pce_id info))),
      (''pce_svn'', hex_array 2 (u16_bytes (pce_isv_svn info))), (''qe_id'', hex_array 16 platform_id)]"

lemma helper_line_flat: "helper_line report ppid info pid = flat_object (helper_members report ppid info pid) @ [CHR 0x0A]"
  by (simp add: helper_line_def print_json_output_def flat_object_def helper_members_def helper_sizes NL_def)

lemma hex_array_string: "hex_array n a = hex_string (map a [0..<n])"
  by (simp add: hex_array_def hex_string_def comp_def)

lemma hex_array_props [simp]: "length (hex_array n a) = 2 * n" "all_hex (hex_array n a)"
  by (simp_all add: hex_array_string)

lemma plain_text_all_hex: "all_hex s \<Longrightarrow> plain_text s"
  by (auto simp: plain_text_def all_hex_def as_bytes_def list_all_iff is_ascii_hexdigit_def ascii_graphic_def
      Let_def byte_of_def)

lemma helper_line_read:
  assumes "reads_flat_objects from_json"
  shows "from_json (flat_object (helper_members report ppid info pid)) =
     Some (JObj (map (\<lambda>(k, v). (k, JStr v)) (helper_members report ppid info pid)))"
proof -
  have "distinct (map fst (helper_members report ppid info pid))"
    "list_all (\<lambda>(k, v). plain_text k \<and> plain_text v) (helper_members report ppid info pid)"
    by (simp_all add: helper_members_def plain_text_all_hex)
      (auto simp: plain_text_def ascii_graphic_def byte_of_def)
  with assms show ?thesis unfolding reads_flat_objects_def by blast
qed

lemma helper_line_lossy:
  "trim (from_utf8_lossy (as_bytes (helper_line report ppid info pid)))
     = flat_object (helper_members report ppid info pid)"
proof -
  let ?s = "flat_object (helper_members report ppid info pid)"
  have b: "as_bytes ?s \<noteq> []" "ascii_graphic (hd (as_bytes ?s))" "ascii_graphic (last (as_bytes ?s))"
    by (simp_all add: flat_object_def as_bytes_Cons ascii_graphic_def)
  have "list_all (\<lambda>b. unat b < 0x80) (as_bytes (?s @ [CHR 0x0A]))"
    using all_hex_ascii [OF hex_array_props(2)]
    by (simp add: flat_object_def helper_members_def json_member_def as_bytes_Cons)
  then have "str_ok (?s @ [CHR 0x0A])" unfolding str_ok_def by (rule utf8_valid_ascii)
  moreover have "trim (?s @ [CHR 0x0A]) = ?s"
    using trim_bytes_newline [OF b] by (simp add: trim_def as_bytes_Cons byte_of_def)
  ultimately show ?thesis by (simp add: helper_line_flat from_utf8_lossy_as_bytes del: as_bytes_append)
qed

text \<open>The two outcomes of a run, and what \<open>get_platform_info\<close> of the tool makes of them.\<close>

lemma helper_main_outcome:
  assumes "runtime_ok rt"
  obtains (failed) "fst (helper_main rt) = - 1" "std_out (snd (helper_main rt)) = []"
      "std_err (snd (helper_main rt)) \<noteq> []"
  | (printed) ide pce report ppid info pid where "fst (helper_main rt) = 0"
      "attestation rt ide pce (sgx_calls (snd (helper_main rt))) report ppid info pid"
      "std_out (snd (helper_main rt)) = helper_line report ppid info pid" "std_err (snd (helper_main rt)) = []"
  using assms
proof (cases rule: helper_main_cases)
  case (both ide pce r h)
  show thesis
  proof (cases r)
    case (Inl x)
    with both(3) fails_loudly_query_enclaves [of rt ide pce] have "x = - 1" "std_out h = []" "std_err h \<noteq> []"
      by (auto simp: fails_loudly_def)
    with Inl both(4) show thesis by (intro failed) (simp_all add: log_call_def)
  next
    case (Inr u)
    with both(3) have "query_enclaves rt ide pce \<lparr>sgx_calls = [CreateEnclave ID_ENCLAVE_PATH (SGX_SUCCESS rt) (Some ide),
         CreateEnclave PCE_ENCLAVE_PATH (SGX_SUCCESS rt) (Some pce)], std_out = [], std_err = [],
         id_enclave_eid = ide, pce_enclave_eid = pce\<rparr> = (Ok u, h)" by simp
    from query_enclaves_Ok [OF this] obtain report ppid info pid where
      "attestation rt ide pce (sgx_calls h @ [DestroyEnclave pce, DestroyEnclave ide]) report ppid info pid"
      "std_out h = helper_line report ppid info pid" "std_err h = []" by auto
    with Inr both(4) show thesis by (intro printed) (simp_all add: log_call_def)
  qed
qed (use that in auto)

lemma get_platform_info_helper_failed:
  assumes "\<And>h. env_run env h bin = Ok (helper_process rt)" "fst (helper_main rt) = - 1"
  shows "get_platform_info env from_json bin w = (Err (MsgStr ''Platform info binary failed: ''
     (from_utf8_lossy (as_bytes (std_err (snd (helper_main rt)))))), log_event (RunBinary bin) w)"
  using assms
  by (simp add: get_platform_info_def bind_fx_def map_err_fx_def run_binary_def helper_process_def case_prod_beta)

lemma get_platform_info_helper:
  assumes "\<And>h. env_run env h bin = Ok (helper_process rt)" "reads_flat_objects from_json"
    "fst (helper_main rt) = 0" "std_out (snd (helper_main rt)) = helper_line report ppid info pid"
  shows "get_platform_info env from_json bin w =
     (Ok (as_bytes (hex_array 16 (report_cpu_svn report)), as_bytes (hex_array 2 (u16_bytes (info_pce_id info))),
        as_bytes (hex_array 2 (u16_bytes (pce_isv_svn info))), as_bytes (hex_array 16 pid)),
      log_event (RunBinary bin) w)"
proof -
  let ?ms = "helper_members report ppid info pid"
  have "flat_object ?ms \<noteq> []" by (simp add: flat_object_def)
  moreover have "platform_fields (JObj (map (\<lambda>(k, v). (k, JStr v)) ?ms)) =
     Ok (as_bytes (hex_array 16 (report_cpu_svn report)), as_bytes (hex_array 2 (u16_bytes (info_pce_id info))),
        as_bytes (hex_array 2 (u16_bytes (pce_isv_svn info))), as_bytes (hex_array 16 pid))"
    by (simp add: platform_fields_Ok helper_members_def)
  ultimately show ?thesis
    using assms helper_line_read [OF assms(2), of report ppid info pid]
    by (simp add: get_platform_info_def bind_fx_def map_err_fx_def run_binary_def helper_process_def
        case_prod_beta helper_line_lossy)
qed

text \<open>The document \<open>get-platforms\<close> prepares carries what the binary reported.\<close>

lemma prepare_doc_fields:
  assumes "prepare_doc env from_json client binary id_file ns dir node w = (Ok (name, doc), w')"
    and "\<And>w. get_platform_info env from_json binary w = (Ok (as_bytes cs, as_bytes pi, as_bytes ps, as_bytes qi), g w)"
  obtains manifest where "name = qi" "doc = platform_doc ns qi pi cs ps manifest node"
proof -
  obtain a b c d w1 w2 pi' cs' ps' manifest where
    "get_platform_info env from_json binary w1 = (Ok (a, b, c, d), w2)"
    "d = as_bytes name" "b = as_bytes pi'" "a = as_bytes cs'" "c = as_bytes ps'"
    "doc = platform_doc ns name pi' cs' ps' manifest node"
    using assms(1) by (auto simp: prepare_doc_def bind_fx_eq_Ok split: prod.splits)
  with assms(2) [of w1] that [of manifest] show thesis by (auto simp: as_bytes_inject)
qed

lemma create_secret_run:
  assumes "create_secret env from_json client binary id_file ns dir node w = (r, w')"
    and "ApplySecret name params doc \<in> set (new_events w w')"
  obtains w1 where "prepare_doc env from_json client binary id_file ns dir node w = (Ok (name, doc), w1)"
proof -
  obtain q w1 where p: "prepare_doc env from_json client binary id_file ns dir node w = (q, w1)"
    by fastforce
  obtain es where es: "events w1 = events w @ es" "list_all (\<lambda>e. \<not> is_write e) es"
    using keepsD [OF quiet_prepare_doc p] by (auto simp: adds_def)
  have no: "ApplySecret name params doc \<notin> set es" using es(2) by (auto simp: list_all_iff is_write_def)
  show thesis
  proof (cases q)
    case (Inl e)
    with assms(1) p have "w' = w1" by (auto simp: create_secret_split bind_fx_def)
    with es no assms(2) show thesis by (simp add: new_events_def)
  next
    case (Inr nd)
    with assms p es no have "nd = (name, doc)"
      by (cases nd) (auto simp: create_secret_split bind_fx_def apply_secret_def new_events_def)
    with p Inr that show thesis by simp
  qed
qed

text \<open>C3: From the enclaves to Intel PCS. A successful run of the helper queries the two enclaves in
  the order of the attestation protocol and prints their answers; \<open>get-platforms\<close> names the secret it writes by
  the platform ID they gave, and the request the registrar makes of that secret holds the
  hexadecimal form of their CPU SVN and (little-endian) PCE ID. A run that fails anywhere
  prints nothing on the standard output, and no secret is written.\<close>

theorem enclave_values_reach_pcs:
  assumes "runtime_ok rt" and "reads_flat_objects from_json"
    and "\<And>h. env_run env h binary = Ok (helper_process rt)"
    and "create_secret env from_json client binary id_file ns efivars_dir node w = (r, w')"
  shows "if fst (helper_main rt) = 0
    then \<exists>ide pce report ppid info pid. attestation rt ide pce (sgx_calls (snd (helper_main rt))) report ppid info pid
      \<and> (\<forall>name params doc data m. ApplySecret name params doc \<in> set (new_events w w') \<longrightarrow>
           name = hex_array 16 pid
           \<and> (string_data_stored doc data \<longrightarrow> json_member2 ''stringData'' ''platform_manifest'' doc = Some (JStr m) \<longrightarrow>
              m \<noteq> [] \<longrightarrow> prepare_registration name data = Ok \<lparr>platform_manifest = m,
                pce_id = hex_array 2 (u16_bytes (info_pce_id info)), cpu_svn = hex_array 16 (report_cpu_svn report)\<rparr>))
    else std_out (snd (helper_main rt)) = [] \<and> std_err (snd (helper_main rt)) \<noteq> []
      \<and> \<not> is_ok r \<and> list_all (\<lambda>e. \<not> is_write e) (new_events w w')"
  using assms(1)
proof (cases rule: helper_main_outcome)
  case failed
  note info = get_platform_info_helper_failed [OF assms(3) failed(1), where from_json = from_json]
  have no: "prepare_doc env from_json client binary id_file ns efivars_dir node u \<noteq> (Ok nd, v)" for u nd v
    by (auto simp: prepare_doc_def bind_fx_eq_Ok info)
  have "list_all (\<lambda>e. \<not> is_write e) (new_events w w')"
    using create_secret_run [OF assms(4)] no by (auto simp: list_all_iff is_write_def)
  moreover have "\<not> is_ok r"
    using assms(4) no by (auto simp: is_ok_iff create_secret_split bind_fx_eq_Ok)
  ultimately show ?thesis using failed by simp
next
  case (printed ide pce report ppid info pid)
  note info = get_platform_info_helper [OF assms(3,2) printed(1,3)]
  have "name = hex_array 16 pid \<and> (string_data_stored doc data \<longrightarrow>
      json_member2 ''stringData'' ''platform_manifest'' doc = Some (JStr m) \<longrightarrow>
      m \<noteq> [] \<longrightarrow> prepare_registration name data = Ok \<lparr>platform_manifest = m,
        pce_id = hex_array 2 (u16_bytes (info_pce_id info)), cpu_svn = hex_array 16 (report_cpu_svn report)\<rparr>)"
    if ev: "ApplySecret name params doc \<in> set (new_events w w')" for name params doc data m
  proof -
    obtain w1 where "prepare_doc env from_json client binary id_file ns efivars_dir node w = (Ok (name, doc), w1)"
      using create_secret_run [OF assms(4) ev] by blast
    from prepare_doc_fields [OF this info] obtain manifest where
      d: "name = hex_array 16 pid" "doc = platform_doc ns (hex_array 16 pid) (hex_array 2 (u16_bytes (info_pce_id info)))
        (hex_array 16 (report_cpu_svn report)) (hex_array 2 (u16_bytes (pce_isv_svn info))) manifest node" .
    have "prepare_registration name data = Ok \<lparr>platform_manifest = m,
        pce_id = hex_array 2 (u16_bytes (info_pce_id info)), cpu_svn = hex_array 16 (report_cpu_svn report)\<rparr>"
      if st: "string_data_stored doc data" "json_member2 ''stringData'' ''platform_manifest'' doc = Some (JStr m)" "m \<noteq> []"
    proof -
      obtain body where b: "prepare_registration name data = Ok body" "platform_manifest body = m"
        "json_member2 ''stringData'' ''pce_id'' doc = Some (JStr (pce_id body))"
        "json_member2 ''stringData'' ''cpu_svn'' doc = Some (JStr (cpu_svn body))"
        using written_data_accepted [OF assms(4) ev st(1,2)] st(3) by auto
      with d(2) show ?thesis by (cases body) (simp add: platform_doc_string_data)
    qed
    with d(1) show ?thesis by blast
  qed
  then have "\<forall>name params doc data m. ApplySecret name params doc \<in> set (new_events w w') \<longrightarrow>
      name = hex_array 16 pid \<and> (string_data_stored doc data \<longrightarrow>
      json_member2 ''stringData'' ''platform_manifest'' doc = Some (JStr m) \<longrightarrow>
      m \<noteq> [] \<longrightarrow> prepare_registration name data = Ok \<lparr>platform_manifest = m,
        pce_id = hex_array 2 (u16_bytes (info_pce_id info)), cpu_svn = hex_array 16 (report_cpu_svn report)\<rparr>)"
    by blast
  with printed(2) show ?thesis unfolding if_P [OF printed(1)] by blast
qed

text \<open>An SGX machine, and a reader for flat objects.\<close>

definition demo_sgx :: sgx_runtime where
  "demo_sgx = \<lparr>SGX_SUCCESS = 0, PCE_ALG_RSA_OAEP_3072 = 1, PCE_NIST_P256_ECDSA_SHA256 = 0,
     rt_create = (\<lambda>cs path. (0, Some (if cs = [] then 1 else 2))), rt_target_info = (\<lambda>cs e. (0, \<lambda>_. 0)),
     rt_ide_key = (\<lambda>cs e ms. (0, 0, \<lparr>report_cpu_svn = of_nat, report_rest = \<lambda>_. 0\<rparr>, \<lambda>_. 1)),
     rt_pc_info = (\<lambda>cs e ms. (0, 0, \<lparr>encrypted_ppid = \<lambda>_. 7, encrypted_ppid_out_size = 384,
       pce_info = \<lparr>pce_isv_svn = 11, info_pce_id = 0x0102\<rparr>, signature_scheme = 0\<rparr>)),
     rt_ide_id = (\<lambda>cs e. (0, 0, of_nat))\<rparr>"

lemma demo_sgx_ok: "runtime_ok demo_sgx"
  by (simp add: runtime_ok_def demo_sgx_def)

theorem helper_releases_enclaves_witness:
  "enclaves_after 0 (sgx_calls (snd (helper_main demo_sgx))) [] = Some []"
  using helper_releases_enclaves [OF demo_sgx_ok] by (simp add: demo_sgx_def)

fun read_text :: "str \<Rightarrow> (str \<times> str) option" where
  "read_text [] = None"
| "read_text (c # cs) = (if c = CHR 0x22 then Some ([], cs) else map_option (\<lambda>(s, rest). (c # s, rest)) (read_text cs))"

text \<open>One member: the quotes and the colon around two texts.\<close>

definition read_member :: "str \<Rightarrow> ((str \<times> str) \<times> str) option" where
  "read_member s = Option.bind (read_text (tl s)) (\<lambda>(k, rest).
     Option.bind (read_text (drop 2 rest)) (\<lambda>(v, rest). Some ((k, v), rest)))"

fun read_members :: "nat \<Rightarrow> str \<Rightarrow> (str \<times> str) list option" where
  "read_members 0 s = None"
| "read_members (Suc n) s = Option.bind (read_member s) (\<lambda>(kv, rest).
     if take 1 rest = '','' then map_option (\<lambda>ms. kv # ms) (read_members n (tl rest)) else Some [kv])"

definition flat_reader :: "str \<Rightarrow> json option" where
  "flat_reader s = (if s = ''{}'' then Some (JObj [])
     else map_option (\<lambda>ms. JObj (map (\<lambda>(k, v). (k, JStr v)) ms)) (read_members (length s) (tl s)))"

lemma read_text_append: "plain_text s \<Longrightarrow> read_text (s @ CHR 0x22 # rest) = Some (s, rest)"
  by (induction s) (simp_all add: plain_text_def)

lemma read_member_append:
  "plain_text k \<Longrightarrow> plain_text v \<Longrightarrow> read_member (json_member k v @ rest) = Some ((k, v), rest)"
  by (simp add: read_member_def json_member_def read_text_append)

lemma read_members_text:
  "ms \<noteq> [] \<Longrightarrow> list_all (\<lambda>(k, v). plain_text k \<and> plain_text v) ms \<Longrightarrow> length ms \<le> n
     \<Longrightarrow> read_members n (members_text ms @ ''}'') = Some ms"
proof (induction ms arbitrary: n rule: members_text.induct)
  case (2 k v)
  then show ?case by (cases n) (auto simp: read_member_append)
next
  case (3 k v m ms)
  then show ?case by (cases n) (auto simp: read_member_append)
qed simp

lemma length_members_text: "length ms \<le> length (members_text ms)"
  by (induction ms rule: members_text.induct) (auto simp: json_member_def)

lemma reads_flat_reader: "reads_flat_objects flat_reader"
  unfolding reads_flat_objects_def
proof (intro allI impI)
  fix ms assume m: "list_all (\<lambda>(k, v). plain_text k \<and> plain_text v) ms"
  show "flat_reader (flat_object ms) = Some (JObj (map (\<lambda>(k, v). (k, JStr v)) ms))"
  proof (cases "ms = []")
    case True
    then show ?thesis by (simp add: flat_reader_def flat_object_def)
  next
    case False
    then have "members_text ms \<noteq> []"
      by (cases ms rule: members_text.cases) (simp_all add: json_member_def)
    moreover have "read_members (Suc (Suc (length (members_text ms)))) (members_text ms @ ''}'') = Some ms"
      using False m length_members_text [of ms] by (intro read_members_text) simp_all
    ultimately show ?thesis by (simp add: flat_reader_def flat_object_def del: read_members.simps)
  qed
qed

lemma demo_sgx_exit: "fst (helper_main demo_sgx) = 0"
  by (simp add: helper_main_def helper_platform_info_def query_platform_def query_enclaves_def helper_start_def
      load_enclave_def helper_ops unload_enclave_def bind_fx_def Let_def demo_sgx_def REF_RSA_OAEP_3072_MOD_SIZE_def)

definition sgx_env :: env where
  "sgx_env = quiet_env\<lparr>env_run := (\<lambda>h b. Ok (helper_process demo_sgx))\<rparr>"

lemma attestation_demo:
  "attestation demo_sgx ide pce cs report ppid info pid \<Longrightarrow>
     report_cpu_svn report = of_nat \<and> info = \<lparr>pce_isv_svn = 11, info_pce_id = 0x0102\<rparr> \<and> pid = of_nat"
  by (auto simp: attestation_def Let_def demo_sgx_def)

theorem enclave_values_reach_pcs_witness:
  "\<exists>w' name doc data. create_secret sgx_env flat_reader (Ok ()) ''bin'' None ''ns'' ''/efi'' None node_host = (Ok (), w')
     \<and> ApplySecret name (apply_force FIELD_MANAGER) doc \<in> set (new_events node_host w')
     \<and> name = hex_array 16 of_nat
     \<and> prepare_registration name data = Ok \<lparr>platform_manifest = hex_string [0xab, 0xff],
         pce_id = hex_array 2 (u16_bytes 0x0102), cpu_svn = hex_array 16 of_nat\<rparr>"
proof -
  have run: "env_run sgx_env h ''bin'' = Ok (helper_process demo_sgx)" for h by (simp add: sgx_env_def)
  obtain ide pce report ppid info pid where
    a: "attestation demo_sgx ide pce (sgx_calls (snd (helper_main demo_sgx))) report ppid info pid"
    and o: "std_out (snd (helper_main demo_sgx)) = helper_line report ppid info pid"
    using demo_sgx_ok demo_sgx_exit by (cases rule: helper_main_outcome [of demo_sgx]) auto
  note info = get_platform_info_helper [OF run reads_flat_reader demo_sgx_exit o]
  obtain w1 where m: "get_platform_manifest sgx_env ''/efi'' (log_event (RunBinary ''bin'') node_host) =
     (Ok (Some (hex_string [0xab, 0xff])), w1)"
    by (simp add: get_platform_manifest_def match_fx_def bind_fx_def map_err_fx_def host_ops sgx_env_def
      quiet_env_def node_host_def Let_def log_event_def)
  have u: "from_utf8 e (as_bytes (hex_array n x)) = Ok (hex_array n x)" for n x and e :: error
    by (simp add: from_utf8_as_bytes all_hex_str_ok)
  define doc where "doc = platform_doc ''ns'' (hex_array 16 pid) (hex_array 2 (u16_bytes (info_pce_id info)))
    (hex_array 16 (report_cpu_svn report)) (hex_array 2 (u16_bytes (pce_isv_svn info))) (Some (hex_string [0xab, 0xff])) None"
  let ?e = "ApplySecret (hex_array 16 pid) (apply_force FIELD_MANAGER) doc"
  have c: "create_secret sgx_env flat_reader (Ok ()) ''bin'' None ''ns'' ''/efi'' None node_host = (Ok (), log_event ?e w1)"
    unfolding create_secret_def doc_def
    using info [of node_host] m by (simp add: bind_fx_def u apply_secret_def) (simp add: sgx_env_def quiet_env_def)
  obtain es where "events w1 = events (log_event (RunBinary ''bin'') node_host) @ es"
    using quiet_get_platform_manifest [OF m] by (auto simp: adds_def)
  then have mem: "?e \<in> set (new_events node_host (log_event ?e w1))" by (simp add: new_events_def)
  define data where "data = (\<lambda>k. case json_member2 ''stringData'' k doc of
      Some (JStr v) \<Rightarrow> Some (as_bytes v) | _ \<Rightarrow> None)"
  have st: "string_data_stored doc data" by (simp add: string_data_stored_def data_def)
  have md: "json_member2 ''stringData'' ''platform_manifest'' doc = Some (JStr (hex_string [0xab, 0xff]))"
    by (simp add: doc_def platform_doc_string_data)
  from enclave_values_reach_pcs [OF demo_sgx_ok reads_flat_reader run c, unfolded if_P [OF demo_sgx_exit]]
  obtain ide' pce' report' ppid' info' pid' where
    "attestation demo_sgx ide' pce' (sgx_calls (snd (helper_main demo_sgx))) report' ppid' info' pid'"
    "hex_array 16 pid = hex_array 16 pid'"
    "prepare_registration (hex_array 16 pid) data = Ok \<lparr>platform_manifest = hex_string [0xab, 0xff],
         pce_id = hex_array 2 (u16_bytes (info_pce_id info')), cpu_svn = hex_array 16 (report_cpu_svn report')\<rparr>"
    using mem st md by fastforce
  with attestation_demo c mem show ?thesis by fastforce
qed

end
