(* ===== verification/CacheTests.thy ===== *)
theory CacheTests
  imports CacheBlob
begin

text \<open>
  The unit tests of \<open>cache.rs\<close>, translated as predicates over the model's functions: a test is
  true when no assertion of it fails and nothing in it panics. The clock readings are
  arguments, so the lemmas show the tests to pass at any time.
\<close>

text \<open>The cursor functions of the test module; \<open>None\<close> is a panic.\<close>

definition slice :: "bytes \<Rightarrow> nat \<Rightarrow> nat \<Rightarrow> bytes option" where
  "slice data offset n = (if offset + n \<le> length data then Some (take n (drop offset data)) else None)"

definition read_u16_le :: "bytes \<Rightarrow> nat \<Rightarrow> (u16 \<times> nat) option" where
  "read_u16_le data offset = map_option (\<lambda>b. (le_decode b, offset + 2)) (slice data offset 2)"

definition read_u32_le :: "bytes \<Rightarrow> nat \<Rightarrow> (u32 \<times> nat) option" where
  "read_u32_le data offset = map_option (\<lambda>b. (le_decode b, offset + 4)) (slice data offset 4)"

definition read_u64_le :: "bytes \<Rightarrow> nat \<Rightarrow> (u64 \<times> nat) option" where
  "read_u64_le data offset = map_option (\<lambda>b. (le_decode b, offset + 8)) (slice data offset 8)"

definition read_len_prefixed_str :: "bytes \<Rightarrow> nat \<Rightarrow> (str \<times> nat) option" where
  "read_len_prefixed_str data offset =
     Option.bind (read_u32_le data offset) (\<lambda>(len, offset).
     Option.bind (slice data offset (unat len)) (\<lambda>b.
     if utf8_valid b then Some (of_bytes b, offset + unat len) else None))"

text \<open>\<open>assert_eq!\<close> on a value read at the cursor.\<close>

definition expect :: "('a \<times> nat) option \<Rightarrow> 'a \<Rightarrow> (nat \<Rightarrow> bool) \<Rightarrow> bool" where
  "expect r x k \<longleftrightarrow> (case r of None \<Rightarrow> False | Some (y, offset) \<Rightarrow> y = x \<and> k offset)"

definition test_blob_header_and_fields :: "u64 \<Rightarrow> u64 \<Rightarrow> bool" where
  "test_blob_header_and_fields before_now now =
     (let cpu_svn = ''0102030405060708090a0b0c0d0e0f10'';
          tcb_info = ''{'' @ [CHR 0x22] @ ''id'' @ [CHR 0x22] @ '':'' @ [CHR 0x22] @ ''TDX'' @ [CHR 0x22]
            @ '','' @ [CHR 0x22] @ ''version'' @ [CHR 0x22] @ '':3}'';
          cert_chain = ''-----BEGIN%20CERTIFICATE-----'';
          pck_json = ''[{'' @ [CHR 0x22] @ ''tcbm'' @ [CHR 0x22] @ '':'' @ [CHR 0x22] @ ''abc'' @ [CHR 0x22] @ ''}]''
      in case build_cache_blob (Some now) cpu_svn tcb_info cert_chain pck_json of
        Inl e \<Rightarrow> False
      | Inr (blob, expiration_time) \<Rightarrow>
          before_now + EXPIRE_HOURS * 60 * 60 \<le> expiration_time
          \<and> expect (read_u16_le blob 0) 1 (\<lambda>offset.
            expect (read_u32_le blob offset) (ucast SGX_QPL_CACHE_MULTICERTS) (\<lambda>offset.
            expect (read_u64_le blob offset) expiration_time (\<lambda>offset.
            expect (read_len_prefixed_str blob offset) cpu_svn (\<lambda>offset.
            expect (read_len_prefixed_str blob offset) tcb_info (\<lambda>offset.
            expect (read_len_prefixed_str blob offset) cert_chain (\<lambda>offset.
            expect (read_len_prefixed_str blob offset) pck_json (\<lambda>offset.
            offset = length blob))))))))"

definition test_parse_roundtrips_and_rejects :: "u64 \<Rightarrow> bool" where
  "test_parse_roundtrips_and_rejects now =
     (case build_cache_blob (Some now) ''svn'' ''tcb'' ''chain'' ''[]'' of
        Inl e \<Rightarrow> False
      | Inr (blob, expiration_time) \<Rightarrow>
          (case parse_cache_blob blob of
             Inl e \<Rightarrow> False
           | Inr parsed \<Rightarrow> blob_version parsed = CACHE_VERSION
               \<and> blob_flags parsed = ucast SGX_QPL_CACHE_MULTICERTS
               \<and> blob_expiration_time parsed = expiration_time
               \<and> (blob_cpu_svn parsed, blob_tcb_info parsed, blob_cert_chain parsed, blob_pck_certs_json parsed)
                  = (''svn'', ''tcb'', ''chain'', ''[]''))
          \<and> list_all (\<lambda>len. \<not> is_ok (parse_cache_blob (take len blob))) [0..<length blob]
          \<and> \<not> is_ok (parse_cache_blob (blob @ [0]))
          \<and> \<not> is_ok (parse_cache_blob (blob[0 := 2]))
          \<and> \<not> is_ok (parse_cache_blob (blob[2 := 0]))
          \<and> \<not> is_ok (parse_cache_blob (blob[CACHE_HEADER_LEN + 4 := 0xff])))"

subsection \<open>They pass\<close>

text \<open>The cursor functions read what the writer writes, wherever it stands.\<close>

lemma slice_append: "slice (xs @ ys @ zs) (length xs) (length ys) = Some ys"
  by (simp add: slice_def)

lemma read_ints:
  "read_u16_le (xs @ le_encode 2 v @ zs) (length xs) = Some (v, length xs + 2)"
  "read_u32_le (xs @ le_encode 4 f @ zs) (length xs) = Some (f, length xs + 4)"
  "read_u64_le (xs @ le_encode 8 t @ zs) (length xs) = Some (t, length xs + 8)"
  using slice_append [of xs "le_encode 2 v" zs] slice_append [of xs "le_encode 4 f" zs]
    slice_append [of xs "le_encode 8 t" zs]
  by (simp_all add: read_u16_le_def read_u32_le_def read_u64_le_def le_decode_encode del: le_encode.simps)

lemma read_str:
  assumes "field_ok s"
  shows "read_len_prefixed_str (xs @ field_bytes s @ zs) (length xs) = Some (s, length xs + length (field_bytes s))"
proof -
  let ?l = "le_encode 4 (word_of_nat (length s) :: u32)"
  have "slice ((xs @ ?l) @ as_bytes s @ zs) (length (xs @ ?l)) (length (as_bytes s)) = Some (as_bytes s)"
    by (rule slice_append)
  then have "slice (xs @ field_bytes s @ zs) (length xs + 4) (length s) = Some (as_bytes s)"
    by (simp add: field_bytes_def del: le_encode.simps)
  then show ?thesis
    using assms read_ints(2) [of xs "word_of_nat (length s)" "as_bytes s @ zs"]
    by (simp add: read_len_prefixed_str_def field_bytes_def field_ok_def str_ok_def unat_length_u32)
qed

lemma expect_Some [simp]: "expect (Some (x, offset)) x k \<longleftrightarrow> k offset"
  by (simp add: expect_def)

text \<open>Reading back the whole of what was written, and nothing after it.\<close>

lemma blob_reads_back:
  fixes v :: u16 and f :: u32 and t :: u64
  assumes "list_all field_ok [s1, s2, s3, s4]"
    and "blob = le_encode 2 v @ le_encode 4 f @ le_encode 8 t
      @ field_bytes s1 @ field_bytes s2 @ field_bytes s3 @ field_bytes s4"
  shows "expect (read_u16_le blob 0) v (\<lambda>offset. expect (read_u32_le blob offset) f (\<lambda>offset.
    expect (read_u64_le blob offset) t (\<lambda>offset. expect (read_len_prefixed_str blob offset) s1 (\<lambda>offset.
    expect (read_len_prefixed_str blob offset) s2 (\<lambda>offset. expect (read_len_prefixed_str blob offset) s3 (\<lambda>offset.
    expect (read_len_prefixed_str blob offset) s4 (\<lambda>offset. offset = length blob)))))))"
proof -
  let ?h = "le_encode 2 v @ le_encode 4 f @ le_encode 8 t"
  have ok: "field_ok s1" "field_ok s2" "field_ok s3" "field_ok s4" using assms(1) by simp_all
  have "read_u16_le blob 0 = Some (v, 2)" "read_u32_le blob 2 = Some (f, 6)" "read_u64_le blob 6 = Some (t, 14)"
    using read_ints(1) [of "[]" v] read_ints(2) [of "le_encode 2 v" f]
      read_ints(3) [of "le_encode 2 v @ le_encode 4 f" t]
    by (simp_all add: assms(2) del: le_encode.simps)
  moreover have "read_len_prefixed_str blob 14 = Some (s1, 14 + length (field_bytes s1))"
    "read_len_prefixed_str blob (14 + length (field_bytes s1))
      = Some (s2, 14 + length (field_bytes s1) + length (field_bytes s2))"
    "read_len_prefixed_str blob (14 + length (field_bytes s1) + length (field_bytes s2))
      = Some (s3, 14 + length (field_bytes s1) + length (field_bytes s2) + length (field_bytes s3))"
    "read_len_prefixed_str blob (14 + length (field_bytes s1) + length (field_bytes s2) + length (field_bytes s3))
      = Some (s4, length blob)"
    using read_str [OF ok(1), of ?h] read_str [OF ok(2), of "?h @ field_bytes s1"]
      read_str [OF ok(3), of "?h @ field_bytes s1 @ field_bytes s2"]
      read_str [OF ok(4), of "?h @ field_bytes s1 @ field_bytes s2 @ field_bytes s3" "[]"]
    by (simp_all add: assms(2) add.assoc del: le_encode.simps)
  ultimately show ?thesis by simp
qed

lemma field_ok_ascii: "list_all (\<lambda>c. (of_char c :: nat) < 0x80) s \<Longrightarrow> length s < 2 ^ 32 \<Longrightarrow> field_ok s"
  by (simp add: field_ok_def str_ok_ascii)

lemma build_cache_blob_run:
  assumes "list_all (\<lambda>s. length s < 2 ^ 32) [s1, s2, s3, s4]"
  shows "build_cache_blob (Some now) s1 s2 s3 s4 =
    (let t = now + EXPIRE_HOURS * 60 * 60 in
     Ok (le_encode 2 CACHE_VERSION @ le_encode 4 (ucast SGX_QPL_CACHE_MULTICERTS :: u32) @ le_encode 8 t
       @ field_bytes s1 @ field_bytes s2 @ field_bytes s3 @ field_bytes s4, t))"
  using assms
  by (simp add: build_cache_blob_def get_expiration_time_def bind_res_eq_Ok write_field_Ok Let_def
      del: le_encode.simps)

lemma header_and_fields:
  assumes "list_all field_ok [s1, s2, s3, s4]" "before_now + EXPIRE_HOURS * 60 * 60 \<le> now + EXPIRE_HOURS * 60 * 60"
  shows "case build_cache_blob (Some now) s1 s2 s3 s4 of Inl e \<Rightarrow> False | Inr (blob, t) \<Rightarrow>
    before_now + EXPIRE_HOURS * 60 * 60 \<le> t \<and>
    expect (read_u16_le blob 0) 1 (\<lambda>offset. expect (read_u32_le blob offset) (ucast SGX_QPL_CACHE_MULTICERTS) (\<lambda>offset.
    expect (read_u64_le blob offset) t (\<lambda>offset. expect (read_len_prefixed_str blob offset) s1 (\<lambda>offset.
    expect (read_len_prefixed_str blob offset) s2 (\<lambda>offset. expect (read_len_prefixed_str blob offset) s3 (\<lambda>offset.
    expect (read_len_prefixed_str blob offset) s4 (\<lambda>offset. offset = length blob)))))))"
proof -
  have one: "(1 :: u16) = CACHE_VERSION" by (simp add: CACHE_VERSION_def)
  have "list_all (\<lambda>s. length s < 2 ^ 32) [s1, s2, s3, s4]" using assms(1) by (simp add: field_ok_def)
  with blob_reads_back [OF assms(1) refl, of CACHE_VERSION "ucast SGX_QPL_CACHE_MULTICERTS"
      "now + EXPIRE_HOURS * 60 * 60"] assms(2) show ?thesis
    by (simp only: build_cache_blob_run Let_def sum.case prod.case one)
qed

lemma blob_header_and_fields_passes:
  assumes "before_now \<le> now" "unat now + 8760 * 60 * 60 < 2 ^ 64"
  shows "test_blob_header_and_fields before_now now"
  unfolding test_blob_header_and_fields_def Let_def
proof (rule header_and_fields)
  show "before_now + EXPIRE_HOURS * 60 * 60 \<le> now + EXPIRE_HOURS * 60 * 60"
    using assms by (simp add: EXPIRE_HOURS_def word_le_nat_alt unat_word_ariths)
qed (simp add: field_ok_ascii)

text \<open>What every accepted blob starts with.\<close>

lemma parsed_head:
  assumes "parse_cache_blob bs = Ok c"
  shows "take 6 bs = [1, 0, 4, 0, 0, 0]"
proof -
  have h: "le_encode 2 CACHE_VERSION = [1, 0]" "le_encode 4 (ucast SGX_QPL_CACHE_MULTICERTS :: u32) = [4, 0, 0, 0]"
    by code_simp+
  from assms have "bs = blob_bytes c" "blob_ok c" by (simp_all add: parse_cache_blob_iff)
  then show ?thesis by (simp add: blob_bytes_def blob_ok_def h del: le_encode.simps)
qed

lemma parse_bad_utf8:
  fixes t :: u64
  assumes "length b = 3" "\<not> utf8_valid b"
  shows "\<not> is_ok (parse_cache_blob (le_encode 2 CACHE_VERSION @ le_encode 4 (ucast SGX_QPL_CACHE_MULTICERTS :: u32)
    @ le_encode 8 t @ le_encode 4 (3 :: u32) @ b @ rest))"
  using assms
  by (simp add: parse_cache_blob_def read_field_def le16.dec_enc le32.dec_enc le64.dec_enc from_utf8_def
      del: le_encode.simps)

lemma parse_roundtrips_and_rejects_passes: "test_parse_roundtrips_and_rejects now"
proof -
  let ?t = "now + EXPIRE_HOURS * 60 * 60"
  let ?b = "\<lparr>blob_version = CACHE_VERSION, blob_flags = ucast SGX_QPL_CACHE_MULTICERTS, blob_expiration_time = ?t,
     blob_cpu_svn = ''svn'', blob_tcb_info = ''tcb'', blob_cert_chain = ''chain'', blob_pck_certs_json = ''[]''\<rparr>"
  let ?blob = "blob_bytes ?b"
  have build: "build_cache_blob (Some now) ''svn'' ''tcb'' ''chain'' ''[]'' = Ok (?blob, ?t)"
    by (subst build_cache_blob_run) (simp_all add: Let_def blob_bytes_def del: le_encode.simps)
  have parse: "parse_cache_blob ?blob = Ok ?b"
    by (simp add: parse_cache_blob_iff blob_ok_def field_ok_ascii)
  have len: "18 < length ?blob" by (simp add: blob_bytes_def field_bytes_def)
  have "take 6 (?blob[0 := 2]) = (take 6 ?blob)[0 := 2]" "take 6 (?blob[2 := 0]) = (take 6 ?blob)[2 := 0]"
    by (simp_all add: take_update_swap)
  then have head: "\<not> is_ok (parse_cache_blob (?blob[0 := 2]))" "\<not> is_ok (parse_cache_blob (?blob[2 := 0]))"
    using parsed_head [OF parse] by (auto simp: is_ok_iff dest: parsed_head)
  let ?rest = "field_bytes ''tcb'' @ field_bytes ''chain'' @ field_bytes ''[]''"
  have "?blob = (le_encode 2 CACHE_VERSION @ le_encode 4 (ucast SGX_QPL_CACHE_MULTICERTS :: u32) @ le_encode 8 ?t
      @ le_encode 4 (3 :: u32)) @ as_bytes ''svn'' @ ?rest"
    by (simp add: blob_bytes_def field_bytes_def [of "''svn''"] del: le_encode.simps)
  then have "?blob[18 := 0xff] = (le_encode 2 CACHE_VERSION @ le_encode 4 (ucast SGX_QPL_CACHE_MULTICERTS :: u32) @ le_encode 8 ?t
      @ le_encode 4 (3 :: u32)) @ (as_bytes ''svn'')[0 := 0xff] @ ?rest"
    by (simp add: list_update_append del: le_encode.simps)
  moreover have "\<not> utf8_valid ((as_bytes ''svn'')[0 := 0xff])"
    by (subst utf8_valid.simps) (simp add: utf8_width_def byte_in_def as_bytes_def)
  ultimately have utf8: "\<not> is_ok (parse_cache_blob (?blob[CACHE_HEADER_LEN + 4 := 0xff]))"
    using parse_bad_utf8 [of "(as_bytes ''svn'')[0 := 0xff]" ?t ?rest]
    by (simp add: CACHE_HEADER_LEN_def del: le_encode.simps)
  show ?thesis
    using parse head utf8 parse_rejects_cut_or_extended [OF parse]
    by (simp add: test_parse_roundtrips_and_rejects_def build list_all_iff)
qed

end
