(* ===== verification/PlatformDataTests.thy ===== *)
theory PlatformDataTests
  imports PlatformData
begin

text \<open>
  The unit tests of \<open>platform_data.rs\<close> as predicates over the model's functions. SHA-256 is an
  argument; the two tests that compare fingerprints pass for a digest of 32 bytes that does
  not collide on the requests they use.
\<close>

definition TEST_QE_ID :: str where "TEST_QE_ID = ''a1b2c3d4e5f6a1b2c3d4e5f6a1b2c3d4''"

definition valid_data :: secret_data where
  "valid_data = [''platform_manifest'' \<mapsto> as_bytes ''0011aabb'', ''pce_id'' \<mapsto> as_bytes ''0000'',
     ''cpu_svn'' \<mapsto> as_bytes ''0102030405060708090a0b0c0d0e0f10'', ''pce_svn'' \<mapsto> as_bytes ''0b00'',
     ''qe_id'' \<mapsto> as_bytes TEST_QE_ID]"

definition with_field :: "str \<Rightarrow> bytes \<Rightarrow> secret_data" where
  "with_field field val = valid_data(field \<mapsto> val)"

definition test_accepts_valid_platform_data :: bool where
  "test_accepts_valid_platform_data \<longleftrightarrow>
     (case prepare_registration TEST_QE_ID valid_data of
        Inl e \<Rightarrow> False
      | Inr request \<Rightarrow> platform_manifest request = ''0011aabb'' \<and> pce_id request = ''0000''
          \<and> cpu_svn request = ''0102030405060708090a0b0c0d0e0f10'')"

definition test_rejects_invalid_secret_name :: bool where
  "test_rejects_invalid_secret_name \<longleftrightarrow>
     list_all (\<lambda>name. \<not> is_ok (prepare_registration name valid_data))
       ['''', ''a1b2'', ''some-node-name'', ''../../a1b2c3d4e5f6a1b2c3d4e5f6a1b2'']"

definition test_rejects_missing_fields :: bool where
  "test_rejects_missing_fields \<longleftrightarrow>
     list_all (\<lambda>field. \<not> is_ok (prepare_registration TEST_QE_ID (valid_data(field := None))))
       [''platform_manifest'', ''pce_id'', ''cpu_svn'']"

definition repeat_str :: "str \<Rightarrow> nat \<Rightarrow> str" where
  "repeat_str s n = concat (replicate n s)"

definition test_rejects_malformed_fields :: bool where
  "test_rejects_malformed_fields \<longleftrightarrow>
     (let too_long_manifest = repeat_str ''00'' (unat (- 1 :: u16) + 1) in
      list_all (\<lambda>(field, val). \<not> is_ok (prepare_registration TEST_QE_ID (with_field field val)))
        [(''cpu_svn'', as_bytes ''0102''), (''cpu_svn'', as_bytes ''0102030405060708090a0b0c0d0e0fzz''),
         (''pce_id'', as_bytes ''00000''), (''pce_id'', as_bytes ''00'' @ [0xff, 0xfe]),
         (''platform_manifest'', []), (''platform_manifest'', as_bytes ''abc''),
         (''platform_manifest'', as_bytes (''00'' @ [CHR 0x22] @ ''},{'' @ [CHR 0x22] @ ''x'' @ [CHR 0x22] @ '':'' @ [CHR 0x22])),
         (''platform_manifest'', as_bytes ''0g''), (''platform_manifest'', as_bytes too_long_manifest)])"

definition test_accepts_maximum_size_manifest :: bool where
  "test_accepts_maximum_size_manifest \<longleftrightarrow>
     is_ok (prepare_registration TEST_QE_ID
       (with_field ''platform_manifest'' (as_bytes (repeat_str ''ab'' (unat (- 1 :: u16))))))"

definition test_fingerprint_input_sensitive :: "(bytes \<Rightarrow> bytes) \<Rightarrow> bool" where
  "test_fingerprint_input_sensitive sha256 \<longleftrightarrow>
     (case prepare_registration TEST_QE_ID valid_data of
        Inl e \<Rightarrow> False
      | Inr request \<Rightarrow>
          let fingerprint = registration_fingerprint sha256 request in
          take (length ''sha256:'') fingerprint = ''sha256:''
          \<and> length fingerprint = length ''sha256:'' + 64
          \<and> fingerprint = registration_fingerprint sha256 request
          \<and> (case prepare_registration TEST_QE_ID (with_field ''pce_svn'' (as_bytes ''0c00'')) of
               Inl e \<Rightarrow> False
             | Inr other \<Rightarrow> fingerprint = registration_fingerprint sha256 other)
          \<and> list_all (\<lambda>(field, val).
               case prepare_registration TEST_QE_ID (with_field field (as_bytes val)) of
                 Inl e \<Rightarrow> False
               | Inr changed \<Rightarrow> fingerprint \<noteq> registration_fingerprint sha256 changed)
               [(''platform_manifest'', ''0011aabc''), (''pce_id'', ''0001''),
                (''cpu_svn'', ''0102030405060708090a0b0c0d0e0f11'')])"

definition test_fingerprint_boundaries :: "(bytes \<Rightarrow> bytes) \<Rightarrow> bool" where
  "test_fingerprint_boundaries sha256 \<longleftrightarrow>
     (let a = \<lparr>platform_manifest = ''00'', pce_id = ''1111'', cpu_svn = ''22''\<rparr>;
          b = \<lparr>platform_manifest = ''0011'', pce_id = ''11'', cpu_svn = ''22''\<rparr>
      in registration_fingerprint sha256 a \<noteq> registration_fingerprint sha256 b)"

subsection \<open>They pass\<close>

definition base_request :: pck_certs_request where
  "base_request = \<lparr>platform_manifest = ''0011aabb'', pce_id = ''0000'',
     cpu_svn = ''0102030405060708090a0b0c0d0e0f10''\<rparr>"

text \<open>The requests whose fingerprints the tests compare.\<close>

definition test_requests :: "pck_certs_request list" where
  "test_requests = [base_request, base_request\<lparr>platform_manifest := ''0011aabc''\<rparr>,
     base_request\<lparr>pce_id := ''0001''\<rparr>, base_request\<lparr>cpu_svn := ''0102030405060708090a0b0c0d0e0f11''\<rparr>,
     \<lparr>platform_manifest = ''00'', pce_id = ''1111'', cpu_svn = ''22''\<rparr>,
     \<lparr>platform_manifest = ''0011'', pce_id = ''11'', cpu_svn = ''22''\<rparr>]"

lemma prepare_Some:
  assumes "data ''platform_manifest'' = Some (as_bytes m)" "data ''pce_id'' = Some (as_bytes p)"
    "data ''cpu_svn'' = Some (as_bytes c)"
  shows "request_ok \<lparr>platform_manifest = m, pce_id = p, cpu_svn = c\<rparr> \<Longrightarrow>
      prepare_registration TEST_QE_ID data = Ok \<lparr>platform_manifest = m, pce_id = p, cpu_svn = c\<rparr>"
    and "\<not> request_ok \<lparr>platform_manifest = m, pce_id = p, cpu_svn = c\<rparr> \<Longrightarrow>
      \<not> is_ok (prepare_registration TEST_QE_ID data)"
proof -
  have id: "is_fixed_len_hex 32 TEST_QE_ID" by (simp add: TEST_QE_ID_def is_fixed_len_hex_iff hex_eval)
  show "prepare_registration TEST_QE_ID data = Ok \<lparr>platform_manifest = m, pce_id = p, cpu_svn = c\<rparr>"
    if "request_ok \<lparr>platform_manifest = m, pce_id = p, cpu_svn = c\<rparr>"
    using assms id that request_ok_str_ok [OF that] by (simp add: prepare_registration_Ok from_secret_data_Ok)
  show "\<not> is_ok (prepare_registration TEST_QE_ID data)"
    if "\<not> request_ok \<lparr>platform_manifest = m, pce_id = p, cpu_svn = c\<rparr>"
  proof
    assume "is_ok (prepare_registration TEST_QE_ID data)"
    then obtain r where "from_secret_data data = Ok r" "request_ok r"
      by (auto simp: is_ok_iff prepare_registration_Ok)
    with assms have "r = \<lparr>platform_manifest = m, pce_id = p, cpu_svn = c\<rparr>"
      by (auto simp: from_secret_data_Ok)
    with \<open>request_ok r\<close> that show False by simp
  qed
qed

lemmas request_eval = request_ok_def is_fixed_len_hex_iff hex_eval

lemma repeat_str_simps [simp]:
  "length (repeat_str s n) = n * length s" "all_hex s \<Longrightarrow> all_hex (repeat_str s n)"
  by (induction n) (simp_all add: repeat_str_def)

lemma repeat_str_Nil [simp]: "repeat_str s n = [] \<longleftrightarrow> n = 0 \<or> s = []"
  by (auto simp: repeat_str_def)

lemma unat_u16_max [simp]: "unat (- 1 :: u16) = 65535"
  by (simp add: unsigned_minus_1_eq_mask mask_eq_exp_minus_1)

lemma accepts_valid_platform_data_passes: "test_accepts_valid_platform_data"
  by (simp add: test_accepts_valid_platform_data_def valid_data_def prepare_Some(1) request_eval)

lemma rejects_invalid_secret_name_passes: "test_rejects_invalid_secret_name"
  by (simp add: test_rejects_invalid_secret_name_def is_ok_iff prepare_registration_Ok request_eval)

lemma rejects_missing_fields_passes: "test_rejects_missing_fields"
  by (simp add: test_rejects_missing_fields_def is_ok_iff prepare_registration_Ok from_secret_data_Ok)

text \<open>One field of the valid data replaced.\<close>

lemma prepare_with_field:
  "is_ok (prepare_registration TEST_QE_ID (with_field ''platform_manifest'' (as_bytes m)))
     \<longleftrightarrow> request_ok (base_request\<lparr>platform_manifest := m\<rparr>)"
  "is_ok (prepare_registration TEST_QE_ID (with_field ''pce_id'' (as_bytes p)))
     \<longleftrightarrow> request_ok (base_request\<lparr>pce_id := p\<rparr>)"
  "is_ok (prepare_registration TEST_QE_ID (with_field ''cpu_svn'' (as_bytes c)))
     \<longleftrightarrow> request_ok (base_request\<lparr>cpu_svn := c\<rparr>)"
proof -
  have iff: "is_ok (prepare_registration TEST_QE_ID d) \<longleftrightarrow> request_ok \<lparr>platform_manifest = m, pce_id = p, cpu_svn = c\<rparr>"
    if "d ''platform_manifest'' = Some (as_bytes m)" "d ''pce_id'' = Some (as_bytes p)" "d ''cpu_svn'' = Some (as_bytes c)"
    for d m p c
    using prepare_Some [OF that] by (cases "request_ok \<lparr>platform_manifest = m, pce_id = p, cpu_svn = c\<rparr>") auto
  show "is_ok (prepare_registration TEST_QE_ID (with_field ''platform_manifest'' (as_bytes m)))
     \<longleftrightarrow> request_ok (base_request\<lparr>platform_manifest := m\<rparr>)"
    by (subst iff [of _ m "pce_id base_request" "cpu_svn base_request"])
      (simp_all add: with_field_def valid_data_def base_request_def)
  show "is_ok (prepare_registration TEST_QE_ID (with_field ''pce_id'' (as_bytes p)))
     \<longleftrightarrow> request_ok (base_request\<lparr>pce_id := p\<rparr>)"
    by (subst iff [of _ "platform_manifest base_request" p "cpu_svn base_request"])
      (simp_all add: with_field_def valid_data_def base_request_def)
  show "is_ok (prepare_registration TEST_QE_ID (with_field ''cpu_svn'' (as_bytes c)))
     \<longleftrightarrow> request_ok (base_request\<lparr>cpu_svn := c\<rparr>)"
    by (subst iff [of _ "platform_manifest base_request" "pce_id base_request" c])
      (simp_all add: with_field_def valid_data_def base_request_def)
qed

lemma accepts_maximum_size_manifest_passes: "test_accepts_maximum_size_manifest"
  by (simp add: test_accepts_maximum_size_manifest_def prepare_with_field base_request_def request_eval)

lemma pce_id_not_utf8:
  "\<not> is_ok (prepare_registration TEST_QE_ID (with_field ''pce_id'' (as_bytes ''00'' @ [0xff, 0xfe])))"
proof -
  have "\<not> utf8_valid (as_bytes ''00'' @ [0xff, 0xfe])"
    by (simp add: as_bytes_def byte_of_def)
      (subst utf8_valid.simps, simp add: utf8_width_def byte_in_def)
  moreover have "str_ok (pce_id r) \<and> as_bytes (pce_id r) = as_bytes ''00'' @ [0xff, 0xfe]"
    if "prepare_registration TEST_QE_ID (with_field ''pce_id'' (as_bytes ''00'' @ [0xff, 0xfe])) = Ok r" for r
    using that by (simp add: prepare_registration_Ok from_secret_data_Ok with_field_def)
  ultimately show ?thesis unfolding is_ok_iff str_ok_def by metis
qed

lemma rejects_malformed_fields_passes: "test_rejects_malformed_fields"
proof -
  have "\<not> is_ok (prepare_registration TEST_QE_ID (with_field ''platform_manifest'' []))"
    using prepare_with_field(1) [of "[]"] by (simp add: as_bytes_def base_request_def request_eval)
  then show ?thesis
    by (simp add: test_rejects_malformed_fields_def prepare_with_field pce_id_not_utf8 Let_def)
      (simp add: base_request_def request_eval)
qed

text \<open>Without a collision, requests with one fingerprint are equal.\<close>

lemma test_fingerprints_inject:
  assumes "inj_on sha256 (fingerprint_input ` set test_requests)"
    and "a \<in> set test_requests" "b \<in> set test_requests"
    and "registration_fingerprint sha256 a = registration_fingerprint sha256 b"
  shows "a = b"
proof (rule fingerprint_input_inject)
  show "fingerprint_input a = fingerprint_input b"
    using assms by (auto simp: registration_fingerprint_def dest: inj_onD)
  show "list_all (\<lambda>r. length (platform_manifest r) < 2 ^ 64 \<and> length (pce_id r) < 2 ^ 64
      \<and> length (cpu_svn r) < 2 ^ 64) [a, b]"
    using assms(2,3) by (auto simp: test_requests_def base_request_def)
qed

lemma prepare_with_field_value:
  "prepare_registration TEST_QE_ID valid_data = Ok base_request"
  "prepare_registration TEST_QE_ID (with_field ''pce_svn'' (as_bytes ''0c00'')) = Ok base_request"
  "prepare_registration TEST_QE_ID (with_field ''platform_manifest'' (as_bytes ''0011aabc''))
     = Ok (base_request\<lparr>platform_manifest := ''0011aabc''\<rparr>)"
  "prepare_registration TEST_QE_ID (with_field ''pce_id'' (as_bytes ''0001'')) = Ok (base_request\<lparr>pce_id := ''0001''\<rparr>)"
  "prepare_registration TEST_QE_ID (with_field ''cpu_svn'' (as_bytes ''0102030405060708090a0b0c0d0e0f11''))
     = Ok (base_request\<lparr>cpu_svn := ''0102030405060708090a0b0c0d0e0f11''\<rparr>)"
  by (simp_all add: prepare_Some(1) with_field_def valid_data_def base_request_def request_eval)

lemma fingerprint_input_sensitive_passes:
  assumes "\<And>bs. length (sha256 bs) = 32" "inj_on sha256 (fingerprint_input ` set test_requests)"
  shows "test_fingerprint_input_sensitive sha256"
proof -
  have "registration_fingerprint sha256 base_request \<noteq> registration_fingerprint sha256 r"
    if "r \<in> set test_requests" "r \<noteq> base_request" for r
    using test_fingerprints_inject [OF assms(2), of base_request r] that by (auto simp: test_requests_def)
  then have "list_all (\<lambda>r. registration_fingerprint sha256 base_request \<noteq> registration_fingerprint sha256 r)
      [base_request\<lparr>platform_manifest := ''0011aabc''\<rparr>, base_request\<lparr>pce_id := ''0001''\<rparr>,
       base_request\<lparr>cpu_svn := ''0102030405060708090a0b0c0d0e0f11''\<rparr>]"
    by (simp add: test_requests_def base_request_def)
  then show ?thesis
    using assms(1)
    by (simp add: test_fingerprint_input_sensitive_def prepare_with_field_value Let_def)
      (simp add: registration_fingerprint_def)
qed

lemma fingerprint_boundaries_passes:
  assumes "inj_on sha256 (fingerprint_input ` set test_requests)"
  shows "test_fingerprint_boundaries sha256"
proof -
  let ?a = "\<lparr>platform_manifest = ''00'', pce_id = ''1111'', cpu_svn = ''22''\<rparr>"
  let ?b = "\<lparr>platform_manifest = ''0011'', pce_id = ''11'', cpu_svn = ''22''\<rparr>"
  have "?a \<in> set test_requests" "?b \<in> set test_requests" by (simp_all add: test_requests_def)
  moreover have "?a \<noteq> ?b" by simp
  ultimately have "registration_fingerprint sha256 ?a \<noteq> registration_fingerprint sha256 ?b"
    using test_fingerprints_inject [OF assms] by blast
  then show ?thesis by (simp add: test_fingerprint_boundaries_def Let_def)
qed

end
