(* ===== verification/PcsTests.thy ===== *)
theory PcsTests
  imports PckVerify
begin

text \<open>
  The unit tests of \<open>pcs_client.rs\<close> as predicates over the model's functions, and the
  deserialisers serde derives for its types. The texts the JSON tests parse appear as the
  values the parser gives; the genuine PCS responses of the test data and the certificate
  primitives are arguments, so the tests on them are related to each other. For
  the tests that tamper with signed data the signature primitive is ideal: it verifies the
  recorded signature of the recorded bytes under the recorded key, and nothing else.
\<close>

subsection \<open>Derived deserialisers\<close>

text \<open>A struct is read from an object, where a field may occur once, or from an array that has
  the fields in order; a field with \<open>default\<close> may be missing, unknown members are ignored.\<close>

definition once :: "str \<Rightarrow> (str \<times> json) list \<Rightarrow> bool" where
  "once k ms \<longleftrightarrow> length (filter (\<lambda>m. fst m = k) ms) \<le> 1"

fun json_u32 :: "json \<Rightarrow> u32 option" where
  "json_u32 (JNum n) = (if 0 \<le> n \<and> n < 2 ^ 32 then Some (word_of_int n) else None)"
| "json_u32 _ = None"

definition or_default :: "'a \<Rightarrow> (json \<Rightarrow> 'a option) \<Rightarrow> json option \<Rightarrow> 'a option" where
  "or_default d f v = (case v of None \<Rightarrow> Some d | Some j \<Rightarrow> f j)"

definition make_tcb_info :: "json option \<Rightarrow> json option \<Rightarrow> tcb_info option" where
  "make_tcb_info ty fm =
     Option.bind (or_default 0 json_u32 ty) (\<lambda>t. Option.bind (or_default '''' json_as_str fm) (\<lambda>f.
     Some \<lparr>info_tcb_type = t, info_fmspc = f\<rparr>))"

fun tcb_info_of_json :: "json \<Rightarrow> tcb_info option" where
  "tcb_info_of_json (JObj ms) =
     (if once ''tcbType'' ms \<and> once ''fmspc'' ms
      then make_tcb_info (json_get ''tcbType'' (JObj ms)) (json_get ''fmspc'' (JObj ms)) else None)"
| "tcb_info_of_json (JArr []) = make_tcb_info None None"
| "tcb_info_of_json (JArr [a]) = make_tcb_info (Some a) None"
| "tcb_info_of_json (JArr [a, b]) = make_tcb_info (Some a) (Some b)"
| "tcb_info_of_json _ = None"

fun tcb_document_of_json :: "json \<Rightarrow> tcb_info option" where
  "tcb_document_of_json (JObj ms) =
     (if once ''tcbInfo'' ms then Option.bind (json_get ''tcbInfo'' (JObj ms)) tcb_info_of_json else None)"
| "tcb_document_of_json (JArr [a]) = tcb_info_of_json a"
| "tcb_document_of_json _ = None"

definition make_pck_entry :: "json \<Rightarrow> json \<Rightarrow> json \<Rightarrow> pck_cert_entry option" where
  "make_pck_entry t m c =
     Option.bind (json_as_str m) (\<lambda>m. Option.bind (json_as_str c) (\<lambda>c.
     Some \<lparr>entry_tcb = t, entry_tcbm = m, entry_cert = c\<rparr>))"

fun pck_entry_of_json :: "json \<Rightarrow> pck_cert_entry option" where
  "pck_entry_of_json (JObj ms) =
     (if once ''tcb'' ms \<and> once ''tcbm'' ms \<and> once ''cert'' ms
      then Option.bind (json_get ''tcb'' (JObj ms)) (\<lambda>t. Option.bind (json_get ''tcbm'' (JObj ms)) (\<lambda>m.
        Option.bind (json_get ''cert'' (JObj ms)) (make_pck_entry t m))) else None)"
| "pck_entry_of_json (JArr [t, m, c]) = make_pck_entry t m c"
| "pck_entry_of_json _ = None"

fun collect_some :: "'a option list \<Rightarrow> 'a list option" where
  "collect_some [] = Some []"
| "collect_some (x # xs) = Option.bind x (\<lambda>y. map_option ((#) y) (collect_some xs))"

fun pck_entries_of_json :: "json \<Rightarrow> pck_cert_entry list option" where
  "pck_entries_of_json (JArr xs) = collect_some (map pck_entry_of_json xs)"
| "pck_entries_of_json _ = None"

subsection \<open>The tests\<close>

definition test_pcs_pause :: "instant \<Rightarrow> bool" where
  "test_pcs_pause now =
     (let p0 = pause_default;
          p1 = pause p0 now (from_secs 30);
          p2 = pause p1 now (from_secs 10);
          p3 = pause p2 now (from_secs 60)
      in remaining p0 now = None
         \<and> remaining p1 now = Some (from_secs 30)
         \<and> remaining p1 (now + from_secs 30) = None
         \<and> remaining p2 now = Some (from_secs 30)
         \<and> remaining p3 now = Some (from_secs 60))"

definition test_retry_after_parsing :: bool where
  "test_retry_after_parsing \<longleftrightarrow>
     parse_retry_after (Some ''30'') = from_secs 30
     \<and> parse_retry_after (Some '' 0 '') = 0
     \<and> parse_retry_after None = DEFAULT_RATE_LIMIT_RETRY_AFTER
     \<and> parse_retry_after (Some ''Wed, 21 Oct 2026 07:28:00 GMT'') = DEFAULT_RATE_LIMIT_RETRY_AFTER
     \<and> parse_retry_after (Some ''-5'') = DEFAULT_RATE_LIMIT_RETRY_AFTER
     \<and> parse_retry_after (Some ''99999999999'') = MAX_RATE_LIMIT_RETRY_AFTER"

definition test_rate_limited_error_is_downcastable :: bool where
  "test_rate_limited_error_is_downcastable \<longleftrightarrow>
     (let err = Context ''Failed to fetch PCK certificates'' (RateLimited \<lparr>retry_after = from_secs 5\<rparr>)
      in map_option retry_after (downcast_rate_limited err) = Some (from_secs 5))"

definition test_fmspc_validation :: bool where
  "test_fmspc_validation \<longleftrightarrow>
     is_ok (validate_fmspc ''00906ED50000'') \<and> is_ok (validate_fmspc ''00906ed50000'')
     \<and> list_all (\<lambda>bad. \<not> is_ok (validate_fmspc bad))
         ['''', ''00906ED5000'', ''00906ED500000'', ''00906ED5000G'', ''00906ED5&x=1'']"

text \<open>The parser gives the values below for the six texts (none for the empty one).\<close>

definition test_validate_tcb_info :: "('c, 's, 'd) crates \<Rightarrow> (json option \<Rightarrow> str) \<Rightarrow> bool" where
  "test_validate_tcb_info C text \<longleftrightarrow>
     is_ok (validate_tcb_info C (text (Some (JObj [(''tcbInfo'', JObj [(''version'', JNum 3), (''tcbType'', JNum 0)])]))))
     \<and> is_ok (validate_tcb_info C (text (Some (JObj [(''tcbInfo'', JObj [(''version'', JNum 3)])]))))
     \<and> \<not> is_ok (validate_tcb_info C (text (Some (JObj [(''tcbInfo'', JObj [(''tcbType'', JNum 1)])]))))
     \<and> \<not> is_ok (validate_tcb_info C (text (Some (JObj [(''tcbInfo'', JObj [(''tcbType'', JNum (- 1))])]))))
     \<and> \<not> is_ok (validate_tcb_info C (text (Some (JObj [(''version'', JNum 3)]))))
     \<and> \<not> is_ok (validate_tcb_info C (text None))"

definition test_tcb_info_validation_success :: bool where
  "test_tcb_info_validation_success \<longleftrightarrow>
     map_option info_tcb_type (tcb_document_of_json (JObj [(''tcbInfo'', JObj
       [(''version'', JNum 3), (''issueDate'', JStr ''2024-01-01T00:00:00Z''),
        (''nextUpdate'', JStr ''2024-02-01T00:00:00Z''), (''fmspc'', JStr ''00906ED50000''),
        (''pceId'', JStr ''0000''), (''tcbType'', JNum 0), (''tcbEvaluationDataNumber'', JNum 12)])])) = Some 0"

definition test_tcb_info_validation_invalid_type :: bool where
  "test_tcb_info_validation_invalid_type \<longleftrightarrow>
     map_option info_tcb_type (tcb_document_of_json (JObj [(''tcbInfo'', JObj
       [(''version'', JNum 3), (''tcbType'', JNum 1)])])) = Some 1"

definition test_tcb_info_missing_type :: bool where
  "test_tcb_info_missing_type \<longleftrightarrow>
     map_option info_tcb_type (tcb_document_of_json (JObj [(''tcbInfo'', JObj [(''version'', JNum 3)])])) = Some 0"

definition test_entry :: "str \<Rightarrow> str \<Rightarrow> json" where
  "test_entry tcbm cert = JObj [(''tcb'', JObj [(''sgxtcbcomponents'', JArr [])]),
     (''tcbm'', JStr tcbm), (''cert'', JStr cert)]"

definition test_pck_cert_filtering :: bool where
  "test_pck_cert_filtering \<longleftrightarrow>
     (let nl = [CHR 0x0A];
          pem = (\<lambda>body. ''-----BEGIN CERTIFICATE-----'' @ nl @ body @ nl @ ''-----END CERTIFICATE-----'')
      in case pck_entries_of_json (JArr [test_entry ''0000'' (pem ''MIICert1''),
          test_entry ''0001'' ''Not available'', test_entry ''0002'' (pem ''MIICert2'')]) of
           None \<Rightarrow> False
         | Some certs \<Rightarrow> length certs = 3
             \<and> length (filter (\<lambda>c. entry_cert c \<noteq> ''Not available'') certs) = 2)"

definition test_decode_hex :: bool where
  "test_decode_hex \<longleftrightarrow>
     decode_hex 2 ''0aFf'' = Ok [0x0a, 0xff]
     \<and> list_all (\<lambda>bad. \<not> is_ok (decode_hex 2 bad))
         [''0aF'', ''0aFf0'', ''0aFg'', ''+aFf'', ''0a'' @ of_bytes [0xC3, 0xA9]]"

text \<open>The test data: a signed TCB Info, its issuer chain, a PCK issuer chain.\<close>

record pcs_fixture =
  REAL_TCB_INFO :: str
  REAL_TCB_CHAIN :: str
  REAL_PCK_CHAIN :: str

definition REAL_FMSPC :: str where "REAL_FMSPC = ''00906ED50000''"

definition to_lowercase :: "str \<Rightarrow> str" where
  "to_lowercase s = of_bytes (map to_ascii_lower (as_bytes s))"

definition test_real_pcs_response :: "('c, 's, 'd) crates \<Rightarrow> pcs_fixture \<Rightarrow> bool" where
  "test_real_pcs_response C x \<longleftrightarrow>
     is_ok (verify_tcb_info C (REAL_TCB_INFO x) (REAL_TCB_CHAIN x) (REAL_PCK_CHAIN x) REAL_FMSPC)
     \<and> is_ok (verify_tcb_info C (REAL_TCB_INFO x) (REAL_TCB_CHAIN x) (REAL_PCK_CHAIN x) (to_lowercase REAL_FMSPC))"

definition test_rejects_fmspc_mismatch :: "('c, 's, 'd) crates \<Rightarrow> pcs_fixture \<Rightarrow> bool" where
  "test_rejects_fmspc_mismatch C x \<longleftrightarrow>
     \<not> is_ok (verify_tcb_info C (REAL_TCB_INFO x) (REAL_TCB_CHAIN x) (REAL_PCK_CHAIN x) ''00606A000000'')"

text \<open>\<open>root_only\<close> is the encoded chain cut down to its last certificate.\<close>

definition test_rejects_invalid_chains :: "('c, 's, 'd) crates \<Rightarrow> pcs_fixture \<Rightarrow> str \<Rightarrow> bool" where
  "test_rejects_invalid_chains C x root_only \<longleftrightarrow>
     \<not> is_ok (verify_tcb_info C (REAL_TCB_INFO x) root_only (REAL_PCK_CHAIN x) REAL_FMSPC)
     \<and> \<not> is_ok (verify_tcb_info C (REAL_TCB_INFO x) '''' (REAL_PCK_CHAIN x) REAL_FMSPC)
     \<and> \<not> is_ok (verify_tcb_info C (REAL_TCB_INFO x) (REAL_TCB_CHAIN x) '''' REAL_FMSPC)"

text \<open>\<open>str::find\<close>, and \<open>str::replacen\<close> with the count 1.\<close>

fun find_str :: "str \<Rightarrow> str \<Rightarrow> nat option" where
  "find_str pat s = (if take (length pat) s = pat then Some 0
     else case s of [] \<Rightarrow> None | c # cs \<Rightarrow> map_option Suc (find_str pat cs))"

declare find_str.simps [simp del]

definition replace_first :: "str \<Rightarrow> str \<Rightarrow> str \<Rightarrow> str" where
  "replace_first pat new s = (case find_str pat s of
     None \<Rightarrow> s | Some i \<Rightarrow> take i s @ new @ drop (i + length pat) s)"

definition in_quotes :: "str \<Rightarrow> str" where
  "in_quotes s = [CHR 0x22] @ s @ [CHR 0x22]"

definition tampered_bodies :: "str \<Rightarrow> str list" where
  "tampered_bodies text =
     [replace_first (in_quotes ''tcbType'' @ '':0'') (in_quotes ''tcbType'' @ '':0 '') text,
      replace_first (in_quotes ''OutOfDate'') (in_quotes ''UpToDate'') text]"

definition test_rejects_tampered_body :: "('c, 's, 'd) crates \<Rightarrow> pcs_fixture \<Rightarrow> bool" where
  "test_rejects_tampered_body C x \<longleftrightarrow>
     list_all (\<lambda>tampered. tampered \<noteq> REAL_TCB_INFO x
       \<and> \<not> is_ok (verify_tcb_info C tampered (REAL_TCB_CHAIN x) (REAL_PCK_CHAIN x) REAL_FMSPC))
       (tampered_bodies (REAL_TCB_INFO x))"

text \<open>The first digit of the signature flipped, and the signature under another name; the test panics
  (here: fails) when the text has no signature.\<close>

definition flipped_signature :: "str \<Rightarrow> str option" where
  "flipped_signature text =
     (let pat = in_quotes ''signature'' @ '':'' @ [CHR 0x22] in
      map_option (\<lambda>i. let idx = i + length pat in
          take idx text @ (if take 1 (drop idx text) = ''0'' then ''1'' else ''0'') @ drop (Suc idx) text)
        (find_str pat text))"

definition unsigned_text :: "str \<Rightarrow> str" where
  "unsigned_text text = replace_first (in_quotes ''signature'' @ '':'') (in_quotes ''sig'' @ '':'') text"

definition test_rejects_tampered_signature :: "('c, 's, 'd) crates \<Rightarrow> pcs_fixture \<Rightarrow> bool" where
  "test_rejects_tampered_signature C x \<longleftrightarrow>
     (case flipped_signature (REAL_TCB_INFO x) of None \<Rightarrow> False
      | Some tampered \<Rightarrow> \<not> is_ok (verify_tcb_info C tampered (REAL_TCB_CHAIN x) (REAL_PCK_CHAIN x) REAL_FMSPC))
     \<and> \<not> is_ok (verify_tcb_info C (unsigned_text (REAL_TCB_INFO x)) (REAL_TCB_CHAIN x) (REAL_PCK_CHAIN x) REAL_FMSPC)"

definition test_rejects_wrong_signer :: "('c, 's, 'd) crates \<Rightarrow> pcs_fixture \<Rightarrow> bool" where
  "test_rejects_wrong_signer C x \<longleftrightarrow>
     \<not> is_ok (verify_tcb_info C (REAL_TCB_INFO x) (REAL_PCK_CHAIN x) (REAL_PCK_CHAIN x) REAL_FMSPC)"

subsection \<open>They pass\<close>

lemma pcs_pause_passes: "test_pcs_pause now"
  by (simp add: test_pcs_pause_def pause_def remaining_def pause_default_def from_secs_def Let_def)

lemma rate_limited_error_is_downcastable_passes: "test_rate_limited_error_is_downcastable"
  by (simp add: test_rate_limited_error_is_downcastable_def Let_def)

lemma fmspc_validation_passes: "test_fmspc_validation"
  by (simp add: test_fmspc_validation_def validate_fmspc_def is_fixed_len_hex_iff FMSPC_HEX_LEN_def hex_eval is_ok_def)

lemma tcb_info_documents_pass:
  "test_tcb_info_validation_success" "test_tcb_info_validation_invalid_type" "test_tcb_info_missing_type"
  by (simp_all add: test_tcb_info_validation_success_def test_tcb_info_validation_invalid_type_def
      test_tcb_info_missing_type_def once_def make_tcb_info_def or_default_def)

lemma pck_cert_filtering_passes: "test_pck_cert_filtering"
  by (simp add: test_pck_cert_filtering_def test_entry_def once_def make_pck_entry_def Let_def)

lemma validate_tcb_info_passes:
  assumes "\<And>j. de_tcb_document C (text (Some j)) = tcb_document_of_json j" "de_tcb_document C (text None) = None"
  shows "test_validate_tcb_info C text"
  using assms
  by (simp add: test_validate_tcb_info_def validate_tcb_info_def once_def make_tcb_info_def or_default_def)

lemma decode_hex_passes: "test_decode_hex"
proof -
  have "u8_from_hex (as_bytes ''0a'') = Some 0x0a" "u8_from_hex (as_bytes ''Ff'') = Some 0xff"
    by (simp_all add: as_bytes_def byte_of_def u8_from_hex_def from_str_radix_def strip_plus_def hex_value_def)
  moreover have "take 2 (drop (2 * 0) (as_bytes ''0aFf'')) = as_bytes ''0a''"
    "take 2 (drop (2 * 1) (as_bytes ''0aFf'')) = as_bytes ''Ff''"
    by (simp_all add: as_bytes_def)
  moreover have "[0..<2] = [0, 1 :: nat]" by (simp add: upt_rec)
  ultimately have "decode_hex 2 ''0aFf'' = Ok [0x0a, 0xff]"
    by (simp add: decode_hex_def as_bytes_def byte_of_def hex_eval)
  moreover have "length s \<noteq> 4 \<or> \<not> list_all is_ascii_hexdigit (as_bytes s) \<Longrightarrow> \<not> is_ok (decode_hex 2 s)" for s
    by (auto simp: decode_hex_def is_ok_def)
  moreover have "\<not> list_all is_ascii_hexdigit (as_bytes (''0a'' @ of_bytes [0xC3, 0xA9]))"
    unfolding as_bytes_append as_bytes_of_bytes by (simp add: hex_eval)
  ultimately show ?thesis
    unfolding test_decode_hex_def list.pred_inject by (simp add: as_bytes_def byte_of_def hex_eval)
qed

lemma from_str_radix_eval:
  "bs \<noteq> [] \<Longrightarrow> hd bs \<noteq> 43 \<Longrightarrow> from_str_radix r dig limit bs =
     (case digits_value r dig 0 bs of None \<Rightarrow> None | Some n \<Rightarrow> if n < limit then Some n else None)"
  by (cases bs) (auto simp: from_str_radix_def strip_plus_def split: list.split)

lemma retry_after_parsing_passes: "test_retry_after_parsing"
proof -
  have t: "trim s = s" if "s \<noteq> ''''" "ascii_graphic (byte_of (hd s))" "ascii_graphic (byte_of (last s))" for s
    using that hd_map [of s byte_of] last_map [of s byte_of] trim_bytes_graphic [of "as_bytes s"]
    by (simp add: trim_def as_bytes_def [symmetric])
  have g: "trim ''30'' = ''30''" "trim ''-5'' = ''-5''" "trim ''99999999999'' = ''99999999999''"
    "trim ''Wed, 21 Oct 2026 07:28:00 GMT'' = ''Wed, 21 Oct 2026 07:28:00 GMT''"
    by (simp_all add: t ascii_graphic_def)
  have sp: "trim '' 0 '' = ''0''"
    unfolding trim_def trim_bytes_def by code_simp
  show ?thesis
    unfolding test_retry_after_parsing_def parse_retry_after_def parse_u64_def
    by (simp add: g sp from_str_radix_eval as_bytes_def byte_of_def dec_value_def unat_of_nat
        DEFAULT_RATE_LIMIT_RETRY_AFTER_def MAX_RATE_LIMIT_RETRY_AFTER_def from_secs_def)
qed

text \<open>What follows from accepting the genuine response: another FMSPC is refused.\<close>

lemma real_response_rejects_mismatch:
  assumes "test_real_pcs_response C x"
  shows "test_rejects_fmspc_mismatch C x"
proof (rule ccontr)
  assume "\<not> test_rejects_fmspc_mismatch C x"
  then obtain raw sg info where 1: "de_signed_tcb_info C (REAL_TCB_INFO x) = Some (raw, sg)"
    "de_tcb_info C raw = Some info" "eq_ignore_ascii_case (info_fmspc info) ''00606A000000''"
    by (auto simp: test_rejects_fmspc_mismatch_def is_ok_iff verify_tcb_info_Ok verify_tcb_info_signature_Ok)
  from assms obtain raw' sg' info' where 2: "de_signed_tcb_info C (REAL_TCB_INFO x) = Some (raw', sg')"
    "de_tcb_info C raw' = Some info'" "eq_ignore_ascii_case (info_fmspc info') ''00906ED50000''"
    by (auto simp: test_real_pcs_response_def is_ok_iff verify_tcb_info_Ok verify_tcb_info_signature_Ok REAL_FMSPC_def)
  from 1 2 have "eq_ignore_ascii_case ''00606A000000'' ''00906ED50000''"
    by (simp add: eq_ignore_ascii_case_def)
  then show False by (simp add: eq_ignore_ascii_case_def as_bytes_def byte_of_def to_ascii_lower_def)
qed

lemma chain_needs_two:
  assumes "url_decode C chain = Some t" "length (pem_blocks C t) \<noteq> 2"
  shows "decode_and_validate_issuer_chain C chain \<noteq> Ok p"
  using assms by (cases p) (auto simp: issuer_chain_Ok)

lemma invalid_chains_rejected:
  assumes "url_decode C '''' = Some ''''" "pem_blocks C '''' = []"
    and "url_decode C root_only = Some t" "length (pem_blocks C t) = 1"
  shows "test_rejects_invalid_chains C x root_only"
  using chain_needs_two [OF assms(1)] chain_needs_two [OF assms(3)] assms(2,4)
  by (auto simp: test_rejects_invalid_chains_def is_ok_iff verify_tcb_info_Ok)

text \<open>An ideal signature: only the recorded bytes, signature and key verify.\<close>

definition only_verifies :: "('c, 's, 'd) crates \<Rightarrow> bytes \<Rightarrow> str \<Rightarrow> bytes \<Rightarrow> bool" where
  "only_verifies C key raw sig \<longleftrightarrow> (\<forall>k m s. ecdsa_p256_verify C k m s \<longrightarrow> k = key \<and> m = as_bytes raw \<and> s = sig)"

text \<open>The text carries other bytes, or another signature, or none.\<close>

definition carries_other :: "('c, 's, 'd) crates \<Rightarrow> str \<Rightarrow> bytes \<Rightarrow> str \<Rightarrow> bool" where
  "carries_other C raw sig text \<longleftrightarrow>
     (\<forall>r s. de_signed_tcb_info C text = Some (r, s) \<longrightarrow> r \<noteq> raw \<or> decode_hex 64 s \<noteq> Ok sig)"

lemma tampered_rejected:
  assumes "only_verifies C key raw sig" "carries_other C raw sig text"
  shows "\<not> is_ok (verify_tcb_info C text chain pck fm)"
  using assms
  by (fastforce simp: is_ok_iff verify_tcb_info_Ok verify_tcb_info_signature_Ok only_verifies_def carries_other_def
      as_bytes_inject)

lemma tampered_tests_pass:
  assumes "only_verifies C key raw sig"
    and "de_signed_tcb_info C (REAL_TCB_INFO x) = Some (raw, sg)" "decode_hex 64 sg = Ok sig"
    and "list_all (carries_other C raw sig) (tampered_bodies (REAL_TCB_INFO x))"
    and "flipped_signature (REAL_TCB_INFO x) = Some flipped" "carries_other C raw sig flipped"
    and "carries_other C raw sig (unsigned_text (REAL_TCB_INFO x))"
  shows "test_rejects_tampered_body C x" "test_rejects_tampered_signature C x"
proof -
  have "\<not> carries_other C raw sig (REAL_TCB_INFO x)"
    using assms(2,3) by (simp add: carries_other_def)
  with assms(4) tampered_rejected [OF assms(1)] show "test_rejects_tampered_body C x"
    by (auto simp: test_rejects_tampered_body_def list_all_iff)
  show "test_rejects_tampered_signature C x"
    using assms(5-7) tampered_rejected [OF assms(1)] by (simp add: test_rejects_tampered_signature_def)
qed

lemma wrong_signer_rejected:
  assumes "only_verifies C key raw sig"
    and "\<And>root der cert. decode_and_validate_issuer_chain C (REAL_PCK_CHAIN x) = Ok (root, der) \<Longrightarrow>
       parse_x509_certificate C der = Some cert \<Longrightarrow> public_key_data C (subject_pki C cert) \<noteq> key"
  shows "test_rejects_wrong_signer C x"
  using assms
  by (fastforce simp: test_rejects_wrong_signer_def is_ok_iff verify_tcb_info_Ok verify_tcb_info_signature_Ok only_verifies_def)

end
