(* ===== verification/HostTests.thy ===== *)
theory HostTests
  imports Platforms IdFile
begin

text \<open>
  The unit tests of \<open>main.rs\<close> as predicates over the model's functions. A test's temporary
  directory is a path and a state of the file store, both arguments; \<open>fs::write\<close> is an update
  of the store. The environment is one in which no file operation fails.
\<close>

definition SAMPLE_ID :: str where "SAMPLE_ID = ''a1b2c3d4e5f6a1b2c3d4e5f6a1b2c3d4''"

definition put_file :: "str \<Rightarrow> bytes \<Rightarrow> host \<Rightarrow> host" where
  "put_file path content w = w\<lparr>files := (files w)(path \<mapsto> content)\<rparr>"

definition test_id_file_roundtrip :: "env \<Rightarrow> str \<Rightarrow> host \<Rightarrow> bool" where
  "test_id_file_roundtrip env dir w =
     (let file = path_join dir ''id'' in
      case write_id_file env file SAMPLE_ID w of
        (Inl e, _) \<Rightarrow> False
      | (Inr _, w1) \<Rightarrow> fst (get_id_from_file env file w1) = Ok SAMPLE_ID)"

definition test_id_file_trims_whitespace :: "env \<Rightarrow> str \<Rightarrow> host \<Rightarrow> bool" where
  "test_id_file_trims_whitespace env dir w =
     (let file = path_join dir ''id'';
          w1 = put_file file (as_bytes (''  '' @ SAMPLE_ID @ [CHR 0x0A])) w
      in fst (get_id_from_file env file w1) = Ok SAMPLE_ID)"

definition test_id_file_invalid_content_errors :: "env \<Rightarrow> str \<Rightarrow> host \<Rightarrow> bool" where
  "test_id_file_invalid_content_errors env dir w =
     list_all (\<lambda>(c, content). let file = path_join dir c in
         \<not> is_ok (fst (get_id_from_file env file (put_file file (as_bytes content) w))))
       [(''empty'', ''   '' @ [CHR 0x0A]), (''wrong_length'', ''a1b2c3d4e5f6''),
        (''non_hex'', ''g1b2c3d4e5f6a1b2c3d4e5f6a1b2c3d4'')]"

definition test_id_file_missing_errors :: "env \<Rightarrow> str \<Rightarrow> host \<Rightarrow> bool" where
  "test_id_file_missing_errors env temp_dir w =
     (\<not> is_ok (fst (get_id_from_file env
        (path_join temp_dir ''pck-cert-tool-test-nonexistent-id-file'') w)))"

definition write_efi_var :: "str \<Rightarrow> bytes \<Rightarrow> host \<Rightarrow> host" where
  "write_efi_var dir content w = put_file (path_join dir SGX_PLATFORM_MANIFEST_EFI_VAR) content w"

definition efi_var :: "u16 \<Rightarrow> bytes \<Rightarrow> bytes" where
  "efi_var declared_size data = [0x07, 0, 0, 0, 0x01, 0] @ le_encode 2 declared_size @ data"

definition test_platform_manifest_valid :: "env \<Rightarrow> str \<Rightarrow> host \<Rightarrow> bool" where
  "test_platform_manifest_valid env dir w =
     (fst (get_platform_manifest env dir (write_efi_var dir (efi_var 3 [0x00, 0xab, 0xff]) w))
      = Ok (Some ''00abff''))"

definition test_platform_manifest_max_size :: "env \<Rightarrow> str \<Rightarrow> host \<Rightarrow> bool" where
  "test_platform_manifest_max_size env dir w =
     (case fst (get_platform_manifest env dir
         (write_efi_var dir (efi_var (- 1) (replicate (unat (- 1 :: u16)) 0x5a)) w)) of
        Inr (Some manifest) \<Rightarrow> length manifest = 2 * unat (- 1 :: u16)
      | _ \<Rightarrow> False)"

definition test_platform_manifest_missing_is_none :: "env \<Rightarrow> str \<Rightarrow> host \<Rightarrow> bool" where
  "test_platform_manifest_missing_is_none env dir w = (fst (get_platform_manifest env dir w) = Ok None)"

definition test_platform_manifest_malformed_errors :: "env \<Rightarrow> str \<Rightarrow> host \<Rightarrow> bool" where
  "test_platform_manifest_malformed_errors env dir w =
     list_all (\<lambda>(c, content). let case_dir = path_join dir c in
         \<not> is_ok (fst (get_platform_manifest env case_dir (write_efi_var case_dir content w))))
       [(''empty'', []), (''short_header'', [0x07, 0, 0, 0, 0x01, 0, 0x03]),
        (''size_larger_than_data'', efi_var 4 [0x00, 0xab, 0xff]),
        (''size_smaller_than_data'', efi_var 2 [0x00, 0xab, 0xff]),
        (''size_zero_with_data'', efi_var 0 [0x00]),
        (''data_beyond_max_size'', efi_var (- 1) (replicate (unat (- 1 :: u16) + 1) 0x5a))]"

definition test_copy_fixed_hex_field :: bool where
  "test_copy_fixed_hex_field \<longleftrightarrow>
     copy_fixed_hex_field 8 ''deadbeef'' ''test_field'' = Ok (as_bytes ''deadbeef'')
     \<and> list_all (\<lambda>bad. \<not> is_ok (copy_fixed_hex_field 8 bad ''test_field''))
         [''dead'', ''deadbeefcafe'', ''deadbeeg'', ''../../etc'']"

definition test_resolve_id_from_file :: "env \<Rightarrow> str \<Rightarrow> host \<Rightarrow> bool" where
  "test_resolve_id_from_file env dir w =
     (let file = path_join dir ''id'' in
      case write_id_file env file SAMPLE_ID w of
        (Inl e, _) \<Rightarrow> False
      | (Inr _, w1) \<Rightarrow> fst (resolve_id env (Some file) None w1) = Ok (SAMPLE_ID, SAMPLE_ID))"

definition test_resolve_id_literal :: "env \<Rightarrow> host \<Rightarrow> bool" where
  "test_resolve_id_literal env w =
     (fst (resolve_id env None (Some ''some-node-name'') w) = Ok (''some-node-name'', ZERO_ID)
      \<and> \<not> is_ok (fst (resolve_id env None (Some ''   '') w))
      \<and> \<not> is_ok (fst (resolve_id env None None w)))"

definition test_validate_label_value :: bool where
  "test_validate_label_value \<longleftrightarrow>
     list_all (\<lambda>ok. is_ok (validate_label_value ok))
       [''node-1'', ''a'', ''worker.example.com'', replicate 63 CHR ''a'']
     \<and> list_all (\<lambda>bad. \<not> is_ok (validate_label_value bad))
       ['''', ''-node'', ''node-'', ''node/1'', ''n'' @ of_bytes [0xC3, 0xB6] @ ''de'', replicate 64 CHR ''a'']"

subsection \<open>They pass\<close>

definition io_works :: "env \<Rightarrow> bool" where
  "io_works env \<longleftrightarrow> (\<forall>h op. env_io env h op = None)"

lemma put_file_simps [simp]:
  "files (put_file path content w) = (files w)(path \<mapsto> content)" "events (put_file path content w) = events w"
  by (simp_all add: put_file_def)

lemma get_id_run:
  assumes "io_works env"
  shows "fst (get_id_from_file env path w) = Ok qid \<longleftrightarrow>
     (\<exists>s. files w path = Some (as_bytes s) \<and> str_ok s \<and> qid = trim s \<and> length qid = 32 \<and> all_hex qid)"
proof -
  have "fst (get_id_from_file env path w) = Ok qid \<longleftrightarrow> (\<exists>w'. get_id_from_file env path w = (Ok qid, w'))"
    by (cases "get_id_from_file env path w") auto
  then show ?thesis using assms by (auto simp: get_id_from_file_Ok io_works_def)
qed

lemma write_id_run:
  assumes "io_works env"
  shows "\<exists>w'. write_id_file env path qid w = (Ok (), w') \<and> files w' = (files w)(path \<mapsto> as_bytes qid)"
proof -
  obtain w' where "write_id_file env path qid w = (Ok (), w')"
    using assms write_id_file_works [of env path qid w] by (auto simp: io_works_def)
  with write_id_file_Ok [OF this] show ?thesis by blast
qed

lemma SAMPLE_ID_ok: "length SAMPLE_ID = 32" "all_hex SAMPLE_ID" "str_ok SAMPLE_ID" "trim SAMPLE_ID = SAMPLE_ID"
proof -
  show *: "length SAMPLE_ID = 32" "all_hex SAMPLE_ID" by (simp_all add: SAMPLE_ID_def hex_eval)
  from *(2) show "str_ok SAMPLE_ID" "trim SAMPLE_ID = SAMPLE_ID" by (simp_all add: all_hex_str_ok trim_all_hex)
qed

lemma id_file_passes:
  assumes "io_works env"
  shows "test_id_file_roundtrip env dir w" "test_resolve_id_from_file env dir w"
proof -
  from write_id_run [OF assms] obtain w' where
    w: "write_id_file env (path_join dir ''id'') SAMPLE_ID w = (Ok (), w')"
    "files w' (path_join dir ''id'') = Some (as_bytes SAMPLE_ID)" by fastforce
  then have r: "fst (get_id_from_file env (path_join dir ''id'') w') = Ok SAMPLE_ID"
    using get_id_run [OF assms] SAMPLE_ID_ok by auto
  with w show "test_id_file_roundtrip env dir w" by (simp add: test_id_file_roundtrip_def Let_def)
  from r obtain w2 where "get_id_from_file env (path_join dir ''id'') w' = (Ok SAMPLE_ID, w2)"
    by (metis prod.collapse)
  with w show "test_resolve_id_from_file env dir w"
    by (simp add: test_resolve_id_from_file_def resolve_id_def bind_fx_def Let_def)
qed

lemma id_file_trims_whitespace_passes:
  assumes "io_works env"
  shows "test_id_file_trims_whitespace env dir w"
proof -
  have t: "trim (''  '' @ SAMPLE_ID @ [CHR 0x0A]) = SAMPLE_ID"
    unfolding SAMPLE_ID_def by code_simp
  have "str_ok (''  '' @ SAMPLE_ID @ [CHR 0x0A])" by (simp add: SAMPLE_ID_def str_ok_ascii)
  with t show ?thesis
    unfolding test_id_file_trims_whitespace_def Let_def
    by (subst get_id_run [OF assms]) (auto simp: SAMPLE_ID_ok)
qed

lemma get_id_fails:
  assumes "io_works env" "files w path = Some (as_bytes s)" "\<not> (length (trim s) = 32 \<and> all_hex (trim s))"
  shows "\<not> is_ok (fst (get_id_from_file env path w))"
  using get_id_run [OF assms(1), of path w] assms(2,3) by (auto simp: is_ok_iff)

lemma id_file_errors_pass:
  assumes "io_works env"
  shows "test_id_file_invalid_content_errors env dir w"
    and "files w (path_join dir ''pck-cert-tool-test-nonexistent-id-file'') = None \<Longrightarrow>
      test_id_file_missing_errors env dir w"
proof -
  have t: "trim (''   '' @ [CHR 0x0A]) = ''''" "trim ''a1b2c3d4e5f6'' = ''a1b2c3d4e5f6''"
    "trim ''g1b2c3d4e5f6a1b2c3d4e5f6a1b2c3d4'' = ''g1b2c3d4e5f6a1b2c3d4e5f6a1b2c3d4''"
    by code_simp+
  show "test_id_file_invalid_content_errors env dir w"
    unfolding test_id_file_invalid_content_errors_def list.pred_inject prod.case Let_def
    by (intro conjI get_id_fails [OF assms, OF fun_cong [OF put_file_simps(1), THEN trans, OF fun_upd_same]])
      (simp_all only: t, simp_all add: hex_eval)
  show "test_id_file_missing_errors env dir w"
    if "files w (path_join dir ''pck-cert-tool-test-nonexistent-id-file'') = None"
    using get_id_run [OF assms] that by (auto simp: test_id_file_missing_errors_def is_ok_iff)
qed

text \<open>Reading the manifest, when no file operation fails.\<close>

lemma manifest_run:
  assumes "io_works env" "path = path_join dir SGX_PLATFORM_MANIFEST_EFI_VAR"
  shows "fst (get_platform_manifest env dir w) = (case files w path of None \<Rightarrow> Ok None | Some c \<Rightarrow>
    if length c < 8 then Err (Context ''EFI variable file too short to contain header'' (Msg ''failed to fill whole buffer''))
    else if length (drop 8 c) \<noteq> unat (le_decode [c ! 6, c ! 7] :: u16)
    then Err (MsgNat ''Platform manifest size mismatch: file has '' (length (drop 8 c)))
    else Ok (Some (hex_string (drop 8 c))))"
  using assms
  by (auto simp: io_works_def get_platform_manifest_def match_fx_def bind_fx_def map_err_fx_def open_file_def
      read_file_def Let_def simp del: le_decode.simps split: option.splits)

text \<open>So for the variables of the tests only the declared size matters.\<close>

lemma efi_manifest:
  assumes "io_works env"
  shows "is_ok (fst (get_platform_manifest env dir (write_efi_var dir (efi_var n data) w))) \<longleftrightarrow> length data = unat n"
    and "length data = unat n \<Longrightarrow>
      fst (get_platform_manifest env dir (write_efi_var dir (efi_var n data) w)) = Ok (Some (hex_string data))"
proof -
  obtain x y where xy: "le_encode 2 n = [x, y]"
    by (simp add: numeral_2_eq_2)
  then have "le_decode [x, y] = n" by (simp only: le_decode_pair)
  then have "fst (get_platform_manifest env dir (write_efi_var dir (efi_var n data) w)) =
    (if length data \<noteq> unat n then Err (MsgNat ''Platform manifest size mismatch: file has '' (length data))
     else Ok (Some (hex_string data)))"
    by (subst manifest_run [OF assms refl])
      (simp add: write_efi_var_def efi_var_def xy del: le_decode.simps)
  then show "is_ok (fst (get_platform_manifest env dir (write_efi_var dir (efi_var n data) w))) \<longleftrightarrow> length data = unat n"
    "length data = unat n \<Longrightarrow>
      fst (get_platform_manifest env dir (write_efi_var dir (efi_var n data) w)) = Ok (Some (hex_string data))"
    by simp_all
qed

lemma u16_max: "unat (- 1 :: u16) = 65535"
  by (simp add: unsigned_minus_1_eq_mask mask_eq_exp_minus_1)

lemma platform_manifest_passes:
  assumes "io_works env"
  shows "test_platform_manifest_valid env dir w" "test_platform_manifest_max_size env dir w"
    and "files w (path_join dir SGX_PLATFORM_MANIFEST_EFI_VAR) = None \<Longrightarrow>
      test_platform_manifest_missing_is_none env dir w"
    and "test_platform_manifest_malformed_errors env dir w"
proof -
  have "as_bytes (hex_string [0x00, 0xab, 0xff]) = as_bytes ''00abff''"
    by (simp add: hex_byte_def hex_digit_def as_bytes_Cons byte_of_def)
  then have h: "hex_string [0x00, 0xab, 0xff] = ''00abff''" by (simp only: as_bytes_inject)
  show "test_platform_manifest_valid env dir w"
    unfolding test_platform_manifest_valid_def h [symmetric] by (rule efi_manifest(2) [OF assms]) simp
  show "test_platform_manifest_max_size env dir w"
    by (simp add: test_platform_manifest_max_size_def efi_manifest(2) [OF assms] u16_max)
  show "test_platform_manifest_missing_is_none env dir w"
    if "files w (path_join dir SGX_PLATFORM_MANIFEST_EFI_VAR) = None"
    using that by (simp add: test_platform_manifest_missing_is_none_def manifest_run [OF assms refl])
  have short: "\<not> is_ok (fst (get_platform_manifest env d (write_efi_var d c w)))" if "length c < 8" for d c
    using that by (simp add: manifest_run [OF assms refl] write_efi_var_def)
  show "test_platform_manifest_malformed_errors env dir w"
    by (simp add: test_platform_manifest_malformed_errors_def Let_def short efi_manifest(1) [OF assms] u16_max)
qed

lemma copy_fixed_hex_field_passes: "test_copy_fixed_hex_field"
  by (simp add: test_copy_fixed_hex_field_def copy_fixed_hex_field_Ok is_ok_iff hex_eval)

lemma resolve_id_literal_passes: "test_resolve_id_literal env w"
proof -
  have "trim ''some-node-name'' = ''some-node-name''" "trim ''   '' = ''''" by code_simp+
  then show ?thesis by (simp add: test_resolve_id_literal_def resolve_id_def bind_fx_def)
qed

lemma validate_label_value_passes: "test_validate_label_value"
proof -
  have a: "is_ascii_alphanumeric (byte_of CHR ''a'')" by (simp add: is_ascii_alphanumeric_def Let_def)
  have "is_ok (validate_label_value (replicate 63 CHR ''a''))" "\<not> is_ok (validate_label_value (replicate 64 CHR ''a''))"
    using a by (simp_all add: validate_label_value_def Let_def as_bytes_def list_all_iff)
  moreover have "\<not> is_ok (validate_label_value (''n'' @ of_bytes [0xC3, 0xB6] @ ''de''))"
    unfolding validate_label_value_def Let_def as_bytes_append as_bytes_of_bytes
    by (simp add: is_ascii_alphanumeric_def Let_def)
  ultimately show ?thesis
    unfolding test_validate_label_value_def list.pred_inject
    by (simp add: validate_label_value_def is_ascii_alphanumeric_def as_bytes_def byte_of_def Let_def)
qed

end
