(* ===== verification/OperatorTests.thy ===== *)
theory OperatorTests
  imports Operator Templates
begin

text \<open>
  The unit tests of \<open>controller.rs\<close> as predicates over the model's functions. The YAML parser and
  \<open>ObjectRef::from_owner_ref\<close> are arguments.
\<close>

definition test_templates_parse :: "str + workload \<Rightarrow> str + workload \<Rightarrow> bool" where
  "test_templates_parse ds deploy =
     ((case ds of Inl e \<Rightarrow> False | Inr w \<Rightarrow> (case pod w of None \<Rightarrow> False | Some p \<Rightarrow>
         containers p \<noteq> [] \<and> container_name (containers p ! 0) = ''tdx-qgs''
         \<and> (case init_containers p of None \<Rightarrow> False | Some c \<Rightarrow> c \<noteq> [])))
      \<and> (case deploy of Inl e \<Rightarrow> False | Inr w \<Rightarrow> (case pod w of None \<Rightarrow> False | Some p \<Rightarrow> containers p \<noteq> [])))"

definition cr_owner :: "bool option \<Rightarrow> owner_reference" where
  "cr_owner controller = \<lparr>api_version = ''trustedservices.intel.com/v1'',
     owner_kind = ''TdxQuoteGenerationService'', owner_name = ''intel-tdx-dcap'', owner_uid = ''uid'',
     owner_controller = controller, block_owner_deletion = None\<rparr>"

definition daemonset_owned_by :: "owner_reference \<Rightarrow> workload" where
  "daemonset_owned_by owner = \<lparr>wl_name = Some ''intel-tdx-dcap-qgs'',
     wl_namespace = Some ''intel-dcap-operator-system'', owner_references = Some [owner], pod = None,
     wl_other = JObj []\<rparr>"

text \<open>\<open>obj.owner_references()\<close>.\<close>

definition owners :: "workload \<Rightarrow> owner_reference list" where
  "owners w = (case owner_references w of None \<Rightarrow> [] | Some os \<Rightarrow> os)"

definition test_status_message :: "op_env \<Rightarrow> bool" where
  "test_status_message env =
     (status_message env (OpKube (KubeApi 422 ''Invalid'' ''daemonsets.apps qgs is forbidden: denied''))
        = ''Kubernetes API error (422 Invalid): daemonsets.apps qgs is forbidden: denied''
      \<and> status_message env (Generic ''boom'') = ''boom'')"

definition test_owner_ref_maps ::
  "(str option \<Rightarrow> owner_reference \<Rightarrow> object_ref option) \<Rightarrow> bool" where
  "test_owner_ref_maps from_owner_ref =
     (case owner_ref from_owner_ref (owners (daemonset_owned_by (cr_owner (Some True)))) of
        None \<Rightarrow> False
      | Some owner \<Rightarrow> ref_name owner = ''intel-tdx-dcap'' \<and> ref_namespace owner = None)"

definition test_owner_ref_ignores ::
  "(str option \<Rightarrow> owner_reference \<Rightarrow> object_ref option) \<Rightarrow> bool" where
  "test_owner_ref_ignores from_owner_ref =
     (owner_ref from_owner_ref (owners (daemonset_owned_by (cr_owner None))) = None
      \<and> (let other_kind = (cr_owner (Some True))\<lparr>owner_kind := ''Deployment''\<rparr> in
         owner_ref from_owner_ref (owners (daemonset_owned_by other_kind)) = None))"

subsection \<open>They pass\<close>

lemma templates_parse_passes: "test_templates_parse (Ok DAEMONSET_TEMPLATE) (Ok DEPLOYMENT_TEMPLATE)"
  by (simp add: test_templates_parse_def template_defs container_defs)

lemma status_message_passes: "test_status_message env"
proof -
  have "as_bytes (dec_string 422) = as_bytes ''422''"
    by (simp add: dec_string_def dec_bytes.simps [of 422] dec_bytes.simps [of 42] dec_bytes.simps [of 4]
        hex_digit_def as_bytes_Cons byte_of_def)
  then have "dec_string 422 = ''422''" by (simp only: as_bytes_inject)
  then show ?thesis by (simp add: test_status_message_def status_message_def op_error_display_def)
qed

lemma owner_ref_passes:
  assumes "\<And>x. from_owner_ref None x = (if api_version x = ''trustedservices.intel.com/v1''
      \<and> owner_kind x = ''TdxQuoteGenerationService'' then Some \<lparr>ref_name = owner_name x, ref_namespace = None\<rparr> else None)"
  shows "test_owner_ref_maps from_owner_ref" "test_owner_ref_ignores from_owner_ref"
  by (simp_all add: test_owner_ref_maps_def test_owner_ref_ignores_def owner_ref_def owners_def
      daemonset_owned_by_def cr_owner_def assms)

end
