(* ===== verification/RepoTests.thy ===== *)
theory RepoTests
  imports CacheTests PlatformDataTests PcsTests HostTests OperatorTests
begin

text \<open>
  Most of the repository's unit tests together, evaluated on the model: a check of the model's
  definitions against what the code's authors recorded of its behaviour, and not a property of
  the program. The nine tests that need more of a third-party library (the validation of a TCB
  Info document, the six on the recorded response and the two on owner references) are in
  \<open>PcsTests\<close> and \<open>OperatorTests\<close>, each with its own hypotheses.
\<close>

text \<open>The tests that need nothing from outside, and those over an environment.\<close>

definition pure_tests :: "u64 \<Rightarrow> instant \<Rightarrow> bool list" where
  "pure_tests now start =
     [test_parse_roundtrips_and_rejects now,
      test_accepts_valid_platform_data, test_rejects_invalid_secret_name, test_rejects_missing_fields,
      test_rejects_malformed_fields, test_accepts_maximum_size_manifest,
      test_pcs_pause start, test_retry_after_parsing, test_rate_limited_error_is_downcastable,
      test_fmspc_validation, test_tcb_info_validation_success, test_tcb_info_validation_invalid_type,
      test_tcb_info_missing_type, test_pck_cert_filtering, test_decode_hex,
      test_copy_fixed_hex_field, test_validate_label_value,
      test_templates_parse (Ok DAEMONSET_TEMPLATE) (Ok DEPLOYMENT_TEMPLATE)]"

definition host_tests :: "env \<Rightarrow> str \<Rightarrow> host \<Rightarrow> bool list" where
  "host_tests env dir w =
     [test_id_file_roundtrip env dir w, test_id_file_trims_whitespace env dir w,
      test_id_file_invalid_content_errors env dir w, test_id_file_missing_errors env dir w,
      test_resolve_id_from_file env dir w, test_resolve_id_literal env w,
      test_platform_manifest_valid env dir w, test_platform_manifest_max_size env dir w,
      test_platform_manifest_missing_is_none env dir w, test_platform_manifest_malformed_errors env dir w]"

definition digest_tests :: "(bytes \<Rightarrow> bytes) \<Rightarrow> bool list" where
  "digest_tests digest = [test_fingerprint_input_sensitive digest, test_fingerprint_boundaries digest]"

text \<open>These tests pass: at any time, in any directory of a host whose file operations work, and for any
  digest of 32 bytes without a collision among the inputs of the tests.\<close>

lemma repository_tests_pass:
  assumes "io_works env"
    and "files w (path_join dir ''pck-cert-tool-test-nonexistent-id-file'') = None"
    and "files w (path_join dir SGX_PLATFORM_MANIFEST_EFI_VAR) = None"
    and "\<And>bs. length (digest bs) = 32" "inj_on digest (fingerprint_input ` set test_requests)"
    and "before_now \<le> now" "unat now + 8760 * 60 * 60 < 2 ^ 64"
  shows "list_all (\<lambda>passed. passed) (test_blob_header_and_fields before_now now # pure_tests now start
    @ host_tests env dir w @ digest_tests digest @ [test_status_message op])"
  unfolding pure_tests_def host_tests_def digest_tests_def list.pred_inject append_Cons append_Nil
  by (intro conjI blob_header_and_fields_passes [OF assms(6,7)] parse_roundtrips_and_rejects_passes
      accepts_valid_platform_data_passes rejects_invalid_secret_name_passes rejects_missing_fields_passes
      rejects_malformed_fields_passes accepts_maximum_size_manifest_passes pcs_pause_passes
      retry_after_parsing_passes rate_limited_error_is_downcastable_passes fmspc_validation_passes
      tcb_info_documents_pass pck_cert_filtering_passes decode_hex_passes copy_fixed_hex_field_passes
      validate_label_value_passes templates_parse_passes id_file_passes [OF assms(1)]
      id_file_trims_whitespace_passes [OF assms(1)] id_file_errors_pass(1) [OF assms(1)]
      id_file_errors_pass(2) [OF assms(1,2)] resolve_id_literal_passes
      platform_manifest_passes(1,2,4) [OF assms(1)] platform_manifest_passes(3) [OF assms(1,3)]
      fingerprint_input_sensitive_passes [OF assms(4,5)] fingerprint_boundaries_passes [OF assms(5)]
      status_message_passes list.pred_inject(1) TrueI)

text \<open>A digest of 32 bytes that tells the tests' inputs apart.\<close>

definition index_digest :: "bytes list \<Rightarrow> bytes \<Rightarrow> bytes" where
  "index_digest xs bs = replicate 32 (of_nat (length (takeWhile (\<lambda>x. x \<noteq> bs) xs)))"

lemma index_digest_inj:
  assumes "length xs < 256"
  shows "inj_on (index_digest xs) (set xs)"
proof (rule inj_onI)
  fix x y assume m: "x \<in> set xs" "y \<in> set xs" and e: "index_digest xs x = index_digest xs y"
  have nth: "length (takeWhile (\<lambda>x. x \<noteq> z) xs) < length xs \<and> xs ! length (takeWhile (\<lambda>x. x \<noteq> z) xs) = z"
    if "z \<in> set xs" for z
    using that by (induction xs) auto
  let ?i = "\<lambda>z. length (takeWhile (\<lambda>x. x \<noteq> z) xs)"
  have "(of_nat (?i x) :: u8) = of_nat (?i y)" using e by (simp add: index_digest_def)
  moreover have "?i x < 256" "?i y < 256" using nth m assms by (meson less_trans)+
  ultimately have "?i x = ?i y" by (simp add: word_of_nat_eq_iff take_bit_nat_eq_self)
  with nth m show "x = y" by metis
qed

lemma repository_tests_pass_concrete:
  "list_all (\<lambda>passed. passed) (test_blob_header_and_fields 1700000000 1700000001 # pure_tests 1700000001 0
    @ host_tests quiet_env ''/tmp'' \<lparr>events = [], files = Map.empty\<rparr>
    @ digest_tests (index_digest (map fingerprint_input test_requests)) @ [test_status_message undefined])"
proof -
  let ?d = "index_digest (map fingerprint_input test_requests)"
  let ?w = "\<lparr>events = [], files = Map.empty\<rparr> :: host"
  have io: "io_works quiet_env" by (simp add: io_works_def quiet_env_def)
  have len: "length (?d bs) = 32" for bs by (simp add: index_digest_def)
  have inj: "inj_on ?d (fingerprint_input ` set test_requests)"
    using index_digest_inj [of "map fingerprint_input test_requests"] by (simp add: test_requests_def)
  have none: "files ?w p = None" for p by simp
  have clock: "(1700000000 :: u64) \<le> 1700000001" "unat (1700000001 :: u64) + 8760 * 60 * 60 < 2 ^ 64"
    by simp_all
  show ?thesis by (rule repository_tests_pass [OF io none none len inj clock])
qed

end
