(* ===== verification/Spec2Isabelle.thy ===== *)
theory Spec2Isabelle
  imports HttpClient Recovery Triggers ExternalPod AdmittedRun SpecJson PlatformHelper RepoTests
begin

text \<open>
  Verification of the QGS tools: the Rust programs of this repository that get a node of a
  Kubernetes cluster the PCK certificates its TDX quote generation service needs.

  The program.
  \<^item> \<open>pck-cert-tool get-platforms\<close> runs once on every node: it reads the identity of the platform
    from a helper binary and the platform manifest from an EFI variable, writes the QE ID to a
    file and a platform-data secret to the cluster.
  \<^item> \<open>pck-cert-tool register\<close>, the registrar, reconciles those secrets: it posts the manifest to
    Intel PCS, verifies the PCK certificates and the TCB Info it gets back, packs them into a
    QPL cache blob and stores it as a second secret, with an index entry by PIID.
  \<^item> \<open>pck-cert-tool get-certificates\<close> runs on every node: it watches the second secret and writes
    the blob to the file the quote provider library reads.
  \<^item> The operator reconciles the custom resource \<open>TdxQuoteGenerationService\<close>: it builds the DaemonSet
    (the first and third command and the service itself) and, in Online mode, the Deployment
    of the registrar, and reports their state in the resource's status.

  Theories and code (paths under \<open>src/bin\<close>, the last one under \<open>src\<close>).
  \<^item> Shared: \<open>Prelude\<close> (results as sums, state-passing code with logs, the lemmas on both),
    \<open>Bytes\<close> (little-endian codes and the locale \<open>prefix_code\<close>), \<open>RustStr\<close> (Rust strings as their
    UTF-8 bytes), \<open>Errors\<close>, \<open>World\<close> (JSON, secrets, the log of calls and the environment that
    answers them), \<open>Host\<close> (files), \<open>Crates\<close> (the third-party crates as a record of functions).
  \<^item> \<open>pck-cert-tool/src/cache.rs\<close>: \<open>CacheBlob\<close>. \<open>platform_data.rs\<close>: \<open>PlatformData\<close>.
    \<open>pcs_client.rs\<close>: \<open>RateLimit\<close> (the pause gate), \<open>PcsClient\<close> (the two requests), \<open>PckVerify\<close> (issuer
    chains, certificates, PIID, TCB Info); properties of both in \<open>VerifyProps\<close>.
  \<^item> \<open>pck-cert-tool/src/main.rs\<close>: \<open>Platforms\<close> (get-platforms), \<open>IdFile\<close>, \<open>CertWatcher\<close>
    (get-certificates), \<open>Registrar\<close> (\<open>process_platform_secret\<close> and all it calls), \<open>Cli\<close> (the
    dispatch of \<open>main\<close>), \<open>Commands\<close> (the options its \<open>clap\<close> attributes declare). The registrar's lemmas are in \<open>RegistrarProps\<close> and \<open>RegistrarSpec\<close>, its
    properties in \<open>RegistrarClaims\<close>; \<open>Recovery\<close> is the sequence of runs of a platform that is
    retried; \<open>Triggers\<close> follows the label its controller selects secrets by; \<open>Concurrency\<close> is the
    system of concurrent registrations that \<open>register_platforms\<close> sets up, \<open>HttpClient\<close> the settings
    of the client it builds.
  \<^item> \<open>operator/src\<close>: \<open>OpTypes\<close> (\<open>types.rs\<close>, \<open>error.rs\<close>, the node selector parser), \<open>OpStatus\<close>
    (\<open>status.rs\<close>), \<open>PodSpec\<close> and \<open>Templates\<close> (the workloads, and the two embedded YAML templates as
    objects), \<open>Admission\<close> (the CEL rules of \<open>types.rs\<close> with their regular expressions), \<open>Operator\<close>
    (\<open>controller.rs\<close>, \<open>finalizer.rs\<close>), \<open>StatusJson\<close> (merge patches and the status deserialiser),
    \<open>SpecJson\<close> (the JSON of the spec, its schema and the rule on registration modes);
    properties in \<open>PodProps\<close>, \<open>OperatorProps\<close>, \<open>AdmittedRun\<close>.
  \<^item> Both programs: \<open>PodCommands\<close> reads the command lines in the operator's workloads with the tool's
    options and follows the paths in them through the volume mounts; \<open>ExternalPod\<close> does so for
    External mode.
  \<^item> The unit tests of the repository as predicates over the model: \<open>CacheTests\<close>,
    \<open>PlatformDataTests\<close>, \<open>PcsTests\<close>, \<open>HostTests\<close> (\<open>main.rs\<close>), \<open>OperatorTests\<close> (\<open>controller.rs\<close>),
    collected in \<open>RepoTests\<close>.
  \<^item> \<open>get-platform-info/get_platform_info.c\<close>, the helper binary: \<open>PlatformHelper\<close>, over the SGX
    runtime and the two enclaves; \<open>test/fake-platform-info\<close>, its stand-in: \<open>FakeInfo\<close>.
  \<^item> \<open>operator/deployment/rbac\<close>, \<open>operator/deployment/default\<close> and the chart's
    \<open>templates/role.yaml\<close>: \<open>Rbac\<close> (the operator) and \<open>ToolRbac\<close> (the tool), the access rights against the
    calls of both programs. The theories \<open>Demo\<close> and \<open>OperatorDemo\<close> hold the concrete
    environments on which the properties are shown to apply.

  State and effects. Each command is a function from a world to a result and a world. The world
  of the registrar is its log of calls and the shared pause gate, that of the node commands the
  log and a file store, that of the operator the log. Every call to the Kubernetes API, Intel PCS, a clock,
  the file system or a binary is appended to the log and answered by the environment, an argument
  that maps the history and the call to the answer: a theorem holds for every behaviour of
  the outside, failures at every call included. Errors are values, panics of indexing and
  removal are a value of the error type. Durations and instants are unbounded numbers (a delay is
  at most an hour, so the sum of an instant and a delay does not overflow). Logging and
  tracing are left out.

  What the lemmas show.
  \<^item> Codes: the blob's writer and reader are inverse on each other's images, the reader accepts
    nothing but canonical encodings; the fingerprint's input is injective.
  \<^item> Verification: what an accepted chain, certificate list, TCB Info and PIID guarantee, and that
    nothing is dropped silently.
  \<^item> Registrar: the calls of every run in order, the exact condition for skipping a platform, the
    outcome of each rejection, that nothing unauthenticated is written, that a stored result is
    stable; that a rate limit holds back every registration that starts during it, and, over all
    interleavings of up to four registrations, how many requests may still go out; that a platform
    that was put off is registered by the second run after the outside has recovered; that its
    own writes do not trigger it.
  \<^item> Node commands: what is written where, which inputs are accepted, agreement of the three
    commands on names, and the watcher as a refinement of \<open>the latest well-formed certificate\<close>.
  \<^item> Operator: the calls of every run in order, what can fail in building the workloads, the
    consistency of External mode, that status and error reports come to rest, that events on
    managed objects lead back to the resource, that admitted resources meet none of the
    operator's own errors, and that under the schema the rule on registration modes says exactly
    which documents can be read.
  \<^item> Pods: every container and probe of the workloads that is given a command starts the tool with one it
    accepts, and the containers of a pod meet on the ID file and in the cache directory; in External mode
    the one container needs no write to the cluster and leaves the blob where the service looks.
  \<^item> Helper: the enclaves of every run are unloaded; what it prints is the report and the PPID the two
    enclaves exchanged, and reaches Intel PCS field for field; a failed run prints nothing and
    leads to no write.
  \<^item> Access: the roles permit exactly what runs of the two programs need, except for one verb that
    nothing uses; in External mode the chart permits exactly what \<open>get-certificates\<close> needs.
  \<^item> Resends: if reqwest keeps to the retry policy it is given, a request goes out at most four times
    and a reconciliation sends at most eight.
  \<^item> Tests: what the authors recorded of the code's behaviour holds of the model.
  \<^item> End to end (below): what the registrar stored reaches the node's cache file, and the whole chain
    from the pod the operator builds to the file the quote provider library reads.

  Interfaces. \<open>prefix_code\<close> (a self-delimiting code and its reader; interpreted on the integers, the
  blob's fields and the whole blob; \<open>prefix_code_pair\<close> composes two), \<open>pause_gate\<close> (interpreted on
  \<open>PcsPause\<close>), \<open>condition_store\<close> (the trait \<open>ConditionManager\<close>, interpreted on the service status).

  Hypotheses on the outside, each named where used: strings that come from Rust libraries are
  valid UTF-8 (\<open>env_strings_ok\<close>, \<open>crates_strings_ok\<close>); the clock readings lie within
  the year a blob is valid for and far from the end of 64 bits (\<open>clock_within_year\<close>); a secret read back after an apply has what
  was applied (\<open>stored_as\<close>, \<open>serves\<close>); equal resource versions mean equal secrets
  (\<open>versions_honest\<close>); monotone clocks; the cluster stops changing (\<open>steady\<close>) and merges patches as
  RFC 7386 says; a time printed as RFC 3339 reads back; kube's finalizer helper passes on the
  handler's error, and \<open>from_owner_ref\<close> recognises the resource's kind; \<open>clap\<close> reads plain command lines
  as declared (\<open>clap_reads\<close>), the kubelet provides the downward API and expands \<open>$(NAME)\<close>
  (\<open>downward\<close>, \<open>expands\<close>), and containers see the same file where they mount the same volume; the API
  server stores \<open>stringData\<close> as data (\<open>string_data_stored\<close>); from some point on the outside works (\<open>healthy\<close>); a created enclave has
  a non-zero ID (\<open>runtime_ok\<close>); the JSON reader reads flat objects of plain strings
  (\<open>reads_flat_objects\<close>); kube's finalizer helper only patches the instance beside what the handler
  does (\<open>patches_only\<close>), calls it on instances with the finalizer and adds the finalizer to others
  (\<open>finalizer_contract\<close>); reqwest keeps to its retry policy (\<open>obeys\<close>); the operator runs with the variables of its manifest (\<open>deployed\<close>).

  Termination. Every definition is total, with no fuel: recursion is structural or, for
  trimming and UTF-8, on the length of the string. The watcher's loop is over the list of items its stream
  delivers before the process ends. That status patches do not cause each other for ever is
  \<open>status_writes_settle\<close>.

  Not modelled: kube's controller runtime (queue, deduplication, back-off) beyond the interleavings
  of \<open>Concurrency\<close> and the object mapping \<open>run_triggers\<close>; what reqwest makes of the
  settings of the HTTP client (its attempts are an argument of \<open>HttpClient\<close>) and the timeouts of the Kubernetes
  client; clap beyond plain
  command lines, and tracing; the \<open>Display\<close> texts of the tool's errors; X.509, DER, base64, URL
  and serde libraries, which are arguments, as are the SGX runtime and its enclaves; a failing
  \<open>printf\<close> in the helper; the entry points of the operator and the printing of its CRD; the
  manifests other than the two workload templates and the roles (the OLM bundle's binding of the
  service's account to OpenShift's privileged security context constraint among them), images and
  cluster tests.
\<close>

subsection \<open>From Intel PCS to the node\<close>

lemma stored_certificates_reach_cache:
  assumes "env_strings_ok env" "crates_strings_ok C"
    and "process_platform_secret C env key ns s w = (r, w')"
    and "secret_data s = Some data" "prepare_registration (secret_name s) data = Ok body"
    and "store_pck C (secret_name s) ns fp res \<in> set (new_events w w')"
    and "serves env2 C (events h @ [FileIo (PathExists output_dir)]) (store_pck C (secret_name s) ns fp res)"
    and "\<And>h op. env_io env2 h op = None"
    and "delivered items = []"
  shows "\<exists>st h' b. watch_certificates env2 (Ok ()) (Ok ()) (secret_name s) cache_id output_dir items h = (Ok st, h')
     \<and> files h' (cache_file output_dir cache_id) = Some (blob_bytes b)
     \<and> blob_ok b \<and> blob_cpu_svn b = cpu_svn body"
proof -
  let ?n = "pck_secret_name (secret_name s)"
  obtain res' w1 w2 where req: "request_pck_blob C env key body (w1 :: reg_world) = (Ok res', w2)"
    and st: "store_pck C (secret_name s) ns fp res =
       store_pck C (secret_name s) ns (registration_fingerprint (sha256 C) body) res'"
    using stored_from_request [OF assms(3-6)] by blast
  obtain t where t: "env_get_secret env2 (events h @ [FileIo (PathExists output_dir)]) ?n = Ok t"
    "stored_as C (pck_secret_doc C ?n ns (registration_fingerprint (sha256 C) body) res') t"
    using assms(7) unfolding st by (auto simp: serves_def store_pck_def)
  have "str_ok (cpu_svn body)"
    using assms(5) request_ok_str_ok by (simp add: prepare_registration_Ok)
  from request_pck_blob_parses [OF assms(1,2) this req]
  obtain b where b: "parse_cache_blob (res_blob res') = Ok b" "blob_cpu_svn b = cpu_svn body" by blast
  have ok: "blob_ok b" "res_blob res' = blob_bytes b" using b(1) by (simp_all add: parse_cache_blob_iff)
  have c: "cert_of t = Some (blob_bytes b)"
    using stored_pck_secret [OF t(2)] b(1) ok(2) by (auto simp: cert_of_def)
  obtain h' where run: "watch_certificates env2 (Ok ()) (Ok ()) (secret_name s) cache_id output_dir items h =
      (Ok (if stops items then Stopped else Watching), h')"
    using watch_certificates_total [OF assms(8)] by blast
  have "files h' = (files h)(cache_file output_dir cache_id :=
      latest (files h (cache_file output_dir cache_id)) ([t] @ delivered items))"
    using t(1) assms(8,9)
    by (intro watch_certificates_files [OF run]) (simp_all add: pck_secret_name_def versions_honest_def)
  with c assms(9) have "files h' (cache_file output_dir cache_id) = Some (blob_bytes b)"
    by (simp add: newer_def)
  with run ok(1) b(2) show ?thesis by blast
qed

text \<open>C2: End to end: when the registrar has stored the PCK secret of a platform and the watcher
  on that platform's node starts on it, the node's cache file holds a well-formed QPL cache
  blob with the platform's own CPU SVN, byte for byte what the registrar built.\<close>

theorem registered_certificates_reach_cache:
  assumes "env_strings_ok env" "crates_strings_ok C"
    and "process_platform_secret C env key ns s w = (r, w')"
    and "secret_data s = Some data" "prepare_registration (secret_name s) data = Ok body"
    and "store_pck C (secret_name s) ns fp res \<in> set (new_events w w')"
    and "serves env2 C (events h @ [FileIo (PathExists output_dir)]) (store_pck C (secret_name s) ns fp res)"
    and "\<And>h op. env_io env2 h op = None"
    and "delivered items = []"
  shows "\<exists>st h' b. watch_certificates env2 (Ok ()) (Ok ()) (secret_name s) cache_id output_dir items h = (Ok st, h')
     \<and> files h' (cache_file output_dir cache_id) = Some (blob_bytes b)
     \<and> blob_ok b \<and> blob_cpu_svn b = cpu_svn body"
  using assms by (rule stored_certificates_reach_cache)

definition node_api :: env where
  "node_api = quiet_env\<lparr>env_get_secret := (\<lambda>h n. Ok demo_stored)\<rparr>"

theorem registered_certificates_reach_cache_witness:
  "\<exists>w' st h' b.
     process_platform_secret demo_crates served_env None ''ns'' demo_secret demo_world = (Ok AwaitChange, w')
     \<and> watch_certificates node_api (Ok ()) (Ok ()) demo_name demo_name ''/cache'' [] demo_host = (Ok st, h')
     \<and> files h' (cache_file ''/cache'' demo_name) = Some (blob_bytes b)
     \<and> blob_ok b \<and> blob_cpu_svn b = cpu_svn demo_request"
proof -
  obtain data where d: "secret_data demo_secret = Some data"
    "prepare_registration (secret_name demo_secret) data = Ok demo_request"
    using demo_prepare by blast
  have n: "secret_name demo_secret = demo_name" by (simp add: demo_secret_def)
  let ?w = "demo_world\<lparr>events := [GetSecret (pck_secret_name demo_name), ReadInstant,
       HttpSend (demo_post None), HttpSend demo_get, ReadSystemTime,
       store_pck demo_crates demo_name ''ns'' demo_fp demo_result,
       store_index demo_crates demo_name (res_piid demo_result)]\<rparr>"
  have mem: "store_pck demo_crates (secret_name demo_secret) ''ns'' demo_fp demo_result
      \<in> set (new_events demo_world ?w)"
    by (simp add: new_events_def demo_world_def n)
  have srv: "serves node_api demo_crates (events demo_host @ [FileIo (PathExists ''/cache'')])
      (store_pck demo_crates (secret_name demo_secret) ''ns'' demo_fp demo_result)"
    using demo_stored_as by (simp add: serves_def store_pck_def n node_api_def)
  have io: "env_io node_api h op = None" for h op by (simp add: node_api_def quiet_env_def)
  show ?thesis
    using registered_certificates_reach_cache [OF demo_body_strings demo_strings demo_process_served
        d mem srv io, of "[]" demo_name] demo_process_served [of None "''ns''"]
    by (auto simp: n)
qed

text \<open>C1: The whole chain: in a DaemonSet the operator built for a registering resource, the first
  container runs \<open>get-platforms\<close>; the registrar reconciles the platform data it stored and stores
  the PCK secret; the second container runs \<open>get-certificates\<close>. Then the quote provider library of
  the third finds, under the name and in the directory it looks, a well-formed cache blob with the CPU
  SVN the first container read from the platform.\<close>

theorem deployed_node_gets_certificates:
  assumes "downward vars namespace node" "expands expand" "plain_value namespace" "plain_value node"
    and "clap_reads clap" "registration (spec r) \<noteq> External"
    and "build_daemonset ovars (Ok DAEMONSET_TEMPLATE) r namespace = Ok ds"
    and "pod ds = Some p" "inits p = [c1, c2]" "containers p = [c3]"
    and "clap (argv vars expand c1) = Some cmd1" "clap (argv vars expand c2) = Some cmd2"
    and "run_command out env1 cmd1 w = (r1, w')" "ApplySecret name params doc \<in> set (new_events w w')"
    and "secret_name s = name" "secret_data s = Some data" "string_data_stored doc data"
    and "json_member2 ''stringData'' ''platform_manifest'' doc = Some (JStr m)" "m \<noteq> []"
    and "env_strings_ok env" "crates_strings_ok C"
    and "process_platform_secret C env key namespace s g = (r2, g')"
    and "store_pck C (secret_name s) namespace fp res \<in> set (new_events g g')"
    and "\<And>h. serves env2 C h (store_pck C (secret_name s) namespace fp res)"
    and "\<forall>x y. same_place c1 x c2 y \<longrightarrow> files v y = files w' x"
    and "\<And>h op. env_io env2 h op = None" "out_client out = Ok ()" "out_sigterm out = Ok ()"
    and "delivered (out_items out) = []"
  shows "\<exists>v' path home b. run_command out env2 cmd2 v = (Ok 0, v')
    \<and> env_lookup c3 ''XDG_CACHE_HOME'' = Some (literal_env ''XDG_CACHE_HOME'' home)
    \<and> same_place c2 path c3 (home @ ''/.dcap-qcnl/'' @ name @ ''_0000'')
    \<and> files v' path = Some (blob_bytes b) \<and> blob_ok b
    \<and> json_member2 ''stringData'' ''cpu_svn'' doc = Some (JStr (blob_cpu_svn b))"
proof -
  let ?dir = "''/run/dcap/cache/.dcap-qcnl''"
  let ?h = "log_io (ReadFile ''/run/dcap/platform/id'') v"
  obtain v' st where run: "run_command out env2 cmd2 v = (Ok 0, v')"
    and watch: "watch_certificates env2 (Ok ()) (Ok ()) name name ?dir (out_items out) ?h = (Ok st, v')"
    and home: "env_lookup c3 ''XDG_CACHE_HOME'' = Some (literal_env ''XDG_CACHE_HOME'' ''/run/dcap/cache'')"
    and place: "same_place c2 (cache_file ?dir name) c3 (''/run/dcap/cache'' @ ''/.dcap-qcnl/'' @ name @ ''_0000'')"
    and cmd: "cmd1 = GetPlatforms (node_get_platforms namespace node)"
    using pod_watcher_runs [OF assms(1-14,25-28)] by blast
  let ?a = "node_get_platforms namespace node"
  obtain q u where create: "create_secret env1 (out_from_json out) (out_client out)
      (gp_platform_info_binary ?a) (gp_id_file ?a) (gp_namespace ?a) (gp_efivars_dir ?a) (gp_node_name ?a) u = (q, w')"
    and mem: "ApplySecret name params doc \<in> set (new_events u w')"
    using get_platforms_creates [OF assms(13) [unfolded cmd] assms(14)] by blast
  obtain body where body: "prepare_registration name data = Ok body"
    "json_member2 ''stringData'' ''cpu_svn'' doc = Some (JStr (cpu_svn body))"
    using written_data_accepted [OF create mem assms(17,18)] assms(19) by auto
  obtain st' h' b where b: "watch_certificates env2 (Ok ()) (Ok ()) (secret_name s) name ?dir (out_items out) ?h = (Ok st', h')"
    "files h' (cache_file ?dir name) = Some (blob_bytes b)" "blob_ok b" "blob_cpu_svn b = cpu_svn body"
    using stored_certificates_reach_cache [OF assms(20-22,16) body(1) [folded assms(15)] assms(23,24,26,29)] by blast
  have "h' = v'" using b(1) watch assms(15) by simp
  show ?thesis
    by (intro exI [of _ v'] exI [of _ "cache_file ?dir name"] exI [of _ "''/run/dcap/cache''"] exI [of _ b] conjI)
      (use run home place b body(2) \<open>h' = v'\<close> in simp_all)
qed

definition chain_host :: host where
  "chain_host = \<lparr>events = [], files = [path_join ''/run/efivars'' SGX_PLATFORM_MANIFEST_EFI_VAR \<mapsto>
     [7, 0, 0, 0, 1, 0, 4, 0, 0x00, 0x11, 0xaa, 0xbb]]\<rparr>"

lemma chain_manifest: "hex_string [0x00, 0x11, 0xaa, 0xbb] = platform_manifest demo_request"
proof -
  have "as_bytes (hex_string [0x00, 0x11, 0xaa, 0xbb]) = as_bytes ''0011aabb''"
    by (simp add: hex_string_def hex_byte_def hex_digit_def as_bytes_Cons byte_of_def)
  then show ?thesis by (simp only: as_bytes_inject demo_request_def pck_certs_request.simps)
qed

lemma chain_writes:
  "\<exists>w'. run_command demo_out node_env (GetPlatforms (node_get_platforms ''ns'' ''node-1'')) chain_host = (Ok 0, w')
     \<and> ApplySecret demo_name (apply_force FIELD_MANAGER)
         (platform_doc ''ns'' demo_name ''0000'' ''0102030405060708090a0b0c0d0e0f10'' ''0b00''
           (Some (platform_manifest demo_request)) (Some ''node-1'')) \<in> set (new_events chain_host w')"
proof -
  have "\<exists>u'. get_platform_manifest node_env ''/run/efivars'' u = (Ok (Some (platform_manifest demo_request)), u')"
    if "files u (path_join ''/run/efivars'' SGX_PLATFORM_MANIFEST_EFI_VAR) =
      files chain_host (path_join ''/run/efivars'' SGX_PLATFORM_MANIFEST_EFI_VAR)" for u :: host
  proof -
    have "files u (path_join ''/run/efivars'' SGX_PLATFORM_MANIFEST_EFI_VAR) =
        Some [7, 0, 0, 0, 1, 0, 4, 0, 0x00, 0x11, 0xaa, 0xbb]"
      using that by (simp add: chain_host_def)
    then show ?thesis
      unfolding chain_manifest [symmetric]
      by (simp add: get_platform_manifest_def match_fx_def bind_fx_def map_err_fx_def host_ops node_env_io Let_def)
  qed
  from demo_pod_writes [OF this] show ?thesis by (simp add: demo_name_def)
qed

theorem deployed_node_gets_certificates_witness:
  "\<exists>w' v' s path b.
     run_command demo_out node_env (GetPlatforms (node_get_platforms ''ns'' ''node-1'')) chain_host = (Ok 0, w')
     \<and> (\<exists>g'. process_platform_secret demo_crates served_env None ''ns'' s demo_world = (Ok AwaitChange, g'))
     \<and> run_command demo_out node_api (GetCertificates
         (node_get_certificates (Some ''/run/dcap/platform/id'') None ''ns'')) w' = (Ok 0, v')
     \<and> files v' path = Some (blob_bytes b) \<and> blob_ok b
     \<and> blob_cpu_svn b = ''0102030405060708090a0b0c0d0e0f10''"
proof -
  let ?doc = "platform_doc ''ns'' demo_name ''0000'' ''0102030405060708090a0b0c0d0e0f10'' ''0b00''
      (Some (platform_manifest demo_request)) (Some ''node-1'')"
  let ?p = "daemonset_template_pod\<lparr>service_account_name := Some ''intel-tdx-dcap-qgs''\<rparr>"
  define data where "data = (\<lambda>k. case json_member2 ''stringData'' k ?doc of
      Some (JStr v) \<Rightarrow> Some (as_bytes v) | _ \<Rightarrow> None)"
  define s where "s = \<lparr>secret_name = demo_name, annotations = None, secret_data = Some data, resource_version = None\<rparr>"
  have s: "secret_name s = demo_name" "secret_data s = Some data" by (simp_all add: s_def)
  have st: "string_data_stored ?doc data" by (simp add: string_data_stored_def data_def)
  have m: "json_member2 ''stringData'' ''platform_manifest'' ?doc = Some (JStr (platform_manifest demo_request))"
    "platform_manifest demo_request \<noteq> []"
    by (simp_all add: platform_doc_string_data demo_request_def)
  obtain w' where w': "run_command demo_out node_env (GetPlatforms (node_get_platforms ''ns'' ''node-1'')) chain_host = (Ok 0, w')"
    "ApplySecret demo_name (apply_force FIELD_MANAGER) ?doc \<in> set (new_events chain_host w')"
    using chain_writes by blast
  have "data ''platform_manifest'' = Some (as_bytes (platform_manifest demo_request))"
    "data ''pce_id'' = Some (as_bytes (pce_id demo_request))" "data ''cpu_svn'' = Some (as_bytes (cpu_svn demo_request))"
    by (simp_all add: data_def platform_doc_string_data demo_request_def)
  then have prep: "prepare_registration (secret_name s) data = Ok demo_request"
    using demo_prepare request_ok_str_ok
    by (auto simp: prepare_registration_Ok from_secret_data_Ok s demo_secret_def)
  have run: "process_platform_secret demo_crates served_env None ''ns'' s demo_world =
    (Ok AwaitChange, demo_world\<lparr>events := [GetSecret (pck_secret_name demo_name), ReadInstant,
       HttpSend (demo_post None), HttpSend demo_get, ReadSystemTime,
       store_pck demo_crates demo_name ''ns'' demo_fp demo_result,
       store_index demo_crates demo_name (res_piid demo_result)]\<rparr>)" (is "_ = (_, ?g)")
    using s prep by (rule demo_process_served_any)
  have mem: "store_pck demo_crates (secret_name s) ''ns'' demo_fp demo_result \<in> set (new_events demo_world ?g)"
    by (simp add: new_events_def demo_world_def s)
  have srv: "serves node_api demo_crates h (store_pck demo_crates (secret_name s) ''ns'' demo_fp demo_result)" for h
    using demo_stored_as by (simp add: serves_def store_pck_def s node_api_def)
  have io: "env_io node_api h op = None" for h op by (simp add: node_api_def quiet_env_def)
  obtain ds where ds: "build_daemonset (\<lambda>_. None) (Ok DAEMONSET_TEMPLATE) demo_service ''ns'' = Ok ds"
    "pod ds = Some ?p"
    using pod_demo_daemonset by blast
  have p: "inits ?p = [platform_registration_container, pck_certs_watcher_container]"
    "containers ?p = [tdx_qgs_container]"
    by (simp_all add: inits_def daemonset_template_pod_def)
  have i: "image_update id c = c" for c :: container by simp
  note cmds = container_commands(1,2) [OF demo_pod_parts(1-5), of id, unfolded i]
  have share: "\<forall>x y. same_place platform_registration_container x pck_certs_watcher_container y
      \<longrightarrow> files w' y = files w' x"
    using template_same_place by blast
  have o: "out_client demo_out = Ok ()" "out_sigterm demo_out = Ok ()" "delivered (out_items demo_out) = []"
    by (simp_all add: demo_out_def)
  obtain v' path b where "run_command demo_out node_api (GetCertificates
        (node_get_certificates (Some ''/run/dcap/platform/id'') None ''ns'')) w' = (Ok 0, v')"
    "files v' path = Some (blob_bytes b)" "blob_ok b"
    "json_member2 ''stringData'' ''cpu_svn'' ?doc = Some (JStr (blob_cpu_svn b))"
    using deployed_node_gets_certificates [OF demo_pod_parts ds p cmds w' s st m
        demo_body_strings demo_strings run mem srv share io o] by auto
  then show ?thesis using w'(1) run by (auto simp: platform_doc_string_data)
qed

end
